(* ===== verification/Go_Prelude.thy ===== *)
theory Go_Prelude imports Complex_Main "HOL-Library.AList" "HOL-Library.Char_ord" "HOL-Library.List_Lexorder" begin

text \<open>
  The part of the Go language and of its standard library that the controller uses:
  the outcome of a call (a result, an error value, a panic, a goroutine that blocks for
  ever, a polling loop that has used up its fuel), the state-passing combinators the
  handlers are written with, 64-bit integers and durations, and the functions of
  packages strings, strconv and time that occur in the code. The named collection
  \<open>go_simps\<close> executes a handler step by step; the locale \<open>go_rel\<close> gives the rules by
  which a relation between the states before and after a call is carried through a
  whole handler.
\<close>

section \<open>Errors and outcomes\<close>

text \<open>
  An error value is read by the code in two ways only: through its text
  (\<open>err.Error()\<close>) and through \<open>apierrs.IsNotFound\<close> and \<open>IsConflict\<close>, which look at
  the reason an API status carries.
\<close>

datatype reason = NotFound | AlreadyExists | Conflict | OtherReason

datatype goerr = GoErr (err_reason: reason) (err_text: string)

definition errors_New :: "string \<Rightarrow> goerr" where
  "errors_New t = GoErr OtherReason t"

definition IsNotFound :: "goerr \<Rightarrow> bool" where
  "IsNotFound e \<longleftrightarrow> err_reason e = NotFound"

definition IsConflict :: "goerr \<Rightarrow> bool" where
  "IsConflict e \<longleftrightarrow> err_reason e = Conflict"

text \<open>
  \<open>Ret x\<close>: the call returned \<open>x\<close> and no error; \<open>Fail e\<close>: it returned the error \<open>e\<close>;
  \<open>Panic p\<close>: it panicked; \<open>Blocked\<close>: it waits for a lock that is never released;
  \<open>NoFuel\<close>: a polling loop had not ended when the fuel given to the model ran out.
\<close>

datatype 'a outcome = Ret 'a | Fail goerr | Panic string | Blocked | NoFuel

type_synonym ('s, 'a) go = "'s \<Rightarrow> 'a outcome \<times> 's"

named_theorems go_simps "execution of the outcome combinators"

definition retG :: "'a \<Rightarrow> ('s, 'a) go" where
  "retG x = (\<lambda>s. (Ret x, s))"

definition failG :: "goerr \<Rightarrow> ('s, 'a) go" where
  "failG e = (\<lambda>s. (Fail e, s))"

definition panicG :: "string \<Rightarrow> ('s, 'a) go" where
  "panicG p = (\<lambda>s. (Panic p, s))"

definition blockG :: "('s, 'a) go" where
  "blockG = (\<lambda>s. (Blocked, s))"

definition nofuelG :: "('s, 'a) go" where
  "nofuelG = (\<lambda>s. (NoFuel, s))"

definition getsG :: "('s \<Rightarrow> 'a) \<Rightarrow> ('s, 'a) go" where
  "getsG f = (\<lambda>s. (Ret (f s), s))"

definition modG :: "('s \<Rightarrow> 's) \<Rightarrow> ('s, unit) go" where
  "modG f = (\<lambda>s. (Ret (), f s))"

text \<open>
  \<open>tryG m h k\<close> is the Go pattern \<open>x, err := m; if err != nil { h } else { k }\<close>;
  \<open>bindG\<close> and \<open>thenG\<close> return the error at once, \<open>onErrG m h\<close> runs \<open>h\<close> (log,
  event) before it returns the error. Panics go through all of them.
\<close>

definition tryG :: "('s, 'a) go \<Rightarrow> (goerr \<Rightarrow> ('s, 'b) go) \<Rightarrow> ('a \<Rightarrow> ('s, 'b) go) \<Rightarrow> ('s, 'b) go" where
  "tryG m h k = (\<lambda>s. case m s of (r, s') \<Rightarrow>
     (case r of Ret x \<Rightarrow> k x s' | Fail e \<Rightarrow> h e s' | Panic p \<Rightarrow> (Panic p, s')
      | Blocked \<Rightarrow> (Blocked, s') | NoFuel \<Rightarrow> (NoFuel, s')))"

definition bindG :: "('s, 'a) go \<Rightarrow> ('a \<Rightarrow> ('s, 'b) go) \<Rightarrow> ('s, 'b) go" where
  "bindG m f = tryG m failG f"

definition thenG :: "('s, 'a) go \<Rightarrow> ('s, 'b) go \<Rightarrow> ('s, 'b) go" where
  "thenG m n = bindG m (\<lambda>_. n)"

definition onErrG :: "('s, 'a) go \<Rightarrow> (goerr \<Rightarrow> ('s, unit) go) \<Rightarrow> ('s, 'a) go" where
  "onErrG m h = tryG m (\<lambda>e. thenG (h e) (failG e)) retG"

definition whenG :: "bool \<Rightarrow> ('s, unit) go \<Rightarrow> ('s, unit) go" where
  "whenG b m = (if b then m else retG ())"

text \<open>\<open>for _, x := range xs { f(x) }\<close>: an error or a panic of the body ends the loop.\<close>

primrec forG :: "('a \<Rightarrow> ('s, unit) go) \<Rightarrow> 'a list \<Rightarrow> ('s, unit) go" where
  "forG f [] = retG ()"
| "forG f (x # xs) = thenG (f x) (forG f xs)"

text \<open>\<open>defer func() { recover() }\<close>: a panic ends in the zero value of the result.\<close>

definition recoverG :: "('s, 'a) go \<Rightarrow> 'a \<Rightarrow> ('s, 'a) go" where
  "recoverG m z = (\<lambda>s. case m s of (r, s') \<Rightarrow> (case r of Panic p \<Rightarrow> (Ret z, s') | _ \<Rightarrow> (r, s')))"

lemma retG_run [go_simps, simp]: "retG x s = (Ret x, s)"
  by (simp add: retG_def)

lemma failG_run [go_simps, simp]: "failG e s = (Fail e, s)"
  by (simp add: failG_def)

lemma panicG_run [go_simps, simp]: "panicG p s = (Panic p, s)"
  by (simp add: panicG_def)

lemma blockG_run [go_simps, simp]: "blockG s = (Blocked, s)"
  by (simp add: blockG_def)

lemma nofuelG_run [go_simps, simp]: "nofuelG s = (NoFuel, s)"
  by (simp add: nofuelG_def)

lemma getsG_run [go_simps, simp]: "getsG f s = (Ret (f s), s)"
  by (simp add: getsG_def)

lemma modG_run [go_simps, simp]: "modG f s = (Ret (), f s)"
  by (simp add: modG_def)

lemma tryG_run [go_simps]:
  "tryG m h k s = (case m s of (Ret x, s') \<Rightarrow> k x s' | (Fail e, s') \<Rightarrow> h e s'
     | (Panic p, s') \<Rightarrow> (Panic p, s') | (Blocked, s') \<Rightarrow> (Blocked, s') | (NoFuel, s') \<Rightarrow> (NoFuel, s'))"
  by (simp add: tryG_def split: prod.splits outcome.splits)

lemma bindG_run [go_simps]:
  "bindG m f s = (case m s of (Ret x, s') \<Rightarrow> f x s' | (Fail e, s') \<Rightarrow> (Fail e, s')
     | (Panic p, s') \<Rightarrow> (Panic p, s') | (Blocked, s') \<Rightarrow> (Blocked, s') | (NoFuel, s') \<Rightarrow> (NoFuel, s'))"
  by (simp add: bindG_def tryG_run split: prod.splits outcome.splits)

lemma thenG_run [go_simps]:
  "thenG m n s = (case m s of (Ret x, s') \<Rightarrow> n s' | (Fail e, s') \<Rightarrow> (Fail e, s')
     | (Panic p, s') \<Rightarrow> (Panic p, s') | (Blocked, s') \<Rightarrow> (Blocked, s') | (NoFuel, s') \<Rightarrow> (NoFuel, s'))"
  by (simp add: thenG_def bindG_run)

lemma onErrG_run [go_simps]:
  "onErrG m h s = (case m s of (Ret x, s') \<Rightarrow> (Ret x, s') | (Fail e, s') \<Rightarrow> thenG (h e) (failG e) s'
     | (Panic p, s') \<Rightarrow> (Panic p, s') | (Blocked, s') \<Rightarrow> (Blocked, s') | (NoFuel, s') \<Rightarrow> (NoFuel, s'))"
  by (simp add: onErrG_def tryG_run split: prod.splits outcome.splits)

lemma whenG_run [go_simps]: "whenG b m s = (if b then m s else (Ret (), s))"
  by (simp add: whenG_def)

lemma recoverG_run [go_simps]:
  "recoverG m z s = (case m s of (Panic p, s') \<Rightarrow> (Ret z, s') | (Ret x, s') \<Rightarrow> (Ret x, s')
     | (Fail e, s') \<Rightarrow> (Fail e, s') | (Blocked, s') \<Rightarrow> (Blocked, s') | (NoFuel, s') \<Rightarrow> (NoFuel, s'))"
  by (simp add: recoverG_def split: prod.splits outcome.splits)

lemma recoverG_no_panic: "fst (recoverG m z s) \<noteq> Panic p"
  by (auto simp: recoverG_run split: prod.splits outcome.splits)

section \<open>Relations between the states before and after a call\<close>

text \<open>
  \<open>evolves R m\<close>: whatever \<open>m\<close> returns, it leaves a state that \<open>R\<close> relates to the one
  it started in. With \<open>R s s' = (I s \<longrightarrow> I s')\<close> this says that \<open>m\<close> keeps \<open>I\<close>, with
  \<open>R s s' = (f s' = f s)\<close> that it does not change \<open>f\<close>.
\<close>

definition evolves :: "('s \<Rightarrow> 's \<Rightarrow> bool) \<Rightarrow> ('s, 'a) go \<Rightarrow> bool" where
  "evolves R m \<longleftrightarrow> (\<forall>s. R s (snd (m s)))"

lemma evolvesD: "evolves R m \<Longrightarrow> m s = (r, s') \<Longrightarrow> R s s'"
  by (metis evolves_def snd_conv)

lemma evolvesD_snd: "evolves R m \<Longrightarrow> R s (snd (m s))"
  by (simp add: evolves_def)

locale go_rel =
  fixes R :: "'s \<Rightarrow> 's \<Rightarrow> bool"
  assumes R_refl: "R s s"
    and R_trans: "R s t \<Longrightarrow> R t u \<Longrightarrow> R s u"
begin

lemma ev_ret [intro]: "evolves R (retG x)"
  and ev_fail [intro]: "evolves R (failG e)"
  and ev_panic [intro]: "evolves R (panicG p)"
  and ev_block [intro]: "evolves R blockG"
  and ev_nofuel [intro]: "evolves R nofuelG"
  and ev_gets [intro]: "evolves R (getsG f)"
  by (simp_all add: evolves_def R_refl)

lemma ev_mod: "(\<And>s. R s (f s)) \<Longrightarrow> evolves R (modG f)"
  by (simp add: evolves_def)

lemma ev_try [intro]:
  assumes "evolves R m" "\<And>e. evolves R (h e)" "\<And>x. evolves R (k x)"
  shows "evolves R (tryG m h k)"
  using assms
  by (auto simp: evolves_def tryG_def split: prod.splits outcome.splits) (metis R_trans snd_conv)+

lemma ev_bind [intro]: "evolves R m \<Longrightarrow> (\<And>x. evolves R (f x)) \<Longrightarrow> evolves R (bindG m f)"
  unfolding bindG_def by (intro ev_try ev_fail)

lemma ev_then [intro]: "evolves R m \<Longrightarrow> evolves R n \<Longrightarrow> evolves R (thenG m n)"
  unfolding thenG_def by (rule ev_bind)

lemma ev_onErr [intro]: "evolves R m \<Longrightarrow> (\<And>e. evolves R (h e)) \<Longrightarrow> evolves R (onErrG m h)"
  unfolding onErrG_def by (intro ev_try ev_then ev_fail ev_ret)

lemma ev_when [intro]: "evolves R m \<Longrightarrow> evolves R (whenG b m)"
  unfolding whenG_def by (simp add: ev_ret)

lemma ev_recover [intro]: "evolves R m \<Longrightarrow> evolves R (recoverG m z)"
  by (auto simp: evolves_def recoverG_def split: prod.splits outcome.splits) (metis snd_conv)+

lemma ev_for [intro]: "(\<And>x. evolves R (f x)) \<Longrightarrow> evolves R (forG f xs)"
  by (induction xs) (auto intro: ev_then ev_ret)

lemma ev_if [intro]: "(b \<Longrightarrow> evolves R m) \<Longrightarrow> (\<not> b \<Longrightarrow> evolves R n) \<Longrightarrow> evolves R (if b then m else n)"
  by simp

lemma ev_option [intro]:
  "evolves R m \<Longrightarrow> (\<And>x. evolves R (f x)) \<Longrightarrow> evolves R (case z of None \<Rightarrow> m | Some x \<Rightarrow> f x)"
  by (cases z) simp_all

lemma ev_sum [intro]:
  "(\<And>e. evolves R (h e)) \<Longrightarrow> (\<And>x. evolves R (f x)) \<Longrightarrow> evolves R (case z of Inl e \<Rightarrow> h e | Inr x \<Rightarrow> f x)"
  by (cases z) simp_all

lemma ev_prod [intro]: "(\<And>a b. evolves R (f a b)) \<Longrightarrow> evolves R (case z of (a, b) \<Rightarrow> f a b)"
  by (cases z) simp

lemma ev_let [intro]: "(\<And>x. evolves R (f x)) \<Longrightarrow> evolves R (Let z f)"
  by (simp add: Let_def)

lemmas ev_rules =
  ev_ret ev_fail ev_panic ev_block ev_nofuel ev_gets ev_try ev_bind ev_then ev_onErr ev_when
  ev_recover ev_for ev_if ev_option ev_sum ev_prod ev_let

end

text \<open>A component of the state that is left as it is: the rules for \<open>f s' = f s\<close>.\<close>

lemma go_rel_keep: "go_rel (\<lambda>s s'. f s' = f s)"
  by unfold_locales auto

lemmas keep_rules = go_rel.ev_rules [OF go_rel_keep]

section \<open>Integers, durations and times\<close>

text \<open>
  An \<open>int\<close> and an \<open>int64\<close> are 64 bits wide on the platforms the controller is built
  for; \<open>wrap64\<close> is the two's complement value of a result. Go's integer division
  truncates towards zero.
\<close>

definition wrap64 :: "int \<Rightarrow> int" where
  "wrap64 x = (x + 2 ^ 63) mod 2 ^ 64 - 2 ^ 63"

definition int64_ok :: "int \<Rightarrow> bool" where
  "int64_ok x \<longleftrightarrow> - (2 ^ 63) \<le> x \<and> x < 2 ^ 63"

definition go_div :: "int \<Rightarrow> int \<Rightarrow> int" where
  "go_div a b = sgn a * sgn b * (\<bar>a\<bar> div \<bar>b\<bar>)"

lemma wrap64_id [simp]: "int64_ok x \<Longrightarrow> wrap64 x = x"
  by (simp add: wrap64_def int64_ok_def)

lemma wrap64_range: "int64_ok (wrap64 x)"
  by (simp add: wrap64_def int64_ok_def)

lemma wrap64_add_wrap64: "wrap64 (wrap64 a + b) = wrap64 (a + b)"
  unfolding wrap64_def by (simp add: mod_simps algebra_simps)

lemma go_div_nonneg: "0 \<le> a \<Longrightarrow> 0 < b \<Longrightarrow> go_div a b = a div b"
  by (cases "a = 0") (simp_all add: go_div_def)

text \<open>
  A \<open>time.Time\<close> is the number of nanoseconds since the Unix epoch, a \<open>time.Duration\<close> a
  number of nanoseconds in an int64. \<open>Sub\<close> saturates, \<open>Unix\<close> rounds down to a second.
  \<open>int(d.Seconds())\<close> goes through a float64 whose rounding shows only for durations
  of more than \<open>2 ^ 23\<close> seconds; the model truncates the exact quotient.
\<close>

type_synonym time = int
type_synonym duration = int

definition Second :: duration where
  "Second = 1000000000"

definition unix :: "time \<Rightarrow> int" where
  "unix t = t div Second"

definition time_Sub :: "time \<Rightarrow> time \<Rightarrow> duration" where
  "time_Sub a b = max (- (2 ^ 63)) (min (2 ^ 63 - 1) (a - b))"

definition int_Seconds :: "duration \<Rightarrow> int" where
  "int_Seconds d = go_div d Second"

definition zeroTime :: time where
  "zeroTime = -62135596800 * Second"

section \<open>Strings\<close>

text \<open>A \<open>string\<close> is a list of bytes. \<open>ToLower\<close> is exact on ASCII text.\<close>

definition lower_char :: "char \<Rightarrow> char" where
  "lower_char c = (let n = of_char c :: nat in if 65 \<le> n \<and> n \<le> 90 then char_of (n + 32) else c)"

definition strings_ToLower :: "string \<Rightarrow> string" where
  "strings_ToLower s = map lower_char s"

fun has_prefix :: "string \<Rightarrow> string \<Rightarrow> bool" where
  "has_prefix s [] = True"
| "has_prefix [] (p # ps) = False"
| "has_prefix (c # cs) (p # ps) = (c = p \<and> has_prefix cs ps)"

fun strings_Contains :: "string \<Rightarrow> string \<Rightarrow> bool" where
  "strings_Contains [] t = (t = [])"
| "strings_Contains (c # cs) t = (has_prefix (c # cs) t \<or> strings_Contains cs t)"

lemma has_prefix_iff: "has_prefix s t \<longleftrightarrow> (\<exists>b. s = t @ b)"
  by (induction s t rule: has_prefix.induct) auto

lemma strings_Contains_iff: "strings_Contains s t \<longleftrightarrow> (\<exists>a b. s = a @ t @ b)"
proof (induction s)
  case Nil
  then show ?case by auto
next
  case (Cons c cs)
  have "(\<exists>a b. c # cs = a @ t @ b) \<longleftrightarrow> (\<exists>b. c # cs = t @ b) \<or> (\<exists>a b. cs = a @ t @ b)"
    (is "?l \<longleftrightarrow> ?r")
  proof
    assume ?l
    then obtain a b where ab: "c # cs = a @ t @ b" by blast
    then show ?r by (cases a) auto
  next
    assume ?r
    then show ?l
      by (metis append_Cons append_Nil)
  qed
  with Cons.IH show ?case by (simp add: has_prefix_iff)
qed

definition digit_char :: "nat \<Rightarrow> char" where
  "digit_char d = char_of (48 + d)"

fun show_nat :: "nat \<Rightarrow> string" where
  "show_nat n = (if n < 10 then [digit_char n] else show_nat (n div 10) @ [digit_char (n mod 10)])"

declare show_nat.simps [simp del]

definition strconv_Itoa :: "int \<Rightarrow> string" where
  "strconv_Itoa i = (if i < 0 then ''-'' @ show_nat (nat (- i)) else show_nat (nat i))"

text \<open>\<open>strings.ReplaceAll\<close> of one character by one character.\<close>

definition replace_char :: "char \<Rightarrow> char \<Rightarrow> string \<Rightarrow> string" where
  "replace_char a b s = map (\<lambda>c. if c = a then b else c) s"

lemma replace_char_gone: "a \<noteq> b \<Longrightarrow> a \<notin> set (replace_char a b s)"
  by (auto simp: replace_char_def)

lemma replace_char_id: "a \<notin> set s \<Longrightarrow> replace_char a b s = s"
  by (auto simp: replace_char_def intro: map_idI)

end
