(* ===== verification/Api_Types.thy ===== *)
theory Api_Types imports Go_Prelude begin

text \<open>
  The HealthCheck resource (src/api/v1alpha1/healthcheck_types.go, groupversion_info.go)
  and the constants of the controller. A Go struct is a record with the fields of the
  source in their order; a pointer that may be nil is an option; a slice whose nil value
  the code can tell from the empty one (through \<open>reflect.DeepEqual\<close>) is an option of a
  list. \<open>Workflow\<close> and \<open>RemedyWorkflow\<close> have the same fields and share one record. Of
  the embedded \<open>ObjectMeta\<close> the record holds the fields the controller reads.
\<close>

section \<open>Values of type interface{}\<close>

text \<open>
  What a decoded YAML or JSON document and the objects handed to the dynamic client are
  made of: nil, booleans, float64 (every JSON number decodes to one; the value stands for
  its exact rational value), strings, slices and maps with string keys, and the three Go
  values the controller itself stores in such a map.
\<close>

datatype goval =
    GNil
  | GBool bool
  | GFloat rat
  | GString string
  | GSlice "goval list"
  | GMap "(string \<times> goval) list"
  | GPodGC string
  | GInt64Ptr int
  | GMetadata string "string \<rightharpoonup> string"

type_synonym gomap = "(string \<times> goval) list"

text \<open>Indexing a map with interface{} values: a missing key reads as nil.\<close>

definition gindex :: "gomap \<Rightarrow> string \<Rightarrow> goval" where
  "gindex m k = (case map_of m k of None \<Rightarrow> GNil | Some v \<Rightarrow> v)"

fun as_map :: "goval \<Rightarrow> gomap option" where
  "as_map (GMap m) = Some m"
| "as_map _ = None"

fun as_string :: "goval \<Rightarrow> string option" where
  "as_string (GString s) = Some s"
| "as_string _ = None"

fun as_float :: "goval \<Rightarrow> rat option" where
  "as_float (GFloat q) = Some q"
| "as_float _ = None"

text \<open>\<open>v == nil\<close> and \<open>v == text\<close> for a value of type interface{}.\<close>

fun is_nil :: "goval \<Rightarrow> bool" where
  "is_nil GNil = True"
| "is_nil _ = False"

definition is_string :: "goval \<Rightarrow> string \<Rightarrow> bool" where
  "is_string v t \<longleftrightarrow> as_string v = Some t"

lemma is_nil_iff [simp]: "is_nil v \<longleftrightarrow> v = GNil"
  by (cases v) simp_all

lemma is_string_iff [simp]: "is_string v t \<longleftrightarrow> v = GString t"
  by (cases v) (auto simp: is_string_def)

lemma gindex_update [simp]:
  "gindex (AList.update k v m) k' = (if k' = k then v else gindex m k')"
  by (simp add: gindex_def update_conv')

lemma as_map_Some: "as_map v = Some m \<longleftrightarrow> v = GMap m"
  by (cases v) simp_all

section \<open>RBAC objects\<close>

record policy_rule =
  APIGroups :: "string list"
  Resources :: "string list"
  Verbs :: "string list"
  ResourceNames :: "string list"
  NonResourceURLs :: "string list"

definition mk_rule :: "string list \<Rightarrow> string list \<Rightarrow> string list \<Rightarrow> policy_rule" where
  "mk_rule gs rs vs =
     \<lparr>APIGroups = gs, Resources = rs, Verbs = vs, ResourceNames = [], NonResourceURLs = []\<rparr>"

record object_meta =
  Name :: string
  Namespace :: string
  Labels :: "string \<rightharpoonup> string"

record role = object_meta +
  Rules :: "policy_rule list"

record subject =
  SubjectKind :: string
  SubjectName :: string
  SubjectNamespace :: string

record role_ref =
  RefKind :: string
  RefName :: string
  RefAPIGroup :: string

record role_binding = object_meta +
  Subjects :: "subject list"
  RoleRef :: role_ref

section \<open>The HealthCheck resource\<close>

record file_artifact =
  FilePath :: string

record url_artifact =
  Path :: string
  VerifyCert :: "bool option"

record artifact_location =
  Inline :: "string option"
  File :: "file_artifact option"
  URL :: "url_artifact option"

record resource_object =
  ResNamespace :: string
  ServiceAccount :: string
  Source :: artifact_location

record workflow =
  GenerateName :: string
  Resource :: "resource_object option"
  Timeout :: int
  RBACRules :: "policy_rule list option"

text \<open>The struct \<open>RemedyWorkflow\<close> has the fields of \<open>Workflow\<close>.\<close>

type_synonym remedy_workflow = workflow

text \<open>\<open>func (w RemedyWorkflow) IsEmpty() bool\<close>: deep equality with the zero value.\<close>

definition IsEmpty :: "remedy_workflow \<Rightarrow> bool" where
  "IsEmpty w \<longleftrightarrow> w = \<lparr>GenerateName = [], Resource = None, Timeout = 0, RBACRules = None\<rparr>"

record schedule_spec =
  Cron :: string

record health_check_spec =
  RepeatAfterSec :: int
  Description :: string
  Workflow :: workflow
  Level :: string
  Schedule :: schedule_spec
  RemedyWorkflow :: remedy_workflow
  BackoffFactor :: string
  BackoffMax :: int
  BackoffMin :: int
  RemedyRunsLimit :: int
  RemedyResetInterval :: int

record health_check_status =
  ErrorMessage :: string
  RemedyErrorMessage :: string
  StartedAt :: "time option"
  FinishedAt :: "time option"
  LastFailedAt :: "time option"
  RemedyStartedAt :: "time option"
  RemedyFinishedAt :: "time option"
  RemedyLastFailedAt :: "time option"
  LastFailedWorkflow :: string
  LastSuccessfulWorkflow :: string
  SuccessCount :: int
  FailedCount :: int
  RemedySuccessCount :: int
  RemedyFailedCount :: int
  RemedyTotalRuns :: int
  TotalHealthCheckRuns :: int
  Status :: string
  RemedyStatus :: string

record health_check =
  hcName :: string
  hcNamespace :: string
  hcUID :: string
  hcDeletionTimestamp :: "time option"
  hcSpec :: health_check_spec
  hcStatus :: health_check_status

definition zero_workflow :: workflow where
  "zero_workflow = \<lparr>GenerateName = [], Resource = None, Timeout = 0, RBACRules = None\<rparr>"

definition zero_status :: health_check_status where
  "zero_status = \<lparr>ErrorMessage = [], RemedyErrorMessage = [], StartedAt = None, FinishedAt = None,
     LastFailedAt = None, RemedyStartedAt = None, RemedyFinishedAt = None,
     RemedyLastFailedAt = None, LastFailedWorkflow = [], LastSuccessfulWorkflow = [],
     SuccessCount = 0, FailedCount = 0, RemedySuccessCount = 0, RemedyFailedCount = 0,
     RemedyTotalRuns = 0, TotalHealthCheckRuns = 0, Status = [], RemedyStatus = []\<rparr>"

definition zero_spec :: health_check_spec where
  "zero_spec = \<lparr>RepeatAfterSec = 0, Description = [], Workflow = zero_workflow, Level = [],
     Schedule = \<lparr>Cron = []\<rparr>, RemedyWorkflow = zero_workflow, BackoffFactor = [],
     BackoffMax = 0, BackoffMin = 0, RemedyRunsLimit = 0, RemedyResetInterval = 0\<rparr>"

definition zero_health_check :: health_check where
  "zero_health_check = \<lparr>hcName = [], hcNamespace = [], hcUID = [], hcDeletionTimestamp = None,
     hcSpec = zero_spec, hcStatus = zero_status\<rparr>"

lemma IsEmpty_zero [simp]: "IsEmpty zero_workflow"
  by (simp add: IsEmpty_def zero_workflow_def)

lemma IsEmpty_iff: "IsEmpty w \<longleftrightarrow> w = zero_workflow"
  by (simp add: IsEmpty_def zero_workflow_def)

text \<open>\<open>metav1.Time.IsZero\<close> of a pointer: nil or the zero time.\<close>

definition Time_IsZero :: "time option \<Rightarrow> bool" where
  "Time_IsZero t = (case t of None \<Rightarrow> True | Some u \<Rightarrow> u = zeroTime)"

section \<open>Constants\<close>

definition GroupVersion :: string where
  "GroupVersion = ''activemonitor.keikoproj.io/v1alpha1''"

definition hcKind :: string where "hcKind = ''HealthCheck''"
definition wfGroup :: string where "wfGroup = ''argoproj.io''"
definition wfVersion :: string where "wfVersion = ''v1alpha1''"
definition wfKind :: string where "wfKind = ''Workflow''"
definition succStr :: string where "succStr = ''Succeeded''"
definition failStr :: string where "failStr = ''Failed''"
definition remedy :: string where "remedy = ''remedy''"
definition healthcheck :: string where "healthcheck = ''healthCheck''"
definition healthCheckClusterLevel :: string where "healthCheckClusterLevel = ''cluster''"
definition healthCheckNamespaceLevel :: string where "healthCheckNamespaceLevel = ''namespace''"
definition WfInstanceIdLabelKey :: string where
  "WfInstanceIdLabelKey = ''workflows.argoproj.io/controller-instanceid''"
definition WfInstanceId :: string where "WfInstanceId = ''activemonitor-workflows''"
definition PodGCOnPodCompletion :: string where "PodGCOnPodCompletion = ''OnPodCompletion''"
definition WfManagedByLabelKey :: string where
  "WfManagedByLabelKey = ''workflows.argoproj.io/managed-by''"
definition WfManagedByValue :: string where "WfManagedByValue = ''active-monitor''"

lemmas const_defs =
  GroupVersion_def hcKind_def wfGroup_def wfVersion_def wfKind_def succStr_def failStr_def
  remedy_def healthcheck_def healthCheckClusterLevel_def healthCheckNamespaceLevel_def
  WfInstanceIdLabelKey_def WfInstanceId_def PodGCOnPodCompletion_def WfManagedByLabelKey_def
  WfManagedByValue_def

lemma succ_ne_fail [simp]: "succStr \<noteq> failStr" "failStr \<noteq> succStr"
  by (simp_all add: const_defs)

lemma remedy_ne_hcKind [simp]: "hcKind \<noteq> remedy" "remedy \<noteq> hcKind"
  by (simp_all add: const_defs)

lemma level_ne [simp]:
  "healthCheckClusterLevel \<noteq> healthCheckNamespaceLevel"
  "healthCheckNamespaceLevel \<noteq> healthCheckClusterLevel"
  by (simp_all add: const_defs)

text \<open>
  The \<open>managed-by\<close> label: what the controller puts on every object it creates and asks for
  before it deletes one (\<open>val, ok := Labels[key]; ok && val == value\<close>).
\<close>

definition managed_labels :: "string \<rightharpoonup> string" where
  "managed_labels = [WfManagedByLabelKey \<mapsto> WfManagedByValue]"

definition is_managed :: "'a object_meta_scheme \<Rightarrow> bool" where
  "is_managed x = (Labels x WfManagedByLabelKey = Some WfManagedByValue)"

lemma is_managed_created [simp]: "Labels x = managed_labels \<Longrightarrow> is_managed x"
  by (simp add: is_managed_def managed_labels_def)

end
