(* ===== verification/Custom_Metrics.thy ===== *)
theory Custom_Metrics imports Api_Types begin

text \<open>
  The custom metrics collector (src/internal/metrics/collector.go). Its state is the
  package-level map of gauges with its lock, and the calls made to the prometheus client;
  json.Unmarshal, mapstructure.Decode and the registry are the fields of a parameter.
\<close>

section \<open>State and parameters\<close>

record custom_metric =
  cmName :: string
  cmHelp :: string
  cmMetrictype :: string
  cmValue :: rat

datatype prom_call =
    NewGaugeVec string string
  | RegisterGauge string
  | SetGauge string string rat

record collector =
  CustomGaugeMetricsMap :: "string \<rightharpoonup> string"
  customGaugeMetricsMapLock :: bool
  gauge_calls :: "prom_call list"

text \<open>
  \<open>json_metrics v\<close>: what \<open>jsonMap["metrics"]\<close> holds after unmarshalling \<open>v\<close> (the error is
  ignored by the code, so a text that is no JSON object gives the empty list);
  \<open>decode_metric\<close>: mapstructure.Decode into the struct customMetricMap.
\<close>

record metric_lib =
  json_metrics :: "string \<Rightarrow> goval list"
  decode_metric :: "gomap \<Rightarrow> goerr + custom_metric"

definition metric_lock :: "(collector, unit) go" where
  "metric_lock = (\<lambda>c. if customGaugeMetricsMapLock c then (Blocked, c)
     else (Ret (), c\<lparr>customGaugeMetricsMapLock := True\<rparr>))"

definition metric_unlock :: "(collector, unit) go" where
  "metric_unlock = modG (\<lambda>c. c\<lparr>customGaugeMetricsMapLock := False\<rparr>)"

definition metric_rlocked :: "(collector, unit) go \<Rightarrow> (collector, unit) go" where
  "metric_rlocked m = (\<lambda>c. if customGaugeMetricsMapLock c then (Blocked, c) else m c)"

definition gauge_call :: "prom_call \<Rightarrow> (collector, unit) go" where
  "gauge_call k = modG (\<lambda>c. c\<lparr>gauge_calls := gauge_calls c @ [k]\<rparr>)"

lemma metric_run [go_simps]:
  "metric_lock c = (if customGaugeMetricsMapLock c then (Blocked, c)
     else (Ret (), c\<lparr>customGaugeMetricsMapLock := True\<rparr>))"
  "metric_unlock c = (Ret (), c\<lparr>customGaugeMetricsMapLock := False\<rparr>)"
  "metric_rlocked m c = (if customGaugeMetricsMapLock c then (Blocked, c) else m c)"
  "gauge_call k c = (Ret (), c\<lparr>gauge_calls := gauge_calls c @ [k]\<rparr>)"
  by (simp_all add: metric_lock_def metric_unlock_def metric_rlocked_def gauge_call_def)

section \<open>The collector\<close>

definition metric_name :: "string \<Rightarrow> string \<Rightarrow> string" where
  "metric_name name m = replace_char (CHR ''-'') (CHR ''_'') name @ ''_'' @ m"

text \<open>\<open>CustomGaugeMetricsMap[name] = NewGaugeVec(...)\<close>, then \<open>registry.Register\<close>, whose error is only logged.\<close>

definition add_gauge :: "string \<Rightarrow> string \<Rightarrow> (collector, unit) go" where
  "add_gauge nm help =
     thenG (gauge_call (NewGaugeVec nm help))
    (thenG (modG (\<lambda>c. c\<lparr>CustomGaugeMetricsMap := (CustomGaugeMetricsMap c)(nm \<mapsto> help)\<rparr>))
           (gauge_call (RegisterGauge nm)))"

definition collect_one :: "metric_lib \<Rightarrow> string \<Rightarrow> goval \<Rightarrow> (collector, unit) go" where
  "collect_one L name raw =
     (case as_map raw of
        None \<Rightarrow> panicG ''interface conversion''
      | Some m \<Rightarrow> (case decode_metric L m of
          Inl e \<Rightarrow> retG ()
        | Inr metric \<Rightarrow>
            if cmName metric = [] then retG ()
            else let nm = metric_name name (cmName metric) in
              thenG metric_lock
             (bindG (getsG CustomGaugeMetricsMap) (\<lambda>g.
              thenG (whenG (nm \<notin> dom g) (add_gauge nm (cmHelp metric)))
             (thenG metric_unlock
                    (metric_rlocked (gauge_call (SetGauge nm name (cmValue metric)))))))))"

text \<open>The output parameters of a workflow, each with its value pointer.\<close>

definition collect_parameter :: "metric_lib \<Rightarrow> string \<Rightarrow> string option \<Rightarrow> (collector, unit) go" where
  "collect_parameter L name p =
     (case p of None \<Rightarrow> panicG ''invalid memory address or nil pointer dereference''
      | Some v \<Rightarrow> thenG (forG (collect_one L name) (json_metrics L v)) (metric_rlocked (retG ())))"

definition CreateDynamicPrometheusMetric ::
  "metric_lib \<Rightarrow> string \<Rightarrow> string option list option \<Rightarrow> (collector, unit) go" where
  "CreateDynamicPrometheusMetric L name parameters =
     (case parameters of None \<Rightarrow> retG () | Some ps \<Rightarrow> forG (collect_parameter L name) ps)"

section \<open>Properties\<close>

definition registered :: "prom_call list \<Rightarrow> string list" where
  "registered cs = concat (map (\<lambda>k. case k of RegisterGauge n \<Rightarrow> [n] | _ \<Rightarrow> []) cs)"

text \<open>
  The invariant: the lock is free, the registered names are distinct and are those of the
  map, and every value set so far went to a registered gauge.
\<close>

definition collector_ok :: "collector \<Rightarrow> bool" where
  "collector_ok c \<longleftrightarrow> \<not> customGaugeMetricsMapLock c
     \<and> distinct (registered (gauge_calls c))
     \<and> set (registered (gauge_calls c)) = dom (CustomGaugeMetricsMap c)
     \<and> (\<forall>n h v. SetGauge n h v \<in> set (gauge_calls c) \<longrightarrow> n \<in> dom (CustomGaugeMetricsMap c))"

definition collector_init :: collector where
  "collector_init = \<lparr>CustomGaugeMetricsMap = Map.empty, customGaugeMetricsMapLock = False, gauge_calls = []\<rparr>"

lemma registered_append [simp]: "registered (xs @ ys) = registered xs @ registered ys"
  and registered_Nil [simp]: "registered [] = []"
  by (simp_all add: registered_def)

lemma registered_Cons [simp]:
  "registered (k # ks) = (case k of RegisterGauge n \<Rightarrow> n # registered ks | _ \<Rightarrow> registered ks)"
  by (simp add: registered_def split: prom_call.splits)

interpretation collector_rel: go_rel "\<lambda>c c'. collector_ok c \<longrightarrow> collector_ok c'"
  by unfold_locales auto

lemma collect_one_run:
  "collect_one L name raw c =
     (case as_map raw of None \<Rightarrow> (Panic ''interface conversion'', c)
      | Some m \<Rightarrow> (case decode_metric L m of Inl e \<Rightarrow> (Ret (), c)
        | Inr metric \<Rightarrow> if cmName metric = [] then (Ret (), c)
          else if customGaugeMetricsMapLock c then (Blocked, c)
          else let nm = metric_name name (cmName metric); set = SetGauge nm name (cmValue metric) in
            if nm \<in> dom (CustomGaugeMetricsMap c)
            then (Ret (), c\<lparr>gauge_calls := gauge_calls c @ [set]\<rparr>)
            else (Ret (), c\<lparr>CustomGaugeMetricsMap := (CustomGaugeMetricsMap c)(nm \<mapsto> cmHelp metric),
              gauge_calls := gauge_calls c @ [NewGaugeVec nm (cmHelp metric), RegisterGauge nm, set]\<rparr>)))"
  by (simp add: collect_one_def add_gauge_def go_simps Let_def split: option.splits sum.splits)

lemma collect_one_ok: "evolves (\<lambda>c c'. collector_ok c \<longrightarrow> collector_ok c') (collect_one L name raw)"
  by (auto simp: evolves_def collect_one_run collector_ok_def Let_def split: option.splits sum.splits)
     (metis domD)+

lemma collect_ok:
  "evolves (\<lambda>c c'. collector_ok c \<longrightarrow> collector_ok c') (CreateDynamicPrometheusMetric L name ps)"
  unfolding CreateDynamicPrometheusMetric_def collect_parameter_def
  by (intro collector_rel.ev_rules collect_one_ok)
     (simp add: evolves_def metric_rlocked_def)

text \<open>
  C39: starting from the state of a fresh process, any sequence of collector runs, even
  one that panics on a malformed metric, leaves the gauge map unlocked, registers every
  gauge name at most once, and sets values only on registered gauges.
\<close>

theorem custom_metrics_registered_once:
  "collector_ok (fold (\<lambda>(L, name, ps) c. snd (CreateDynamicPrometheusMetric L name ps c)) runs collector_init)"
proof (rule fold_invariant [where Q = "\<lambda>_. True" and P = collector_ok])
  show "collector_ok collector_init"
    by (simp add: collector_ok_def collector_init_def)
next
  fix r c assume "collector_ok c"
  then show "collector_ok ((\<lambda>(L, name, ps) c. snd (CreateDynamicPrometheusMetric L name ps c)) r c)"
    using evolvesD_snd [OF collect_ok] by (simp split: prod.splits)
qed auto

text \<open>
  C40: a decoded metric with a name is published under the name of the HealthCheck with
  every dash replaced by an underscore, joined to the metric's own name; its value is set
  under the HealthCheck's real name; nothing else is set.
\<close>

theorem custom_metric_published:
  assumes "\<not> customGaugeMetricsMapLock c"
    and "decode_metric L m = Inr metric" and "cmName metric \<noteq> []"
  shows "\<exists>c' pre. collect_one L name (GMap m) c = (Ret (), c')
     \<and> gauge_calls c' = gauge_calls c @ pre
         @ [SetGauge (replace_char (CHR ''-'') (CHR ''_'') name @ ''_'' @ cmName metric) name (cmValue metric)]
     \<and> (\<forall>n h v. SetGauge n h v \<notin> set pre)
     \<and> CHR ''-'' \<notin> set (replace_char (CHR ''-'') (CHR ''_'') name)"
  using assms
  by (auto simp: collect_one_run Let_def metric_name_def replace_char_gone)

theorem custom_metric_published_witness:
  "\<exists>c' pre. collect_one \<lparr>json_metrics = (\<lambda>_. []), decode_metric = (\<lambda>m. Inr \<lparr>cmName = ''total'',
        cmHelp = ''h'', cmMetrictype = ''gauge'', cmValue = 123\<rparr>)\<rparr> ''test-flow'' (GMap []) collector_init = (Ret (), c')
     \<and> gauge_calls c' = [] @ pre @ [SetGauge ''test_flow_total'' ''test-flow'' 123]"
  using custom_metric_published [of collector_init "\<lparr>json_metrics = (\<lambda>_. []), decode_metric = (\<lambda>m. Inr \<lparr>cmName = ''total'',
        cmHelp = ''h'', cmMetrictype = ''gauge'', cmValue = 123\<rparr>)\<rparr>" "[]" "\<lparr>cmName = ''total'',
        cmHelp = ''h'', cmMetrictype = ''gauge'', cmValue = 123\<rparr>" "''test-flow''"]
  by (auto simp: collector_init_def replace_char_def)

end
