(* ===== verification/Kube_Env.thy ===== *)
theory Kube_Env imports Api_Types begin

text \<open>
  What the controller runs on. Everything that is not code of this repository (the API
  server reached through the client packages, the wall clock, the cron, yaml and
  inverse-exp-backoff packages, the http transport) is a field of the parameter
  \<open>env\<close>: a function that may read and change an opaque world of type \<open>'w\<close>, so that other
  actors may act between two calls. The state \<open>st\<close> is the \<open>HealthCheckReconciler\<close>
  (RepeatTimersByName, workflowLabels, TimerLock), the timers of the Go runtime, the
  HealthCheck object a handler works on, and the sequence of outgoing calls made so far.
  The locale \<open>io_rel\<close> and its two extensions say which parts of that state an operation
  may touch; every handler is proved to stay inside one of them.
\<close>

section \<open>Outgoing calls\<close>

record owner_reference =
  orKind :: string
  orAPIVersion :: string
  orName :: string
  orUID :: string
  orController :: bool

text \<open>The unstructured Workflow object, by the fields the controller sets on it.\<close>

record wf_object =
  wfAPIVersion :: string
  wfKindName :: string
  wfNamespaceOf :: string
  wfGenerateName :: string
  wfLabels :: "string \<rightharpoonup> string"
  wfOwners :: "owner_reference list"
  wfSpec :: "gomap option"

datatype metric = MonitorSuccess | MonitorError | MonitorRuntime | MonitorStartedTime | MonitorFinishedTime

datatype metric_op = MetricInc | MetricSet rat

text \<open>The success and error metrics are counters, which can be incremented; the others are gauges, which can be set.\<close>

fun metric_typed :: "metric \<Rightarrow> metric_op \<Rightarrow> bool" where
  "metric_typed m MetricInc = (m \<in> {MonitorSuccess, MonitorError})"
| "metric_typed m (MetricSet q) = (m \<notin> {MonitorSuccess, MonitorError})"

datatype effect =
    EvEvent string string string string
  | EvRBAC string string string string
  | EvCreateWorkflow wf_object
  | EvUpdateStatus health_check
  | EvUpdate health_check
  | EvMetric metric string string metric_op
  | EvArm nat duration string
  | EvStop nat

text \<open>
  The calls that neither submit a workflow nor touch a timer; among them the updates of the
  metrics of the HealthCheck's own workflow, as opposed to those of its remedy.
\<close>

fun io_effect :: "effect \<Rightarrow> bool" where
  "io_effect (EvCreateWorkflow w) = False"
| "io_effect (EvArm i d n) = False"
| "io_effect (EvStop i) = False"
| "io_effect (EvMetric m n l v) = (metric_typed m v \<and> (l = healthcheck \<or> l = remedy))"
| "io_effect _ = True"

fun run_effect :: "effect \<Rightarrow> bool" where
  "run_effect (EvMetric m n l v) = (l = healthcheck)"
| "run_effect _ = False"

section \<open>The parameters\<close>

text \<open>
  One kind of object of the Kubernetes API: \<open>Get\<close>, \<open>Create\<close> and \<open>Delete\<close> of
  \<open>clientset.<Kind>(namespace)\<close>; for a cluster-scoped kind the namespace is empty.
\<close>

record ('w, 'o) kind_client =
  c_get :: "string \<Rightarrow> string \<Rightarrow> 'w \<Rightarrow> (goerr + 'o) \<times> 'w"
  c_create :: "string \<Rightarrow> 'o \<Rightarrow> 'w \<Rightarrow> (goerr + 'o) \<times> 'w"
  c_delete :: "string \<Rightarrow> string \<Rightarrow> 'w \<Rightarrow> (goerr + unit) \<times> 'w"

record http_response =
  StatusCode :: int
  Body :: "goerr + string"

text \<open>
  The parameter. \<open>hc_*\<close>: the controller-runtime client on HealthChecks (namespace, name);
  \<open>wf_create\<close>: \<open>r.Create\<close> of a workflow, answering its generated name; \<open>wf_get\<close>: the
  dynamic client, answering the object's content; \<open>conflict_retries\<close>: how often
  \<open>retry.RetryOnConflict\<close> tries again; \<open>ieb_new\<close> and \<open>ieb_next\<close>: the
  inverse-exp-backoff timer (\<open>Next\<close> sleeps, which may change the world, and answers an
  error once the timeout has passed); \<open>cron_parse\<close>: a schedule as its \<open>Next\<close> function;
  \<open>yaml_unmarshal\<close>: the decoded document, \<open>None\<close> for a document that leaves the Go map
  nil; \<open>parse_float\<close> and \<open>sprint_float\<close>: strconv on binary64 values that are not small
  integers; \<open>float_to_int\<close>: the conversion of a float outside the int64 range, which Go
  leaves to the platform.
\<close>

record 'w env =
  clock :: "'w \<Rightarrow> time \<times> 'w"
  hc_get :: "string \<Rightarrow> string \<Rightarrow> 'w \<Rightarrow> (goerr + health_check) \<times> 'w"
  hc_update :: "health_check \<Rightarrow> 'w \<Rightarrow> (goerr + unit) \<times> 'w"
  hc_status_update :: "health_check \<Rightarrow> 'w \<Rightarrow> (goerr + unit) \<times> 'w"
  wf_create :: "wf_object \<Rightarrow> 'w \<Rightarrow> (goerr + string) \<times> 'w"
  wf_get :: "string \<Rightarrow> string \<Rightarrow> 'w \<Rightarrow> (goerr + gomap) \<times> 'w"
  serviceAccounts :: "('w, object_meta) kind_client"
  clusterRoles :: "('w, role) kind_client"
  clusterRoleBindings :: "('w, role_binding) kind_client"
  nsRoles :: "('w, role) kind_client"
  nsRoleBindings :: "('w, role_binding) kind_client"
  conflict_retries :: nat
  ieb_new :: "duration \<Rightarrow> duration \<Rightarrow> duration \<Rightarrow> rat \<Rightarrow> time \<Rightarrow> 'w \<Rightarrow> (nat \<times> goerr option) \<times> 'w"
  ieb_next :: "nat \<Rightarrow> 'w \<Rightarrow> goerr option \<times> 'w"
  cron_parse :: "string \<Rightarrow> goerr + (time \<Rightarrow> time)"
  yaml_unmarshal :: "string \<Rightarrow> goerr + gomap option"
  http_get :: "bool \<Rightarrow> string \<Rightarrow> 'w \<Rightarrow> (goerr + http_response) \<times> 'w"
  parse_float :: "string \<Rightarrow> goerr + rat"
  sprint_float :: "rat \<Rightarrow> string"
  float_to_int :: "rat \<Rightarrow> int"

section \<open>The state\<close>

text \<open>
  A running \<open>time.AfterFunc\<close> timer: its delay and what its closure
  (\<open>createSubmitWorkflowHelper\<close>) captured: \<open>wfNamespace\<close> and the name and namespace of
  \<open>prevHealthCheck\<close>.
\<close>

record armed_timer =
  tmDelay :: duration
  tmWfNamespace :: string
  tmName :: string
  tmNamespace :: string

text \<open>
  \<open>RepeatTimersByName\<close> and \<open>workflowLabels\<close> are \<open>None\<close> while the Go map is nil.
  \<open>TimerLock\<close>: a goroutine that has panicked still holds the write lock. Handlers are
  steps of the model, so a lock that is taken and released inside one handler is free
  between them. \<open>pending\<close> and \<open>next_timer\<close> are the timers of the Go runtime.
\<close>

record 'w st =
  world :: 'w
  RepeatTimersByName :: "(string \<rightharpoonup> nat) option"
  workflowLabels :: "(string \<rightharpoonup> string) option"
  TimerLock :: bool
  pending :: "nat \<rightharpoonup> armed_timer"
  next_timer :: nat
  trace :: "effect list"
  hc :: health_check

section \<open>Primitive steps\<close>

definition callW :: "('w \<Rightarrow> 'a \<times> 'w) \<Rightarrow> ('w st, 'a) go" where
  "callW f = (\<lambda>s. case f (world s) of (x, w) \<Rightarrow> (Ret x, s\<lparr>world := w\<rparr>))"

definition callE :: "('w \<Rightarrow> (goerr + 'a) \<times> 'w) \<Rightarrow> ('w st, 'a) go" where
  "callE f = (\<lambda>s. case f (world s) of (Inl e, w) \<Rightarrow> (Fail e, s\<lparr>world := w\<rparr>)
                                    | (Inr x, w) \<Rightarrow> (Ret x, s\<lparr>world := w\<rparr>))"

definition emit :: "effect \<Rightarrow> ('w st, unit) go" where
  "emit e = modG (\<lambda>s. s\<lparr>trace := trace s @ [e]\<rparr>)"

definition time_Now :: "'w env \<Rightarrow> ('w st, time) go" where
  "time_Now E = callW (clock E)"

definition get_hc :: "('w st, health_check) go" where
  "get_hc = getsG hc"

definition set_hc :: "health_check \<Rightarrow> ('w st, unit) go" where
  "set_hc h = modG (\<lambda>s. s\<lparr>hc := h\<rparr>)"

definition mod_spec :: "(health_check_spec \<Rightarrow> health_check_spec) \<Rightarrow> ('w st, unit) go" where
  "mod_spec f = modG (\<lambda>s. s\<lparr>hc := hc s\<lparr>hcSpec := f (hcSpec (hc s))\<rparr>\<rparr>)"

definition mod_status :: "(health_check_status \<Rightarrow> health_check_status) \<Rightarrow> ('w st, unit) go" where
  "mod_status f = modG (\<lambda>s. s\<lparr>hc := hc s\<lparr>hcStatus := f (hcStatus (hc s))\<rparr>\<rparr>)"

text \<open>\<open>r.Recorder.Event(hc, type, reason, message)\<close>\<close>

definition event :: "string \<Rightarrow> string \<Rightarrow> string \<Rightarrow> ('w st, unit) go" where
  "event ty re msg = bindG get_hc (\<lambda>h. emit (EvEvent (hcName h) ty re msg))"

abbreviation "normal_event msg \<equiv> event ''Normal'' ''Normal'' msg"
abbreviation "warning_event msg \<equiv> event ''Warning'' ''Warning'' msg"

lemma callW_run [go_simps]:
  "callW f s = (case f (world s) of (x, w) \<Rightarrow> (Ret x, s\<lparr>world := w\<rparr>))"
  by (simp add: callW_def)

lemma callE_run [go_simps]:
  "callE f s = (case f (world s) of (Inl e, w) \<Rightarrow> (Fail e, s\<lparr>world := w\<rparr>)
                                  | (Inr x, w) \<Rightarrow> (Ret x, s\<lparr>world := w\<rparr>))"
  by (simp add: callE_def)

lemma prim_run [go_simps]:
  "emit e s = (Ret (), s\<lparr>trace := trace s @ [e]\<rparr>)"
  "time_Now E s = (case clock E (world s) of (t, w) \<Rightarrow> (Ret t, s\<lparr>world := w\<rparr>))"
  "get_hc s = (Ret (hc s), s)"
  "set_hc h s = (Ret (), s\<lparr>hc := h\<rparr>)"
  "mod_spec f s = (Ret (), s\<lparr>hc := hc s\<lparr>hcSpec := f (hcSpec (hc s))\<rparr>\<rparr>)"
  "mod_status g s = (Ret (), s\<lparr>hc := hc s\<lparr>hcStatus := g (hcStatus (hc s))\<rparr>\<rparr>)"
  "event ty re msg s = (Ret (), s\<lparr>trace := trace s @ [EvEvent (hcName (hc s)) ty re msg]\<rparr>)"
  by (simp_all add: emit_def time_Now_def callW_def get_hc_def set_hc_def mod_spec_def
      mod_status_def event_def bindG_run)

section \<open>TimerLock and the timers\<close>

definition lock_timer :: "('w st, unit) go" where
  "lock_timer = (\<lambda>s. if TimerLock s then (Blocked, s) else (Ret (), s\<lparr>TimerLock := True\<rparr>))"

definition unlock_timer :: "('w st, unit) go" where
  "unlock_timer = modG (\<lambda>s. s\<lparr>TimerLock := False\<rparr>)"

text \<open>\<open>RLock; x := f; RUnlock\<close>: waits for a writer, leaves the lock as it was.\<close>

definition rlocked :: "('w st \<Rightarrow> 'a) \<Rightarrow> ('w st, 'a) go" where
  "rlocked f = (\<lambda>s. if TimerLock s then (Blocked, s) else (Ret (f s), s))"

definition read_timer :: "string \<Rightarrow> 'w st \<Rightarrow> nat option" where
  "read_timer n s = (case RepeatTimersByName s of None \<Rightarrow> None | Some m \<Rightarrow> m n)"

definition GetTimerByName :: "string \<Rightarrow> ('w st, nat option) go" where
  "GetTimerByName n = rlocked (read_timer n)"

text \<open>\<open>t.Stop()\<close> of a runtime timer: whether it was still running; on a nil timer it panics.\<close>

definition timer_Stop :: "nat \<Rightarrow> ('w st, bool) go" where
  "timer_Stop i = (\<lambda>s. (Ret (i \<in> dom (pending s)),
     s\<lparr>pending := (pending s)(i := None), trace := trace s @ [EvStop i]\<rparr>))"

definition stop_opt :: "nat option \<Rightarrow> ('w st, unit) go" where
  "stop_opt t = (case t of None \<Rightarrow> panicG ''invalid memory address or nil pointer dereference''
     | Some i \<Rightarrow> bindG (timer_Stop i) (\<lambda>_. retG ()))"

definition time_AfterFunc :: "armed_timer \<Rightarrow> ('w st, nat) go" where
  "time_AfterFunc a = (\<lambda>s. let i = next_timer s in
     (Ret i, s\<lparr>pending := (pending s)(i \<mapsto> a), next_timer := Suc i,
               trace := trace s @ [EvArm i (tmDelay a) (tmName a)]\<rparr>))"

text \<open>\<open>m[name] = t\<close>: panics when the map is nil.\<close>

definition put_timer :: "string \<Rightarrow> nat \<Rightarrow> ('w st, unit) go" where
  "put_timer n i = (\<lambda>s. case RepeatTimersByName s of
       None \<Rightarrow> (Panic ''assignment to entry in nil map'', s)
     | Some m \<Rightarrow> (Ret (), s\<lparr>RepeatTimersByName := Some (m(n \<mapsto> i))\<rparr>))"

lemma lock_run [go_simps]:
  "lock_timer s = (if TimerLock s then (Blocked, s) else (Ret (), s\<lparr>TimerLock := True\<rparr>))"
  "unlock_timer s = (Ret (), s\<lparr>TimerLock := False\<rparr>)"
  "rlocked f s = (if TimerLock s then (Blocked, s) else (Ret (f s), s))"
  "GetTimerByName n s = (if TimerLock s then (Blocked, s) else (Ret (read_timer n s), s))"
  by (simp_all add: lock_timer_def unlock_timer_def rlocked_def GetTimerByName_def)

lemma timer_run [go_simps]:
  "timer_Stop i s = (Ret (i \<in> dom (pending s)),
     s\<lparr>pending := (pending s)(i := None), trace := trace s @ [EvStop i]\<rparr>)"
  "time_AfterFunc a s = (Ret (next_timer s),
     s\<lparr>pending := (pending s)(next_timer s \<mapsto> a), next_timer := Suc (next_timer s),
       trace := trace s @ [EvArm (next_timer s) (tmDelay a) (tmName a)]\<rparr>)"
  "put_timer n i s = (case RepeatTimersByName s of
       None \<Rightarrow> (Panic ''assignment to entry in nil map'', s)
     | Some m \<Rightarrow> (Ret (), s\<lparr>RepeatTimersByName := Some (m(n \<mapsto> i))\<rparr>))"
  by (simp_all add: timer_Stop_def time_AfterFunc_def put_timer_def Let_def)

section \<open>retry.RetryOnConflict\<close>

text \<open>
  The documented behaviour of \<open>RetryOnConflict(DefaultRetry, fn)\<close>: run \<open>fn\<close>; run it again
  while it answers a conflict and tries are left; answer what the last run answered.
\<close>

primrec RetryOnConflict :: "nat \<Rightarrow> ('s, 'a) go \<Rightarrow> ('s, 'a) go" where
  "RetryOnConflict 0 m = m"
| "RetryOnConflict (Suc n) m = tryG m (\<lambda>e. if IsConflict e then RetryOnConflict n m else failG e) retG"

section \<open>What an operation may touch\<close>

text \<open>
  \<open>ev_rel\<close>: events, metrics of a remedy and changes of the HealthCheck in hand; \<open>io_rel\<close>: also calls
  that change the world; \<open>label_rel\<close>: also the shared labels, the lock and the submission
  of workflows; the timers are added by the theory that arms them.
\<close>

locale ev_rel = go_rel R for R :: "'w st \<Rightarrow> 'w st \<Rightarrow> bool" +
  assumes R_hc: "R s (s\<lparr>hc := h\<rparr>)"
    and R_io: "io_effect e \<Longrightarrow> \<not> run_effect e \<Longrightarrow> R s (s\<lparr>trace := trace s @ [e]\<rparr>)"
begin

lemma ev_emit: "io_effect e \<Longrightarrow> \<not> run_effect e \<Longrightarrow> evolves R (emit e)"
  by (simp add: evolves_def prim_run R_io)

lemma ev_get_hc [intro]: "evolves R get_hc"
  unfolding get_hc_def by (rule ev_gets)

lemma ev_set_hc [intro]: "evolves R (set_hc h)"
  by (simp add: evolves_def prim_run R_hc)

lemma ev_mod_spec [intro]: "evolves R (mod_spec f)"
  by (simp add: evolves_def prim_run R_hc)

lemma ev_mod_status [intro]: "evolves R (mod_status f)"
  by (simp add: evolves_def prim_run R_hc)

lemma ev_event [intro]: "evolves R (event ty re msg)"
  by (simp add: evolves_def prim_run R_io)

lemma ev_rlocked [intro]: "evolves R (rlocked f)"
  by (simp add: evolves_def lock_run R_refl)

lemma ev_GetTimerByName [intro]: "evolves R (GetTimerByName n)"
  unfolding GetTimerByName_def by (rule ev_rlocked)

lemma ev_Retry [intro]: "evolves R m \<Longrightarrow> evolves R (RetryOnConflict n m)"
  by (induction n) (auto intro!: ev_try ev_if ev_fail ev_ret)

lemmas io_rules = ev_get_hc ev_set_hc ev_mod_spec ev_mod_status ev_event ev_rlocked
  ev_GetTimerByName ev_Retry

end

locale io_rel = ev_rel +
  assumes R_world: "R s (s\<lparr>world := w\<rparr>)"
begin

lemma ev_callW [intro]: "evolves R (callW f)"
  by (auto simp: evolves_def callW_def R_world split: prod.splits)

lemma ev_callE [intro]: "evolves R (callE f)"
  by (auto simp: evolves_def callE_def R_world split: prod.splits sum.splits)

lemma ev_time [intro]: "evolves R (time_Now E)"
  unfolding time_Now_def by (rule ev_callW)

lemmas call_rules = ev_callW ev_callE ev_time

end

locale label_rel = io_rel +
  assumes R_labels: "R s (s\<lparr>workflowLabels := l\<rparr>)"
    and R_lock: "R s (s\<lparr>TimerLock := b\<rparr>)"
    and R_submit: "R s (s\<lparr>trace := trace s @ [EvCreateWorkflow w]\<rparr>)"
begin

lemma ev_lock [intro]: "evolves R lock_timer"
  by (simp add: evolves_def lock_run R_lock R_refl)

lemma ev_unlock [intro]: "evolves R unlock_timer"
  by (simp add: evolves_def lock_run R_lock)

lemma ev_mod_labels: "evolves R (modG (\<lambda>s. s\<lparr>workflowLabels := f s\<rparr>))"
  by (simp add: evolves_def R_labels)

lemma ev_emit_submit: "evolves R (emit (EvCreateWorkflow w))"
  by (simp add: evolves_def prim_run R_submit)

end

section \<open>The calls an operation may make\<close>

text \<open>\<open>traces Q\<close>: between the two states only calls that satisfy \<open>Q\<close> have been made.\<close>

definition traces :: "(effect \<Rightarrow> bool) \<Rightarrow> 'w st \<Rightarrow> 'w st \<Rightarrow> bool" where
  "traces Q s s' \<longleftrightarrow> (\<exists>ts. trace s' = trace s @ ts \<and> (\<forall>e \<in> set ts. Q e))"

lemma go_rel_traces: "go_rel (traces Q)"
proof
  fix s t u :: "'a st"
  show "traces Q s s" by (simp add: traces_def)
  assume "traces Q s t" and "traces Q t u"
  then obtain xs ys where "trace t = trace s @ xs" "trace u = trace t @ ys"
    and "\<forall>e \<in> set xs. Q e" "\<forall>e \<in> set ys. Q e"
    by (auto simp: traces_def)
  then show "traces Q s u"
    unfolding traces_def by (intro exI [of _ "xs @ ys"]) auto
qed

lemmas traces_rules = go_rel.ev_rules [OF go_rel_traces]

lemma traces_Retry: "evolves (traces Q) m \<Longrightarrow> evolves (traces Q) (RetryOnConflict n m)"
  by (induction n) (auto intro!: traces_rules)

lemma traces_prims:
  "Q e \<Longrightarrow> evolves (traces Q) (emit e)"
  "(\<And>n. Q (EvEvent n ty re msg)) \<Longrightarrow> evolves (traces Q) (event ty re msg)"
  "evolves (traces Q) (callE f)" "evolves (traces Q) (callW g)" "evolves (traces Q) (time_Now E)"
  "evolves (traces Q) get_hc" "evolves (traces Q) (set_hc h)"
  "evolves (traces Q) (mod_spec sp)" "evolves (traces Q) (mod_status st)"
  "evolves (traces Q) lock_timer" "evolves (traces Q) unlock_timer" "evolves (traces Q) (rlocked fl)"
  by (auto simp: evolves_def traces_def prim_run callE_run callW_run lock_run split: prod.splits sum.splits)

lemma io_rel_traces: "(\<And>e. io_effect e \<Longrightarrow> \<not> run_effect e \<Longrightarrow> Q e) \<Longrightarrow> io_rel (traces Q)"
  by (intro io_rel.intro ev_rel.intro go_rel_traces; unfold_locales) (simp_all add: traces_def)

lemma label_rel_traces:
  "(\<And>e. io_effect e \<Longrightarrow> \<not> run_effect e \<Longrightarrow> Q e) \<Longrightarrow> (\<And>w. Q (EvCreateWorkflow w)) \<Longrightarrow> label_rel (traces Q)"
  by (intro label_rel.intro io_rel_traces; unfold_locales) (simp_all add: traces_def)

end
