(* ===== verification/Rbac_Objects.thy ===== *)
theory Rbac_Objects imports Kube_Env begin

text \<open>
  The ServiceAccounts, roles and role bindings a workflow runs with
  (healthcheck_controller.go, createServiceAccount to DeleteClusterRoleBinding). Every
  create function looks the object up and makes it only when the lookup failed; every
  delete function looks it up and deletes it only when it carries the controller's label.
  The locale \<open>kind_api\<close> states the documented behaviour of the API server for one kind
  of object over an abstract view of the cluster (which objects exist, with which
  labels); the locale \<open>rbac_kind\<close> is the contract between the two halves: it is
  interpreted on the functions of all five kinds.
\<close>

section \<open>The shared pattern\<close>

definition ensure_object ::
  "('w, 'o object_meta_scheme) kind_client \<Rightarrow> string \<Rightarrow> string \<Rightarrow> string \<Rightarrow> 'o object_meta_scheme
    \<Rightarrow> string \<Rightarrow> string \<Rightarrow> ('w st, string) go" where
  "ensure_object cl kind ns name obj found created =
     tryG (callE (c_get cl ns name))
       (\<lambda>_. thenG (emit (EvRBAC ''create'' kind ns name))
          (bindG (callE (c_create cl ns obj)) (\<lambda>o'.
             thenG (normal_event created) (retG (Name o')))))
       (\<lambda>o'. thenG (normal_event found) (retG (Name o')))"

definition delete_managed ::
  "('w, 'o object_meta_scheme) kind_client \<Rightarrow> string \<Rightarrow> string \<Rightarrow> string \<Rightarrow> string \<Rightarrow> ('w st, unit) go" where
  "delete_managed cl kind ns name deleted =
     bindG (callE (c_get cl ns name)) (\<lambda>o'.
       if is_managed o'
       then thenG (emit (EvRBAC ''delete'' kind ns name))
           (thenG (callE (c_delete cl ns name)) (normal_event deleted))
       else retG ())"

section \<open>Service accounts\<close>

definition mk_service_account :: "string \<Rightarrow> string \<Rightarrow> object_meta" where
  "mk_service_account name namespace =
     \<lparr>Name = name, Namespace = namespace, Labels = managed_labels\<rparr>"

definition createServiceAccount :: "'w env \<Rightarrow> string \<Rightarrow> string \<Rightarrow> ('w st, string) go" where
  "createServiceAccount E name namespace =
     ensure_object (serviceAccounts E) ''ServiceAccount'' namespace name
       (mk_service_account name namespace)
       ''Existing ServiceAccount found'' ''Successfully Created ServiceAccount''"

definition DeleteServiceAccount :: "'w env \<Rightarrow> string \<Rightarrow> string \<Rightarrow> ('w st, unit) go" where
  "DeleteServiceAccount E name namespace =
     delete_managed (serviceAccounts E) ''ServiceAccount'' namespace name
       ''Successfully Deleted ServiceAccount''"

section \<open>Roles\<close>

definition mk_role :: "string \<Rightarrow> string \<Rightarrow> policy_rule list \<Rightarrow> role" where
  "mk_role name namespace rules =
     \<lparr>Name = name, Namespace = namespace, Labels = managed_labels, Rules = rules\<rparr>"

definition createClusterRole :: "'w env \<Rightarrow> string \<Rightarrow> policy_rule list \<Rightarrow> ('w st, string) go" where
  "createClusterRole E clusterrole rules =
     ensure_object (clusterRoles E) ''ClusterRole'' [] clusterrole (mk_role clusterrole [] rules)
       ''Existing clusterrole found'' ''Successfully Created clusterrole''"

definition createRemedyClusterRole :: "'w env \<Rightarrow> string \<Rightarrow> policy_rule list \<Rightarrow> ('w st, string) go" where
  "createRemedyClusterRole E clusterrole rules =
     ensure_object (clusterRoles E) ''ClusterRole'' [] clusterrole (mk_role clusterrole [] rules)
       ''Existing ClusterRole found'' ''Successfully Created ClusterRole''"

definition DeleteClusterRole :: "'w env \<Rightarrow> string \<Rightarrow> ('w st, unit) go" where
  "DeleteClusterRole E clusterrole =
     delete_managed (clusterRoles E) ''ClusterRole'' [] clusterrole
       ''Successfully deleted ClusterRole''"

definition createNameSpaceRole ::
  "'w env \<Rightarrow> string \<Rightarrow> string \<Rightarrow> policy_rule list \<Rightarrow> ('w st, string) go" where
  "createNameSpaceRole E nsrole namespace rules =
     ensure_object (nsRoles E) ''Role'' namespace nsrole (mk_role nsrole namespace rules)
       ''Existing NamespaceRole found'' ''Successfully Created NamespaceRole''"

definition createRemedyNameSpaceRole ::
  "'w env \<Rightarrow> string \<Rightarrow> string \<Rightarrow> policy_rule list \<Rightarrow> ('w st, string) go" where
  "createRemedyNameSpaceRole E nsrole namespace rules =
     ensure_object (nsRoles E) ''Role'' namespace nsrole (mk_role nsrole namespace rules)
       ''Existing NamespaceRole found'' ''Successfully Created NamespaceRole''"

definition DeleteNameSpaceRole :: "'w env \<Rightarrow> string \<Rightarrow> string \<Rightarrow> ('w st, unit) go" where
  "DeleteNameSpaceRole E nsrole namespace =
     delete_managed (nsRoles E) ''Role'' namespace nsrole ''Successfully deleted NamespaceRole''"

section \<open>Role bindings\<close>

definition mk_ns_binding :: "string \<Rightarrow> string \<Rightarrow> string \<Rightarrow> string \<Rightarrow> role_binding" where
  "mk_ns_binding rolebinding nsrole serviceaccount namespace =
     \<lparr>Name = rolebinding, Namespace = namespace, Labels = managed_labels,
      Subjects = [\<lparr>SubjectKind = ''ServiceAccount'', SubjectName = serviceaccount, SubjectNamespace = []\<rparr>],
      RoleRef = \<lparr>RefKind = ''Role'', RefName = nsrole, RefAPIGroup = ''rbac.authorization.k8s.io''\<rparr>\<rparr>"

definition createNameSpaceRoleBinding ::
  "'w env \<Rightarrow> string \<Rightarrow> string \<Rightarrow> string \<Rightarrow> string \<Rightarrow> ('w st, string) go" where
  "createNameSpaceRoleBinding E rolebinding nsrole serviceaccount namespace =
     ensure_object (nsRoleBindings E) ''RoleBinding'' namespace rolebinding
       (mk_ns_binding rolebinding nsrole serviceaccount namespace)
       ''Existing NamespaceRoleBinding found'' ''Successfully Created NamespaceRoleBinding''"

definition DeleteNameSpaceRoleBinding ::
  "'w env \<Rightarrow> string \<Rightarrow> string \<Rightarrow> string \<Rightarrow> string \<Rightarrow> ('w st, unit) go" where
  "DeleteNameSpaceRoleBinding E rolebinding nsrole serviceaccount namespace =
     delete_managed (nsRoleBindings E) ''RoleBinding'' namespace rolebinding
       ''Successfully deleted NamespaceRoleBinding''"

definition mk_cluster_binding :: "string \<Rightarrow> string \<Rightarrow> string \<Rightarrow> string \<Rightarrow> role_binding" where
  "mk_cluster_binding clusterrolebinding clusterrole serviceaccount namespace =
     \<lparr>Name = clusterrolebinding, Namespace = [], Labels = managed_labels,
      Subjects = [\<lparr>SubjectKind = ''ServiceAccount'', SubjectName = serviceaccount, SubjectNamespace = namespace\<rparr>],
      RoleRef = \<lparr>RefKind = ''ClusterRole'', RefName = clusterrole, RefAPIGroup = ''rbac.authorization.k8s.io''\<rparr>\<rparr>"

definition createClusterRoleBinding ::
  "'w env \<Rightarrow> string \<Rightarrow> string \<Rightarrow> string \<Rightarrow> string \<Rightarrow> ('w st, string) go" where
  "createClusterRoleBinding E clusterrolebinding clusterrole serviceaccount namespace =
     ensure_object (clusterRoleBindings E) ''ClusterRoleBinding'' [] clusterrolebinding
       (mk_cluster_binding clusterrolebinding clusterrole serviceaccount namespace)
       ''Existing ClusterRoleBinding found'' ''Successfully Created ClusterRoleBinding''"

definition DeleteClusterRoleBinding ::
  "'w env \<Rightarrow> string \<Rightarrow> string \<Rightarrow> string \<Rightarrow> string \<Rightarrow> ('w st, unit) go" where
  "DeleteClusterRoleBinding E clusterrolebinding clusterrole serviceaccount namespace =
     delete_managed (clusterRoleBindings E) ''ClusterRoleBinding'' [] clusterrolebinding
       ''Successfully deleted ClusterRoleBinding''"

section \<open>The API server, for one kind of object\<close>

text \<open>The abstract view of a cluster: the labels of the object under (kind, namespace, name).\<close>

type_synonym view = "string \<times> string \<times> string \<Rightarrow> (string \<rightharpoonup> string) option"

text \<open>
  Documented behaviour, with calls that may fail at any time: \<open>Get\<close> changes nothing and
  answers only what is there; \<open>Create\<close> adds the object under its name if there is none,
  and never changes an existing one; \<open>Delete\<close> removes only the named object. A failed
  call may or may not have had its effect.
\<close>

locale kind_api =
  fixes cl :: "('w, 'o object_meta_scheme) kind_client" and kind :: string and view :: "'w \<Rightarrow> view"
  assumes get_view: "view (snd (c_get cl ns n w)) = view w"
    and get_found: "fst (c_get cl ns n w) = Inr x \<Longrightarrow> view w (kind, ns, n) = Some (Labels x) \<and> Name x = n"
    and create_view: "view (snd (c_create cl ns x w)) = view w \<or>
      (view w (kind, ns, Name x) = None \<and>
       view (snd (c_create cl ns x w)) = (view w)((kind, ns, Name x) \<mapsto> Labels x))"
    and create_done: "fst (c_create cl ns x w) = Inr y \<Longrightarrow>
      view (snd (c_create cl ns x w)) = (view w)((kind, ns, Name x) \<mapsto> Labels x) \<and> Name y = Name x"
    and delete_view: "view (snd (c_delete cl ns n w)) = view w \<or>
      view (snd (c_delete cl ns n w)) = (view w)((kind, ns, n) := None)"
    and delete_done: "fst (c_delete cl ns n w) = Inr u \<Longrightarrow>
      view (snd (c_delete cl ns n w)) = (view w)((kind, ns, n) := None)"

text \<open>A server that also answers: \<open>Get\<close> of what is there, \<open>Create\<close> of what is not, \<open>Delete\<close> of what is.\<close>

locale reliable_kind_api = kind_api +
  assumes get_live: "view w (kind, ns, n) = Some l \<Longrightarrow> \<exists>x. fst (c_get cl ns n w) = Inr x"
    and create_live: "view w (kind, ns, Name x) = None \<Longrightarrow> \<exists>y. fst (c_create cl ns x w) = Inr y"
    and delete_live: "view w (kind, ns, n) = Some l \<Longrightarrow> fst (c_delete cl ns n w) = Inr ()"

text \<open>
  What every controller function promises about objects it does not own: an object without
  the controller's label stays as it is.
\<close>

definition managed_label :: "(string \<rightharpoonup> string) \<Rightarrow> bool" where
  "managed_label l \<longleftrightarrow> l WfManagedByLabelKey = Some WfManagedByValue"

definition foreign_safe :: "view \<Rightarrow> view \<Rightarrow> bool" where
  "foreign_safe v v' \<longleftrightarrow> (\<forall>k l. v k = Some l \<and> \<not> managed_label l \<longrightarrow> v' k = Some l)"

text \<open>What a creating function promises: nothing that exists is changed, what is new is labelled.\<close>

definition only_adds :: "view \<Rightarrow> view \<Rightarrow> bool" where
  "only_adds v v' \<longleftrightarrow> (\<forall>k. v' k = v k \<or> (v k = None \<and> (\<exists>l. v' k = Some l \<and> managed_label l)))"

lemma foreign_safe_refl: "foreign_safe v v"
  and only_adds_refl: "only_adds v v"
  by (simp_all add: foreign_safe_def only_adds_def)

lemma foreign_safe_trans: "foreign_safe u v \<Longrightarrow> foreign_safe v w \<Longrightarrow> foreign_safe u w"
  by (auto simp: foreign_safe_def)

lemma only_adds_trans: "only_adds u v \<Longrightarrow> only_adds v w \<Longrightarrow> only_adds u w"
  unfolding only_adds_def by (metis option.distinct(1))

lemma only_adds_foreign_safe: "only_adds v v' \<Longrightarrow> foreign_safe v v'"
  unfolding only_adds_def foreign_safe_def by (metis option.distinct(1))

context kind_api begin

lemma ensure_run:
  "ensure_object cl kind ns n x f c s = (case c_get cl ns n (world s) of
     (Inr y, w) \<Rightarrow> (Ret (Name y), s\<lparr>world := w, trace := trace s @ [EvEvent (hcName (hc s)) ''Normal'' ''Normal'' f]\<rparr>)
   | (Inl e, w) \<Rightarrow> (case c_create cl ns x w of
       (Inl e', w') \<Rightarrow> (Fail e', s\<lparr>world := w', trace := trace s @ [EvRBAC ''create'' kind ns n]\<rparr>)
     | (Inr y, w') \<Rightarrow> (Ret (Name y), s\<lparr>world := w', trace := trace s @ [EvRBAC ''create'' kind ns n,
           EvEvent (hcName (hc s)) ''Normal'' ''Normal'' c]\<rparr>)))"
  by (simp add: ensure_object_def go_simps split: prod.splits sum.splits)

lemma ensure_only_adds:
  assumes "managed_label (Labels x)"
  shows "only_adds (view (world s)) (view (world (snd (ensure_object cl kind ns n x f c s))))"
proof -
  obtain r w where g: "c_get cl ns n (world s) = (r, w)" by fastforce
  have w: "view w = view (world s)" using get_view [of ns n "world s"] g by simp
  obtain r' w' where c: "c_create cl ns x w = (r', w')" by fastforce
  have "only_adds (view w) (view w')"
    using create_view [of ns x w] c assms by (auto simp: only_adds_def split: if_splits)
  then show ?thesis
    using g c w by (auto simp: ensure_run only_adds_refl split: sum.splits)
qed

lemma delete_foreign_safe:
  "foreign_safe (view (world s)) (view (world (snd (delete_managed cl kind ns n d s))))"
proof -
  obtain r w where g: "c_get cl ns n (world s) = (r, w)" by fastforce
  have w: "view w = view (world s)" using get_view [of ns n "world s"] g by simp
  obtain r' w' where d: "c_delete cl ns n w = (r', w')" by fastforce
  have "foreign_safe (view w) (view w')" if "r = Inr x" "is_managed x" for x
  proof -
    have "view w (kind, ns, n) = Some (Labels x)"
      using get_found [of ns n "world s" x] g that w by simp
    then show ?thesis
      using delete_view [of ns n w] d that
      by (auto simp: foreign_safe_def managed_label_def is_managed_def)
  qed
  then show ?thesis
    using g d w
    by (auto simp: delete_managed_def go_simps foreign_safe_refl split: sum.splits prod.splits)
qed

end

context reliable_kind_api begin

lemma ensure_missing:
  assumes none: "view (world s) (kind, ns, Name x) = None"
  shows "\<exists>s'. ensure_object cl kind ns (Name x) x f c s = (Ret (Name x), s') \<and> hc s' = hc s
    \<and> view (world s') = (view (world s))((kind, ns, Name x) \<mapsto> Labels x)"
proof -
  obtain r w where g: "c_get cl ns (Name x) (world s) = (r, w)" by fastforce
  have w: "view w = view (world s)" using get_view [of ns "Name x" "world s"] g by simp
  obtain e where r: "r = Inl e"
    using get_found [of ns "Name x" "world s"] g none by (cases r) auto
  obtain y w' where c: "c_create cl ns x w = (Inr y, w')"
    using create_live [of w ns x] none w by (metis prod.collapse)
  show ?thesis
    using g r c w create_done [of ns x w y] by (simp add: ensure_run)
qed

lemma delete_labelled:
  assumes some: "view (world s) (kind, ns, n) = Some l" and l: "managed_label l"
  shows "\<exists>s'. delete_managed cl kind ns n d s = (Ret (), s') \<and> hc s' = hc s
    \<and> view (world s') = (view (world s))((kind, ns, n) := None)"
proof -
  obtain y w where g: "c_get cl ns n (world s) = (Inr y, w)"
    using get_live [OF some] by (metis prod.collapse)
  have w: "view w = view (world s)" using get_view [of ns n "world s"] g by simp
  have y: "is_managed y"
    using get_found [of ns n "world s" y] g some l by (simp add: is_managed_def managed_label_def)
  obtain w' where d: "c_delete cl ns n w = (Inr (), w')"
    using delete_live [of w ns n l] some w by (metis prod.collapse)
  show ?thesis
    using g y d w delete_done [of ns n w "()"] by (simp add: delete_managed_def go_simps)
qed

end

context kind_api begin

lemma ensure_other:
  assumes "q \<noteq> (kind, ns, Name x)"
  shows "view (world (snd (ensure_object cl kind ns n x f c s))) q = view (world s) q"
proof -
  obtain r w where g: "c_get cl ns n (world s) = (r, w)" by fastforce
  obtain r' w' where c: "c_create cl ns x w = (r', w')" by fastforce
  show ?thesis
    using get_view [of ns n "world s"] create_view [of ns x w] g c assms
    by (auto simp: ensure_run split: sum.splits)
qed

lemma delete_other:
  assumes "q \<noteq> (kind, ns, n)"
  shows "view (world (snd (delete_managed cl kind ns n d s))) q = view (world s) q"
proof -
  obtain r w where g: "c_get cl ns n (world s) = (r, w)" by fastforce
  obtain r' w' where c: "c_delete cl ns n w = (r', w')" by fastforce
  show ?thesis
    using get_view [of ns n "world s"] delete_view [of ns n w] g c assms
    by (auto simp: delete_managed_def go_simps split: sum.splits)
qed

end

section \<open>The contract of a kind\<close>

text \<open>
  A kind of object of the controller: the client it goes through, its create and delete
  functions for some parameters \<open>'p\<close> (rules, role, account), the name and namespace the
  parameters give.
\<close>

locale rbac_kind =
  fixes client :: "'w env \<Rightarrow> ('w, 'o object_meta_scheme) kind_client" and kind :: string
    and nm :: "'p \<Rightarrow> string" and ns :: "'p \<Rightarrow> string"
    and mk :: "'p \<Rightarrow> 'o object_meta_scheme"
    and create :: "'w env \<Rightarrow> 'p \<Rightarrow> ('w st, string) go"
    and delete :: "'w env \<Rightarrow> 'p \<Rightarrow> ('w st, unit) go"
    and found :: string and created :: string and deleted :: string
  assumes create_ensures: "create E p = ensure_object (client E) kind (ns p) (nm p) (mk p) found created"
    and delete_checks: "delete E p = delete_managed (client E) kind (ns p) (nm p) deleted"
    and mk_name: "Name (mk p) = nm p"
    and mk_managed: "Labels (mk p) = managed_labels"
begin

lemma managed_mk [simp]: "managed_label (Labels (mk p))"
  by (simp add: mk_managed managed_labels_def managed_label_def)

lemma create_only_adds:
  assumes "kind_api (client E) kind view"
  shows "only_adds (view (world s)) (view (world (snd (create E p s))))"
  unfolding create_ensures by (rule kind_api.ensure_only_adds [OF assms managed_mk])

lemma delete_safe:
  assumes "kind_api (client E) kind view"
  shows "foreign_safe (view (world s)) (view (world (snd (delete E p s))))"
  unfolding delete_checks by (rule kind_api.delete_foreign_safe [OF assms])

lemma delete_other:
  assumes "kind_api (client E) kind view" and "q \<noteq> (kind, ns p, nm p)"
  shows "view (world (snd (delete E p s))) q = view (world s) q"
  unfolding delete_checks by (rule kind_api.delete_other [OF assms])

text \<open>On a reliable server, create makes a missing object and delete then removes it again.\<close>

lemma create_missing:
  assumes "reliable_kind_api (client E) kind view"
    and "view (world s) (kind, ns p, nm p) = None"
  shows "\<exists>s'. create E p s = (Ret (nm p), s') \<and> hc s' = hc s
    \<and> view (world s') = (view (world s))((kind, ns p, nm p) \<mapsto> managed_labels)"
  unfolding create_ensures
  using reliable_kind_api.ensure_missing [OF assms(1), of s "ns p" "mk p"] assms(2)
  by (auto simp: mk_name mk_managed)

lemma delete_present:
  assumes "reliable_kind_api (client E) kind view"
    and "view (world s) (kind, ns p, nm p) = Some managed_labels"
  shows "\<exists>s'. delete E p s = (Ret (), s') \<and> hc s' = hc s
    \<and> view (world s') = (view (world s))((kind, ns p, nm p) := None)"
  unfolding delete_checks
  by (rule reliable_kind_api.delete_labelled [OF assms])
     (simp add: managed_label_def managed_labels_def)

end

interpretation service_account: rbac_kind serviceAccounts "''ServiceAccount''" fst snd
  "\<lambda>(n, ns). mk_service_account n ns" "\<lambda>E (n, ns). createServiceAccount E n ns"
  "\<lambda>E (n, ns). DeleteServiceAccount E n ns"
  "''Existing ServiceAccount found''" "''Successfully Created ServiceAccount''"
  "''Successfully Deleted ServiceAccount''"
  by unfold_locales (auto simp: createServiceAccount_def DeleteServiceAccount_def mk_service_account_def)

interpretation cluster_role: rbac_kind clusterRoles "''ClusterRole''" fst "\<lambda>_. []"
  "\<lambda>(n, rules). mk_role n [] rules" "\<lambda>E (n, rules). createClusterRole E n rules"
  "\<lambda>E (n, rules). DeleteClusterRole E n"
  "''Existing clusterrole found''" "''Successfully Created clusterrole''"
  "''Successfully deleted ClusterRole''"
  by unfold_locales (auto simp: createClusterRole_def DeleteClusterRole_def mk_role_def)

interpretation remedy_cluster_role: rbac_kind clusterRoles "''ClusterRole''" fst "\<lambda>_. []"
  "\<lambda>(n, rules). mk_role n [] rules" "\<lambda>E (n, rules). createRemedyClusterRole E n rules"
  "\<lambda>E (n, rules). DeleteClusterRole E n"
  "''Existing ClusterRole found''" "''Successfully Created ClusterRole''"
  "''Successfully deleted ClusterRole''"
  by unfold_locales (auto simp: createRemedyClusterRole_def DeleteClusterRole_def mk_role_def)

interpretation ns_role: rbac_kind nsRoles "''Role''" fst "\<lambda>(n, ns, rules). ns"
  "\<lambda>(n, ns, rules). mk_role n ns rules" "\<lambda>E (n, ns, rules). createNameSpaceRole E n ns rules"
  "\<lambda>E (n, ns, rules). DeleteNameSpaceRole E n ns"
  "''Existing NamespaceRole found''" "''Successfully Created NamespaceRole''"
  "''Successfully deleted NamespaceRole''"
  by unfold_locales (auto simp: createNameSpaceRole_def DeleteNameSpaceRole_def mk_role_def)

interpretation remedy_ns_role: rbac_kind nsRoles "''Role''" fst "\<lambda>(n, ns, rules). ns"
  "\<lambda>(n, ns, rules). mk_role n ns rules" "\<lambda>E (n, ns, rules). createRemedyNameSpaceRole E n ns rules"
  "\<lambda>E (n, ns, rules). DeleteNameSpaceRole E n ns"
  "''Existing NamespaceRole found''" "''Successfully Created NamespaceRole''"
  "''Successfully deleted NamespaceRole''"
  by unfold_locales (auto simp: createRemedyNameSpaceRole_def DeleteNameSpaceRole_def mk_role_def)

interpretation ns_binding: rbac_kind nsRoleBindings "''RoleBinding''" fst "\<lambda>(n, r, sa, ns). ns"
  "\<lambda>(n, r, sa, ns). mk_ns_binding n r sa ns" "\<lambda>E (n, r, sa, ns). createNameSpaceRoleBinding E n r sa ns"
  "\<lambda>E (n, r, sa, ns). DeleteNameSpaceRoleBinding E n r sa ns"
  "''Existing NamespaceRoleBinding found''" "''Successfully Created NamespaceRoleBinding''"
  "''Successfully deleted NamespaceRoleBinding''"
  by unfold_locales
     (auto simp: createNameSpaceRoleBinding_def DeleteNameSpaceRoleBinding_def mk_ns_binding_def)

interpretation cluster_binding: rbac_kind clusterRoleBindings "''ClusterRoleBinding''" fst "\<lambda>_. []"
  "\<lambda>(n, r, sa, ns). mk_cluster_binding n r sa ns" "\<lambda>E (n, r, sa, ns). createClusterRoleBinding E n r sa ns"
  "\<lambda>E (n, r, sa, ns). DeleteClusterRoleBinding E n r sa ns"
  "''Existing ClusterRoleBinding found''" "''Successfully Created ClusterRoleBinding''"
  "''Successfully deleted ClusterRoleBinding''"
  by unfold_locales
     (auto simp: createClusterRoleBinding_def DeleteClusterRoleBinding_def mk_cluster_binding_def)

context io_rel begin

lemma ev_ensure: "evolves R (ensure_object cl kind n m x f c)"
  unfolding ensure_object_def by (intro ev_rules call_rules io_rules ev_emit) simp_all

lemma ev_delete_managed: "evolves R (delete_managed cl kind n m d)"
  unfolding delete_managed_def by (intro ev_rules call_rules io_rules ev_emit) simp_all

lemmas ev_rbac_objects = ev_ensure ev_delete_managed

end

lemmas rbac_object_defs =
  createServiceAccount_def DeleteServiceAccount_def createClusterRole_def
  createRemedyClusterRole_def DeleteClusterRole_def createNameSpaceRole_def
  createRemedyNameSpaceRole_def DeleteNameSpaceRole_def createNameSpaceRoleBinding_def
  DeleteNameSpaceRoleBinding_def createClusterRoleBinding_def DeleteClusterRoleBinding_def

end
