(* ===== verification/Rbac_Workflow.thy ===== *)
theory Rbac_Workflow imports Rbac_Objects begin

text \<open>
  The RBAC set-up of a workflow (healthcheck_controller.go: the default rules,
  resolveRBACRules, createRBACForWorkflow, deleteRBACForWorkflow). The names of the
  objects follow from the service account; the remedy's account is renamed when it is the
  one of the HealthCheck, so that a remedy never shares, and never deletes, the account
  its HealthCheck runs with.
\<close>

section \<open>Rules\<close>

definition defaultHealthCheckRules :: "policy_rule list" where
  "defaultHealthCheckRules =
    [mk_rule [[]] [''pods'', ''nodes'', ''events'', ''services'', ''configmaps'', ''namespaces'', ''endpoints'']
       [''get'', ''list'', ''watch''],
     mk_rule [''apps''] [''deployments'', ''replicasets'', ''statefulsets'', ''daemonsets'']
       [''get'', ''list'', ''watch''],
     mk_rule [''argoproj.io''] [''workflows''] [''get'', ''list'', ''watch'']]"

definition defaultRemedyRules :: "policy_rule list" where
  "defaultRemedyRules =
    [mk_rule [[]] [''pods'', ''events'', ''services'', ''configmaps'', ''endpoints'']
       [''get'', ''list'', ''watch'', ''create'', ''update'', ''patch'', ''delete''],
     mk_rule [''apps''] [''deployments'', ''replicasets'', ''statefulsets'']
       [''get'', ''list'', ''watch'', ''create'', ''update'', ''patch'', ''delete''],
     mk_rule [''argoproj.io''] [''workflows'']
       [''get'', ''list'', ''watch'', ''create'', ''update'', ''patch'', ''delete'']]"

definition resolveRBACRules :: "policy_rule list option \<Rightarrow> policy_rule list \<Rightarrow> policy_rule list" where
  "resolveRBACRules customRules defaults =
     (case customRules of None \<Rightarrow> defaults | Some rs \<Rightarrow> if length rs > 0 then rs else defaults)"

section \<open>Names\<close>

text \<open>The service account with its namespace, and the names derived from it.\<close>

record rbac_names =
  rnSa :: string
  rnNamespace :: string
  rnClusterRole :: string
  rnClusterRoleBinding :: string
  rnNsRole :: string
  rnNsRoleBinding :: string

definition names_of :: "string \<Rightarrow> string \<Rightarrow> rbac_names" where
  "names_of sa ns = \<lparr>rnSa = sa, rnNamespace = ns, rnClusterRole = sa @ ''-cluster-role'',
     rnClusterRoleBinding = sa @ ''-cluster-role-binding'', rnNsRole = sa @ ''-ns-role'',
     rnNsRoleBinding = sa @ ''-ns-role-binding''\<rparr>"

text \<open>The zero values of the string variables, which stay when there is no remedy.\<close>

definition no_names :: rbac_names where
  "no_names = \<lparr>rnSa = [], rnNamespace = [], rnClusterRole = [], rnClusterRoleBinding = [],
     rnNsRole = [], rnNsRoleBinding = []\<rparr>"

definition set_remedy_account :: "resource_object \<Rightarrow> string \<Rightarrow> health_check_spec \<Rightarrow> health_check_spec" where
  "set_remedy_account rr sa sp =
     sp\<lparr>RemedyWorkflow := RemedyWorkflow sp\<lparr>Resource := Some (rr\<lparr>ServiceAccount := sa\<rparr>)\<rparr>\<rparr>"

text \<open>The account the remedy gets, given the one of the HealthCheck.\<close>

definition remedy_account :: "string \<Rightarrow> resource_object \<Rightarrow> string" where
  "remedy_account hcSa rr = (if hcSa = ServiceAccount rr then hcSa @ ''-remedy'' else ServiceAccount rr)"

definition prepareRemedy :: "string \<Rightarrow> ('w st, rbac_names) go" where
  "prepareRemedy hcSa =
     bindG get_hc (\<lambda>h. let rw = RemedyWorkflow (hcSpec h) in
       if \<not> IsEmpty rw then
         (case Resource rw of
            None \<Rightarrow> thenG (warning_event ''RemedyWorkflow is set but Resource is nil'')
                          (failG (errors_New ''RemedyWorkflow is set but Resource is nil''))
          | Some rr \<Rightarrow>
              if ServiceAccount rr \<noteq> [] then
                thenG (whenG (hcSa = ServiceAccount rr)
                         (mod_spec (set_remedy_account rr (hcSa @ ''-remedy''))))
                      (retG (names_of (remedy_account hcSa rr) (ResNamespace rr)))
              else thenG (warning_event ''ServiceAccount for the RemedyWorkflow is not specified'')
                         (failG (errors_New ''ServiceAccount for the RemedyWorkflow is not specified'')))
       else retG no_names)"

section \<open>createRBACForWorkflow\<close>

definition createClusterLevel :: "'w env \<Rightarrow> string \<Rightarrow> rbac_names \<Rightarrow> rbac_names
    \<Rightarrow> policy_rule list \<Rightarrow> policy_rule list \<Rightarrow> ('w st, unit) go" where
  "createClusterLevel E workFlowType ns rn hcRules remedyRules =
     (if workFlowType \<noteq> remedy then
        thenG (onErrG (createClusterRole E (rnClusterRole ns) hcRules)
                 (\<lambda>_. warning_event ''Error creating ClusterRole for the healthcheck workflow''))
       (thenG (onErrG (createClusterRoleBinding E (rnClusterRoleBinding ns) (rnClusterRole ns) (rnSa ns) (rnNamespace ns))
                 (\<lambda>_. warning_event ''Error creating ClusterRoleBinding for the workflow''))
              (retG ()))
      else
        thenG (onErrG (createRemedyClusterRole E (rnClusterRole rn) remedyRules)
                 (\<lambda>_. warning_event ''Error creating ClusterRole for the remedy workflow''))
       (thenG (onErrG (createClusterRoleBinding E (rnClusterRoleBinding rn) (rnClusterRole rn) (rnSa rn) (rnNamespace rn))
                 (\<lambda>_. warning_event ''Error creating ClusterRoleBinding for the remedy workflow''))
              (retG ())))"

definition createNamespaceLevel :: "'w env \<Rightarrow> string \<Rightarrow> rbac_names \<Rightarrow> rbac_names
    \<Rightarrow> policy_rule list \<Rightarrow> policy_rule list \<Rightarrow> ('w st, unit) go" where
  "createNamespaceLevel E workFlowType ns rn hcRules remedyRules =
     (if workFlowType \<noteq> remedy then
        thenG (onErrG (createNameSpaceRole E (rnNsRole ns) (rnNamespace ns) hcRules)
                 (\<lambda>_. warning_event ''Error creating NamespaceRole for the workflow''))
       (thenG (onErrG (createNameSpaceRoleBinding E (rnNsRoleBinding ns) (rnNsRole ns) (rnSa ns) (rnNamespace ns))
                 (\<lambda>_. warning_event ''Error creating NamespaceRoleBinding for the workflow''))
              (retG ()))
      else
        thenG (onErrG (createRemedyNameSpaceRole E (rnNsRole rn) (rnNamespace rn) remedyRules)
                 (\<lambda>_. warning_event ''Error creating NamespaceRole for the workflow''))
       (thenG (onErrG (createNameSpaceRoleBinding E (rnNsRoleBinding rn) (rnNsRole rn) (rnSa rn) (rnNamespace rn))
                 (\<lambda>_. warning_event ''Error creating NamespaceRoleBinding for the workflow''))
              (retG ())))"

text \<open>What follows the remedy check: the service account, then the objects of the level.\<close>

definition createObjects ::
  "'w env \<Rightarrow> string \<Rightarrow> health_check \<Rightarrow> resource_object \<Rightarrow> rbac_names \<Rightarrow> ('w st, unit) go" where
  "createObjects E workFlowType h res rn =
     (let level = Level (hcSpec h); ns = names_of (ServiceAccount res) (ResNamespace res);
          hcRules = resolveRBACRules (RBACRules (Workflow (hcSpec h))) defaultHealthCheckRules;
          remedyRules = resolveRBACRules (RBACRules (RemedyWorkflow (hcSpec h))) defaultRemedyRules in
      thenG (onErrG (if workFlowType \<noteq> remedy
                     then createServiceAccount E (rnSa ns) (rnNamespace ns)
                     else createServiceAccount E (rnSa rn) (rnNamespace rn))
               (\<lambda>_. warning_event ''Error creating ServiceAccount for the workflow''))
     (if level = healthCheckClusterLevel then createClusterLevel E workFlowType ns rn hcRules remedyRules
      else if level = healthCheckNamespaceLevel then createNamespaceLevel E workFlowType ns rn hcRules remedyRules
      else thenG (warning_event ''level is not set'') (failG (errors_New ''level is not set''))))"

definition createRBACForWorkflow :: "'w env \<Rightarrow> string \<Rightarrow> ('w st, unit) go" where
  "createRBACForWorkflow E workFlowType =
     bindG get_hc (\<lambda>h.
       case Resource (Workflow (hcSpec h)) of
         None \<Rightarrow> panicG ''invalid memory address or nil pointer dereference''
       | Some res \<Rightarrow> bindG (prepareRemedy (ServiceAccount res)) (createObjects E workFlowType h res))"

section \<open>deleteRBACForWorkflow\<close>

definition deleteObjects :: "'w env \<Rightarrow> string \<Rightarrow> rbac_names \<Rightarrow> ('w st, unit) go" where
  "deleteObjects E level rn =
     thenG (onErrG (DeleteServiceAccount E (rnSa rn) (rnNamespace rn))
              (\<lambda>_. warning_event ''Error deleting ServiceAccount for the workflow''))
    (if level = ''cluster'' then
       thenG (onErrG (DeleteClusterRole E (rnClusterRole rn))
                (\<lambda>_. warning_event ''Error deleting ClusterRole for the workflow''))
             (onErrG (DeleteClusterRoleBinding E (rnClusterRoleBinding rn) (rnClusterRole rn) (rnSa rn) (rnNamespace rn))
                (\<lambda>_. warning_event ''Error creating ClusterRoleBinding for the workflow''))
     else if level = ''namespace'' then
       thenG (onErrG (DeleteNameSpaceRole E (rnNsRole rn) (rnNamespace rn))
                (\<lambda>_. warning_event ''Error deleting NamespaceRole for the workflow''))
             (onErrG (DeleteNameSpaceRoleBinding E (rnNsRoleBinding rn) (rnNsRole rn) (rnSa rn) (rnNamespace rn))
                (\<lambda>_. warning_event ''Error deleting NamespaceRole for the workflow''))
     else thenG (warning_event ''level is not set'') (failG (errors_New ''level is not set'')))"

definition deleteRBACForWorkflow :: "'w env \<Rightarrow> ('w st, unit) go" where
  "deleteRBACForWorkflow E =
     bindG get_hc (\<lambda>h.
       case Resource (RemedyWorkflow (hcSpec h)) of
         None \<Rightarrow> retG ()
       | Some rr \<Rightarrow> deleteObjects E (Level (hcSpec h)) (names_of (ServiceAccount rr) (ResNamespace rr)))"

section \<open>Which states they lead to\<close>

text \<open>
  A relation that every single object operation keeps is kept by both functions.
\<close>

locale rbac_rel = ev_rel R for R :: "'w st \<Rightarrow> 'w st \<Rightarrow> bool" +
  fixes E :: "'w env"
  assumes ev_createServiceAccount: "evolves R (createServiceAccount E n ns)"
    and ev_createClusterRole: "evolves R (createClusterRole E n rules)"
    and ev_createRemedyClusterRole: "evolves R (createRemedyClusterRole E n rules)"
    and ev_createClusterRoleBinding: "evolves R (createClusterRoleBinding E n r sa ns)"
    and ev_createNameSpaceRole: "evolves R (createNameSpaceRole E n ns rules)"
    and ev_createRemedyNameSpaceRole: "evolves R (createRemedyNameSpaceRole E n ns rules)"
    and ev_createNameSpaceRoleBinding: "evolves R (createNameSpaceRoleBinding E n r sa ns)"
begin

lemma ev_prepareRemedy [intro]: "evolves R (prepareRemedy sa)"
  unfolding prepareRemedy_def by (intro ev_rules io_rules)

lemma ev_createObjects: "evolves R (createObjects E ty h res rn)"
  unfolding createObjects_def Let_def createClusterLevel_def createNamespaceLevel_def
  by (intro ev_rules io_rules ev_prepareRemedy ev_createServiceAccount ev_createClusterRole
      ev_createRemedyClusterRole ev_createClusterRoleBinding ev_createNameSpaceRole
      ev_createRemedyNameSpaceRole ev_createNameSpaceRoleBinding)

lemma ev_createRBAC [intro]: "evolves R (createRBACForWorkflow E ty)"
  unfolding createRBACForWorkflow_def
  by (intro ev_rules io_rules ev_prepareRemedy ev_createObjects)

end

locale rbac_delete_rel = rbac_rel +
  assumes ev_DeleteServiceAccount: "evolves R (DeleteServiceAccount E n ns)"
    and ev_DeleteClusterRole: "evolves R (DeleteClusterRole E n)"
    and ev_DeleteClusterRoleBinding: "evolves R (DeleteClusterRoleBinding E n r sa ns)"
    and ev_DeleteNameSpaceRole: "evolves R (DeleteNameSpaceRole E n ns)"
    and ev_DeleteNameSpaceRoleBinding: "evolves R (DeleteNameSpaceRoleBinding E n r sa ns)"
begin

lemma ev_deleteRBAC [intro]: "evolves R (deleteRBACForWorkflow E)"
  unfolding deleteRBACForWorkflow_def deleteObjects_def
  by (intro ev_rules io_rules ev_DeleteServiceAccount ev_DeleteClusterRole
      ev_DeleteClusterRoleBinding ev_DeleteNameSpaceRole ev_DeleteNameSpaceRoleBinding)

end

sublocale io_rel \<subseteq> rbac: rbac_delete_rel R E for E
  by unfold_locales (simp_all add: rbac_object_defs ev_rbac_objects)

end
