(* ===== verification/Fake_Cluster.thy ===== *)
theory Fake_Cluster imports Rbac_Objects begin

text \<open>
  One concrete instance of the parameter \<open>env\<close>, on which the hypotheses of the properties
  are shown to hold: an API server that keeps its objects in maps (as the fake clientset
  the controller's own tests use), a clock that advances one second per wait, and a
  backoff timer that gives up after a fixed number of waits. It models no code of the
  repository.
\<close>

record fake =
  fkNow :: time
  fkTicks :: nat
  fkNext :: nat
  fkContent :: gomap
  fkHCs :: "string \<times> string \<rightharpoonup> health_check"
  fkWfs :: "string \<times> string \<rightharpoonup> gomap"
  fkSA :: "string \<times> string \<rightharpoonup> object_meta"
  fkCR :: "string \<times> string \<rightharpoonup> role"
  fkCRB :: "string \<times> string \<rightharpoonup> role_binding"
  fkR :: "string \<times> string \<rightharpoonup> role"
  fkRB :: "string \<times> string \<rightharpoonup> role_binding"

definition not_found :: goerr where
  "not_found = GoErr NotFound ''not found''"

definition fake_kind ::
  "('w \<Rightarrow> (string \<times> string \<rightharpoonup> 'o object_meta_scheme)) \<Rightarrow>
   ((string \<times> string \<rightharpoonup> 'o object_meta_scheme) \<Rightarrow> 'w \<Rightarrow> 'w) \<Rightarrow> ('w, 'o object_meta_scheme) kind_client" where
  "fake_kind g u =
    \<lparr>c_get = (\<lambda>ns n w. case g w (ns, n) of None \<Rightarrow> (Inl not_found, w) | Some x \<Rightarrow> (Inr (x\<lparr>Name := n\<rparr>), w)),
     c_create = (\<lambda>ns x w. if g w (ns, Name x) \<noteq> None then (Inl (GoErr AlreadyExists ''already exists''), w)
                          else (Inr x, u ((g w)((ns, Name x) \<mapsto> x)) w)),
     c_delete = (\<lambda>ns n w. if g w (ns, n) = None then (Inl not_found, w)
                          else (Inr (), u ((g w)((ns, n) := None)) w))\<rparr>"

definition fake_env :: "fake env" where
  "fake_env = \<lparr>
     clock = (\<lambda>w. (fkNow w, w)),
     hc_get = (\<lambda>ns n w. case fkHCs w (ns, n) of None \<Rightarrow> (Inl not_found, w) | Some h \<Rightarrow> (Inr h, w)),
     hc_update = (\<lambda>h w. if fkHCs w (hcNamespace h, hcName h) = None then (Inl not_found, w)
        else (Inr (), w\<lparr>fkHCs := (fkHCs w)((hcNamespace h, hcName h) \<mapsto> h)\<rparr>)),
     hc_status_update = (\<lambda>h w. if fkHCs w (hcNamespace h, hcName h) = None then (Inl not_found, w)
        else (Inr (), w\<lparr>fkHCs := (fkHCs w)((hcNamespace h, hcName h) \<mapsto> h)\<rparr>)),
     wf_create = (\<lambda>x w. let n = wfGenerateName x @ show_nat (fkNext w) in
        (Inr n, w\<lparr>fkNext := Suc (fkNext w), fkWfs := (fkWfs w)((wfNamespaceOf x, n) \<mapsto> fkContent w)\<rparr>)),
     wf_get = (\<lambda>ns n w. case fkWfs w (ns, n) of None \<Rightarrow> (Inl not_found, w) | Some c \<Rightarrow> (Inr c, w)),
     serviceAccounts = fake_kind fkSA (\<lambda>m. fkSA_update (\<lambda>_. m)),
     clusterRoles = fake_kind fkCR (\<lambda>m. fkCR_update (\<lambda>_. m)),
     clusterRoleBindings = fake_kind fkCRB (\<lambda>m. fkCRB_update (\<lambda>_. m)),
     nsRoles = fake_kind fkR (\<lambda>m. fkR_update (\<lambda>_. m)),
     nsRoleBindings = fake_kind fkRB (\<lambda>m. fkRB_update (\<lambda>_. m)),
     conflict_retries = 4,
     ieb_new = (\<lambda>mx mn to f t w. ((0, None), w\<lparr>fkTicks := 3\<rparr>)),
     ieb_next = (\<lambda>i w. case fkTicks w of 0 \<Rightarrow> (Some (errors_New ''timeout''), w)
        | Suc n \<Rightarrow> (None, w\<lparr>fkTicks := n, fkNow := fkNow w + Second\<rparr>)),
     cron_parse = (\<lambda>c. if c = ''@every 60s'' then Inr (\<lambda>t. t + 60 * Second) else Inl (errors_New ''bad cron'')),
     yaml_unmarshal = (\<lambda>t. if t = ''wf'' then Inr (Some [(''spec'', GMap [(''entrypoint'', GString ''start'')])])
        else if t = ''labelled'' then Inr (Some [(''metadata'', GMap [(''labels'', GMap [(''team'', GString ''red'')])]),
             (''spec'', GMap [])])
        else if t = '' '' then Inr None else Inl (errors_New ''bad yaml'')),
     http_get = (\<lambda>b p w. (Inl (errors_New ''no route''), w)),
     parse_float = (\<lambda>t. if t = ''0.25'' then Inr (1 / 4) else Inl (errors_New ''invalid syntax'')),
     sprint_float = (\<lambda>q. ''?''),
     float_to_int = (\<lambda>q. - (2 ^ 63))\<rparr>"

definition fake_view :: "fake \<Rightarrow> view" where
  "fake_view w = (\<lambda>(k, ns, n).
     if k = ''ServiceAccount'' then map_option Labels (fkSA w (ns, n))
     else if k = ''ClusterRole'' then map_option Labels (fkCR w (ns, n))
     else if k = ''ClusterRoleBinding'' then map_option Labels (fkCRB w (ns, n))
     else if k = ''Role'' then map_option Labels (fkR w (ns, n))
     else if k = ''RoleBinding'' then map_option Labels (fkRB w (ns, n)) else None)"

definition fake_world :: fake where
  "fake_world = \<lparr>fkNow = 1000 * Second, fkTicks = 3, fkNext = 0,
     fkContent = [(''status'', GMap [(''phase'', GString succStr)])],
     fkHCs = Map.empty, fkWfs = Map.empty, fkSA = Map.empty, fkCR = Map.empty, fkCRB = Map.empty,
     fkR = Map.empty, fkRB = Map.empty\<rparr>"

definition fake_state :: "fake st" where
  "fake_state = \<lparr>world = fake_world, RepeatTimersByName = Some Map.empty, workflowLabels = None,
     TimerLock = False, pending = Map.empty, next_timer = 0, trace = [], hc = zero_health_check\<rparr>"

text \<open>
  Sample resources: a HealthCheck every minute, and the same with a remedy that names the
  service account of its HealthCheck.
\<close>

definition sample_workflow :: "string \<Rightarrow> string \<Rightarrow> workflow" where
  "sample_workflow nm src = \<lparr>GenerateName = nm,
     Resource = Some \<lparr>ResNamespace = ''health'', ServiceAccount = ''sa'',
                      Source = \<lparr>Inline = Some src, File = None, URL = None\<rparr>\<rparr>,
     Timeout = 30, RBACRules = None\<rparr>"

definition sample_hc :: health_check where
  "sample_hc = \<lparr>hcName = ''hc'', hcNamespace = ''health'', hcUID = ''u1'', hcDeletionTimestamp = None,
     hcSpec = zero_spec\<lparr>RepeatAfterSec := 60, Level := ''cluster'', Workflow := sample_workflow ''wf-'' ''wf''\<rparr>,
     hcStatus = zero_status\<rparr>"

definition sample_remedy_hc :: health_check where
  "sample_remedy_hc = sample_hc\<lparr>hcSpec := (hcSpec sample_hc)\<lparr>RemedyWorkflow := sample_workflow ''fix-'' ''wf''\<rparr>\<rparr>"

text \<open>A HealthCheck whose workflow text does not decode.\<close>

definition torn_hc :: health_check where
  "torn_hc = sample_hc\<lparr>hcSpec := (hcSpec sample_hc)\<lparr>Workflow := sample_workflow ''wf-'' ''torn''\<rparr>\<rparr>"

definition sample_state :: "health_check \<Rightarrow> fake st" where
  "sample_state h = fake_state\<lparr>world := fake_world\<lparr>fkHCs := [(hcNamespace h, hcName h) \<mapsto> h]\<rparr>, hc := h\<rparr>"

lemmas sample_defs = sample_state_def sample_remedy_hc_def sample_hc_def sample_workflow_def
  fake_state_def fake_world_def zero_spec_def zero_status_def zero_workflow_def zero_health_check_def

text \<open>The fake server is a reliable API server for every kind of RBAC object.\<close>

lemma fake_kind_api:
  assumes gu: "\<And>m w. g (u m w) = m"
    and view_k: "\<And>w ns n. view w (k, ns, n) = map_option Labels (g w (ns, n))"
    and view_o: "\<And>m w k' p. k' \<noteq> k \<Longrightarrow> view (u m w) (k', p) = view w (k', p)"
  shows "reliable_kind_api (fake_kind g u) k view"
proof -
  have put: "view (u ((g w)((ns, n) := z)) w) = (view w)((k, ns, n) := map_option Labels z)" for w ns n z
  proof
    fix q :: "string \<times> string \<times> string"
    obtain k' ns' n' where q: "q = (k', ns', n')" by (cases q) auto
    show "view (u ((g w)((ns, n) := z)) w) q = ((view w)((k, ns, n) := map_option Labels z)) q"
      using view_o [of k'] view_k [of _ ns' n'] by (cases "k' = k") (auto simp: q gu)
  qed
  show ?thesis
    by unfold_locales
       (auto simp: fake_kind_def put view_k split: option.splits if_splits)
qed

lemma fake_view_simps:
  "fake_view w (''ServiceAccount'', ns, n) = map_option Labels (fkSA w (ns, n))"
  "fake_view w (''ClusterRole'', ns, n) = map_option Labels (fkCR w (ns, n))"
  "fake_view w (''ClusterRoleBinding'', ns, n) = map_option Labels (fkCRB w (ns, n))"
  "fake_view w (''Role'', ns, n) = map_option Labels (fkR w (ns, n))"
  "fake_view w (''RoleBinding'', ns, n) = map_option Labels (fkRB w (ns, n))"
  by (simp_all add: fake_view_def)

section \<open>The fake server is a reliable API server for all five kinds\<close>

interpretation fake_sa: reliable_kind_api "serviceAccounts fake_env" "''ServiceAccount''" fake_view
  unfolding fake_env_def by simp (rule fake_kind_api; simp add: fake_view_def split_def)

interpretation fake_cr: reliable_kind_api "clusterRoles fake_env" "''ClusterRole''" fake_view
  unfolding fake_env_def by simp (rule fake_kind_api; simp add: fake_view_def split_def)

interpretation fake_crb: reliable_kind_api "clusterRoleBindings fake_env" "''ClusterRoleBinding''" fake_view
  unfolding fake_env_def by simp (rule fake_kind_api; simp add: fake_view_def split_def)

interpretation fake_r: reliable_kind_api "nsRoles fake_env" "''Role''" fake_view
  unfolding fake_env_def by simp (rule fake_kind_api; simp add: fake_view_def split_def)

interpretation fake_rb: reliable_kind_api "nsRoleBindings fake_env" "''RoleBinding''" fake_view
  unfolding fake_env_def by simp (rule fake_kind_api; simp add: fake_view_def split_def)

end
