(* ===== verification/Rbac_Properties.thy ===== *)
theory Rbac_Properties imports Rbac_Workflow Fake_Cluster begin

text \<open>
  What the RBAC functions guarantee, over any API server that keeps the documented
  behaviour (\<open>cluster_api\<close>: the five kinds over one view): creating never changes an
  existing object, cleaning up never touches an object the controller did not create, a
  remedy's clean-up leaves its HealthCheck's own objects alone, and on a server that
  answers every call (\<open>reliable_cluster_api\<close>) the clean-up undoes the set-up exactly.
\<close>

section \<open>The cluster\<close>

locale cluster_api =
  sa: kind_api "serviceAccounts E" "''ServiceAccount''" view +
  cr: kind_api "clusterRoles E" "''ClusterRole''" view +
  crb: kind_api "clusterRoleBindings E" "''ClusterRoleBinding''" view +
  ro: kind_api "nsRoles E" "''Role''" view +
  rb: kind_api "nsRoleBindings E" "''RoleBinding''" view
  for E :: "'w env" and view :: "'w \<Rightarrow> view"

sublocale cluster_api \<subseteq> adds: rbac_rel "\<lambda>s s'. only_adds (view (world s)) (view (world s'))" E
proof unfold_locales
  fix n ns r sa rules
  let ?R = "\<lambda>s s'. only_adds (view (world s)) (view (world s'))"
  show "evolves ?R (createServiceAccount E n ns)"
    using service_account.create_only_adds [of E view _ "(n, ns)"] sa.kind_api_axioms
    by (simp add: evolves_def)
  show "evolves ?R (createClusterRole E n rules)"
    using cluster_role.create_only_adds [of E view _ "(n, rules)"] cr.kind_api_axioms
    by (simp add: evolves_def)
  show "evolves ?R (createRemedyClusterRole E n rules)"
    using remedy_cluster_role.create_only_adds [of E view _ "(n, rules)"] cr.kind_api_axioms
    by (simp add: evolves_def)
  show "evolves ?R (createClusterRoleBinding E n r sa ns)"
    using cluster_binding.create_only_adds [of E view _ "(n, r, sa, ns)"] crb.kind_api_axioms
    by (simp add: evolves_def)
  show "evolves ?R (createNameSpaceRole E n ns rules)"
    using ns_role.create_only_adds [of E view _ "(n, ns, rules)"] ro.kind_api_axioms
    by (simp add: evolves_def)
  show "evolves ?R (createRemedyNameSpaceRole E n ns rules)"
    using remedy_ns_role.create_only_adds [of E view _ "(n, ns, rules)"] ro.kind_api_axioms
    by (simp add: evolves_def)
  show "evolves ?R (createNameSpaceRoleBinding E n r sa ns)"
    using ns_binding.create_only_adds [of E view _ "(n, r, sa, ns)"] rb.kind_api_axioms
    by (simp add: evolves_def)
qed (auto intro: only_adds_refl only_adds_trans)

lemma evolves_mono: "evolves R m \<Longrightarrow> (\<And>s s'. R s s' \<Longrightarrow> R' s s') \<Longrightarrow> evolves R' m"
  by (simp add: evolves_def)

sublocale cluster_api \<subseteq> safe: rbac_delete_rel "\<lambda>s s'. foreign_safe (view (world s)) (view (world s'))" E
proof unfold_locales
  fix n ns r sa rules
  let ?R = "\<lambda>s s'. foreign_safe (view (world s)) (view (world s'))"
  note weak = evolves_mono [OF _ only_adds_foreign_safe]
  show "evolves ?R (createServiceAccount E n ns)"
    by (rule weak [OF adds.ev_createServiceAccount])
  show "evolves ?R (createClusterRole E n rules)"
    by (rule weak [OF adds.ev_createClusterRole])
  show "evolves ?R (createRemedyClusterRole E n rules)"
    by (rule weak [OF adds.ev_createRemedyClusterRole])
  show "evolves ?R (createClusterRoleBinding E n r sa ns)"
    by (rule weak [OF adds.ev_createClusterRoleBinding])
  show "evolves ?R (createNameSpaceRole E n ns rules)"
    by (rule weak [OF adds.ev_createNameSpaceRole])
  show "evolves ?R (createRemedyNameSpaceRole E n ns rules)"
    by (rule weak [OF adds.ev_createRemedyNameSpaceRole])
  show "evolves ?R (createNameSpaceRoleBinding E n r sa ns)"
    by (rule weak [OF adds.ev_createNameSpaceRoleBinding])
  show "evolves ?R (DeleteServiceAccount E n ns)"
    using service_account.delete_safe [of E view _ "(n, ns)"] sa.kind_api_axioms
    by (simp add: evolves_def)
  show "evolves ?R (DeleteClusterRole E n)"
    using cluster_role.delete_safe [of E view _ "(n, rules)"] cr.kind_api_axioms
    by (simp add: evolves_def)
  show "evolves ?R (DeleteClusterRoleBinding E n r sa ns)"
    using cluster_binding.delete_safe [of E view _ "(n, r, sa, ns)"] crb.kind_api_axioms
    by (simp add: evolves_def)
  show "evolves ?R (DeleteNameSpaceRole E n ns)"
    using ns_role.delete_safe [of E view _ "(n, ns, rules)"] ro.kind_api_axioms
    by (simp add: evolves_def)
  show "evolves ?R (DeleteNameSpaceRoleBinding E n r sa ns)"
    using ns_binding.delete_safe [of E view _ "(n, r, sa, ns)"] rb.kind_api_axioms
    by (simp add: evolves_def)
qed (auto intro: foreign_safe_refl foreign_safe_trans)

context cluster_api begin

lemma createRBAC_adds:
  "evolves (\<lambda>s s'. only_adds (view (world s)) (view (world s'))) (createRBACForWorkflow E ty)"
  by (rule adds.ev_createRBAC)

lemma deleteRBAC_safe:
  "evolves (\<lambda>s s'. foreign_safe (view (world s)) (view (world s'))) (deleteRBACForWorkflow E)"
  by (rule safe.ev_deleteRBAC)

end

locale reliable_cluster_api =
  sa: reliable_kind_api "serviceAccounts E" "''ServiceAccount''" view +
  cr: reliable_kind_api "clusterRoles E" "''ClusterRole''" view +
  crb: reliable_kind_api "clusterRoleBindings E" "''ClusterRoleBinding''" view +
  ro: reliable_kind_api "nsRoles E" "''Role''" view +
  rb: reliable_kind_api "nsRoleBindings E" "''RoleBinding''" view
  for E :: "'w env" and view :: "'w \<Rightarrow> view"

sublocale reliable_cluster_api \<subseteq> cluster_api E view
  by unfold_locales

interpretation fake_cluster: reliable_cluster_api fake_env fake_view
  by unfold_locales

section \<open>What stays as it is\<close>

text \<open>The object operations do not change the HealthCheck in hand.\<close>

lemma ensure_keeps_hc: "evolves (\<lambda>s s'. hc s' = hc s) (ensure_object cl k ns n x f c)"
  and delete_keeps_hc: "evolves (\<lambda>s s'. hc s' = hc s) (delete_managed cl k ns n d)"
  by (auto simp: evolves_def ensure_object_def delete_managed_def go_simps split: prod.splits sum.splits)

lemma event_keeps_hc: "evolves (\<lambda>s s'. hc s' = hc s) (event ty re msg)"
  by (simp add: evolves_def prim_run)

text \<open>What the remedy's account is after \<open>prepareRemedy\<close>, and that it is not the HealthCheck's.\<close>

definition with_remedy_account :: "string \<Rightarrow> health_check \<Rightarrow> health_check" where
  "with_remedy_account sa h =
     (case Resource (RemedyWorkflow (hcSpec h)) of None \<Rightarrow> h
      | Some rr \<Rightarrow> if sa = ServiceAccount rr
                  then h\<lparr>hcSpec := set_remedy_account rr (sa @ ''-remedy'') (hcSpec h)\<rparr> else h)"

lemma prepareRemedy_run:
  assumes "\<not> IsEmpty (RemedyWorkflow (hcSpec (hc s)))"
    and "Resource (RemedyWorkflow (hcSpec (hc s))) = Some rr" and "ServiceAccount rr \<noteq> []"
  shows "prepareRemedy sa s = (Ret (names_of (remedy_account sa rr) (ResNamespace rr)),
     s\<lparr>hc := with_remedy_account sa (hc s)\<rparr>)"
  using assms by (auto simp: prepareRemedy_def with_remedy_account_def go_simps Let_def)

lemma remedy_account_fresh: "remedy_account sa rr \<noteq> sa"
  by (simp add: remedy_account_def)

text \<open>A set-up that returns has found a remedy with an account, and leaves it renamed.\<close>

lemma level_keeps_hc:
  "evolves (\<lambda>s s'. hc s' = hc s) (createClusterLevel E ty ns rn r1 r2)"
  "evolves (\<lambda>s s'. hc s' = hc s) (createNamespaceLevel E ty ns rn r1 r2)"
  unfolding createClusterLevel_def createNamespaceLevel_def rbac_object_defs
  by (intro keep_rules ensure_keeps_hc event_keeps_hc)+

lemma createObjects_keeps_hc: "evolves (\<lambda>s s'. hc s' = hc s) (createObjects E ty h res rn)"
  unfolding createObjects_def Let_def createServiceAccount_def
  by (intro keep_rules ensure_keeps_hc event_keeps_hc level_keeps_hc)

lemma createRBAC_Ret:
  assumes run: "createRBACForWorkflow E ty s = (Ret u, s1)"
    and res: "Resource (Workflow (hcSpec (hc s))) = Some res"
    and ne: "\<not> IsEmpty (RemedyWorkflow (hcSpec (hc s)))"
  shows "\<exists>rr. Resource (RemedyWorkflow (hcSpec (hc s))) = Some rr \<and> ServiceAccount rr \<noteq> []
    \<and> hc s1 = with_remedy_account (ServiceAccount res) (hc s)"
proof -
  let ?sa = "ServiceAccount res"
  obtain rr where rr: "Resource (RemedyWorkflow (hcSpec (hc s))) = Some rr" "ServiceAccount rr \<noteq> []"
    using run res ne
    by (cases "Resource (RemedyWorkflow (hcSpec (hc s)))")
       (auto simp: createRBACForWorkflow_def prepareRemedy_def go_simps Let_def split: if_splits)
  let ?s' = "s\<lparr>hc := with_remedy_account ?sa (hc s)\<rparr>"
  have "createObjects E ty (hc s) res (names_of (remedy_account ?sa rr) (ResNamespace rr)) ?s' = (Ret u, s1)"
    using run by (simp add: createRBACForWorkflow_def go_simps res prepareRemedy_run [OF ne rr])
  then have "hc s1 = hc ?s'" by (rule evolvesD [OF createObjects_keeps_hc])
  then show ?thesis using rr by simp
qed

text \<open>The keys of the objects a service account's workflow uses, in any namespace.\<close>

definition own_key :: "string \<Rightarrow> string \<times> string \<times> string \<Rightarrow> bool" where
  "own_key sa q = (case q of (kind, ns, n) \<Rightarrow>
     (kind, n) \<in> {(''ServiceAccount'', sa), (''ClusterRole'', sa @ ''-cluster-role''),
       (''ClusterRoleBinding'', sa @ ''-cluster-role-binding''), (''Role'', sa @ ''-ns-role''),
       (''RoleBinding'', sa @ ''-ns-role-binding'')})"

context cluster_api begin

lemma delete_objects_other:
  "\<not> own_key sa q \<Longrightarrow> evolves (\<lambda>s s'. view (world s') q = view (world s) q) (DeleteServiceAccount E sa ns)"
  "\<not> own_key sa q \<Longrightarrow> evolves (\<lambda>s s'. view (world s') q = view (world s) q) (DeleteClusterRole E (sa @ ''-cluster-role''))"
  "\<not> own_key sa q \<Longrightarrow> evolves (\<lambda>s s'. view (world s') q = view (world s) q)
     (DeleteClusterRoleBinding E (sa @ ''-cluster-role-binding'') r a ns)"
  "\<not> own_key sa q \<Longrightarrow> evolves (\<lambda>s s'. view (world s') q = view (world s) q) (DeleteNameSpaceRole E (sa @ ''-ns-role'') ns)"
  "\<not> own_key sa q \<Longrightarrow> evolves (\<lambda>s s'. view (world s') q = view (world s) q)
     (DeleteNameSpaceRoleBinding E (sa @ ''-ns-role-binding'') r a ns)"
  by (auto simp: evolves_def own_key_def rbac_object_defs intro!: sa.delete_other cr.delete_other
      crb.delete_other ro.delete_other rb.delete_other)

lemma event_keeps_view: "evolves (\<lambda>s s'. view (world s') q = view (world s) q) (event ty re msg)"
  by (simp add: evolves_def prim_run)

lemma deleteObjects_other:
  assumes "\<not> own_key sa q"
  shows "evolves (\<lambda>s s'. view (world s') q = view (world s) q) (deleteObjects E level (names_of sa ns))"
  unfolding deleteObjects_def names_of_def rbac_names.simps
  by (intro keep_rules delete_objects_other event_keeps_view assms)

lemma deleteRBAC_other:
  assumes "Resource (RemedyWorkflow (hcSpec (hc s))) = Some rr" and "\<not> own_key (ServiceAccount rr) q"
  shows "view (world (snd (deleteRBACForWorkflow E s))) q = view (world s) q"
  using evolvesD_snd [OF deleteObjects_other [OF assms(2)]] assms(1)
  by (simp add: deleteRBACForWorkflow_def go_simps)

end

section \<open>Set-up and clean-up on a reliable server\<close>

text \<open>The three keys a remedy uses at a level.\<close>

definition remedy_keys :: "string \<Rightarrow> string \<Rightarrow> string \<Rightarrow> (string \<times> string \<times> string) list" where
  "remedy_keys level sa ns = (''ServiceAccount'', ns, sa) #
     (if level = healthCheckClusterLevel
      then [(''ClusterRole'', [], sa @ ''-cluster-role''), (''ClusterRoleBinding'', [], sa @ ''-cluster-role-binding'')]
      else [(''Role'', ns, sa @ ''-ns-role''), (''RoleBinding'', ns, sa @ ''-ns-role-binding'')])"

context reliable_cluster_api begin

lemma remedy_setup:
  assumes none: "\<forall>q \<in> set (remedy_keys (Level (hcSpec h)) sa ns). view (world s) q = None"
    and level: "Level (hcSpec h) \<in> {healthCheckClusterLevel, healthCheckNamespaceLevel}"
  shows "\<exists>s'. createObjects E remedy h res (names_of sa ns) s = (Ret (), s') \<and> hc s' = hc s
    \<and> view (world s') = (\<lambda>q. if q \<in> set (remedy_keys (Level (hcSpec h)) sa ns) then Some managed_labels
                            else view (world s) q)"
proof -
  let ?rules = "resolveRBACRules (RBACRules (RemedyWorkflow (hcSpec h))) defaultRemedyRules"
  obtain s1 where s1: "createServiceAccount E sa ns s = (Ret sa, s1)" "hc s1 = hc s"
    "view (world s1) = (view (world s))((''ServiceAccount'', ns, sa) \<mapsto> managed_labels)"
    using service_account.create_missing [of E view s "(sa, ns)"] sa.reliable_kind_api_axioms none
    by (auto simp: remedy_keys_def)
  show ?thesis
  proof (cases "Level (hcSpec h) = healthCheckClusterLevel")
    case True
    let ?r = "sa @ ''-cluster-role''" and ?b = "sa @ ''-cluster-role-binding''"
    obtain s2 where s2: "createRemedyClusterRole E ?r ?rules s1 = (Ret ?r, s2)" "hc s2 = hc s1"
      "view (world s2) = (view (world s1))((''ClusterRole'', [], ?r) \<mapsto> managed_labels)"
      using remedy_cluster_role.create_missing [of E view s1 "(?r, ?rules)"] cr.reliable_kind_api_axioms none True
      by (auto simp: remedy_keys_def s1)
    obtain s3 where s3: "createClusterRoleBinding E ?b ?r sa ns s2 = (Ret ?b, s3)" "hc s3 = hc s2"
      "view (world s3) = (view (world s2))((''ClusterRoleBinding'', [], ?b) \<mapsto> managed_labels)"
      using cluster_binding.create_missing [of E view s2 "(?b, ?r, sa, ns)"] crb.reliable_kind_api_axioms none True
      by (auto simp: remedy_keys_def s1 s2)
    show ?thesis
      using True s1 s2 s3
      by (auto simp: createObjects_def createClusterLevel_def names_of_def go_simps remedy_keys_def Let_def)
  next
    case False
    let ?r = "sa @ ''-ns-role''" and ?b = "sa @ ''-ns-role-binding''"
    obtain s2 where s2: "createRemedyNameSpaceRole E ?r ns ?rules s1 = (Ret ?r, s2)" "hc s2 = hc s1"
      "view (world s2) = (view (world s1))((''Role'', ns, ?r) \<mapsto> managed_labels)"
      using remedy_ns_role.create_missing [of E view s1 "(?r, ns, ?rules)"] ro.reliable_kind_api_axioms none False
      by (auto simp: remedy_keys_def s1)
    obtain s3 where s3: "createNameSpaceRoleBinding E ?b ?r sa ns s2 = (Ret ?b, s3)" "hc s3 = hc s2"
      "view (world s3) = (view (world s2))((''RoleBinding'', ns, ?b) \<mapsto> managed_labels)"
      using ns_binding.create_missing [of E view s2 "(?b, ?r, sa, ns)"] rb.reliable_kind_api_axioms none False
      by (auto simp: remedy_keys_def s1 s2)
    show ?thesis
      using False level s1 s2 s3
      by (auto simp: createObjects_def createNamespaceLevel_def names_of_def go_simps remedy_keys_def Let_def)
  qed
qed

lemma remedy_cleanup:
  assumes some: "\<forall>q \<in> set (remedy_keys level sa ns). view (world s) q = Some managed_labels"
    and level: "level \<in> {healthCheckClusterLevel, healthCheckNamespaceLevel}"
  shows "\<exists>s'. deleteObjects E level (names_of sa ns) s = (Ret (), s') \<and> hc s' = hc s
    \<and> view (world s') = (\<lambda>q. if q \<in> set (remedy_keys level sa ns) then None else view (world s) q)"
proof -
  obtain s1 where s1: "DeleteServiceAccount E sa ns s = (Ret (), s1)" "hc s1 = hc s"
    "view (world s1) = (view (world s))((''ServiceAccount'', ns, sa) := None)"
    using service_account.delete_present [of E view s "(sa, ns)"] sa.reliable_kind_api_axioms some
    by (auto simp: remedy_keys_def)
  show ?thesis
  proof (cases "level = healthCheckClusterLevel")
    case True
    let ?r = "sa @ ''-cluster-role''" and ?b = "sa @ ''-cluster-role-binding''"
    obtain s2 where s2: "DeleteClusterRole E ?r s1 = (Ret (), s2)" "hc s2 = hc s1"
      "view (world s2) = (view (world s1))((''ClusterRole'', [], ?r) := None)"
      using cluster_role.delete_present [of E view s1 "(?r, [])"] cr.reliable_kind_api_axioms some True
      by (auto simp: remedy_keys_def s1)
    obtain s3 where s3: "DeleteClusterRoleBinding E ?b ?r sa ns s2 = (Ret (), s3)" "hc s3 = hc s2"
      "view (world s3) = (view (world s2))((''ClusterRoleBinding'', [], ?b) := None)"
      using cluster_binding.delete_present [of E view s2 "(?b, ?r, sa, ns)"] crb.reliable_kind_api_axioms some True
      by (auto simp: remedy_keys_def s1 s2)
    show ?thesis
      using True s1 s2 s3
      by (auto simp: deleteObjects_def names_of_def go_simps remedy_keys_def healthCheckClusterLevel_def)
  next
    case False
    then have ns: "level = ''namespace''" "level \<noteq> ''cluster''"
      using level by (auto simp: healthCheckClusterLevel_def healthCheckNamespaceLevel_def)
    let ?r = "sa @ ''-ns-role''" and ?b = "sa @ ''-ns-role-binding''"
    obtain s2 where s2: "DeleteNameSpaceRole E ?r ns s1 = (Ret (), s2)" "hc s2 = hc s1"
      "view (world s2) = (view (world s1))((''Role'', ns, ?r) := None)"
      using ns_role.delete_present [of E view s1 "(?r, ns, [])"] ro.reliable_kind_api_axioms some False
      by (auto simp: remedy_keys_def s1)
    obtain s3 where s3: "DeleteNameSpaceRoleBinding E ?b ?r sa ns s2 = (Ret (), s3)" "hc s3 = hc s2"
      "view (world s3) = (view (world s2))((''RoleBinding'', ns, ?b) := None)"
      using ns_binding.delete_present [of E view s2 "(?b, ?r, sa, ns)"] rb.reliable_kind_api_axioms some False
      by (auto simp: remedy_keys_def s1 s2)
    show ?thesis
      using False ns s1 s2 s3
      by (auto simp: deleteObjects_def names_of_def go_simps remedy_keys_def)
  qed
qed

end

section \<open>A set-up on the sample cluster\<close>

lemma sample_setup:
  "fst (createRBACForWorkflow fake_env hcKind (sample_state sample_remedy_hc)) = Ret ()"
  by (simp add: createRBACForWorkflow_def prepareRemedy_def createObjects_def createClusterLevel_def
      rbac_object_defs ensure_object_def names_of_def go_simps sample_defs fake_env_def fake_kind_def
      IsEmpty_def healthCheckClusterLevel_def Let_def not_found_def set_remedy_account_def remedy_account_def
      mk_service_account_def mk_role_def mk_cluster_binding_def)

section \<open>Properties\<close>

text \<open>
  C20: setting up the RBAC of a workflow, for the HealthCheck or for its remedy, at any
  level, with any outcome (errors half way included), never changes or removes an object
  that exists in the cluster: it only adds objects, and every object it adds carries the
  controller's managed-by label.
\<close>

theorem create_rbac_only_adds:
  assumes "cluster_api E view"
  shows "\<forall>q. let v = view (world s); v' = view (world (snd (createRBACForWorkflow E ty s))) in
    v' q = v q \<or> (v q = None \<and> (\<exists>l. v' q = Some l \<and> l WfManagedByLabelKey = Some WfManagedByValue))"
  using evolvesD_snd [OF cluster_api.createRBAC_adds [OF assms], of s ty]
  by (simp add: only_adds_def managed_label_def Let_def)

theorem create_rbac_only_adds_witness:
  "fake_view (world (snd (createRBACForWorkflow fake_env hcKind
      ((sample_state sample_hc)\<lparr>world := fake_world\<lparr>fkSA := [(''health'', ''sa'') \<mapsto>
         \<lparr>Name = ''sa'', Namespace = ''health'', Labels = Map.empty\<rparr>]\<rparr>\<rparr>))))
    (''ServiceAccount'', ''health'', ''sa'') = Some Map.empty"
proof -
  let ?s = "(sample_state sample_hc)\<lparr>world := fake_world\<lparr>fkSA := [(''health'', ''sa'') \<mapsto>
         \<lparr>Name = ''sa'', Namespace = ''health'', Labels = Map.empty\<rparr>]\<rparr>\<rparr>"
  have "fake_view (world ?s) (''ServiceAccount'', ''health'', ''sa'') = Some Map.empty"
    by (simp add: fake_view_simps)
  then show ?thesis
    using spec [OF create_rbac_only_adds [OF fake_cluster.cluster_api_axioms, of ?s hcKind],
        of "(''ServiceAccount'', ''health'', ''sa'')"]
    by (simp add: Let_def)
qed

text \<open>
  C17: cleaning up after a remedy never changes or removes an object that does not carry
  the controller's managed-by label, whatever its name and whatever the server answers.
\<close>

theorem rbac_cleanup_spares_foreign:
  assumes "cluster_api E view"
    and "view (world s) q = Some l" and "l WfManagedByLabelKey \<noteq> Some WfManagedByValue"
  shows "view (world (snd (deleteRBACForWorkflow E s))) q = Some l"
  using evolvesD_snd [OF cluster_api.deleteRBAC_safe [OF assms(1)], of s]
    assms(2,3)
  unfolding foreign_safe_def managed_label_def by blast

theorem rbac_cleanup_spares_foreign_witness:
  "fake_view (world (snd (deleteRBACForWorkflow fake_env
      ((sample_state sample_remedy_hc)\<lparr>world := fake_world\<lparr>fkSA := [(''health'', ''sa'') \<mapsto>
         \<lparr>Name = ''sa'', Namespace = ''health'', Labels = Map.empty\<rparr>]\<rparr>\<rparr>))))
    (''ServiceAccount'', ''health'', ''sa'') = Some Map.empty"
  by (rule rbac_cleanup_spares_foreign [OF fake_cluster.cluster_api_axioms])
     (simp_all add: fake_view_simps)

text \<open>
  C19: once a HealthCheck with a remedy has been set up, cleaning up after the remedy
  leaves every object that belongs to the HealthCheck's own service account (the account,
  its cluster role and binding, its role and binding, in any namespace) exactly as it was,
  even if the resource gives both workflows the same account.
\<close>

theorem remedy_cleanup_spares_healthcheck:
  assumes api: "cluster_api E view"
    and res: "Resource (Workflow (hcSpec (hc s))) = Some res"
    and ne: "\<not> IsEmpty (RemedyWorkflow (hcSpec (hc s)))"
    and created: "createRBACForWorkflow E ty s = (Ret u, s1)"
    and own: "own_key (ServiceAccount res) q"
  shows "view (world (snd (deleteRBACForWorkflow E s1))) q = view (world s1) q"
proof -
  obtain rr where rr: "Resource (RemedyWorkflow (hcSpec (hc s))) = Some rr"
    and hc1: "hc s1 = with_remedy_account (ServiceAccount res) (hc s)"
    using createRBAC_Ret [OF created res ne] by blast
  have "Resource (RemedyWorkflow (hcSpec (hc s1))) = Some (rr\<lparr>ServiceAccount := remedy_account (ServiceAccount res) rr\<rparr>)"
    by (simp add: hc1 with_remedy_account_def rr set_remedy_account_def remedy_account_def)
  moreover have "\<not> own_key (remedy_account (ServiceAccount res) rr) q"
    using own remedy_account_fresh [of "ServiceAccount res" rr]
    by (auto simp: own_key_def split: prod.splits)
  ultimately show ?thesis
    by (intro cluster_api.deleteRBAC_other [OF api]) auto
qed

theorem remedy_cleanup_spares_healthcheck_witness:
  "\<exists>s1. createRBACForWorkflow fake_env hcKind (sample_state sample_remedy_hc) = (Ret (), s1)
    \<and> fake_view (world (snd (deleteRBACForWorkflow fake_env s1))) (''ServiceAccount'', ''health'', ''sa'')
      = fake_view (world s1) (''ServiceAccount'', ''health'', ''sa'')"
proof -
  obtain s1 where s1: "createRBACForWorkflow fake_env hcKind (sample_state sample_remedy_hc) = (Ret (), s1)"
    using sample_setup by (metis prod.collapse)
  have "own_key ''sa'' (''ServiceAccount'', ''health'', ''sa'')"
    by (simp add: own_key_def)
  then show ?thesis
    using s1 remedy_cleanup_spares_healthcheck [OF fake_cluster.cluster_api_axioms _ _ s1]
    by (simp add: sample_defs IsEmpty_def)
qed

text \<open>
  C18: on a server that answers, if none of the remedy's objects exists yet, setting up the
  remedy succeeds and creates all three objects of the level with the managed-by label, and
  cleaning up afterwards succeeds and restores the cluster exactly as it was before.
\<close>

theorem remedy_cleanup_undoes_setup:
  assumes api: "reliable_cluster_api E view"
    and res: "Resource (Workflow (hcSpec (hc s))) = Some res"
    and rr: "Resource (RemedyWorkflow (hcSpec (hc s))) = Some rr" "ServiceAccount rr \<noteq> []"
    and level: "Level (hcSpec (hc s)) = ''cluster'' \<or> Level (hcSpec (hc s)) = ''namespace''"
    and none: "\<forall>q \<in> set (remedy_keys (Level (hcSpec (hc s))) (remedy_account (ServiceAccount res) rr) (ResNamespace rr)).
      view (world s) q = None"
  shows "\<exists>s1 s2. createRBACForWorkflow E remedy s = (Ret (), s1)
    \<and> deleteRBACForWorkflow E s1 = (Ret (), s2) \<and> view (world s2) = view (world s)
    \<and> (\<forall>q \<in> set (remedy_keys (Level (hcSpec (hc s))) (remedy_account (ServiceAccount res) rr) (ResNamespace rr)).
        view (world s1) q = Some managed_labels)"
proof -
  let ?sa = "ServiceAccount res"
  let ?ra = "remedy_account ?sa rr" and ?ns = "ResNamespace rr" and ?lv = "Level (hcSpec (hc s))"
  let ?s' = "s\<lparr>hc := with_remedy_account ?sa (hc s)\<rparr>"
  have lv: "?lv \<in> {healthCheckClusterLevel, healthCheckNamespaceLevel}"
    using level by (simp add: healthCheckClusterLevel_def healthCheckNamespaceLevel_def)
  have ne: "\<not> IsEmpty (RemedyWorkflow (hcSpec (hc s)))"
    using rr by (auto simp: IsEmpty_def)
  obtain s1 where s1: "createObjects E remedy (hc s) res (names_of ?ra ?ns) ?s' = (Ret (), s1)" "hc s1 = hc ?s'"
    "view (world s1) = (\<lambda>q. if q \<in> set (remedy_keys ?lv ?ra ?ns) then Some managed_labels else view (world s) q)"
    using reliable_cluster_api.remedy_setup [OF api, of "hc s" ?ra ?ns ?s' res] none lv
    by (auto cong: if_cong)
  obtain s2 where s2: "deleteObjects E ?lv (names_of ?ra ?ns) s1 = (Ret (), s2)"
    "view (world s2) = (\<lambda>q. if q \<in> set (remedy_keys ?lv ?ra ?ns) then None else view (world s1) q)"
    using reliable_cluster_api.remedy_cleanup [OF api, of ?lv ?ra ?ns s1] lv by (auto simp: s1(3))
  have "createRBACForWorkflow E remedy s = (Ret (), s1)"
    by (simp add: createRBACForWorkflow_def go_simps res prepareRemedy_run [OF ne rr] s1)
  moreover have "deleteRBACForWorkflow E s1 = (Ret (), s2)"
    using s2(1) by (auto simp: deleteRBACForWorkflow_def go_simps s1(2) with_remedy_account_def rr
        set_remedy_account_def remedy_account_def)
  moreover have "view (world s2) = view (world s)"
    using none by (auto simp: s2(2) s1(3) fun_eq_iff)
  ultimately show ?thesis using s1(3) by auto
qed

theorem remedy_cleanup_undoes_setup_witness:
  "\<exists>s1 s2. createRBACForWorkflow fake_env remedy (sample_state sample_remedy_hc) = (Ret (), s1)
    \<and> deleteRBACForWorkflow fake_env s1 = (Ret (), s2)
    \<and> fake_view (world s2) = fake_view (world (sample_state sample_remedy_hc))
    \<and> fake_view (world s1) (''ServiceAccount'', ''health'', ''sa-remedy'') = Some managed_labels"
proof -
  let ?rr = "\<lparr>ResNamespace = ''health'', ServiceAccount = ''sa'',
     Source = \<lparr>Inline = Some ''wf'', File = None, URL = None\<rparr>\<rparr>"
  show ?thesis
    using remedy_cleanup_undoes_setup [OF fake_cluster.reliable_cluster_api_axioms,
        of "sample_state sample_remedy_hc" ?rr ?rr]
    by (simp add: sample_defs remedy_keys_def remedy_account_def healthCheckClusterLevel_def fake_view_simps) blast
qed

text \<open>
  The RBAC set-up succeeds only for the two levels the code knows, written in lower
  case, and only for a remedy that names a resource and a service account; in every other
  case it is an error or a panic. (The README writes the levels as Namespace and Cluster,
  and its sample resources leave the level out: those HealthChecks never run.)
\<close>

theorem create_rbac_needs_level:
  assumes "createRBACForWorkflow E ty s = (Ret u, s')"
  shows "(Level (hcSpec (hc s)) = ''cluster'' \<or> Level (hcSpec (hc s)) = ''namespace'')
    \<and> Resource (Workflow (hcSpec (hc s))) \<noteq> None
    \<and> (IsEmpty (RemedyWorkflow (hcSpec (hc s))) \<or>
        (\<exists>rr. Resource (RemedyWorkflow (hcSpec (hc s))) = Some rr \<and> ServiceAccount rr \<noteq> []))"
proof -
  obtain res where res: "Resource (Workflow (hcSpec (hc s))) = Some res"
    using assms by (cases "Resource (Workflow (hcSpec (hc s)))")
      (auto simp: createRBACForWorkflow_def go_simps)
  have "Level (hcSpec (hc s)) = healthCheckClusterLevel \<or> Level (hcSpec (hc s)) = healthCheckNamespaceLevel"
  proof (rule ccontr)
    assume no: "\<not> ?thesis"
    have "fst (createObjects E ty (hc s) res rn t) \<noteq> Ret u" for rn t
      using no by (auto simp: createObjects_def Let_def go_simps split: prod.splits outcome.splits)
    then show False
      using assms res
      by (auto simp: createRBACForWorkflow_def go_simps split: prod.splits outcome.splits) (metis fst_conv)
  qed
  then show ?thesis
    using createRBAC_Ret [OF assms res] res
    by (auto simp: healthCheckClusterLevel_def healthCheckNamespaceLevel_def)
qed

theorem create_rbac_needs_level_witness:
  "Level (hcSpec (hc (sample_state sample_remedy_hc))) = ''cluster''
   \<and> (\<exists>rr. Resource (RemedyWorkflow (hcSpec (hc (sample_state sample_remedy_hc)))) = Some rr \<and> ServiceAccount rr \<noteq> [])"
proof -
  obtain s1 where "createRBACForWorkflow fake_env hcKind (sample_state sample_remedy_hc) = (Ret (), s1)"
    using sample_setup by (metis prod.collapse)
  from create_rbac_needs_level [OF this] show ?thesis
    by (simp add: sample_defs IsEmpty_def)
qed

text \<open>
  Without custom rules, or with an empty list of them, a HealthCheck's role grants
  read verbs only; a remedy's role adds the write verbs but reaches neither RBAC objects nor
  secrets, and uses no wildcard; custom rules are used as they are, replacing the defaults.
\<close>

theorem default_rules_least_privilege:
  "(\<forall>c. (c = None \<or> c = Some []) \<longrightarrow>
      (\<forall>r \<in> set (resolveRBACRules c defaultHealthCheckRules). set (Verbs r) = {''get'', ''list'', ''watch''})
    \<and> (\<forall>r \<in> set (resolveRBACRules c defaultRemedyRules).
        ''rbac.authorization.k8s.io'' \<notin> set (APIGroups r) \<and> ''secrets'' \<notin> set (Resources r)
        \<and> ''*'' \<notin> set (APIGroups r) \<union> set (Resources r) \<union> set (Verbs r)))
   \<and> (\<forall>r rs d. resolveRBACRules (Some (r # rs)) d = r # rs)"
  by (auto simp: resolveRBACRules_def defaultHealthCheckRules_def defaultRemedyRules_def mk_rule_def)

theorem default_rules_least_privilege_witness:
  "set (Verbs (hd (resolveRBACRules (Some []) defaultHealthCheckRules))) = {''get'', ''list'', ''watch''}
   \<and> ''secrets'' \<notin> set (Resources (hd (resolveRBACRules None defaultRemedyRules)))"
proof -
  have "hd (resolveRBACRules (Some []) defaultHealthCheckRules) \<in> set (resolveRBACRules (Some []) defaultHealthCheckRules)"
    "hd (resolveRBACRules None defaultRemedyRules) \<in> set (resolveRBACRules None defaultRemedyRules)"
    by (simp_all add: resolveRBACRules_def defaultHealthCheckRules_def defaultRemedyRules_def)
  then show ?thesis using default_rules_least_privilege by blast
qed

end
