(* ===== verification/Backoff.thy ===== *)
theory Backoff imports Fake_Cluster begin

text \<open>
  The parameters of the polling timer (healthcheck_controller.go, computeBackoffParams, and
  the same computation inlined at the start of watchRemedyWorkflow). Seconds become
  nanoseconds in an int64, so the multiplication may wrap.
\<close>

definition seconds :: "int \<Rightarrow> duration" where
  "seconds n = wrap64 (wrap64 n * Second)"

text \<open>A share of the timeout, at least one second where it comes out as nothing.\<close>

definition timeout_share :: "int \<Rightarrow> int \<Rightarrow> duration" where
  "timeout_share timeout part =
     (let d = seconds (go_div timeout part) in if d \<le> 0 then Second else d)"

definition backoffFactor :: "'w env \<Rightarrow> string \<Rightarrow> rat" where
  "backoffFactor E t = (if t \<noteq> [] then (case parse_float E t of Inl e \<Rightarrow> 1 / 2 | Inr val \<Rightarrow> val) else 1 / 2)"

definition computeBackoffParams :: "'w env \<Rightarrow> health_check \<Rightarrow> duration \<times> duration \<times> rat \<times> duration" where
  "computeBackoffParams E h =
     (let sp = hcSpec h; to = Timeout (Workflow sp);
          maxTime = (if BackoffMax sp = 0 then timeout_share to 2 else seconds (BackoffMax sp));
          minTime = (if BackoffMin sp = 0 then timeout_share to 60 else seconds (BackoffMin sp))
      in (maxTime, minTime, backoffFactor E (BackoffFactor sp), seconds to))"

definition remedyBackoffParams :: "health_check \<Rightarrow> duration \<times> duration \<times> duration" where
  "remedyBackoffParams h =
     (let to = Timeout (Workflow (hcSpec h)) in (timeout_share to 2, timeout_share to 60, seconds to))"

section \<open>Bounds\<close>

text \<open>\<open>max_seconds\<close>: the seconds that fit a \<open>time.Duration\<close>.\<close>

definition max_seconds :: int where
  "max_seconds = 9223372036"

lemma seconds_exact: "0 \<le> n \<Longrightarrow> n \<le> max_seconds \<Longrightarrow> seconds n = n * Second"
  by (simp add: seconds_def max_seconds_def Second_def int64_ok_def)

lemma timeout_share_pos: "0 < timeout_share t p"
  by (simp add: timeout_share_def Let_def Second_def)

lemma timeout_share_exact:
  assumes "0 \<le> t" "t \<le> max_seconds" "1 \<le> p"
  shows "timeout_share t p = max 1 (t div p) * Second"
proof -
  have "0 \<le> t div p" "t div p \<le> max_seconds"
    using assms by (auto simp: pos_imp_zdiv_nonneg_iff intro: order_trans [OF zdiv_mono2 [of t 1 p, simplified]])
  moreover have "go_div t p = t div p"
    using assms by (simp add: go_div_nonneg)
  ultimately show ?thesis
    by (auto simp: timeout_share_def seconds_exact Let_def max_def Second_def)
qed

text \<open>
  C29: when the resource leaves the backoff bounds out, the polling timer gets positive
  times whatever the timeout is (negative or so large that the nanoseconds wrap); for a
  timeout that fits a duration they are half and a sixtieth of it, at least one second, so
  the minimum is below the maximum; the remedy's timer gets the same; and a backoff factor
  that is missing or does not parse is 0.5.
\<close>

theorem backoff_params_defaults:
  assumes "BackoffMax (hcSpec h) = 0" and "BackoffMin (hcSpec h) = 0"
  shows "\<exists>mx mn f to. computeBackoffParams E h = (mx, mn, f, to) \<and> remedyBackoffParams h = (mx, mn, to)
    \<and> 0 < mx \<and> 0 < mn
    \<and> (0 \<le> Timeout (Workflow (hcSpec h)) \<and> Timeout (Workflow (hcSpec h)) \<le> 9223372036 \<longrightarrow>
        mx = max 1 (Timeout (Workflow (hcSpec h)) div 2) * Second
      \<and> mn = max 1 (Timeout (Workflow (hcSpec h)) div 60) * Second \<and> mn \<le> mx
      \<and> to = Timeout (Workflow (hcSpec h)) * Second)
    \<and> (BackoffFactor (hcSpec h) = [] \<or> (\<exists>e. parse_float E (BackoffFactor (hcSpec h)) = Inl e) \<longrightarrow> f = 1 / 2)"
proof -
  let ?t = "Timeout (Workflow (hcSpec h))"
  have le: "max 1 (?t div 60) \<le> max 1 (?t div 2)" if "0 \<le> ?t"
    using zdiv_mono2 [of ?t 2 60] that by auto
  have "max 1 (?t div 60) * Second \<le> max 1 (?t div 2) * Second" if "0 \<le> ?t"
    using le [OF that] by (simp add: Second_def)
  then show ?thesis
    using assms
    by (auto simp: computeBackoffParams_def remedyBackoffParams_def Let_def timeout_share_pos
        timeout_share_exact seconds_exact backoffFactor_def max_seconds_def)
qed

theorem backoff_params_defaults_witness:
  "\<exists>f. computeBackoffParams fake_env sample_hc = (15 * Second, 1 * Second, f, 30 * Second)"
proof -
  have "BackoffMax (hcSpec sample_hc) = 0" "BackoffMin (hcSpec sample_hc) = 0"
    by (simp_all add: sample_defs)
  from backoff_params_defaults [OF this, of fake_env] show ?thesis
    by (auto simp: sample_defs)
qed

text \<open>A bound given by the resource is not checked: it may be negative, or wrap to a negative time.\<close>

lemma backoff_max_wraps: "seconds 9223372037 < 0"
  by (simp add: seconds_def wrap64_def Second_def)

end
