(* ===== verification/Health_Status.thy ===== *)
theory Health_Status imports Backoff Rbac_Workflow begin

text \<open>
  The status of a HealthCheck (healthcheck_controller.go): what the two watch functions
  write into it when a workflow ends, updateHealthCheckStatus, and the helpers
  IsStorageError, ContainsEqualFoldSubstring and ignoreNotFound. The locale \<open>run_counters\<close>
  is the contract of a pair of counters with a total; it is interpreted on the counters of
  the HealthCheck and on those of its remedy.
\<close>

section \<open>Errors\<close>

definition ignoreNotFound :: "goerr \<Rightarrow> goerr option" where
  "ignoreNotFound e = (if IsNotFound e then None else Some e)"

definition ContainsEqualFoldSubstring :: "string \<Rightarrow> string \<Rightarrow> bool" where
  "ContainsEqualFoldSubstring str substr =
     (let x = strings_ToLower str; y = strings_ToLower substr in
      if strings_Contains x y then True else False)"

definition IsStorageError :: "goerr \<Rightarrow> bool" where
  "IsStorageError e =
     (if ContainsEqualFoldSubstring (err_text e) ''StorageError: invalid object'' then True else False)"

lemma Contains_ToLower:
  "strings_Contains (strings_ToLower t) y \<longleftrightarrow> (\<exists>a m b. t = a @ m @ b \<and> strings_ToLower m = y)"
proof
  assume "strings_Contains (strings_ToLower t) y"
  then obtain a b where "map lower_char t = a @ y @ b"
    by (auto simp: strings_Contains_iff strings_ToLower_def)
  then obtain a0 r0 where t: "t = a0 @ r0" and r0: "y @ b = map lower_char r0"
    unfolding map_eq_append_conv by blast
  from r0 [symmetric] obtain m b0 where "r0 = m @ b0" and "map lower_char m = y"
    unfolding map_eq_append_conv by blast
  with t show "\<exists>a m b. t = a @ m @ b \<and> strings_ToLower m = y"
    by (auto simp: strings_ToLower_def)
next
  assume "\<exists>a m b. t = a @ m @ b \<and> strings_ToLower m = y"
  then show "strings_Contains (strings_ToLower t) y"
    unfolding strings_Contains_iff strings_ToLower_def by (metis map_append)
qed

section \<open>Status transitions\<close>

text \<open>The assignments of \<open>watchWorkflowReschedule\<close> when the workflow has succeeded or failed.\<close>

definition hc_succeeded :: "time \<Rightarrow> time \<Rightarrow> string \<Rightarrow> health_check_status \<Rightarrow> health_check_status" where
  "hc_succeeded now thn wfName st =
     (let ok = wrap64 (SuccessCount st + 1) in
      st\<lparr>Status := succStr, StartedAt := Some thn, FinishedAt := Some now, SuccessCount := ok,
         TotalHealthCheckRuns := wrap64 (ok + FailedCount st), LastSuccessfulWorkflow := wfName\<rparr>)"

definition hc_failed :: "time \<Rightarrow> time \<Rightarrow> string \<Rightarrow> string \<Rightarrow> health_check_status \<Rightarrow> health_check_status" where
  "hc_failed now thn wfName msg st =
     (let bad = wrap64 (FailedCount st + 1) in
      st\<lparr>Status := failStr, StartedAt := Some thn, FinishedAt := Some now, LastFailedAt := Some now,
         ErrorMessage := msg, FailedCount := bad,
         TotalHealthCheckRuns := wrap64 (SuccessCount st + bad), LastFailedWorkflow := wfName\<rparr>)"

text \<open>The reset of the remedy's fields, with the two messages the code gives.\<close>

definition remedy_reset :: "string \<Rightarrow> health_check_status \<Rightarrow> health_check_status" where
  "remedy_reset msg st =
     st\<lparr>RemedyTotalRuns := 0, RemedyFinishedAt := None, RemedyStartedAt := None, RemedyFailedCount := 0,
        RemedySuccessCount := 0, RemedyLastFailedAt := None, RemedyStatus := msg\<rparr>"

text \<open>The assignments of \<open>watchRemedyWorkflow\<close>.\<close>

definition remedy_succeeded :: "time \<Rightarrow> time \<Rightarrow> string \<Rightarrow> health_check_status \<Rightarrow> health_check_status" where
  "remedy_succeeded now thn wfName st =
     (let ok = wrap64 (RemedySuccessCount st + 1) in
      st\<lparr>RemedyStatus := succStr, RemedyStartedAt := Some thn, RemedyFinishedAt := Some now,
         RemedySuccessCount := ok, RemedyTotalRuns := wrap64 (ok + RemedyFailedCount st),
         LastSuccessfulWorkflow := wfName\<rparr>)"

definition remedy_failed :: "time \<Rightarrow> time \<Rightarrow> string \<Rightarrow> string \<Rightarrow> health_check_status \<Rightarrow> health_check_status" where
  "remedy_failed now thn wfName msg st =
     (let bad = wrap64 (RemedyFailedCount st + 1) in
      st\<lparr>RemedyStatus := failStr, RemedyStartedAt := Some thn, RemedyFinishedAt := Some now,
         RemedyLastFailedAt := Some now, RemedyErrorMessage := msg, RemedyFailedCount := bad,
         RemedyTotalRuns := wrap64 (RemedySuccessCount st + bad), LastFailedWorkflow := wfName\<rparr>)"

section \<open>Counters with a total\<close>

text \<open>
  Two counters and their total: each of the two operations adds one run to its counter and
  recomputes the total.
\<close>

locale run_counters =
  fixes good bad total :: "'st \<Rightarrow> int"
    and good_run :: "'p \<Rightarrow> 'st \<Rightarrow> 'st" and bad_run :: "'p \<Rightarrow> 'st \<Rightarrow> 'st"
  assumes good_good: "good (good_run p st) = wrap64 (good st + 1)"
    and good_bad: "bad (good_run p st) = bad st"
    and good_total: "total (good_run p st) = wrap64 (good (good_run p st) + bad st)"
    and bad_bad: "bad (bad_run p st) = wrap64 (bad st + 1)"
    and bad_good: "good (bad_run p st) = good st"
    and bad_total: "total (bad_run p st) = wrap64 (good st + bad (bad_run p st))"
begin

lemma runs_counted:
  fixes rs :: "(bool \<times> 'p) list"
  assumes "int64_ok (good st)" "int64_ok (bad st)"
  defines "st' \<equiv> fold (\<lambda>(ok, p). if ok then good_run p else bad_run p) rs st"
  shows "good st' = wrap64 (good st + int (length (filter fst rs)))
    \<and> bad st' = wrap64 (bad st + int (length (filter (Not \<circ> fst) rs)))
    \<and> (rs \<noteq> [] \<longrightarrow> total st' = wrap64 (good st' + bad st'))"
  unfolding st'_def using assms(1,2)
proof (induction rs arbitrary: st)
  case Nil
  then show ?case by simp
next
  case (Cons r rs)
  obtain ok p where r: "r = (ok, p)" by (cases r)
  define st1 where "st1 = (if ok then good_run p st else bad_run p st)"
  have g: "good st1 = wrap64 (good st + (if ok then 1 else 0))"
    and b: "bad st1 = wrap64 (bad st + (if ok then 0 else 1))"
    and t: "total st1 = wrap64 (good st1 + bad st1)"
    using Cons.prems by (simp_all add: st1_def good_good good_bad bad_bad bad_good good_total bad_total)
  have "int64_ok (good st1)" "int64_ok (bad st1)"
    by (simp_all add: g b wrap64_range)
  note IH = Cons.IH [OF this]
  have step: "fold (\<lambda>(ok, p). if ok then good_run p else bad_run p) (r # rs) st
     = fold (\<lambda>(ok, p). if ok then good_run p else bad_run p) rs st1"
    by (simp add: r st1_def)
  show ?case
    unfolding step using IH t
    by (cases "rs = []"; cases ok) (simp_all add: r g b wrap64_add_wrap64 add.assoc)
qed

end

interpretation hc_counters: run_counters SuccessCount FailedCount TotalHealthCheckRuns
  "\<lambda>(now, thn, wf, msg). hc_succeeded now thn wf" "\<lambda>(now, thn, wf, msg). hc_failed now thn wf msg"
  by unfold_locales (auto simp: hc_succeeded_def hc_failed_def Let_def)

interpretation remedy_counters: run_counters RemedySuccessCount RemedyFailedCount RemedyTotalRuns
  "\<lambda>(now, thn, wf, msg). remedy_succeeded now thn wf" "\<lambda>(now, thn, wf, msg). remedy_failed now thn wf msg"
  by unfold_locales (auto simp: remedy_succeeded_def remedy_failed_def Let_def)

section \<open>updateHealthCheckStatus\<close>

definition updateHealthCheckStatus :: "'w env \<Rightarrow> ('w st, unit) go" where
  "updateHealthCheckStatus E =
     bindG get_hc (\<lambda>h.
       onErrG
         (RetryOnConflict (conflict_retries E)
           (bindG (callE (hc_get E (hcNamespace h) (hcName h))) (\<lambda>hcNew.
            let upd = hcNew\<lparr>hcStatus := hcStatus h\<rparr> in
            thenG (emit (EvUpdateStatus upd)) (callE (hc_status_update E upd)))))
         (\<lambda>e. event ''Warning'' ''Failed'' (''HealthCheck '' @ hcNamespace h @ ''/'' @ hcName h
                @ '' status could not be updated. '' @ err_text e)))"

context io_rel begin

lemma ev_updateStatus [intro]: "evolves R (updateHealthCheckStatus E)"
  unfolding updateHealthCheckStatus_def by (intro ev_rules io_rules call_rules ev_emit) simp_all

end

section \<open>Properties\<close>



text \<open>
  An error counts as a storage error exactly when its text contains the words
  "StorageError: invalid object" in any mixture of upper and lower case.
\<close>

theorem storage_error_iff:
  "IsStorageError e \<longleftrightarrow>
     (\<exists>a m b. err_text e = a @ m @ b \<and> strings_ToLower m = strings_ToLower ''StorageError: invalid object'')"
  by (simp only: IsStorageError_def ContainsEqualFoldSubstring_def Let_def Contains_ToLower if_bool_eq_disj) simp


text \<open>A HealthCheck in hand whose status is ahead of the server's copy.\<close>

definition counted :: "fake st" where
  "counted = (sample_state sample_hc)\<lparr>hc := sample_hc\<lparr>hcStatus := zero_status\<lparr>SuccessCount := 1\<rparr>\<rparr>\<rparr>"


end
