(* ===== verification/Artifact_Store.thy ===== *)
theory Artifact_Store imports Kube_Env begin

text \<open>
  Package store (src/internal/store): where the text of a workflow comes from. The Go
  interface \<open>ArtifactReader\<close> is the locale \<open>artifact_reader\<close>: its one method \<open>Read\<close>, and
  what the callers rely on (it leaves the controller's state alone and does not panic).
  The locale is interpreted on the readers the code has and on their dispatch.
\<close>

section \<open>Readers\<close>

datatype reader = InlineReader string | URLReader url_artifact

definition NewInlineReader :: "string option \<Rightarrow> goerr + reader" where
  "NewInlineReader inlineArtifact =
     (case inlineArtifact of
        None \<Rightarrow> Inl (errors_New ''InlineArtifact does not exist'')
      | Some t \<Rightarrow> if t = [] then Inl (errors_New ''InlineArtifact does not exist'')
                  else Inr (InlineReader t))"

definition NewURLReader :: "url_artifact option \<Rightarrow> goerr + reader" where
  "NewURLReader urlArtifact =
     (case urlArtifact of
        None \<Rightarrow> Inl (errors_New ''URLArtifact cannot be empty'')
      | Some u \<Rightarrow> Inr (URLReader u))"

text \<open>
  The error text ends in the printed location, which shows the address of a File artifact;
  the model keeps the constant part.
\<close>

definition GetArtifactReader :: "artifact_location \<Rightarrow> goerr + reader" where
  "GetArtifactReader loc =
     (if Inline loc \<noteq> None then NewInlineReader (Inline loc)
      else if URL loc \<noteq> None then NewURLReader (URL loc)
      else Inl (errors_New ''unknown artifact location''))"

definition InlineReader_Read :: "'w env \<Rightarrow> string \<Rightarrow> ('w st, string) go" where
  "InlineReader_Read E inlineArtifact = retG inlineArtifact"

definition insecureSkipVerify :: "url_artifact \<Rightarrow> bool" where
  "insecureSkipVerify u = (case VerifyCert u of None \<Rightarrow> False | Some b \<Rightarrow> \<not> b)"

definition URLReader_Read :: "'w env \<Rightarrow> url_artifact \<Rightarrow> ('w st, string) go" where
  "URLReader_Read E u =
     bindG (callE (http_get E (insecureSkipVerify u) (Path u))) (\<lambda>resp.
       if StatusCode resp \<noteq> 200
       then failG (errors_New (''status code '' @ strconv_Itoa (StatusCode resp)))
       else case Body resp of Inl e \<Rightarrow> failG e | Inr content \<Rightarrow> retG content)"

definition Read :: "'w env \<Rightarrow> reader \<Rightarrow> ('w st, string) go" where
  "Read E r = (case r of InlineReader t \<Rightarrow> InlineReader_Read E t | URLReader u \<Rightarrow> URLReader_Read E u)"

section \<open>The contract of ArtifactReader\<close>

locale artifact_reader =
  fixes rd :: "'w env \<Rightarrow> 'r \<Rightarrow> ('w st, string) go"
  assumes rd_world: "\<exists>w. snd (rd E r s) = s\<lparr>world := w\<rparr>"
    and rd_calm: "(\<exists>x. fst (rd E r s) = Ret x) \<or> (\<exists>e. fst (rd E r s) = Fail e)"
begin

lemma rd_no_panic: "fst (rd E r s) \<noteq> Panic p"
  using rd_calm [of E r s] by auto

lemma rd_no_block: "fst (rd E r s) \<noteq> Blocked"
  using rd_calm [of E r s] by auto

lemma rd_evolves: "(\<And>s w. R s (s\<lparr>world := w\<rparr>)) \<Longrightarrow> evolves R (rd E r)"
  unfolding evolves_def by (metis rd_world)

end

interpretation inline_reader: artifact_reader InlineReader_Read
proof
  fix E r and s :: "'w st"
  show "\<exists>w. snd (InlineReader_Read E r s) = s\<lparr>world := w\<rparr>"
    by (rule exI [of _ "world s"]) (simp add: InlineReader_Read_def)
qed (simp add: InlineReader_Read_def)

interpretation url_reader: artifact_reader URLReader_Read
proof
  fix E r and s :: "'w st"
  show "\<exists>w. snd (URLReader_Read E r s) = s\<lparr>world := w\<rparr>"
    by (auto simp: URLReader_Read_def go_simps split: prod.splits sum.splits)
  show "(\<exists>x. fst (URLReader_Read E r s) = Ret x) \<or> (\<exists>e. fst (URLReader_Read E r s) = Fail e)"
    by (auto simp: URLReader_Read_def go_simps split: prod.splits sum.splits)
qed

interpretation any_reader: artifact_reader Read
proof
  fix E r and s :: "'w st"
  show "\<exists>w. snd (Read E r s) = s\<lparr>world := w\<rparr>"
    by (cases r) (simp_all add: Read_def inline_reader.rd_world url_reader.rd_world)
  show "(\<exists>x. fst (Read E r s) = Ret x) \<or> (\<exists>e. fst (Read E r s) = Fail e)"
    by (cases r) (simp_all add: Read_def inline_reader.rd_calm url_reader.rd_calm)
qed

context io_rel begin

lemma ev_Read [intro]: "evolves R (Read E r)"
  by (rule any_reader.rd_evolves) (rule R_world)

end

section \<open>Properties\<close>

lemma GetArtifactReader_Inr:
  "GetArtifactReader loc = Inr r \<longleftrightarrow>
     (\<exists>t. Inline loc = Some t \<and> t \<noteq> [] \<and> r = InlineReader t)
   \<or> (Inline loc = None \<and> (\<exists>u. URL loc = Some u \<and> r = URLReader u))"
  by (auto simp: GetArtifactReader_def NewInlineReader_def NewURLReader_def split: option.splits)

text \<open>
  C37: an inline artifact, when present, is the only source: it wins over a URL, and
  reading it gives back exactly the inlined text without touching the outside world; an
  empty inline text, and a location with neither text nor URL (a File artifact is not
  supported), give an error, never a reader.
\<close>

theorem inline_artifact_roundtrip:
  "GetArtifactReader loc = Inr r \<longleftrightarrow>
     (case Inline loc of
        Some t \<Rightarrow> t \<noteq> [] \<and> r = InlineReader t \<and> (\<forall>E s. Read E r s = (Ret t, s))
      | None \<Rightarrow> (case URL loc of Some u \<Rightarrow> r = URLReader u | None \<Rightarrow> False))"
  by (auto simp: GetArtifactReader_Inr Read_def InlineReader_Read_def split: option.splits)

text \<open>
  C38: a workflow fetched over http is used only if the response has status 200 and its
  body was read; and the TLS certificate check is left out exactly when the resource sets
  verifyCert to false.
\<close>

theorem url_artifact_read:
  "Read E (URLReader u) s = (Ret content, s') \<longleftrightarrow>
     (\<exists>resp w. http_get E (VerifyCert u = Some False) (Path u) (world s) = (Inr resp, w)
        \<and> StatusCode resp = 200 \<and> Body resp = Inr content \<and> s' = s\<lparr>world := w\<rparr>)"
proof -
  have "insecureSkipVerify u = (VerifyCert u = Some False)"
    by (auto simp: insecureSkipVerify_def split: option.splits)
  then show ?thesis
    by (auto simp: Read_def URLReader_Read_def go_simps split: prod.splits sum.splits)
qed

end
