(* ===== verification/Workflow_Parse.thy ===== *)
theory Workflow_Parse imports Artifact_Store Fake_Cluster begin

text \<open>
  Building the workflow object from the text in the resource
  (healthcheck_controller.go, parseWorkflowFromHealthcheck and
  parseRemedyWorkflowFromHealthcheck). The document is decoded, its labels are merged
  into the labels shared by all workflows of the process, and its spec is completed with
  the defaults of the controller. The lemmas give the result of each function for every
  document, and what happens to the shared labels and their lock.
\<close>

section \<open>Printing a label value\<close>

text \<open>
  \<open>fmt.Sprintf("%v", v)\<close> on decoded values: a float64 that is an integer below a million
  prints its digits, other floats go through strconv. The last three kinds of value never
  come out of the decoder.
\<close>

definition sprint_float_v :: "'w env \<Rightarrow> rat \<Rightarrow> string" where
  "sprint_float_v E q = (if q = of_int \<lfloor>q\<rfloor> \<and> \<bar>\<lfloor>q\<rfloor>\<bar> < 1000000 then strconv_Itoa \<lfloor>q\<rfloor> else sprint_float E q)"

fun join_spaces :: "string list \<Rightarrow> string" where
  "join_spaces [] = []"
| "join_spaces [x] = x"
| "join_spaces (x # y # ys) = x @ '' '' @ join_spaces (y # ys)"

primrec sprint_v :: "'w env \<Rightarrow> goval \<Rightarrow> string" where
  "sprint_v E GNil = ''<nil>''"
| "sprint_v E (GBool b) = (if b then ''true'' else ''false'')"
| "sprint_v E (GFloat q) = sprint_float_v E q"
| "sprint_v E (GString t) = t"
| "sprint_v E (GSlice vs) = ''['' @ join_spaces (map (sprint_v E) vs) @ '']''"
| "sprint_v E (GMap kvs) = ''map['' @
     join_spaces (map (\<lambda>(k, t). k @ '':'' @ t) (sort_key fst (map (map_prod id (sprint_v E)) kvs))) @ '']''"
| "sprint_v E (GPodGC t) = ''&{'' @ t @ ''}''"
| "sprint_v E (GInt64Ptr i) = ''(int64 pointer)''"
| "sprint_v E (GMetadata g l) = ''{metadata}''"

section \<open>The shared labels\<close>

definition make_labels :: "('w st, unit) go" where
  "make_labels = modG (\<lambda>s. s\<lparr>workflowLabels := (case workflowLabels s of None \<Rightarrow> Some Map.empty | l \<Rightarrow> l)\<rparr>)"

definition put_label :: "string \<Rightarrow> string \<Rightarrow> ('w st, unit) go" where
  "put_label k v = (\<lambda>s. case workflowLabels s of
       None \<Rightarrow> (Panic ''assignment to entry in nil map'', s)
     | Some m \<Rightarrow> (Ret (), s\<lparr>workflowLabels := Some (m(k \<mapsto> v))\<rparr>))"

lemma label_run [go_simps]:
  "make_labels s = (Ret (), s\<lparr>workflowLabels := (case workflowLabels s of None \<Rightarrow> Some Map.empty | l \<Rightarrow> l)\<rparr>)"
  "put_label k v s = (case workflowLabels s of
       None \<Rightarrow> (Panic ''assignment to entry in nil map'', s)
     | Some m \<Rightarrow> (Ret (), s\<lparr>workflowLabels := Some (m(k \<mapsto> v))\<rparr>))"
  by (simp_all add: make_labels_def put_label_def)

definition map_of_nilable :: "gomap option \<Rightarrow> gomap" where
  "map_of_nilable d = (case d of None \<Rightarrow> [] | Some m \<Rightarrow> m)"

text \<open>
  The labels part of both parsers. \<open>data["metadata"] = m1\<close> panics when the decoded map is
  nil, while the lock is held.
\<close>

definition assign_labels :: "'w env \<Rightarrow> goval \<Rightarrow> ('w st, unit) go" where
  "assign_labels E wflabels =
     (if is_nil wflabels then put_label WfInstanceIdLabelKey WfInstanceId
      else case as_map wflabels of
        Some labelsMap \<Rightarrow> forG (\<lambda>(k, v). put_label k (sprint_v E v)) labelsMap
      | None \<Rightarrow> put_label WfInstanceIdLabelKey WfInstanceId)"

definition parse_labels :: "'w env \<Rightarrow> string \<Rightarrow> gomap option \<Rightarrow> ('w st, gomap option) go" where
  "parse_labels E generateName data =
     (case as_map (gindex (map_of_nilable data) ''metadata'') of
        Some metadataMap \<Rightarrow>
          thenG lock_timer (thenG make_labels
         (thenG (assign_labels E (gindex metadataMap ''labels''))
         (thenG unlock_timer (retG data))))
      | None \<Rightarrow>
          thenG lock_timer (thenG make_labels
         (thenG (put_label WfInstanceIdLabelKey WfInstanceId)
         (bindG (getsG workflowLabels) (\<lambda>l.
          case data of
            None \<Rightarrow> panicG ''assignment to entry in nil map''
          | Some m \<Rightarrow> thenG unlock_timer
              (retG (Some (AList.update ''metadata''
                 (GMetadata generateName (case l of None \<Rightarrow> Map.empty | Some l' \<Rightarrow> l')) m))))))))"

section \<open>Loading the document\<close>

definition load_source :: "'w env \<Rightarrow> artifact_location \<Rightarrow> (string \<Rightarrow> ('w st, unit) go) \<Rightarrow> ('w st, string) go" where
  "load_source E src note =
     (case GetArtifactReader src of
        Inl e \<Rightarrow> thenG (note ''Failed to get artifact reader for workflow'') (failG e)
      | Inr r \<Rightarrow> onErrG (Read E r) (\<lambda>_. note ''Failed to read content for workflow''))"

definition unmarshal :: "'w env \<Rightarrow> string \<Rightarrow> ('w st, gomap option) go" where
  "unmarshal E t = (case yaml_unmarshal E t of Inl e \<Rightarrow> failG e | Inr d \<Rightarrow> retG d)"

text \<open>\<open>specRaw, ok := data["spec"]\<close> with the two checks on it.\<close>

definition spec_of :: "string \<Rightarrow> string \<Rightarrow> string \<Rightarrow> string \<Rightarrow> gomap option \<Rightarrow> ('w st, gomap) go" where
  "spec_of missing ev1 notmap ev2 data =
     (let specRaw = gindex (map_of_nilable data) ''spec'' in
      if is_nil specRaw then thenG (warning_event ev1) (failG (errors_New missing))
      else case as_map specRaw of
        None \<Rightarrow> thenG (warning_event ev2) (failG (errors_New notmap))
      | Some spec \<Rightarrow> retG spec)"

definition default_podGC :: "gomap \<Rightarrow> gomap" where
  "default_podGC spec = (if is_nil (gindex spec ''podGC'')
     then AList.update ''podGC'' (GPodGC PodGCOnPodCompletion) spec else spec)"

definition set_account :: "string \<Rightarrow> gomap \<Rightarrow> gomap" where
  "set_account sa spec = (if sa \<noteq> [] then AList.update ''serviceAccountName'' (GString sa) spec else spec)"

definition default_deadline :: "int \<Rightarrow> gomap \<Rightarrow> gomap" where
  "default_deadline timeout spec = (if is_nil (gindex spec ''activeDeadlineSeconds'')
     then AList.update ''activeDeadlineSeconds'' (GInt64Ptr timeout) spec else spec)"

section \<open>parseWorkflowFromHealthcheck\<close>

definition set_wf_timeout :: "int \<Rightarrow> health_check_spec \<Rightarrow> health_check_spec" where
  "set_wf_timeout t sp = sp\<lparr>Workflow := Workflow sp\<lparr>Timeout := t\<rparr>\<rparr>"

text \<open>The timeout of the workflow, set to repeatAfterSec in the resource when it is 0.\<close>

definition default_timeout :: "('w st, int) go" where
  "default_timeout = bindG get_hc (\<lambda>h.
     if Timeout (Workflow (hcSpec h)) \<noteq> 0 then retG (Timeout (Workflow (hcSpec h)))
     else thenG (mod_spec (set_wf_timeout (RepeatAfterSec (hcSpec h)))) (retG (RepeatAfterSec (hcSpec h))))"

definition parseWorkflowFromHealthcheck :: "'w env \<Rightarrow> ('w st, gomap) go" where
  "parseWorkflowFromHealthcheck E =
     bindG get_hc (\<lambda>h. let wf = Workflow (hcSpec h) in
     bindG (case Resource wf of None \<Rightarrow> retG [] | Some res \<Rightarrow> load_source E (Source res) warning_event) (\<lambda>wfContent.
     bindG (onErrG (unmarshal E wfContent) (\<lambda>_. warning_event ''Invalid spec file passed'')) (\<lambda>data0.
     bindG (parse_labels E (GenerateName wf) data0) (\<lambda>data.
     bindG (spec_of ''invalid workflow, missing spec'' ''Invalid workflow template spec''
              ''invalid workflow, spec is not a map'' ''Invalid workflow template spec type'' data) (\<lambda>spec.
     bindG default_timeout (\<lambda>timeout.
     case Resource wf of
       None \<Rightarrow> panicG ''invalid memory address or nil pointer dereference''
     | Some res \<Rightarrow>
         thenG (normal_event ''workflow is parsed from healthcheck'')
           (retG (default_deadline timeout (set_account (ServiceAccount res) (default_podGC spec))))))))))"

section \<open>parseRemedyWorkflowFromHealthcheck\<close>

definition set_remedy_timeout :: "int \<Rightarrow> health_check_spec \<Rightarrow> health_check_spec" where
  "set_remedy_timeout t sp = sp\<lparr>RemedyWorkflow := RemedyWorkflow sp\<lparr>Timeout := t\<rparr>\<rparr>"

text \<open>\<open>int(deadline)\<close>: truncation inside the int64 range, the platform's value outside.\<close>

definition int_of_float :: "'w env \<Rightarrow> rat \<Rightarrow> int" where
  "int_of_float E q = (let t = (if q < 0 then \<lceil>q\<rceil> else \<lfloor>q\<rfloor>) in
     if int64_ok t then t else float_to_int E q)"

text \<open>The deadline the spec has, or \<open>timeout\<close> where it has none or one that is no number.\<close>

definition remedy_deadline :: "'w env \<Rightarrow> int \<Rightarrow> gomap \<Rightarrow> int" where
  "remedy_deadline E timeout spec =
     (case as_float (gindex spec ''activeDeadlineSeconds'') of
        Some deadline \<Rightarrow> int_of_float E deadline
      | None \<Rightarrow> timeout)"

definition parseRemedyWorkflowFromHealthcheck :: "'w env \<Rightarrow> ('w st, gomap) go" where
  "parseRemedyWorkflowFromHealthcheck E =
     bindG get_hc (\<lambda>h. let rw = RemedyWorkflow (hcSpec h) in
     bindG (case Resource rw of None \<Rightarrow> retG [] | Some res \<Rightarrow> load_source E (Source res) (\<lambda>_. retG ())) (\<lambda>wfContent.
     bindG (unmarshal E wfContent) (\<lambda>data0.
     bindG (parse_labels E (GenerateName (Workflow (hcSpec h))) data0) (\<lambda>data.
     bindG (spec_of ''Invalid remedy workflow, missing spec'' ''Invalid remedy workflow template spec''
              ''invalid remedy workflow, spec is not a map'' ''Invalid remedy workflow template spec type'' data) (\<lambda>spec0.
     let spec = set_account (case Resource rw of None \<Rightarrow> [] | Some res \<Rightarrow> ServiceAccount res) (default_podGC spec0);
         timeout = RepeatAfterSec (hcSpec h) in
     thenG (mod_spec (set_remedy_timeout (remedy_deadline E timeout spec)))
    (thenG (normal_event ''Remedy workflow is parsed from healthcheck'')
           (retG (default_deadline timeout spec))))))))"

section \<open>The labels part as one function\<close>

definition labels_of :: "'w st \<Rightarrow> string \<rightharpoonup> string" where
  "labels_of s = (case workflowLabels s of None \<Rightarrow> Map.empty | Some l \<Rightarrow> l)"

definition put_all :: "'w env \<Rightarrow> gomap \<Rightarrow> (string \<rightharpoonup> string) \<Rightarrow> (string \<rightharpoonup> string)" where
  "put_all E kvs m = fold (\<lambda>(k, v) m. m(k \<mapsto> sprint_v E v)) kvs m"

text \<open>The labels a document gives: its own when it has a map of labels, else the default one.\<close>

definition doc_labels :: "gomap option \<Rightarrow> gomap option" where
  "doc_labels d = (case as_map (gindex (map_of_nilable d) ''metadata'') of
     None \<Rightarrow> None | Some md \<Rightarrow> as_map (gindex md ''labels''))"

definition merged :: "'w env \<Rightarrow> gomap option \<Rightarrow> (string \<rightharpoonup> string) \<Rightarrow> (string \<rightharpoonup> string)" where
  "merged E d m = (case doc_labels d of
     None \<Rightarrow> m(WfInstanceIdLabelKey \<mapsto> WfInstanceId) | Some lm \<Rightarrow> put_all E lm m)"

definition with_metadata :: "string \<Rightarrow> (string \<rightharpoonup> string) \<Rightarrow> gomap \<Rightarrow> gomap" where
  "with_metadata g l m = (if as_map (gindex m ''metadata'') = None
     then AList.update ''metadata'' (GMetadata g l) m else m)"

lemma forG_put:
  "workflowLabels s = Some m \<Longrightarrow>
     forG (\<lambda>(k, v). put_label k (sprint_v E v)) kvs s = (Ret (), s\<lparr>workflowLabels := Some (put_all E kvs m)\<rparr>)"
  by (induction kvs arbitrary: s m) (auto simp: go_simps put_all_def)

lemma gindex_nil [simp]: "gindex (map_of_nilable None) k = GNil"
  by (simp add: gindex_def map_of_nilable_def)

lemma parse_labels_run:
  "parse_labels E g d s =
     (if TimerLock s then (Blocked, s)
      else let l = merged E d (labels_of s); s' = s\<lparr>workflowLabels := Some l\<rparr> in
        (case d of None \<Rightarrow> (Panic ''assignment to entry in nil map'', s'\<lparr>TimerLock := True\<rparr>)
         | Some m \<Rightarrow> (Ret (Some (with_metadata g l m)), s'\<lparr>TimerLock := False\<rparr>)))"
proof (cases "as_map (gindex (map_of_nilable d) ''metadata'')")
  case None
  then show ?thesis
    by (cases d; cases "workflowLabels s")
       (simp_all add: parse_labels_def go_simps merged_def doc_labels_def labels_of_def with_metadata_def
          map_of_nilable_def Let_def)
next
  case (Some md)
  then obtain m where d: "d = Some m" by (cases d) auto
  let ?s = "s\<lparr>TimerLock := True, workflowLabels := Some (labels_of s)\<rparr>"
  have mk: "make_labels (s\<lparr>TimerLock := True\<rparr>) = (Ret (), ?s)"
    by (simp add: label_run labels_of_def split: option.splits)
  have "assign_labels E (gindex md ''labels'') ?s = (Ret (), ?s\<lparr>workflowLabels := Some (merged E d (labels_of s))\<rparr>)"
    using Some by (cases "gindex md ''labels''") (simp_all add: assign_labels_def label_run merged_def doc_labels_def forG_put)
  then show ?thesis
    using Some by (simp add: parse_labels_def thenG_run bindG_run lock_run mk d Let_def with_metadata_def map_of_nilable_def)
qed

end
