(* ===== verification/Workflow_Submit.thy ===== *)
theory Workflow_Submit imports Workflow_Parse Rbac_Workflow begin

text \<open>
  Submitting workflows (healthcheck_controller.go, createSubmitWorkflow and
  createSubmitRemedyWorkflow): the object is completed with its kind, namespace, name
  prefix, labels and owner reference, and created. An error of the parser is not looked
  at, so a resource whose text cannot be read is submitted without a spec.
\<close>

section \<open>The functions\<close>

definition owner_ref :: "health_check \<Rightarrow> owner_reference" where
  "owner_ref h = \<lparr>orKind = hcKind, orAPIVersion = GroupVersion, orName = hcName h, orUID = hcUID h,
     orController = True\<rparr>"

definition build_workflow :: "health_check \<Rightarrow> resource_object \<Rightarrow> string \<Rightarrow> (string \<rightharpoonup> string) option
    \<Rightarrow> gomap option \<Rightarrow> wf_object" where
  "build_workflow h res generateName labels spec =
     \<lparr>wfAPIVersion = wfGroup @ ''/'' @ wfVersion, wfKindName = wfKind,
      wfNamespaceOf = ResNamespace res, wfGenerateName = generateName,
      wfLabels = (case labels of None \<Rightarrow> Map.empty | Some l \<Rightarrow> l),
      wfOwners = [owner_ref h], wfSpec = spec\<rparr>"

text \<open>The call of the parser, its error dropped.\<close>

definition ignore_error :: "('w st, gomap) go \<Rightarrow> ('w st, gomap option) go" where
  "ignore_error m = tryG m (\<lambda>_. retG None) (\<lambda>spec. retG (Some spec))"

definition create_workflow :: "'w env \<Rightarrow> wf_object \<Rightarrow> string \<Rightarrow> ('w st, string) go" where
  "create_workflow E w msg =
     thenG (emit (EvCreateWorkflow w))
    (bindG (callE (wf_create E w)) (\<lambda>generatedName.
     thenG (normal_event msg) (retG generatedName)))"

text \<open>The labels are read under the lock, then the object is created.\<close>

definition submit_with_labels :: "'w env \<Rightarrow> ((string \<rightharpoonup> string) option \<Rightarrow> wf_object) \<Rightarrow> string \<Rightarrow> ('w st, string) go" where
  "submit_with_labels E mk msg = bindG (rlocked workflowLabels) (\<lambda>l. create_workflow E (mk l) msg)"

definition createSubmitWorkflow :: "'w env \<Rightarrow> ('w st, string) go" where
  "createSubmitWorkflow E =
     bindG (ignore_error (parseWorkflowFromHealthcheck E)) (\<lambda>spec.
     bindG get_hc (\<lambda>h.
       case Resource (Workflow (hcSpec h)) of
         None \<Rightarrow> panicG ''invalid memory address or nil pointer dereference''
       | Some res \<Rightarrow>
           submit_with_labels E (\<lambda>l. build_workflow h res (GenerateName (Workflow (hcSpec h))) l spec)
             ''Successfully created workflow''))"

definition createSubmitRemedyWorkflow :: "'w env \<Rightarrow> ('w st, string) go" where
  "createSubmitRemedyWorkflow E =
     bindG get_hc (\<lambda>h0.
       case Resource (RemedyWorkflow (hcSpec h0)) of
         None \<Rightarrow> failG (errors_New ''RemedyWorkflow Resource is nil'')
       | Some res \<Rightarrow>
           bindG (ignore_error (parseRemedyWorkflowFromHealthcheck E)) (\<lambda>spec.
           bindG get_hc (\<lambda>h.
           submit_with_labels E (\<lambda>l. build_workflow h res (GenerateName (RemedyWorkflow (hcSpec h))) l spec)
             ''Successfully created remedyWorkflow'')))"

section \<open>What they may touch\<close>

context label_rel begin

lemma ev_put_label: "evolves R (put_label k v)"
  by (auto simp: evolves_def label_run R_labels R_refl split: option.splits)

lemma ev_make_labels: "evolves R make_labels"
  unfolding make_labels_def by (rule ev_mod_labels)

lemma ev_assign_labels: "evolves R (assign_labels E v)"
  unfolding assign_labels_def by (intro ev_rules ev_put_label)

lemma ev_parse_labels: "evolves R (parse_labels E g d)"
  unfolding parse_labels_def
  by (intro ev_rules io_rules ev_lock ev_unlock ev_make_labels ev_assign_labels ev_put_label)

lemma ev_create_workflow: "evolves R (create_workflow E w msg)"
  unfolding create_workflow_def by (intro ev_rules call_rules io_rules ev_emit_submit)

end

text \<open>
  \<open>submit_rel\<close> asks only for the two critical sections as a whole, so it also covers
  relations that speak of the lock; a \<open>label_rel\<close> is one.
\<close>

locale submit_rel = io_rel +
  assumes sub_parse_labels: "evolves R (parse_labels E g d)"
    and sub_create: "(\<And>l. wfLabels (mk l) = (case l of None \<Rightarrow> Map.empty | Some m \<Rightarrow> m))
      \<Longrightarrow> evolves R (submit_with_labels E mk msg)"
begin

lemma ev_load_source: "(\<And>t. evolves R (note t)) \<Longrightarrow> evolves R (load_source E src note)"
  unfolding load_source_def by (intro ev_rules ev_Read)

lemma ev_unmarshal: "evolves R (unmarshal E t)"
  unfolding unmarshal_def by (intro ev_rules)

lemma ev_spec_of: "evolves R (spec_of a b c d m)"
  unfolding spec_of_def by (intro ev_rules io_rules)

lemma ev_default_timeout: "evolves R default_timeout"
  unfolding default_timeout_def by (intro ev_rules io_rules)

lemma ev_parseWorkflow: "evolves R (parseWorkflowFromHealthcheck E)"
  unfolding parseWorkflowFromHealthcheck_def
  by (intro ev_rules io_rules ev_load_source ev_unmarshal sub_parse_labels ev_spec_of ev_default_timeout)

lemma ev_parseRemedyWorkflow: "evolves R (parseRemedyWorkflowFromHealthcheck E)"
  unfolding parseRemedyWorkflowFromHealthcheck_def
  by (intro ev_rules io_rules ev_load_source ev_unmarshal sub_parse_labels ev_spec_of)

lemma ev_createSubmit: "evolves R (createSubmitWorkflow E)"
  unfolding createSubmitWorkflow_def ignore_error_def
  by (intro ev_rules io_rules ev_parseWorkflow sub_create) (simp add: build_workflow_def)

lemma ev_createSubmitRemedy: "evolves R (createSubmitRemedyWorkflow E)"
  unfolding createSubmitRemedyWorkflow_def ignore_error_def
  by (intro ev_rules io_rules ev_parseRemedyWorkflow sub_create) (simp add: build_workflow_def)

lemmas submit_rules = ev_createSubmit ev_createSubmitRemedy

end

sublocale label_rel \<subseteq> submit_rel
  by unfold_locales (simp_all add: ev_parse_labels submit_with_labels_def ev_bind ev_rlocked ev_create_workflow)

end
