(* ===== verification/Timer_Table.thy ===== *)
theory Timer_Table imports Workflow_Submit begin

text \<open>
  The table of repeat timers (healthcheck_controller.go, GetTimerByName and the tail of
  watchWorkflowReschedule that stops the old timer of a HealthCheck and arms the next).
  The locale \<open>timer_table\<close> states the contract the controller relies on: after a
  reschedule the lookup gives the new timer, other names are untouched, and the timer it
  replaces no longer runs. The interpretation is on the code's map of a constructed
  reconciler. The locale \<open>timer_rel\<close> collects what the handlers that use the table keep.
\<close>

section \<open>Rescheduling\<close>

definition rescheduleTimer :: "string \<Rightarrow> int \<Rightarrow> ('w st, unit) go" where
  "rescheduleTimer wfNamespace repeatAfterSec =
     bindG get_hc (\<lambda>h.
     thenG lock_timer
    (bindG (getsG (read_timer (hcName h))) (\<lambda>t.
     thenG (case t of None \<Rightarrow> retG () | Some i \<Rightarrow> bindG (timer_Stop i) (\<lambda>_. retG ()))
    (bindG (time_AfterFunc \<lparr>tmDelay = wrap64 (wrap64 repeatAfterSec * Second), tmWfNamespace = wfNamespace,
              tmName = hcName h, tmNamespace = hcNamespace h\<rparr>) (\<lambda>i.
     thenG (put_timer (hcName h) i) unlock_timer)))))"

definition new_timer :: "'w st \<Rightarrow> string \<Rightarrow> int \<Rightarrow> armed_timer" where
  "new_timer s wfNamespace repeatAfterSec = \<lparr>tmDelay = wrap64 (wrap64 repeatAfterSec * Second),
     tmWfNamespace = wfNamespace, tmName = hcName (hc s), tmNamespace = hcNamespace (hc s)\<rparr>"

text \<open>The trace and the runtime timers after the old timer, if any, was stopped.\<close>

definition stop_old :: "'w st \<Rightarrow> (nat \<rightharpoonup> armed_timer) \<times> effect list" where
  "stop_old s = (case read_timer (hcName (hc s)) s of None \<Rightarrow> (pending s, trace s)
     | Some i \<Rightarrow> ((pending s)(i := None), trace s @ [EvStop i]))"

lemma rescheduleTimer_run:
  "rescheduleTimer ns d s =
     (if TimerLock s then (Blocked, s)
      else let (p, tr) = stop_old s; i = next_timer s; a = new_timer s ns d;
               s' = s\<lparr>pending := p(i \<mapsto> a), next_timer := Suc i,
                      trace := tr @ [EvArm i (tmDelay a) (tmName a)]\<rparr> in
        (case RepeatTimersByName s of
           None \<Rightarrow> (Panic ''assignment to entry in nil map'', s'\<lparr>TimerLock := True\<rparr>)
         | Some m \<Rightarrow> (Ret (), s'\<lparr>RepeatTimersByName := Some (m(hcName (hc s) \<mapsto> i))\<rparr>)))"
  by (simp add: rescheduleTimer_def go_simps stop_old_def new_timer_def read_timer_def Let_def split: option.splits)

section \<open>The contract of the table\<close>

text \<open>
  \<open>ready\<close>: the states in which the table works; \<open>look\<close> and \<open>sched\<close>: what the controller
  calls; \<open>live\<close>: the timers that still run; \<open>made\<close>: the timer a reschedule makes.
\<close>

locale timer_table =
  fixes ready :: "'s \<Rightarrow> bool" and look :: "string \<Rightarrow> 's \<Rightarrow> nat option"
    and live :: "'s \<Rightarrow> nat \<rightharpoonup> armed_timer" and self :: "'s \<Rightarrow> string"
    and sched :: "string \<Rightarrow> int \<Rightarrow> ('s, unit) go" and made :: "'s \<Rightarrow> string \<Rightarrow> int \<Rightarrow> armed_timer"
  assumes sched_ret: "ready s \<Longrightarrow> fst (sched ns d s) = Ret () \<and> ready (snd (sched ns d s))"
    and sched_self: "ready s \<Longrightarrow> \<exists>i. look (self s) (snd (sched ns d s)) = Some i
      \<and> live (snd (sched ns d s)) i = Some (made s ns d) \<and> look (self s) s \<noteq> Some i"
    and sched_other: "ready s \<Longrightarrow> n \<noteq> self s \<Longrightarrow> look n (snd (sched ns d s)) = look n s"
    and sched_stops: "ready s \<Longrightarrow> look (self s) s = Some i \<Longrightarrow> live (snd (sched ns d s)) i = None"
begin

text \<open>Rescheduling replaces: the previous timer of the name is dead, the new one runs.\<close>

lemma sched_replaces:
  assumes "ready s" and "look (self s) s = Some i"
  shows "\<exists>j. look (self s) (snd (sched ns d s)) = Some j \<and> j \<noteq> i
    \<and> live (snd (sched ns d s)) i = None \<and> live (snd (sched ns d s)) j \<noteq> None"
  using sched_self [OF assms(1), of ns d] sched_stops [OF assms, of ns d] assms(2) by auto

end

text \<open>
  The states of a reconciler whose map was made, whose lock is free, and whose map holds
  only timers that were created.
\<close>

definition table_ready :: "'w st \<Rightarrow> bool" where
  "table_ready s \<longleftrightarrow> RepeatTimersByName s \<noteq> None \<and> \<not> TimerLock s
     \<and> (\<forall>n i. read_timer n s = Some i \<longrightarrow> i < next_timer s)"

interpretation repeat_timers: timer_table table_ready read_timer pending "\<lambda>s. hcName (hc s)" rescheduleTimer new_timer
proof
  fix s :: "'w st" and ns :: string and d :: int and n :: string and i :: nat
  assume r: "table_ready s"
  then obtain m where m: "RepeatTimersByName s = Some m" "\<not> TimerLock s" "\<And>n i. m n = Some i \<Longrightarrow> i < next_timer s"
    by (auto simp: table_ready_def read_timer_def)
  show "fst (rescheduleTimer ns d s) = Ret () \<and> table_ready (snd (rescheduleTimer ns d s))"
    using m by (auto simp: rescheduleTimer_run table_ready_def read_timer_def Let_def less_SucI split: prod.splits)
  show "\<exists>i. read_timer (hcName (hc s)) (snd (rescheduleTimer ns d s)) = Some i
      \<and> pending (snd (rescheduleTimer ns d s)) i = Some (new_timer s ns d) \<and> read_timer (hcName (hc s)) s \<noteq> Some i"
    using m by (auto simp: rescheduleTimer_run read_timer_def Let_def split: prod.splits)
  show "n \<noteq> hcName (hc s) \<Longrightarrow> read_timer n (snd (rescheduleTimer ns d s)) = read_timer n s"
    using m by (auto simp: rescheduleTimer_run read_timer_def Let_def split: prod.splits)
  show "read_timer (hcName (hc s)) s = Some i \<Longrightarrow> pending (snd (rescheduleTimer ns d s)) i = None"
    using m by (auto simp: rescheduleTimer_run read_timer_def stop_old_def Let_def split: prod.splits)
qed

section \<open>What the handlers with timers keep\<close>

locale stop_rel = submit_rel +
  assumes ev_stop_opt: "evolves R (stop_opt t)"

text \<open>\<open>watch_rel\<close>: also the metrics of the HealthCheck's own workflow.\<close>

locale watch_rel = stop_rel +
  assumes R_run: "io_effect e \<Longrightarrow> run_effect e \<Longrightarrow> R s (s\<lparr>trace := trace s @ [e]\<rparr>)"
begin

lemma ev_emit_any: "io_effect e \<Longrightarrow> evolves R (emit e)"
  by (cases "run_effect e") (simp_all add: evolves_def prim_run R_run R_io)

end

locale timer_rel = watch_rel +
  assumes ev_resched: "evolves R (rescheduleTimer ns d)"

text \<open>
  The invariant of the table: a running timer was created, and it is the one its
  HealthCheck's name maps to, so there is at most one for a name; and a running timer that
  an entry of the map holds is one of that name. It needs a map: with a nil map it only says
  that timers were created.
\<close>

definition timers_ok :: "'w st \<Rightarrow> bool" where
  "timers_ok s \<longleftrightarrow>
     (\<forall>i a. pending s i = Some a \<longrightarrow> i < next_timer s
        \<and> (\<forall>m. RepeatTimersByName s = Some m \<longrightarrow> m (tmName a) = Some i))
   \<and> (\<forall>m n i. RepeatTimersByName s = Some m \<longrightarrow> m n = Some i \<longrightarrow> i < next_timer s
        \<and> (\<forall>a. pending s i = Some a \<longrightarrow> tmName a = n))"

lemma timers_ok_unique:
  "timers_ok s \<Longrightarrow> RepeatTimersByName s \<noteq> None \<Longrightarrow> pending s i = Some a \<Longrightarrow> pending s j = Some b
    \<Longrightarrow> tmName a = tmName b \<Longrightarrow> i = j"
  unfolding timers_ok_def by (metis not_None_eq option.inject)

lemma timers_ok_resched: "timers_ok s \<Longrightarrow> timers_ok (snd (rescheduleTimer ns d s))"
proof (cases "TimerLock s")
  case True
  then show "timers_ok s \<Longrightarrow> ?thesis" by (simp add: rescheduleTimer_run)
next
  case False
  assume ok: "timers_ok s"
  obtain p tr where st: "stop_old s = (p, tr)" by fastforce
  have p: "p i = Some a \<Longrightarrow> pending s i = Some a" for i a
    using st by (auto simp: stop_old_def split: option.splits if_splits)
  show ?thesis
  proof (cases "RepeatTimersByName s")
    case None
    then show ?thesis
      using ok p False by (auto simp: rescheduleTimer_run st timers_ok_def Let_def less_SucI)
  next
    case (Some m)
    have old: "tmName a \<noteq> hcName (hc s)" if "p i = Some a" for i a
    proof
      assume n: "tmName a = hcName (hc s)"
      have "m (hcName (hc s)) = Some i" using ok p [OF that] Some n unfolding timers_ok_def by metis
      then show False using st that by (auto simp: stop_old_def read_timer_def Some)
    qed
    show ?thesis
      using ok p old False Some
      by (auto simp: rescheduleTimer_run st timers_ok_def Let_def less_SucI new_timer_def)
  qed
qed

lemma timers_ok_frame [simp]:
  "timers_ok (s\<lparr>hc := h\<rparr>) = timers_ok s" "timers_ok (s\<lparr>world := w\<rparr>) = timers_ok s"
  "timers_ok (s\<lparr>trace := tr\<rparr>) = timers_ok s" "timers_ok (s\<lparr>workflowLabels := l\<rparr>) = timers_ok s"
  "timers_ok (s\<lparr>TimerLock := b\<rparr>) = timers_ok s"
  by (simp_all add: timers_ok_def)

lemma timers_ok_stop: "timers_ok s \<Longrightarrow> timers_ok (snd (stop_opt t s))"
proof (cases t)
  case (Some i)
  assume "timers_ok s"
  then show ?thesis
    unfolding timers_ok_def Some by (auto simp: stop_opt_def go_simps split: if_splits)
qed (simp add: stop_opt_def)

interpretation timers_ok_labels: label_rel "\<lambda>s s' :: 'w st. timers_ok s \<longrightarrow> timers_ok s'"
  by unfold_locales simp_all

interpretation timers_ok_kept: timer_rel "\<lambda>s s' :: 'w st. timers_ok s \<longrightarrow> timers_ok s'"
proof unfold_locales
  fix ns :: string and d :: int and t :: "nat option"
  show "evolves (\<lambda>s s' :: 'w st. timers_ok s \<longrightarrow> timers_ok s') (rescheduleTimer ns d)"
    by (simp add: evolves_def timers_ok_resched)
  show "evolves (\<lambda>s s' :: 'w st. timers_ok s \<longrightarrow> timers_ok s') (stop_opt t)"
    by (simp add: evolves_def timers_ok_stop)
qed simp

text \<open>The map is made once: a nil map stays nil, a made one stays made.\<close>

interpretation nil_map_labels:
  label_rel "\<lambda>s s' :: 'w st. (RepeatTimersByName s' = None) = (RepeatTimersByName s = None)"
  by unfold_locales simp_all

interpretation nil_map_kept: timer_rel "\<lambda>s s' :: 'w st. (RepeatTimersByName s' = None) = (RepeatTimersByName s = None)"
proof
  fix ns :: string and d :: int and t :: "nat option"
  show "evolves (\<lambda>s s' :: 'w st. (RepeatTimersByName s' = None) = (RepeatTimersByName s = None)) (rescheduleTimer ns d)"
    by (auto simp: evolves_def rescheduleTimer_run Let_def split: prod.splits option.splits)
  show "evolves (\<lambda>s s' :: 'w st. (RepeatTimersByName s' = None) = (RepeatTimersByName s = None)) (stop_opt t)"
    by (auto simp: evolves_def stop_opt_def go_simps split: option.splits)
qed simp

end
