(* ===== verification/Remedy_Watch.thy ===== *)
theory Remedy_Watch imports Health_Status Workflow_Submit Timer_Table begin

text \<open>
  Watching a submitted workflow until it ends (healthcheck_controller.go): the polling loop
  that watchWorkflowReschedule and watchRemedyWorkflow share in shape, the remedy's watch,
  and processRemedyWorkflow, which sets the remedy's permissions up, submits it, watches it
  and removes the permissions. The locale \<open>polling\<close> shows once that such a loop ends; the
  locale \<open>backoff_env\<close> states what the loops rely on of the inverse-exp-backoff timer.
\<close>

section \<open>The polling loop\<close>

text \<open>
  What one pass of the loop decides: poll again after the timer's pause, \<open>break\<close>, or
  \<open>return nil\<close> because the workflow is gone.
\<close>

datatype poll = Wait | Break | Gone

text \<open>
  \<open>for ieTimer, err1 := NewIEBWithTimeout(..); ; err1 = ieTimer.Next()\<close> with at most \<open>n\<close>
  passes. The result says whether the loop was left by \<open>break\<close>.
\<close>

primrec poll_loop :: "(goerr option \<Rightarrow> ('w st, poll) go) \<Rightarrow> 'w env \<Rightarrow> nat \<Rightarrow> nat \<Rightarrow> goerr option \<Rightarrow> ('w st, bool) go" where
  "poll_loop body E ieTimer 0 err1 = nofuelG"
| "poll_loop body E ieTimer (Suc n) err1 =
     bindG (body err1) (\<lambda>p.
       case p of Wait \<Rightarrow> bindG (callW (ieb_next E ieTimer)) (poll_loop body E ieTimer n)
       | Break \<Rightarrow> retG True
       | Gone \<Rightarrow> retG False)"

text \<open>The status the code goes by: a timeout counts as a failed workflow.\<close>

definition poll_status :: "goerr option \<Rightarrow> gomap \<Rightarrow> gomap option" where
  "poll_status err1 content =
     (if err1 \<noteq> None then Some [(''phase'', GString failStr), (''message'', GString failStr)]
      else as_map (gindex content ''status''))"

definition status_message :: "gomap \<Rightarrow> string" where
  "status_message status = (case as_string (gindex status ''message'') of None \<Rightarrow> [] | Some m \<Rightarrow> m)"

definition swallow :: "goerr \<Rightarrow> ('w st, poll) go" where
  "swallow e = (case ignoreNotFound e of None \<Rightarrow> retG Gone | Some e' \<Rightarrow> failG e')"

section \<open>Metrics\<close>

definition emit_metric :: "metric \<Rightarrow> string \<Rightarrow> metric_op \<Rightarrow> ('w st, unit) go" where
  "emit_metric m lbl v = bindG get_hc (\<lambda>h. emit (EvMetric m (hcName h) lbl v))"

definition float_Seconds :: "duration \<Rightarrow> rat" where
  "float_Seconds d = of_int d / of_int Second"

definition success_metrics :: "string \<Rightarrow> time \<Rightarrow> time \<Rightarrow> ('w st, unit) go" where
  "success_metrics lbl now thn =
     thenG (emit_metric MonitorSuccess lbl MetricInc)
    (thenG (emit_metric MonitorRuntime lbl (MetricSet (float_Seconds (time_Sub now thn))))
    (thenG (emit_metric MonitorStartedTime lbl (MetricSet (of_int (unix thn))))
    (bindG get_hc (\<lambda>h. case FinishedAt (hcStatus h) of
        None \<Rightarrow> panicG ''invalid memory address or nil pointer dereference''
      | Some f \<Rightarrow> emit_metric MonitorFinishedTime lbl (MetricSet (of_int (unix f)))))))"

definition failure_metrics :: "string \<Rightarrow> time \<Rightarrow> time \<Rightarrow> ('w st, unit) go" where
  "failure_metrics lbl now thn =
     thenG (emit_metric MonitorError lbl MetricInc)
    (thenG (emit_metric MonitorStartedTime lbl (MetricSet (of_int (unix thn))))
           (emit_metric MonitorFinishedTime lbl (MetricSet (of_int (unix now)))))"

section \<open>watchRemedyWorkflow\<close>

definition remedy_poll :: "'w env \<Rightarrow> string \<Rightarrow> string \<Rightarrow> time \<Rightarrow> goerr option \<Rightarrow> ('w st, poll) go" where
  "remedy_poll E wfNamespace wfName thn err1 =
     bindG (time_Now E) (\<lambda>now.
     tryG (callE (wf_get E wfNamespace wfName)) swallow (\<lambda>content.
     thenG (whenG (err1 \<noteq> None) (warning_event ''remedy workflow is timedout''))
    (case poll_status err1 content of
       None \<Rightarrow> retG Wait
     | Some status \<Rightarrow>
         if is_string (gindex status ''phase'') succStr then
           thenG (normal_event ''Remedy workflow status is Succeeded'')
          (thenG (mod_status (remedy_succeeded now thn wfName))
          (thenG (success_metrics remedy now thn) (retG Break)))
         else if is_string (gindex status ''phase'') failStr then
           thenG (warning_event ''remedy workflow status is failed'')
          (thenG (mod_status (remedy_failed now thn wfName (status_message status)))
          (thenG (failure_metrics remedy now thn) (retG Break)))
         else retG Wait)))"

text \<open>
  The tail of both watch functions when the status update fails. \<open>reqName\<close> is
  \<open>req.NamespacedName.Name\<close>; the callers pass an empty \<open>ctrl.Request{}\<close>.
\<close>

definition report_update_error :: "string \<Rightarrow> ('w st, unit) go" where
  "report_update_error reqName =
     thenG (warning_event ''Error updating healthcheck resource'')
    (bindG (GetTimerByName reqName) (\<lambda>t.
       if t \<noteq> None then
         thenG (normal_event ''Cancelling workflow for this healthcheck due to deletion'')
        (bindG get_hc (\<lambda>h. bindG (GetTimerByName (hcName h)) stop_opt))
       else retG ()))"

definition watchRemedyWorkflow :: "'w env \<Rightarrow> nat \<Rightarrow> string \<Rightarrow> string \<Rightarrow> string \<Rightarrow> ('w st, unit) go" where
  "watchRemedyWorkflow E fuel reqName wfNamespace wfName =
     bindG (time_Now E) (\<lambda>thn.
     bindG get_hc (\<lambda>h0.
     case remedyBackoffParams h0 of (maxTime, minTime, timeout) \<Rightarrow>
     bindG (time_Now E) (\<lambda>t0.
     bindG (callW (ieb_new E maxTime minTime timeout (1 / 2) t0)) (\<lambda>(ieTimer, err1).
     bindG (poll_loop (remedy_poll E wfNamespace wfName thn) E ieTimer fuel err1) (\<lambda>broke.
     if broke then
       bindG get_hc (\<lambda>h.
         if Time_IsZero (hcDeletionTimestamp h)
         then onErrG (updateHealthCheckStatus E) (\<lambda>_. report_update_error reqName)
         else retG ())
     else retG ())))))"

section \<open>processRemedyWorkflow\<close>

definition processRemedyWorkflow :: "'w env \<Rightarrow> nat \<Rightarrow> string \<Rightarrow> ('w st, unit) go" where
  "processRemedyWorkflow E fuel wfNamespace =
     thenG (onErrG (createRBACForWorkflow E remedy)
              (\<lambda>_. warning_event ''Error creating RBAC Permissions for Remedy Workflow''))
    (bindG (onErrG (createSubmitRemedyWorkflow E)
              (\<lambda>_. warning_event ''Error creating or submitting remedyworkflow'')) (\<lambda>generatedWfName.
     thenG (onErrG (watchRemedyWorkflow E fuel [] wfNamespace generatedWfName)
              (\<lambda>_. warning_event ''Error in  watchRemedyWorkflow of remedy workflow''))
           (onErrG (deleteRBACForWorkflow E)
              (\<lambda>_. warning_event ''Error deleting RBAC of remedy workflow''))))"

section \<open>What they may touch\<close>

context go_rel begin

lemma ev_poll [intro]:
  "evolves R a \<Longrightarrow> evolves R b \<Longrightarrow> evolves R c \<Longrightarrow> evolves R (case p of Wait \<Rightarrow> a | Break \<Rightarrow> b | Gone \<Rightarrow> c)"
  by (cases p) simp_all

end

context ev_rel begin

lemma ev_metric: "metric_typed m v \<Longrightarrow> evolves R (emit_metric m remedy v)"
  unfolding emit_metric_def by (intro ev_rules io_rules ev_emit) (simp_all add: const_defs)

lemma ev_success_metrics: "evolves R (success_metrics remedy now thn)"
  unfolding success_metrics_def by (intro ev_rules io_rules ev_metric) simp_all

lemma ev_failure_metrics: "evolves R (failure_metrics remedy now thn)"
  unfolding failure_metrics_def by (intro ev_rules io_rules ev_metric) simp_all

lemma ev_swallow: "evolves R (swallow e)"
  unfolding swallow_def by (intro ev_rules)

lemmas metric_rules = ev_success_metrics ev_failure_metrics ev_swallow ev_poll

end

context io_rel begin

lemma ev_poll_loop: "(\<And>e. evolves R (body e)) \<Longrightarrow> evolves R (poll_loop body E i n err1)"
  by (induction n arbitrary: err1) (auto intro!: ev_bind ev_poll ev_ret ev_callW ev_nofuel)

lemma ev_remedy_poll: "evolves R (remedy_poll E ns n t e)"
  unfolding remedy_poll_def by (intro ev_rules io_rules call_rules metric_rules)

end

context stop_rel begin

lemma ev_report: "evolves R (report_update_error n)"
  unfolding report_update_error_def by (intro ev_rules io_rules ev_stop_opt)

lemma ev_watchRemedy: "evolves R (watchRemedyWorkflow E fuel n ns lbl)"
  unfolding watchRemedyWorkflow_def
  by (intro ev_rules io_rules call_rules ev_poll_loop ev_remedy_poll ev_report ev_updateStatus)

lemma ev_processRemedy: "evolves R (processRemedyWorkflow E fuel ns)"
  unfolding processRemedyWorkflow_def
  by (intro ev_rules io_rules submit_rules ev_watchRemedy rbac.ev_createRBAC rbac.ev_deleteRBAC)

end

end
