(* ===== verification/Workflow_Watch.thy ===== *)
theory Workflow_Watch imports Remedy_Watch begin

text \<open>
  One run of a HealthCheck after its workflow was submitted (healthcheck_controller.go):
  watchWorkflowReschedule polls the workflow, records the result, starts a remedy when one
  is due, writes the status and arms the timer of the next run; createSubmitWorkflowHelper
  is what that timer calls.
\<close>

section \<open>The decision for a remedy\<close>

definition runRemedy :: "'w env \<Rightarrow> nat \<Rightarrow> string \<Rightarrow> ('w st, unit) go" where
  "runRemedy E fuel wfNamespace =
     onErrG (processRemedyWorkflow E fuel wfNamespace) (\<lambda>_. warning_event ''Error executing RemedyWorkflow'')"

definition maybeRemedy :: "'w env \<Rightarrow> nat \<Rightarrow> string \<Rightarrow> time \<Rightarrow> ('w st, unit) go" where
  "maybeRemedy E fuel wfNamespace now =
     bindG get_hc (\<lambda>h. let sp = hcSpec h; st = hcStatus h in
     if \<not> IsEmpty (RemedyWorkflow sp) then
       if RemedyRunsLimit sp \<noteq> 0 \<and> RemedyResetInterval sp \<noteq> 0 then
         if RemedyRunsLimit sp > RemedyTotalRuns st then runRemedy E fuel wfNamespace
         else case RemedyFinishedAt st of
           None \<Rightarrow> panicG ''invalid memory address or nil pointer dereference''
         | Some f \<Rightarrow>
             let remedylastruntime = int_Seconds (time_Sub now f) in
             if RemedyResetInterval sp \<ge> remedylastruntime then retG ()
             else thenG (mod_status (remedy_reset ''RemedyResetInterval elapsed so Remedy is reset''))
                 (thenG (normal_event ''RemedyResetInterval elapsed so Remedy is reset'')
                        (runRemedy E fuel wfNamespace))
       else runRemedy E fuel wfNamespace
     else retG ())"

section \<open>One pass of the polling loop\<close>

definition hc_passed :: "('w st, unit) go" where
  "hc_passed = bindG get_hc (\<lambda>h.
     if \<not> IsEmpty (RemedyWorkflow (hcSpec h)) \<and> RemedyTotalRuns (hcStatus h) \<ge> 1 then
       thenG (mod_status (remedy_reset ''HealthCheck Passed so Remedy is reset''))
             (normal_event ''HealthCheck passed so Remedy is reset'')
     else retG ())"

definition hc_poll :: "'w env \<Rightarrow> nat \<Rightarrow> string \<Rightarrow> string \<Rightarrow> time \<Rightarrow> goerr option \<Rightarrow> ('w st, poll) go" where
  "hc_poll E fuel wfNamespace wfName thn err1 =
     bindG (time_Now E) (\<lambda>now.
     tryG (callE (wf_get E wfNamespace wfName))
       (\<lambda>e. thenG (warning_event ''Error attempting to find workflow for healthcheck. This may indicate that either the healthcheck was removed or the Workflow was GC'd before active-monitor could obtain the status'')
                  (swallow e)) (\<lambda>content.
     thenG (whenG (err1 \<noteq> None) (warning_event ''Workflow timed out''))
    (case poll_status err1 content of
       None \<Rightarrow> retG Wait
     | Some status \<Rightarrow>
         if is_string (gindex status ''phase'') succStr then
           thenG (normal_event ''Workflow status is Succeeded'')
          (thenG (mod_status (hc_succeeded now thn wfName))
          (thenG (success_metrics healthcheck now thn)
          (thenG hc_passed (retG Break))))
         else if is_string (gindex status ''phase'') failStr then
           thenG (warning_event ''Workflow status is Failed'')
          (thenG (mod_status (hc_failed now thn wfName (status_message status)))
          (thenG (failure_metrics healthcheck now thn)
          (thenG (maybeRemedy E fuel wfNamespace now) (retG Break))))
         else retG Wait)))"

section \<open>watchWorkflowReschedule\<close>

text \<open>The code after the loop: the status update and the next run.\<close>

definition finish_run :: "'w env \<Rightarrow> string \<Rightarrow> string \<Rightarrow> int \<Rightarrow> ('w st, unit) go" where
  "finish_run E reqName wfNamespace repeatAfterSec =
     bindG get_hc (\<lambda>h.
       if Time_IsZero (hcDeletionTimestamp h) then
         thenG (onErrG (updateHealthCheckStatus E) (\<lambda>_. report_update_error reqName))
        (thenG (rescheduleTimer wfNamespace repeatAfterSec)
               (normal_event ''Rescheduled workflow for next run''))
       else retG ())"

definition watchWorkflowReschedule :: "'w env \<Rightarrow> nat \<Rightarrow> string \<Rightarrow> string \<Rightarrow> string \<Rightarrow> ('w st, unit) go" where
  "watchWorkflowReschedule E fuel reqName wfNamespace wfName =
     bindG (time_Now E) (\<lambda>thn.
     bindG get_hc (\<lambda>h0.
     case computeBackoffParams E h0 of (maxTime, minTime, factor, timeout) \<Rightarrow>
     bindG (time_Now E) (\<lambda>t0.
     bindG (callW (ieb_new E maxTime minTime timeout factor t0)) (\<lambda>(ieTimer, err1).
     bindG (poll_loop (hc_poll E fuel wfNamespace wfName thn) E ieTimer fuel err1) (\<lambda>broke.
     if broke then finish_run E reqName wfNamespace (RepeatAfterSec (hcSpec h0)) else retG ())))))"

section \<open>createSubmitWorkflowHelper\<close>

text \<open>
  The function a timer calls; the timer holds what the closure captured. When the creation
  fails the watch goes on with the empty workflow name.
\<close>

definition createSubmitWorkflowHelper :: "'w env \<Rightarrow> nat \<Rightarrow> armed_timer \<Rightarrow> ('w st, unit) go" where
  "createSubmitWorkflowHelper E fuel a =
     tryG (callE (hc_get E (tmNamespace a) (tmName a))) (\<lambda>_. retG ()) (\<lambda>h.
     thenG (set_hc h)
    (bindG (tryG (createSubmitWorkflow E)
              (\<lambda>_. thenG (warning_event ''Error creating or submitting workflow'') (retG [])) retG) (\<lambda>wfName.
     tryG (watchWorkflowReschedule E fuel [] (tmWfNamespace a) wfName)
       (\<lambda>_. warning_event ''Error watching or rescheduling workflow'') retG)))"

section \<open>What they may touch\<close>

context stop_rel begin

lemma ev_runRemedy: "evolves R (runRemedy E fuel ns)"
  unfolding runRemedy_def by (intro ev_rules io_rules ev_processRemedy)

lemma ev_maybeRemedy: "evolves R (maybeRemedy E fuel ns now)"
  unfolding maybeRemedy_def by (intro ev_rules io_rules ev_runRemedy)

lemma ev_hc_passed: "evolves R hc_passed"
  unfolding hc_passed_def by (intro ev_rules io_rules)

end

context watch_rel begin

lemma ev_hc_metric: "metric_typed m v \<Longrightarrow> evolves R (emit_metric m healthcheck v)"
  unfolding emit_metric_def by (intro ev_rules io_rules ev_emit_any) simp

lemma ev_hc_metrics: "evolves R (success_metrics healthcheck now thn)" "evolves R (failure_metrics healthcheck now thn)"
  unfolding success_metrics_def failure_metrics_def by (intro ev_rules io_rules ev_hc_metric; simp)+

lemma ev_hc_poll: "evolves R (hc_poll E fuel ns n t e)"
  unfolding hc_poll_def
  by (intro ev_rules io_rules call_rules ev_hc_metrics ev_swallow ev_poll ev_maybeRemedy ev_hc_passed)

end

context timer_rel begin

lemma ev_finish_run: "evolves R (finish_run E n ns d)"
  unfolding finish_run_def by (intro ev_rules io_rules ev_updateStatus ev_report ev_resched)

lemma ev_watch: "evolves R (watchWorkflowReschedule E fuel n ns x)"
  unfolding watchWorkflowReschedule_def
  by (intro ev_rules io_rules call_rules ev_poll_loop ev_hc_poll ev_finish_run)

lemma ev_helper: "evolves R (createSubmitWorkflowHelper E fuel a)"
  unfolding createSubmitWorkflowHelper_def
  by (intro ev_rules io_rules call_rules submit_rules ev_watch)

end

end
