(* ===== verification/Reconciler.thy ===== *)
theory Reconciler imports Workflow_Watch begin

text \<open>
  The reconciler (healthcheck_controller.go): NewHealthCheckReconciler, Reconcile,
  processOrRecoverHealthCheck and processHealthCheck. A Go result pair
  \<open>(ctrl.Result, error)\<close> is a returned pair of the result and an optional error.
\<close>

section \<open>Construction\<close>

text \<open>
  The fields of a reconciler that the handlers change, as \<open>NewHealthCheckReconciler\<close> sets
  them: the map of timers is made, the map of labels is left nil.
\<close>

definition NewHealthCheckReconciler :: "'w \<Rightarrow> 'w st" where
  "NewHealthCheckReconciler w =
     \<lparr>world = w, RepeatTimersByName = Some Map.empty, workflowLabels = None, TimerLock = False,
      pending = Map.empty, next_timer = 0, trace = [], hc = zero_health_check\<rparr>"

section \<open>processHealthCheck\<close>

record result =
  RequeueAfter :: duration

definition no_result :: result where
  "no_result = \<lparr>RequeueAfter = 0\<rparr>"

definition stopped_status :: "int \<Rightarrow> string \<Rightarrow> time \<Rightarrow> health_check_status \<Rightarrow> health_check_status" where
  "stopped_status repeatAfterSec cron now st =
     st\<lparr>Status := ''Stopped'',
        ErrorMessage := ''workflow execution is stopped; either spec.RepeatAfterSec or spec.Schedule must be provided. spec.RepeatAfterSec set to ''
          @ strconv_Itoa repeatAfterSec @ ''. spec.Schedule set to {Cron:'' @ cron @ ''}'',
        FinishedAt := Some now\<rparr>"

definition stop_run :: "'w env \<Rightarrow> time \<Rightarrow> ('w st, unit) go" where
  "stop_run E now =
     bindG get_hc (\<lambda>h.
     thenG (mod_status (stopped_status (RepeatAfterSec (hcSpec h)) (Cron (Schedule (hcSpec h))) now))
    (thenG (warning_event ''Workflow execution is stopped; either spec.RepeatAfterSec or spec.Schedule must be provided'')
           (onErrG (updateHealthCheckStatus E) (\<lambda>_. warning_event ''Error updating healthcheck resource''))))"

text \<open>
  \<open>int(schedule.Next(time.Now()).Sub(time.Now())/time.Second) + 1\<close>, written to the
  HealthCheck in hand.
\<close>

definition cron_delay :: "(time \<Rightarrow> time) \<Rightarrow> time \<Rightarrow> time \<Rightarrow> int" where
  "cron_delay nxt t1 t2 = wrap64 (go_div (time_Sub (nxt t1) t2) Second + 1)"

definition set_repeat :: "int \<Rightarrow> health_check_spec \<Rightarrow> health_check_spec" where
  "set_repeat n sp = sp\<lparr>RepeatAfterSec := n\<rparr>"

definition cron_run :: "'w env \<Rightarrow> string \<Rightarrow> ('w st, unit) go" where
  "cron_run E cron =
     (case cron_parse E cron of
        Inl e \<Rightarrow> thenG (warning_event ''Fail to parse cron'') (failG e)
      | Inr nxt \<Rightarrow>
          bindG (time_Now E) (\<lambda>t1.
          bindG (time_Now E) (\<lambda>t2.
          mod_spec (set_repeat (cron_delay nxt t1 t2)))))"

text \<open>
  \<open>int(time.Now().Unix()-finishedAtTime) < hcSpec.RepeatAfterSec && r.GetTimerByName(name) != nil\<close>
\<close>

definition already_scheduled :: "'w env \<Rightarrow> int \<Rightarrow> ('w st, bool) go" where
  "already_scheduled E finishedAtTime =
     bindG (time_Now E) (\<lambda>t.
     bindG get_hc (\<lambda>h.
       if wrap64 (unix t - finishedAtTime) < RepeatAfterSec (hcSpec h)
       then bindG (GetTimerByName (hcName h)) (\<lambda>tm. retG (tm \<noteq> None))
       else retG False))"

text \<open>The part after the guards: permissions, submission, watch.\<close>

definition run_workflow :: "'w env \<Rightarrow> nat \<Rightarrow> string \<Rightarrow> ('w st, unit) go" where
  "run_workflow E fuel wfNamespace =
     thenG (onErrG (createRBACForWorkflow E hcKind)
              (\<lambda>_. warning_event ''Error creating RBAC for HealthCheckWorkflow''))
    (bindG (onErrG (createSubmitWorkflow E)
              (\<lambda>_. warning_event ''Error creating or submitting workflow'')) (\<lambda>generatedWfName.
     onErrG (watchWorkflowReschedule E fuel [] wfNamespace generatedWfName)
              (\<lambda>_. warning_event ''Error executing Workflow'')))"

definition finished_seconds :: "health_check \<Rightarrow> int" where
  "finished_seconds h = (case FinishedAt (hcStatus h) of None \<Rightarrow> 0 | Some f \<Rightarrow> unix f)"

definition processHealthCheck :: "'w env \<Rightarrow> nat \<Rightarrow> ('w st, result) go" where
  "processHealthCheck E fuel =
     bindG get_hc (\<lambda>h. let sp = hcSpec h in
     case Resource (Workflow sp) of
       None \<Rightarrow> retG no_result
     | Some res \<Rightarrow>
         bindG (time_Now E) (\<lambda>now.
         if RepeatAfterSec sp \<le> 0 \<and> Cron (Schedule sp) = [] then
           thenG (stop_run E now) (retG no_result)
         else if RepeatAfterSec sp \<le> 0 \<and> Cron (Schedule sp) \<noteq> [] then
           thenG (cron_run E (Cron (Schedule sp)))
          (thenG (run_workflow E fuel (ResNamespace res)) (retG no_result))
         else
           bindG (already_scheduled E (finished_seconds h)) (\<lambda>again.
           if again then retG no_result
           else thenG (run_workflow E fuel (ResNamespace res)) (retG no_result))))"

section \<open>processOrRecoverHealthCheck and Reconcile\<close>

text \<open>
  \<open>RetryOnConflict\<close> around \<open>Get\<close>, replacing the status, \<open>Update\<close>. The event of the error
  path is about \<open>healthCheckNew\<close>, the copy last read, or an empty object when no read
  succeeded; the model names the event by \<open>healthCheckNew\<close> through \<open>hc\<close> of a state that
  holds it.
\<close>

definition update_resource :: "'w env \<Rightarrow> ('w st, unit) go" where
  "update_resource E =
     bindG get_hc (\<lambda>healthCheck.
       thenG (set_hc zero_health_check)
      (onErrG
         (RetryOnConflict (conflict_retries E)
           (bindG (callE (hc_get E (hcNamespace healthCheck) (hcName healthCheck))) (\<lambda>hcNew.
            let upd = hcNew\<lparr>hcStatus := hcStatus healthCheck\<rparr> in
            thenG (set_hc upd)
           (thenG (emit (EvUpdate upd)) (callE (env.hc_update E upd))))))
         (\<lambda>_. warning_event ''Error updating healthcheck resource'')))"

definition processOrRecoverHealthCheck :: "'w env \<Rightarrow> nat \<Rightarrow> ('w st, result \<times> goerr option) go" where
  "processOrRecoverHealthCheck E fuel =
     recoverG
       (tryG (processHealthCheck E fuel)
          (\<lambda>procErr. if IsStorageError procErr then retG (no_result, None)
                     else retG (\<lparr>RequeueAfter = 1 * Second\<rparr>, Some procErr))
          (\<lambda>ret. tryG (update_resource E) (\<lambda>err. retG (no_result, Some err)) (\<lambda>_. retG (ret, None))))
       (no_result, None)"

text \<open>The branch of a failed \<open>Get\<close>: \<open>healthCheck\<close> is the empty object.\<close>

definition cancel_timer :: "string \<Rightarrow> ('w st, unit) go" where
  "cancel_timer name =
     bindG (GetTimerByName name) (\<lambda>t.
       if t \<noteq> None then
         thenG (set_hc zero_health_check)
        (thenG (normal_event ''Cancelling workflow for this healthcheck due to deletion'')
        (bindG (GetTimerByName name) stop_opt))
       else retG ())"

definition Reconcile :: "'w env \<Rightarrow> nat \<Rightarrow> string \<Rightarrow> string \<Rightarrow> ('w st, result \<times> goerr option) go" where
  "Reconcile E fuel namespace name =
     tryG (callE (hc_get E namespace name))
       (\<lambda>err. thenG (cancel_timer name) (retG (no_result, ignoreNotFound err)))
       (\<lambda>healthCheck. thenG (set_hc healthCheck) (processOrRecoverHealthCheck E fuel))"

section \<open>What they may touch\<close>

context io_rel begin

lemma ev_update_resource: "evolves R (update_resource E)"
  unfolding update_resource_def by (intro ev_rules io_rules call_rules ev_emit) simp_all

end

context timer_rel begin

lemma ev_stop_run: "evolves R (stop_run E now)"
  unfolding stop_run_def by (intro ev_rules io_rules ev_updateStatus)

lemma ev_cron_run: "evolves R (cron_run E c)"
  unfolding cron_run_def by (intro ev_rules io_rules call_rules)

lemma ev_already_scheduled: "evolves R (already_scheduled E f)"
  unfolding already_scheduled_def by (intro ev_rules io_rules call_rules)

lemma ev_run_workflow: "evolves R (run_workflow E fuel ns)"
  unfolding run_workflow_def
  by (intro ev_rules io_rules submit_rules ev_watch rbac.ev_createRBAC)

lemma ev_processHealthCheck: "evolves R (processHealthCheck E fuel)"
  unfolding processHealthCheck_def
  by (intro ev_rules io_rules call_rules ev_stop_run ev_cron_run ev_already_scheduled ev_run_workflow)

lemma ev_processOrRecover: "evolves R (processOrRecoverHealthCheck E fuel)"
  unfolding processOrRecoverHealthCheck_def
  by (intro ev_rules io_rules ev_processHealthCheck ev_update_resource)

lemma ev_cancel_timer: "evolves R (cancel_timer n)"
  unfolding cancel_timer_def by (intro ev_rules io_rules ev_stop_opt)

lemma ev_Reconcile: "evolves R (Reconcile E fuel ns n)"
  unfolding Reconcile_def by (intro ev_rules io_rules call_rules ev_cancel_timer ev_processOrRecover)

end

end
