(* ===== verification/Guarded.thy ===== *)
theory Guarded imports Reconciler begin

text \<open>
  What can go wrong in a handler. \<open>guarded I A m\<close>: from a state with the invariant \<open>I\<close> the
  call \<open>m\<close> ends in a state with \<open>I\<close>, and it ends abnormally only in the ways listed in
  \<open>A\<close> (a panic, waiting for ever on TimerLock, a polling loop that used up its fuel).
  The locale \<open>guard\<close> carries such a statement through every function of the controller
  once; the theory Robustness instantiates it.
\<close>

section \<open>Abnormal ends\<close>

datatype abn = APanic | ABlocked | ANoFuel

fun abn_of :: "'a outcome \<Rightarrow> abn option" where
  "abn_of (Ret x) = None"
| "abn_of (Fail e) = None"
| "abn_of (Panic p) = Some APanic"
| "abn_of Blocked = Some ABlocked"
| "abn_of NoFuel = Some ANoFuel"

definition guarded :: "('s \<Rightarrow> bool) \<Rightarrow> abn set \<Rightarrow> ('s, 'a) go \<Rightarrow> bool" where
  "guarded I A m \<longleftrightarrow> (\<forall>s. I s \<longrightarrow> I (snd (m s)) \<and> (\<forall>b. abn_of (fst (m s)) = Some b \<longrightarrow> b \<in> A))"

lemma guardedI:
  "(\<And>s. I s \<Longrightarrow> I (snd (m s))) \<Longrightarrow> (\<And>s b. I s \<Longrightarrow> abn_of (fst (m s)) = Some b \<Longrightarrow> b \<in> A) \<Longrightarrow> guarded I A m"
  by (simp add: guarded_def)

lemma guardedD: "guarded I A m \<Longrightarrow> I s \<Longrightarrow> I (snd (m s))"
  and guarded_abn: "guarded I A m \<Longrightarrow> I s \<Longrightarrow> abn_of (fst (m s)) = Some b \<Longrightarrow> b \<in> A"
  by (simp_all add: guarded_def)

lemma gd_prims:
  "guarded I A (retG x)" "guarded I A (failG e)" "guarded I A (getsG f)"
  "APanic \<in> A \<Longrightarrow> guarded I A (panicG p)"
  by (simp_all add: guarded_def)

lemma gd_try: "guarded I A m \<Longrightarrow> (\<And>e. guarded I A (h e)) \<Longrightarrow> (\<And>x. guarded I A (k x)) \<Longrightarrow> guarded I A (tryG m h k)"
proof (rule guardedI)
  fix s assume m: "guarded I A m" and h: "\<And>e. guarded I A (h e)" and k: "\<And>x. guarded I A (k x)" and s: "I s"
  obtain r s' where ms: "m s = (r, s')" by fastforce
  with m s have s': "I s'" and a: "\<And>b. abn_of r = Some b \<Longrightarrow> b \<in> A" by (auto simp: guarded_def)
  show "I (snd (tryG m h k s))"
    using s' guardedD [OF h] guardedD [OF k] by (cases r) (simp_all add: tryG_run ms)
  show "b \<in> A" if "abn_of (fst (tryG m h k s)) = Some b" for b
    using that a s' guarded_abn [OF h] guarded_abn [OF k] by (cases r) (auto simp: tryG_run ms)
qed

lemma gd_bind: "guarded I A m \<Longrightarrow> (\<And>x. guarded I A (f x)) \<Longrightarrow> guarded I A (bindG m f)"
  unfolding bindG_def by (intro gd_try gd_prims)

lemma gd_then: "guarded I A m \<Longrightarrow> guarded I A n \<Longrightarrow> guarded I A (thenG m n)"
  unfolding thenG_def by (rule gd_bind)

lemma gd_onErr: "guarded I A m \<Longrightarrow> (\<And>e. guarded I A (h e)) \<Longrightarrow> guarded I A (onErrG m h)"
  unfolding onErrG_def by (intro gd_try gd_then gd_prims)

lemma gd_when: "guarded I A m \<Longrightarrow> guarded I A (whenG b m)"
  by (simp add: guarded_def whenG_def)

lemma gd_if: "(b \<Longrightarrow> guarded I A m) \<Longrightarrow> (\<not> b \<Longrightarrow> guarded I A n) \<Longrightarrow> guarded I A (if b then m else n)"
  by simp

lemma gd_option:
  "(z = None \<Longrightarrow> guarded I A m) \<Longrightarrow> (\<And>x. z = Some x \<Longrightarrow> guarded I A (f x))
    \<Longrightarrow> guarded I A (case z of None \<Rightarrow> m | Some x \<Rightarrow> f x)"
  by (cases z) simp_all

lemma gd_sum:
  "(\<And>e. z = Inl e \<Longrightarrow> guarded I A (h e)) \<Longrightarrow> (\<And>x. z = Inr x \<Longrightarrow> guarded I A (f x))
    \<Longrightarrow> guarded I A (case z of Inl e \<Rightarrow> h e | Inr x \<Rightarrow> f x)"
  by (cases z) simp_all

lemma gd_prod: "(\<And>a b. guarded I A (f a b)) \<Longrightarrow> guarded I A (case z of (a, b) \<Rightarrow> f a b)"
  by (cases z) simp

lemma gd_let: "(\<And>x. guarded I A (f x)) \<Longrightarrow> guarded I A (Let z f)"
  by (simp add: Let_def)

lemma gd_retry: "guarded I A m \<Longrightarrow> guarded I A (RetryOnConflict n m)"
  by (induction n) (auto intro!: gd_try gd_if gd_prims)

lemma gd_recover:
  assumes "guarded I (insert APanic A) m"
  shows "guarded I A (recoverG m z)"
proof (rule guardedI)
  fix s assume s: "I s"
  show "I (snd (recoverG m z s))"
    using guardedD [OF assms s] by (auto simp: recoverG_run split: prod.splits outcome.splits)
  show "b \<in> A" if "abn_of (fst (recoverG m z s)) = Some b" for b
    using that guarded_abn [OF assms s, of b] by (auto simp: recoverG_run split: prod.splits outcome.splits)
qed

lemma gd_weaken: "guarded I A m \<Longrightarrow> A \<subseteq> B \<Longrightarrow> guarded I B m"
  by (auto simp: guarded_def)

lemmas gd_rules = gd_prims(1-3) gd_then gd_onErr gd_when gd_if gd_option gd_sum gd_prod gd_let gd_retry

section \<open>The backoff timer\<close>

text \<open>
  What the polling loops rely on: \<open>Next\<close> can put the timeout off only so often, counted by
  \<open>rank\<close>; the clock and reading a workflow do not give it more time; a new timer starts
  with at most \<open>B\<close> pauses.
\<close>

locale backoff_env =
  fixes E :: "'w env" and rank :: "nat \<Rightarrow> 'w \<Rightarrow> nat" and B :: nat
  assumes next_down: "ieb_next E i w = (None, w') \<Longrightarrow> rank i w' < rank i w"
    and clock_keeps: "rank i (snd (clock E w)) \<le> rank i w"
    and get_keeps: "rank i (snd (wf_get E ns n w)) \<le> rank i w"
    and new_rank: "ieb_new E mx mn to f t w = ((i, None), w') \<Longrightarrow> rank i w' \<le> B"

lemma thenG_Ret:
  "fst (thenG m n s) = Ret x \<longleftrightarrow> (\<exists>u s'. m s = (Ret u, s') \<and> fst (n s') = Ret x)"
  by (auto simp: thenG_run split: prod.splits outcome.splits)

lemma swallow_not_Wait: "fst (swallow e s) \<noteq> Ret Wait"
  by (simp add: swallow_def split: option.splits)

text \<open>A pass that asks for another one has only looked at the clock and at the workflow.\<close>

lemma remedy_poll_wait:
  assumes "fst (remedy_poll E ns n t e s) = Ret Wait"
  shows "e = None \<and> world (snd (remedy_poll E ns n t e s)) = snd (wf_get E ns n (snd (clock E (world s))))"
proof -
  obtain now w1 where c: "clock E (world s) = (now, w1)" by fastforce
  obtain g w2 where g: "wf_get E ns n w1 = (g, w2)" by fastforce
  show ?thesis
  proof (cases g)
    case (Inl x)
    then show ?thesis using assms by (simp add: remedy_poll_def go_simps c g swallow_not_Wait)
  next
    case (Inr content)
    have "e = None"
      using assms by (cases e) (auto simp: remedy_poll_def bindG_run tryG_run prim_run callE_run c g Inr poll_status_def
          gindex_def thenG_Ret split: if_splits)
    then show ?thesis
      using assms by (auto simp: remedy_poll_def bindG_run tryG_run prim_run callE_run c g Inr thenG_Ret whenG_run
          thenG_run [of "whenG False m" for m] split: option.splits if_splits)
  qed
qed

lemma hc_poll_wait:
  assumes "fst (hc_poll E fuel ns n t e s) = Ret Wait"
  shows "e = None \<and> world (snd (hc_poll E fuel ns n t e s)) = snd (wf_get E ns n (snd (clock E (world s))))"
proof -
  obtain now w1 where c: "clock E (world s) = (now, w1)" by fastforce
  obtain g w2 where g: "wf_get E ns n w1 = (g, w2)" by fastforce
  show ?thesis
  proof (cases g)
    case (Inl x)
    then show ?thesis using assms
      by (auto simp: hc_poll_def bindG_run tryG_run prim_run callE_run c g thenG_Ret swallow_not_Wait)
  next
    case (Inr content)
    have "e = None"
      using assms by (cases e) (auto simp: hc_poll_def bindG_run tryG_run prim_run callE_run c g Inr poll_status_def
          gindex_def thenG_Ret split: if_splits)
    then show ?thesis
      using assms by (auto simp: hc_poll_def bindG_run tryG_run prim_run callE_run c g Inr thenG_Ret whenG_run
          thenG_run [of "whenG False m" for m] split: option.splits if_splits)
  qed
qed

section \<open>Carried through the handlers\<close>

text \<open>A remedy that has run has a time at which it finished.\<close>

definition counts_ok :: "health_check_status \<Rightarrow> bool" where
  "counts_ok st \<longleftrightarrow> (1 \<le> RemedyTotalRuns st \<longrightarrow> RemedyFinishedAt st \<noteq> None)"

text \<open>
  \<open>J\<close>: what \<open>I\<close> says of the HealthCheck in hand. The last two assumptions are needed
  only where the abnormal end they exclude is not in \<open>A\<close>.
\<close>

locale guard =
  fixes I :: "'w st \<Rightarrow> bool" and J :: "health_check \<Rightarrow> bool" and A :: "abn set"
    and E :: "'w env" and fuel :: nat and rank :: "nat \<Rightarrow> 'w \<Rightarrow> nat" and B :: nat
  assumes I_J: "I s \<Longrightarrow> J (hc s)"
    and I_hc: "I s \<Longrightarrow> J h \<Longrightarrow> I (s\<lparr>hc := h\<rparr>)"
    and I_world: "I s \<Longrightarrow> I (s\<lparr>world := w\<rparr>)"
    and I_trace: "I s \<Longrightarrow> I (s\<lparr>trace := tr\<rparr>)"
    and g_read_timer: "guarded I A (rlocked (read_timer n))"
    and g_read_labels: "guarded I A (rlocked workflowLabels)"
    and g_labels: "yaml_unmarshal E t = Inr dt \<Longrightarrow> guarded I A (parse_labels E g dt)"
    and g_resched: "guarded I A (rescheduleTimer ns d)"
    and g_report: "guarded I A (report_update_error [])"
    and J_spec: "J h \<Longrightarrow> RemedyRunsLimit sp = RemedyRunsLimit (hcSpec h)
      \<Longrightarrow> RemedyResetInterval sp = RemedyResetInterval (hcSpec h)
      \<Longrightarrow> (Resource (Workflow sp) = None) = (Resource (Workflow (hcSpec h)) = None) \<Longrightarrow> J (h\<lparr>hcSpec := sp\<rparr>)"
    and resource: "APanic \<in> A \<or> (\<forall>h. J h \<longrightarrow> Resource (Workflow (hcSpec h)) \<noteq> None)"
    and ends: "ANoFuel \<in> A \<or> (backoff_env E rank B \<and> B + 2 \<le> fuel)"
begin

lemma gd_get_hc: "guarded I A get_hc"
  by (simp add: guarded_def prim_run)

text \<open>The HealthCheck that is read satisfies \<open>J\<close>.\<close>

lemma gd_get: "(\<And>h. J h \<Longrightarrow> guarded I A (f h)) \<Longrightarrow> guarded I A (bindG get_hc f)"
  unfolding guarded_def bindG_run prim_run by (auto dest: I_J)

lemma gd_callW: "guarded I A (callW f)"
  by (auto simp: guarded_def callW_run I_world split: prod.splits)

lemma gd_callE: "guarded I A (callE f)"
  by (auto simp: guarded_def callE_run I_world split: prod.splits sum.splits)

lemma gd_time: "guarded I A (time_Now E)"
  unfolding time_Now_def by (rule gd_callW)

lemma gd_emit: "guarded I A (emit e)"
  by (simp add: guarded_def prim_run I_trace)

lemma gd_event: "guarded I A (event ty re msg)"
  by (simp add: guarded_def prim_run I_trace)

lemma gd_set_hc: "J h \<Longrightarrow> guarded I A (set_hc h)"
  by (simp add: guarded_def prim_run I_hc)

lemma gd_mod_spec:
  "(\<And>sp. RemedyRunsLimit (f sp) = RemedyRunsLimit sp) \<Longrightarrow>
   (\<And>sp. RemedyResetInterval (f sp) = RemedyResetInterval sp) \<Longrightarrow>
   (\<And>sp. (Resource (Workflow (f sp)) = None) = (Resource (Workflow sp) = None)) \<Longrightarrow> guarded I A (mod_spec f)"
  by (simp add: guarded_def prim_run I_hc I_J J_spec)

lemma gd_timer: "guarded I A (GetTimerByName n)"
  unfolding GetTimerByName_def by (rule g_read_timer)

lemma gd_no_resource: "J h \<Longrightarrow> Resource (Workflow (hcSpec h)) = None \<Longrightarrow> guarded I A (panicG p)"
  using resource by (auto intro: gd_prims)

lemmas g_rules = gd_get gd_bind gd_try gd_callW gd_callE gd_time gd_emit gd_event gd_timer g_read_labels gd_get_hc

lemma gd_updateStatus: "guarded I A (updateHealthCheckStatus E)"
  unfolding updateHealthCheckStatus_def by (rule g_rules gd_rules | assumption)+

lemma gd_ensure: "guarded I A (ensure_object cl k ns n x a b)"
  unfolding ensure_object_def by (rule g_rules gd_rules | assumption)+

lemma gd_delete: "guarded I A (delete_managed cl k ns n x)"
  unfolding delete_managed_def by (rule g_rules gd_rules | assumption)+

lemma gd_prepareRemedy: "guarded I A (prepareRemedy sa)"
  unfolding prepareRemedy_def
  by (rule g_rules gd_rules gd_mod_spec | assumption | simp add: set_remedy_account_def)+

lemma gd_createObjects: "guarded I A (createObjects E ty h res rn)"
  unfolding createObjects_def createClusterLevel_def createNamespaceLevel_def rbac_object_defs
  by (rule g_rules gd_rules gd_ensure | assumption)+

lemma gd_createRBAC: "guarded I A (createRBACForWorkflow E ty)"
  unfolding createRBACForWorkflow_def
  by (rule gd_get gd_option gd_no_resource gd_bind gd_prepareRemedy gd_createObjects | assumption)+

lemma gd_deleteRBAC: "guarded I A (deleteRBACForWorkflow E)"
  unfolding deleteRBACForWorkflow_def deleteObjects_def rbac_object_defs
  by (rule g_rules gd_rules gd_delete | assumption)+

lemma gd_Read: "guarded I A (Read E r)"
proof (rule guardedI)
  fix s assume s: "I s"
  obtain w where "snd (Read E r s) = s\<lparr>world := w\<rparr>" using any_reader.rd_world [of E r s] by blast
  then show "I (snd (Read E r s))" using I_world [OF s] by simp
  show "b \<in> A" if "abn_of (fst (Read E r s)) = Some b" for b
    using that any_reader.rd_calm [of E r s] by auto
qed

lemma gd_load: "(\<And>t. guarded I A (note t)) \<Longrightarrow> guarded I A (load_source E src note)"
  unfolding load_source_def by (rule g_rules gd_rules gd_Read | assumption)+

text \<open>Decoding followed by the labels: only documents the decoder answers are merged.\<close>

lemma gd_decode:
  assumes "\<And>e. guarded I A (note e)" and "\<And>d. guarded I A (k d)"
  shows "guarded I A (bindG (onErrG (unmarshal E t) note) (\<lambda>d. bindG (parse_labels E g d) k))"
proof (cases "yaml_unmarshal E t")
  case (Inl e)
  then have "bindG (onErrG (unmarshal E t) note) (\<lambda>d. bindG (parse_labels E g d) k) = thenG (note e) (failG e)"
    by (auto simp: unmarshal_def go_simps fun_eq_iff split: prod.splits outcome.splits)
  then show ?thesis by (auto intro: gd_then assms gd_prims)
next
  case (Inr d)
  then have "bindG (onErrG (unmarshal E t) note) (\<lambda>d. bindG (parse_labels E g d) k) = bindG (parse_labels E g d) k"
    by (auto simp: unmarshal_def go_simps fun_eq_iff)
  then show ?thesis by (auto intro: gd_bind assms g_labels [OF Inr])
qed

lemma gd_decode_plain:
  assumes "\<And>d. guarded I A (k d)"
  shows "guarded I A (bindG (unmarshal E t) (\<lambda>d. bindG (parse_labels E g d) k))"
proof -
  have "onErrG (unmarshal E t) (\<lambda>_. retG ()) = unmarshal E t"
    by (auto simp: fun_eq_iff unmarshal_def go_simps split: sum.splits)
  with gd_decode [of "\<lambda>_. retG ()" k t g] assms gd_prims(1) show ?thesis by metis
qed

lemma gd_spec_of: "guarded I A (spec_of a b c d m)"
  unfolding spec_of_def by (rule g_rules gd_rules | assumption)+

lemma gd_default_timeout: "guarded I A default_timeout"
  unfolding default_timeout_def
  by (rule g_rules gd_rules gd_mod_spec | assumption | simp add: set_wf_timeout_def)+

lemma gd_parse: "guarded I A (parseWorkflowFromHealthcheck E)"
  unfolding parseWorkflowFromHealthcheck_def Let_def
  by (rule gd_get gd_decode gd_bind gd_load gd_spec_of gd_default_timeout gd_option gd_no_resource gd_then
      gd_event gd_prims(1) | assumption)+

lemma gd_parseRemedy: "guarded I A (parseRemedyWorkflowFromHealthcheck E)"
  unfolding parseRemedyWorkflowFromHealthcheck_def Let_def
  by (rule gd_get gd_decode_plain gd_bind gd_load gd_spec_of gd_mod_spec gd_option gd_then
      gd_event gd_prims(1) | assumption | simp add: set_remedy_timeout_def)+

lemma gd_submit_with_labels: "guarded I A (submit_with_labels E mk msg)"
  unfolding submit_with_labels_def create_workflow_def by (rule g_rules gd_rules | assumption)+

lemma gd_createSubmit: "guarded I A (createSubmitWorkflow E)"
  unfolding createSubmitWorkflow_def ignore_error_def
  by (rule gd_get gd_try gd_parse gd_bind gd_submit_with_labels gd_option gd_no_resource gd_prims(1) | assumption)+

lemma gd_createSubmitRemedy: "guarded I A (createSubmitRemedyWorkflow E)"
  unfolding createSubmitRemedyWorkflow_def ignore_error_def
  by (rule gd_get gd_try gd_parseRemedy gd_bind gd_submit_with_labels gd_option gd_prims(1,2) | assumption)+

text \<open>The polling loop ends when the fuel covers the pauses of the backoff timer.\<close>

lemma poll_loop_guarded:
  assumes body: "\<And>e. guarded I A (body e)"
    and wait: "\<And>e s. fst (body e s) = Ret Wait \<Longrightarrow>
      e = None \<and> world (snd (body e s)) = snd (wf_get E ns m (snd (clock E (world s))))"
    and s: "I s"
    and enough: "ANoFuel \<in> A \<or> backoff_env E rank B \<and> (if e = None then rank i (world s) + 2 \<le> n else 1 \<le> n)"
  shows "I (snd (poll_loop body E i n e s)) \<and> (\<forall>b. abn_of (fst (poll_loop body E i n e s)) = Some b \<longrightarrow> b \<in> A)"
  using s enough
proof (induction n arbitrary: e s)
  case 0
  then show ?case by (auto split: if_splits)
next
  case (Suc n)
  obtain r s1 where b: "body e s = (r, s1)" by fastforce
  have s1: "I s1" and ra: "\<And>b. abn_of r = Some b \<Longrightarrow> b \<in> A"
    using guardedD [OF body Suc.prems(1), of e] guarded_abn [OF body Suc.prems(1), of e] by (simp_all add: b)
  show ?case
  proof (cases "r = Ret Wait")
    case False
    show ?thesis
    proof (cases r)
      case (Ret p)
      then show ?thesis using False s1 ra by (cases p) (auto simp: bindG_run b)
    qed (use s1 ra in \<open>auto simp: bindG_run b\<close>)
  next
    case True
    then have w: "e = None" "world s1 = snd (wf_get E ns m (snd (clock E (world s))))"
      using wait [of e s] by (simp_all add: b)
    obtain e' w' where nx: "ieb_next E i (world s1) = (e', w')" by fastforce
    let ?s = "s1\<lparr>world := w'\<rparr>"
    have en: "ANoFuel \<in> A \<or> backoff_env E rank B \<and> (if e' = None then rank i (world ?s) + 2 \<le> n else 1 \<le> n)"
    proof (cases "ANoFuel \<in> A")
      case False
      then have be: "backoff_env E rank B" and n: "rank i (world s) + 2 \<le> Suc n"
        using Suc.prems(2) w(1) by auto
      have "rank i (world s1) \<le> rank i (world s)"
        using backoff_env.get_keeps [OF be, of i ns m] backoff_env.clock_keeps [OF be, of i "world s"] w(2)
        by (metis le_trans)
      moreover have "rank i w' < rank i (world s1)" if "e' = None"
        using backoff_env.next_down [OF be] nx that by simp
      ultimately show ?thesis using be n by auto
    qed simp
    have step: "poll_loop body E i (Suc n) e s = poll_loop body E i n e' ?s"
      by (simp add: bindG_run b True callW_run nx)
    show ?thesis
      unfolding step by (rule Suc.IH [OF I_world [OF s1] en])
  qed
qed

lemma gd_poll:
  assumes body: "\<And>e. guarded I A (body e)"
    and wait: "\<And>e s. fst (body e s) = Ret Wait \<Longrightarrow>
      e = None \<and> world (snd (body e s)) = snd (wf_get E ns m (snd (clock E (world s))))"
    and k: "\<And>b. guarded I A (k b)"
  shows "guarded I A (bindG (callW (ieb_new E mx mn to f t)) (\<lambda>(i, e). bindG (poll_loop body E i fuel e) k))"
proof (rule guardedI)
  fix s assume s: "I s"
  obtain i e w where n: "ieb_new E mx mn to f t (world s) = ((i, e), w)" by (metis prod.exhaust)
  let ?s = "s\<lparr>world := w\<rparr>"
  have "ANoFuel \<in> A \<or> backoff_env E rank B \<and> (if e = None then rank i (world ?s) + 2 \<le> fuel else 1 \<le> fuel)"
  proof (cases "ANoFuel \<in> A")
    case False
    with ends have be: "backoff_env E rank B" and le: "B + 2 \<le> fuel" by auto
    show ?thesis
      using backoff_env.new_rank [OF be, of mx mn to f t "world s" i w] n be le by (cases e) simp_all
  qed simp
  from poll_loop_guarded [OF body wait I_world [OF s, of w] this]
  have *: "I (snd (poll_loop body E i fuel e ?s))"
      "\<And>b. abn_of (fst (poll_loop body E i fuel e ?s)) = Some b \<Longrightarrow> b \<in> A"
    by blast+
  obtain r s' where l: "poll_loop body E i fuel e ?s = (r, s')" by fastforce
  show "I (snd (bindG (callW (ieb_new E mx mn to f t)) (\<lambda>(i, e). bindG (poll_loop body E i fuel e) k) s))"
    using * guardedD [OF k] by (cases r) (simp_all add: bindG_run callW_run n l)
  show "b \<in> A" if "abn_of (fst (bindG (callW (ieb_new E mx mn to f t)) (\<lambda>(i, e). bindG (poll_loop body E i fuel e) k) s)) = Some b" for b
    using that * guarded_abn [OF k] by (cases r) (auto simp: bindG_run callW_run n l)
qed

lemma gd_metric: "guarded I A (emit_metric m l v)"
  unfolding emit_metric_def by (rule gd_get gd_emit)+

lemma gd_failure_metrics: "guarded I A (failure_metrics l now t)"
  unfolding failure_metrics_def by (rule gd_then gd_metric)+

lemma gd_swallow: "guarded I A (swallow e)"
  unfolding swallow_def by (rule gd_option gd_prims)+

end

text \<open>An invariant that survives the changes of the status the controller makes.\<close>

locale status_guard = guard +
  assumes J_status: "J h \<Longrightarrow> (counts_ok (hcStatus h) \<longrightarrow> counts_ok st)
      \<Longrightarrow> (FinishedAt (hcStatus h) \<noteq> None \<longrightarrow> FinishedAt st \<noteq> None) \<Longrightarrow> J (h\<lparr>hcStatus := st\<rparr>)"
begin

lemma gd_mod_status:
  "(\<And>st. counts_ok st \<Longrightarrow> counts_ok (f st)) \<Longrightarrow>
   (\<And>st. FinishedAt st \<noteq> None \<Longrightarrow> FinishedAt (f st) \<noteq> None) \<Longrightarrow> guarded I A (mod_status f)"
  by (simp add: guarded_def prim_run I_hc I_J J_status)

lemma gd_remedy_reset: "guarded I A (mod_status (remedy_reset m))"
  by (rule gd_mod_status) (simp_all add: remedy_reset_def counts_ok_def)

end

section \<open>The remedy's run\<close>

locale remedy_guard = status_guard +
  assumes finished: "APanic \<in> A \<or> (\<forall>h. J h \<longrightarrow> FinishedAt (hcStatus h) \<noteq> None)"
begin

lemma gd_success_metrics: "guarded I A (success_metrics l now t)"
proof -
  have pan: "guarded I A (panicG p)" if "J h" "FinishedAt (hcStatus h) = None" for h p
    using that finished by (auto intro: gd_prims)
  show ?thesis
    unfolding success_metrics_def by (rule gd_then gd_metric gd_get gd_option pan | assumption)+
qed

lemma gd_remedy_poll: "guarded I A (remedy_poll E ns n t e)"
  unfolding remedy_poll_def
  by (rule gd_bind gd_time gd_try gd_callE gd_swallow gd_then gd_when gd_event gd_option gd_prims(1) gd_if
      gd_success_metrics gd_failure_metrics gd_mod_status
    | simp add: remedy_succeeded_def remedy_failed_def counts_ok_def Let_def)+

lemma gd_watchRemedy: "guarded I A (watchRemedyWorkflow E fuel [] ns n)"
proof -
  have tail: "guarded I A (if b then bindG get_hc (\<lambda>h. if Time_IsZero (hcDeletionTimestamp h)
         then onErrG (updateHealthCheckStatus E) (\<lambda>_. report_update_error []) else retG ()) else retG ())" for b
    by (rule gd_if gd_get gd_onErr gd_updateStatus g_report gd_prims(1))+
  show ?thesis
    unfolding watchRemedyWorkflow_def remedyBackoffParams_def Let_def prod.case
    by (rule gd_bind gd_time gd_get_hc gd_poll gd_remedy_poll tail | erule remedy_poll_wait)+
qed

lemma gd_processRemedy: "guarded I A (processRemedyWorkflow E fuel ns)"
  unfolding processRemedyWorkflow_def
  by (rule gd_then gd_onErr gd_createRBAC gd_event gd_bind gd_createSubmitRemedy gd_watchRemedy gd_deleteRBAC)+

lemma gd_runRemedy: "guarded I A (runRemedy E fuel ns)"
  unfolding runRemedy_def by (rule gd_onErr gd_processRemedy gd_event)+

end

section \<open>The run of a HealthCheck\<close>

text \<open>
  Once a run has ended the HealthCheck has a FinishedAt: from there on the stronger
  invariant holds, under which the remedy is covered.
\<close>

definition has_finished :: "health_check \<Rightarrow> bool" where
  "has_finished h \<longleftrightarrow> FinishedAt (hcStatus h) \<noteq> None"

lemma gd_keep_hc:
  assumes "guarded I A m" and "evolves (\<lambda>s s'. hc s' = hc s) m"
  shows "guarded (\<lambda>s. I s \<and> P (hc s)) A m"
  using assms by (auto simp: guarded_def evolves_def)

lemma parse_labels_hc: "evolves (\<lambda>s s'. hc s' = hc s) (parse_labels E g d)"
proof -
  have prim: "evolves (\<lambda>s s'. hc s' = hc s) (put_label k v)" "evolves (\<lambda>s s'. hc s' = hc s) make_labels"
    "evolves (\<lambda>s s'. hc s' = hc s) lock_timer" "evolves (\<lambda>s s'. hc s' = hc s) unlock_timer" for k v
    by (auto simp: evolves_def label_run lock_run split: option.splits)
  show ?thesis
    unfolding parse_labels_def assign_labels_def by (rule keep_rules prim)+
qed

lemma resched_hc: "evolves (\<lambda>s s'. hc s' = hc s) (rescheduleTimer ns d)"
  by (auto simp: evolves_def rescheduleTimer_run Let_def split: prod.splits option.splits)

lemma rlocked_hc: "evolves (\<lambda>s s'. hc s' = hc s) (rlocked f)"
  by (simp add: evolves_def lock_run)

lemma report_hc: "evolves (\<lambda>s s'. hc s' = hc s) (report_update_error n)"
  by (auto simp: evolves_def report_update_error_def go_simps stop_opt_def split: option.splits)

locale run_guard = status_guard +
  assumes limit: "APanic \<in> A \<or> (\<forall>h. J h \<longrightarrow> counts_ok (hcStatus h) \<and> 0 \<le> RemedyRunsLimit (hcSpec h))"

sublocale run_guard \<subseteq> fin: remedy_guard "\<lambda>s. I s \<and> has_finished (hc s)" "\<lambda>h. J h \<and> has_finished h" A E fuel rank B
proof unfold_locales
  show "guarded (\<lambda>s. I s \<and> has_finished (hc s)) A (rlocked (read_timer n))" for n
    by (rule gd_keep_hc [OF g_read_timer rlocked_hc])
  show "guarded (\<lambda>s. I s \<and> has_finished (hc s)) A (rlocked workflowLabels)"
    by (rule gd_keep_hc [OF g_read_labels rlocked_hc])
  show "guarded (\<lambda>s. I s \<and> has_finished (hc s)) A (parse_labels E g dt)" if "yaml_unmarshal E t = Inr dt" for t dt g
    by (rule gd_keep_hc [OF g_labels [OF that] parse_labels_hc])
  show "guarded (\<lambda>s. I s \<and> has_finished (hc s)) A (rescheduleTimer ns d)" for ns d
    by (rule gd_keep_hc [OF g_resched resched_hc])
  show "guarded (\<lambda>s. I s \<and> has_finished (hc s)) A (report_update_error [])"
    by (rule gd_keep_hc [OF g_report report_hc])
  show "APanic \<in> A \<or> (\<forall>h. J h \<and> has_finished h \<longrightarrow> Resource (Workflow (hcSpec h)) \<noteq> None)"
    using resource by blast
  show "ANoFuel \<in> A \<or> backoff_env E rank B \<and> B + 2 \<le> fuel"
    by (rule ends)
qed (use I_J I_hc I_world I_trace J_spec J_status in \<open>auto simp: has_finished_def\<close>)

context run_guard begin

text \<open>A status change that sets FinishedAt enters the stronger invariant.\<close>

lemma gd_enter:
  assumes "\<And>st. counts_ok st \<Longrightarrow> counts_ok (f st)" and "\<And>st. FinishedAt (f st) \<noteq> None"
    and "guarded (\<lambda>s. I s \<and> has_finished (hc s)) A m"
  shows "guarded I A (thenG (mod_status f) m)"
proof -
  have "I (snd (mod_status f s)) \<and> has_finished (hc (snd (mod_status f s)))" if "I s" for s
    using that assms(1,2) I_hc [OF that J_status [OF I_J [OF that]]] by (simp add: prim_run has_finished_def)
  then show ?thesis
    using assms(3) unfolding guarded_def by (fastforce simp: thenG_run prim_run)
qed

lemma gd_nil_remedy_time:
  "J h \<and> has_finished h \<Longrightarrow> RemedyRunsLimit (hcSpec h) \<noteq> 0 \<Longrightarrow> \<not> RemedyTotalRuns (hcStatus h) < RemedyRunsLimit (hcSpec h)
    \<Longrightarrow> RemedyFinishedAt (hcStatus h) = None \<Longrightarrow> guarded (\<lambda>s. I s \<and> has_finished (hc s)) A (panicG p)"
  using limit by (fastforce simp: counts_ok_def intro: gd_prims)

lemma gd_maybeRemedy: "guarded (\<lambda>s. I s \<and> has_finished (hc s)) A (maybeRemedy E fuel ns now)"
  unfolding maybeRemedy_def Let_def
  by (rule fin.gd_get gd_if fin.gd_runRemedy gd_option gd_prims(1) gd_then fin.gd_remedy_reset fin.gd_event
    | (rule gd_nil_remedy_time; simp))+

lemma gd_hc_passed: "guarded (\<lambda>s. I s \<and> has_finished (hc s)) A hc_passed"
  unfolding hc_passed_def by (rule fin.gd_get gd_if gd_then fin.gd_remedy_reset fin.gd_event gd_prims(1))+

lemma gd_hc_poll: "guarded I A (hc_poll E fuel ns n t e)"
  unfolding hc_poll_def
  by (rule gd_bind gd_time gd_try gd_callE gd_swallow gd_enter gd_then gd_when gd_event gd_option gd_prims(1) gd_if
      fin.gd_success_metrics fin.gd_failure_metrics gd_maybeRemedy gd_hc_passed
    | simp add: hc_succeeded_def hc_failed_def counts_ok_def Let_def)+

lemma gd_finish_run: "guarded I A (finish_run E [] ns d)"
  unfolding finish_run_def
  by (rule gd_if gd_get gd_then gd_onErr gd_updateStatus g_report g_resched gd_event gd_prims(1))+

lemma gd_watch: "guarded I A (watchWorkflowReschedule E fuel [] ns n)"
  unfolding watchWorkflowReschedule_def computeBackoffParams_def Let_def prod.case
  by (rule gd_bind gd_time gd_get_hc gd_poll gd_hc_poll gd_if gd_finish_run gd_prims(1) | erule hc_poll_wait)+

lemma gd_helper:
  assumes "\<And>ns n w h w'. hc_get E ns n w = (Inr h, w') \<Longrightarrow> J h"
  shows "guarded I A (createSubmitWorkflowHelper E fuel a)"
proof (rule guardedI)
  let ?k = "\<lambda>wfName. tryG (watchWorkflowReschedule E fuel [] (tmWfNamespace a) wfName)
       (\<lambda>_. warning_event ''Error watching or rescheduling workflow'') retG"
  have rest: "guarded I A (bindG (tryG (createSubmitWorkflow E)
      (\<lambda>_. thenG (warning_event ''Error creating or submitting workflow'') (retG [])) retG) ?k)"
    by (rule gd_bind gd_try gd_createSubmit gd_then gd_event gd_watch gd_prims(1))+
  fix s assume s: "I s"
  obtain g w where g: "hc_get E (tmNamespace a) (tmName a) (world s) = (g, w)" by fastforce
  have "I (s\<lparr>world := w\<rparr>)" by (rule I_world [OF s])
  then have "I (s\<lparr>world := w, hc := h\<rparr>)" if "g = Inr h" for h
    using that assms g I_hc by blast
  then show "I (snd (createSubmitWorkflowHelper E fuel a s))"
    and "abn_of (fst (createSubmitWorkflowHelper E fuel a s)) = Some b \<Longrightarrow> b \<in> A" for b
    using guardedD [OF rest] guarded_abn [OF rest] I_world [OF s]
    by (cases g; auto simp: createSubmitWorkflowHelper_def tryG_run callE_run g thenG_run prim_run)+
qed

lemma gd_stop_run: "guarded I A (stop_run E now)"
  unfolding stop_run_def
  by (rule gd_get gd_then gd_mod_status gd_event gd_onErr gd_updateStatus | simp add: stopped_status_def counts_ok_def)+

lemma gd_cron_run: "guarded I A (cron_run E c)"
  unfolding cron_run_def
  by (rule gd_sum gd_then gd_event gd_prims(2) gd_bind gd_time gd_mod_spec | simp add: set_repeat_def)+

lemma gd_already: "guarded I A (already_scheduled E f)"
  unfolding already_scheduled_def by (rule gd_get gd_bind gd_time gd_if gd_timer gd_prims(1))+

lemma gd_run_workflow: "guarded I A (run_workflow E fuel ns)"
  unfolding run_workflow_def
  by (rule gd_then gd_onErr gd_createRBAC gd_event gd_bind gd_createSubmit gd_watch)+

lemma gd_processHealthCheck: "guarded I A (processHealthCheck E fuel)"
  unfolding processHealthCheck_def Let_def
  by (rule gd_get gd_option gd_prims(1) gd_bind gd_time gd_if gd_then gd_stop_run gd_cron_run gd_run_workflow gd_already)+

end

end
