(* ===== verification/Manager_Main.thy ===== *)
theory Manager_Main imports Reconciler begin

text \<open>
  Starting the process (src/cmd/main.go, and SetupWithManager of
  healthcheck_controller.go): the flags' defaults, the sequence of set-up calls of
  \<open>run\<close> with its early returns, and the reconciler it registers. The controller-runtime
  functions are parameters; the error each of them answers is what the code looks at.
\<close>

section \<open>Options\<close>

record managerOptions =
  metricsAddr :: string
  probeAddr :: string
  enableLeaderElection :: bool
  maxParallel :: int
  secureMetrics :: bool

definition flag_defaults :: managerOptions where
  "flag_defaults = \<lparr>metricsAddr = '':8443'', probeAddr = '':8081'', enableLeaderElection = False,
     maxParallel = 10, secureMetrics = True\<rparr>"

text \<open>The options of \<open>ctrl.NewManager\<close>; \<open>FilterProvider\<close>: the metrics endpoint asks for authentication.\<close>

record manager_config =
  MetricsBindAddress :: string
  FilterProvider :: bool
  HealthProbeBindAddress :: string
  LeaderElection :: bool
  LeaderElectionID :: string

definition manager_config_of :: "managerOptions \<Rightarrow> manager_config" where
  "manager_config_of opts =
     \<lparr>MetricsBindAddress = metricsAddr opts, FilterProvider = secureMetrics opts,
      HealthProbeBindAddress = probeAddr opts, LeaderElection = enableLeaderElection opts,
      LeaderElectionID = ''689451f8.keikoproj.io''\<rparr>"

section \<open>The set-up calls\<close>

text \<open>
  \<open>'m\<close>: the manager. \<open>api_config\<close>: whether \<open>ctrl.GetConfigOrDie\<close> and
  \<open>kubernetes.NewForConfigOrDie\<close> succeed (they end the process otherwise).
\<close>

record 'm setup_api =
  api_GetConfig :: "string option"
  api_NewManager :: "manager_config \<Rightarrow> goerr + 'm"
  api_NewDynamic :: "'m \<Rightarrow> goerr option"
  api_NewKubeclient :: "'m \<Rightarrow> string option"
  api_Complete :: "'m \<Rightarrow> int \<Rightarrow> goerr option"
  api_AddHealthz :: "'m \<Rightarrow> string \<Rightarrow> goerr option"
  api_AddReadyz :: "'m \<Rightarrow> string \<Rightarrow> goerr option"
  api_Start :: "'m \<Rightarrow> goerr option"

datatype manager_call =
  CallNewManager manager_config | CallNewDynamic | CallComplete int | CallAddHealthz string
| CallAddReadyz string | CallStart

text \<open>\<open>registered\<close>: the reconciler the manager dispatches to.\<close>

record 'w setup_state =
  calls :: "manager_call list"
  registered :: "'w st option"

definition setup_call :: "manager_call \<Rightarrow> ('w setup_state, unit) go" where
  "setup_call c = modG (\<lambda>s. s\<lparr>calls := calls s @ [c]\<rparr>)"

definition or_die :: "string option \<Rightarrow> ('w setup_state, unit) go" where
  "or_die p = (case p of None \<Rightarrow> retG () | Some t \<Rightarrow> panicG t)"

definition err_opt :: "goerr option \<Rightarrow> ('w setup_state, unit) go" where
  "err_opt e = (case e of None \<Rightarrow> retG () | Some x \<Rightarrow> failG x)"

text \<open>\<open>fmt.Errorf("msg: %w", err)\<close> keeps the reason of the wrapped error.\<close>

definition wrap_error :: "string \<Rightarrow> goerr \<Rightarrow> goerr" where
  "wrap_error msg e = GoErr (err_reason e) (msg @ '': '' @ err_text e)"

definition wrapping :: "string \<Rightarrow> ('s, 'a) go \<Rightarrow> ('s, 'a) go" where
  "wrapping msg m = tryG m (\<lambda>e. failG (wrap_error msg e)) retG"

text \<open>
  The reconciler as \<open>run\<close> builds it with a struct literal: the fields that the literal
  leaves out, \<open>RepeatTimersByName\<close> among them, are zero.
\<close>

definition run_reconciler :: "'w \<Rightarrow> 'w st" where
  "run_reconciler w =
     \<lparr>world = w, RepeatTimersByName = None, workflowLabels = None, TimerLock = False,
      pending = Map.empty, next_timer = 0, trace = [], hc = zero_health_check\<rparr>"

definition SetupWithManager :: "'m setup_api \<Rightarrow> 'm \<Rightarrow> int \<Rightarrow> 'w st \<Rightarrow> ('w setup_state, unit) go" where
  "SetupWithManager A mgr MaxParallel r =
     thenG (or_die (api_NewKubeclient A mgr))
    (thenG (setup_call (CallComplete MaxParallel))
    (thenG (err_opt (api_Complete A mgr MaxParallel))
           (modG (\<lambda>s. s\<lparr>registered := Some r\<rparr>))))"

definition run :: "'m setup_api \<Rightarrow> 'w \<Rightarrow> bool \<Rightarrow> managerOptions \<Rightarrow> ('w setup_state, unit) go" where
  "run A w restConfigNil opts =
     thenG (whenG restConfigNil (or_die (api_GetConfig A)))
    (thenG (setup_call (CallNewManager (manager_config_of opts)))
    (case api_NewManager A (manager_config_of opts) of
       Inl err \<Rightarrow> failG (wrap_error ''unable to start manager'' err)
     | Inr mgr \<Rightarrow>
         thenG (setup_call CallNewDynamic)
        (thenG (wrapping ''unable to get dynamic client'' (err_opt (api_NewDynamic A mgr)))
        (thenG (wrapping ''unable to create controller HealthCheck''
                  (SetupWithManager A mgr (maxParallel opts) (run_reconciler w)))
        (thenG (setup_call (CallAddHealthz ''healthz''))
        (thenG (wrapping ''unable to set up health check'' (err_opt (api_AddHealthz A mgr ''healthz'')))
        (thenG (setup_call (CallAddReadyz ''readyz''))
        (thenG (wrapping ''unable to set up ready check'' (err_opt (api_AddReadyz A mgr ''readyz'')))
        (thenG (setup_call CallStart)
               (wrapping ''problem running manager'' (err_opt (api_Start A mgr))))))))))))"

text \<open>\<open>main\<close>: the flags' values are given, the exit code is the result.\<close>

definition main :: "'m setup_api \<Rightarrow> 'w \<Rightarrow> managerOptions \<Rightarrow> ('w setup_state, int) go" where
  "main A w opts = tryG (run A w True opts) (\<lambda>_. retG 1) (\<lambda>_. retG 0)"

section \<open>Properties\<close>

lemma setup_run [go_simps]:
  "setup_call c s = (Ret (), s\<lparr>calls := calls s @ [c]\<rparr>)"
  "or_die p s = (case p of None \<Rightarrow> (Ret (), s) | Some t \<Rightarrow> (Panic t, s))"
  "err_opt e s = (case e of None \<Rightarrow> (Ret (), s) | Some x \<Rightarrow> (Fail x, s))"
  "wrapping msg m s = (case m s of (Ret x, s') \<Rightarrow> (Ret x, s') | (Fail x, s') \<Rightarrow> (Fail (wrap_error msg x), s')
     | (Panic p, s') \<Rightarrow> (Panic p, s') | (Blocked, s') \<Rightarrow> (Blocked, s') | (NoFuel, s') \<Rightarrow> (NoFuel, s'))"
  by (simp_all add: setup_call_def or_die_def err_opt_def wrapping_def tryG_run split: option.splits prod.splits outcome.splits)

definition setup_zero :: "'w setup_state" where
  "setup_zero = \<lparr>calls = [], registered = None\<rparr>"

text \<open>
  The manager is started only after every earlier set-up call was made and
  succeeded, in the order of the code, with the reconciler registered; and the reconciler
  that \<open>run\<close> registers has no map of timers, unlike the one of the constructor.
\<close>

theorem manager_starts_last:
  assumes "run A w b opts setup_zero = (r, s')" and "CallStart \<in> set (calls s')"
  shows "calls s' = [CallNewManager (manager_config_of opts), CallNewDynamic, CallComplete (maxParallel opts),
      CallAddHealthz ''healthz'', CallAddReadyz ''readyz'', CallStart]
    \<and> (\<exists>mgr. api_NewManager A (manager_config_of opts) = Inr mgr \<and> api_NewDynamic A mgr = None
         \<and> api_Complete A mgr (maxParallel opts) = None \<and> api_AddHealthz A mgr ''healthz'' = None
         \<and> api_AddReadyz A mgr ''readyz'' = None)
    \<and> (\<exists>rec. registered s' = Some rec \<and> RepeatTimersByName rec = None
         \<and> RepeatTimersByName (NewHealthCheckReconciler w) = Some Map.empty)"
  using assms
  by (auto simp: run_def SetupWithManager_def go_simps setup_zero_def run_reconciler_def NewHealthCheckReconciler_def
      split: sum.splits option.splits if_splits)

definition good_api :: "unit setup_api" where
  "good_api = \<lparr>api_GetConfig = None, api_NewManager = (\<lambda>c. Inr ()), api_NewDynamic = (\<lambda>m. None),
     api_NewKubeclient = (\<lambda>m. None), api_Complete = (\<lambda>m n. None), api_AddHealthz = (\<lambda>m n. None),
     api_AddReadyz = (\<lambda>m n. None), api_Start = (\<lambda>m. None)\<rparr>"

theorem manager_starts_last_witness:
  "\<exists>rec. registered (snd (run good_api fake_world True flag_defaults setup_zero)) = Some rec
     \<and> RepeatTimersByName rec = None"
proof -
  obtain r s' where run: "run good_api fake_world True flag_defaults setup_zero = (r, s')" by fastforce
  have "CallStart \<in> set (calls s')"
    using run by (auto simp: run_def SetupWithManager_def go_simps good_api_def setup_zero_def)
  from manager_starts_last [OF run this] show ?thesis
    by (auto simp: run)
qed

end
