(* ===== verification/Controller_System.thy ===== *)
theory Controller_System imports Manager_Main begin

text \<open>
  The running controller: a step relation whose steps are the handlers of
  healthcheck_controller.go. A step is a reconcile of a name the work queue delivers, the
  firing of a running timer, or a change of the world by other actors. Any running timer
  may fire at any time, which covers every delay. The locale \<open>controller_rel\<close> carries a
  relation that the single operations keep to every reachable state; its interpretations
  give the invariants.
\<close>

section \<open>Steps\<close>

text \<open>A fired timer is no longer running; the map still holds it.\<close>

definition expire :: "nat \<Rightarrow> 'w st \<Rightarrow> 'w st" where
  "expire i s = s\<lparr>pending := (pending s)(i := None)\<rparr>"

inductive sys_step :: "'w env \<Rightarrow> nat \<Rightarrow> 'w st \<Rightarrow> 'w st \<Rightarrow> bool" for E fuel where
  step_reconcile: "sys_step E fuel s (snd (Reconcile E fuel ns n s))"
| step_fire: "pending s i = Some a \<Longrightarrow> sys_step E fuel s (snd (createSubmitWorkflowHelper E fuel a (expire i s)))"
| step_world: "sys_step E fuel s (s\<lparr>world := w\<rparr>)"

inductive reachable :: "'w env \<Rightarrow> nat \<Rightarrow> 'w st \<Rightarrow> 'w st \<Rightarrow> bool" for E fuel s0 where
  reach_init: "reachable E fuel s0 s0"
| reach_step: "reachable E fuel s0 s \<Longrightarrow> sys_step E fuel s s' \<Longrightarrow> reachable E fuel s0 s'"

inductive_cases sys_stepE: "sys_step E fuel s s'"

inductive_simps sys_step_iff: "sys_step E fuel s s'"

section \<open>Relations kept by every step\<close>

locale controller_rel = timer_rel +
  assumes R_expire: "R s (expire i s)"
begin

lemma step_rel: "sys_step E fuel s s' \<Longrightarrow> R s s'"
proof (erule sys_stepE)
  fix ns n
  assume "s' = snd (Reconcile E fuel ns n s)"
  then show "R s s'" using evolvesD_snd [OF ev_Reconcile] by simp
next
  fix i a
  assume "s' = snd (createSubmitWorkflowHelper E fuel a (expire i s))"
  then show "R s s'" using R_trans [OF R_expire evolvesD_snd [OF ev_helper]] by simp
next
  fix w
  assume "s' = s\<lparr>world := w\<rparr>"
  then show "R s s'" by (simp add: R_world)
qed

lemma reachable_rel: "reachable E fuel s0 s \<Longrightarrow> R s0 s"
  by (induction rule: reachable.induct) (auto intro: R_refl R_trans step_rel)

end

section \<open>One running timer for each name\<close>

interpretation timers_ok_ctl: controller_rel "\<lambda>s s' :: 'w st. timers_ok s \<longrightarrow> timers_ok s'"
  by unfold_locales (auto simp: expire_def timers_ok_def)

interpretation nil_map_ctl:
  controller_rel "\<lambda>s s' :: 'w st. (RepeatTimersByName s' = None) = (RepeatTimersByName s = None)"
  by unfold_locales (simp add: expire_def)

lemma timers_ok_start: "timers_ok (NewHealthCheckReconciler w)" "timers_ok (run_reconciler w)"
  by (simp_all add: timers_ok_def NewHealthCheckReconciler_def run_reconciler_def)

section \<open>Labels stay and reach every later workflow\<close>

definition submitted :: "'w st \<Rightarrow> wf_object list" where
  "submitted s = [w. EvCreateWorkflow w \<leftarrow> trace s]"

lemma submitted_append [simp]:
  "submitted (s\<lparr>trace := trace s @ [EvCreateWorkflow w]\<rparr>) = submitted s @ [w]"
  "io_effect e \<Longrightarrow> submitted (s\<lparr>trace := trace s @ [e]\<rparr>) = submitted s"
  by (simp_all add: submitted_def) (cases e; simp)

lemma submitted_frame [simp]:
  "submitted (s\<lparr>hc := h\<rparr>) = submitted s" "submitted (s\<lparr>world := w\<rparr>) = submitted s"
  "submitted (s\<lparr>workflowLabels := l\<rparr>) = submitted s" "submitted (s\<lparr>TimerLock := b\<rparr>) = submitted s"
  "submitted (s\<lparr>pending := p\<rparr>) = submitted s" "submitted (expire i s) = submitted s"
  by (simp_all add: submitted_def expire_def)

lemma submitted_timers [simp]:
  "submitted (snd (rescheduleTimer ns d s)) = submitted s" "submitted (snd (stop_opt t s)) = submitted s"
  by (auto simp: submitted_def rescheduleTimer_run stop_old_def stop_opt_def go_simps Let_def split: option.splits prod.splits)

definition leaks :: "'w st \<Rightarrow> 'w st \<Rightarrow> bool" where
  "leaks s s' \<longleftrightarrow> dom (labels_of s) \<subseteq> dom (labels_of s')
     \<and> (\<exists>ws. submitted s' = submitted s @ ws \<and> (\<forall>w \<in> set ws. dom (labels_of s) \<subseteq> dom (wfLabels w)))"

lemma leaks_keep: "labels_of s' = labels_of s \<Longrightarrow> submitted s' = submitted s \<Longrightarrow> leaks s s'"
  by (simp add: leaks_def)

lemma go_rel_leaks: "go_rel leaks"
proof
  fix s t u :: "'a st"
  show "leaks s s" by (simp add: leaks_keep)
  assume "leaks s t" and "leaks t u"
  then obtain xs ys where "dom (labels_of s) \<subseteq> dom (labels_of t)" "dom (labels_of t) \<subseteq> dom (labels_of u)"
    "submitted t = submitted s @ xs" "submitted u = submitted t @ ys"
    "\<forall>w \<in> set xs. dom (labels_of s) \<subseteq> dom (wfLabels w)" "\<forall>w \<in> set ys. dom (labels_of t) \<subseteq> dom (wfLabels w)"
    by (auto simp: leaks_def)
  then show "leaks s u"
    unfolding leaks_def by (intro conjI exI [of _ "xs @ ys"]) (simp_all add: ball_Un, blast+)
qed

interpretation leaks_io: io_rel leaks
  by (intro io_rel.intro ev_rel.intro go_rel_leaks; unfold_locales) (simp_all add: leaks_keep labels_of_def)

lemma put_all_dom: "dom m \<subseteq> dom (put_all E kvs m)"
proof (induction kvs arbitrary: m)
  case (Cons kv kvs)
  obtain k v where kv: "kv = (k, v)" by fastforce
  have "dom m \<subseteq> dom (m(k \<mapsto> sprint_v E v))" by auto
  also have "\<dots> \<subseteq> dom (put_all E kvs (m(k \<mapsto> sprint_v E v)))" by (rule Cons.IH)
  also have "put_all E kvs (m(k \<mapsto> sprint_v E v)) = put_all E (kv # kvs) m" by (simp add: put_all_def kv)
  finally show ?case .
qed (simp add: put_all_def)

lemma merged_dom: "dom m \<subseteq> dom (merged E d m)"
  using put_all_dom [of m E] by (cases "doc_labels d") (auto simp: merged_def)

lemma leaksI: "dom (labels_of s) \<subseteq> dom (labels_of s') \<Longrightarrow> submitted s' = submitted s \<Longrightarrow> leaks s s'"
  by (simp add: leaks_def)

lemma labels_of_set [simp]: "labels_of (s\<lparr>workflowLabels := Some l\<rparr>) = l"
  "labels_of (s\<lparr>TimerLock := b\<rparr>) = labels_of s" "labels_of (s\<lparr>trace := tr\<rparr>) = labels_of s"
  by (simp_all add: labels_of_def)

lemma leaks_parse: "evolves leaks (parse_labels E g d)"
  unfolding evolves_def
proof
  fix s :: "'a st"
  show "leaks s (snd (parse_labels E g d s))"
  proof (cases "TimerLock s")
    case True
    then show ?thesis by (simp add: parse_labels_run leaks_keep)
  next
    case False
    have "labels_of (snd (parse_labels E g d s)) = merged E d (labels_of s)"
      "submitted (snd (parse_labels E g d s)) = submitted s"
      using False by (simp_all add: parse_labels_run Let_def split: option.splits)
    with merged_dom [of "labels_of s" E d] show ?thesis
      by (intro leaksI) simp_all
  qed
qed

lemma leaks_submit:
  assumes "\<And>l. wfLabels (mk l) = (case l of None \<Rightarrow> Map.empty | Some m \<Rightarrow> m)"
  shows "evolves leaks (submit_with_labels E mk msg)"
proof -
  have e: "evolves leaks (bindG (callE f) (\<lambda>n. thenG (normal_event msg) (retG n)))" for f :: "'a \<Rightarrow> (goerr + string) \<times> 'a"
    by (intro leaks_io.ev_rules leaks_io.io_rules leaks_io.call_rules)
  have m: "dom (labels_of s) \<subseteq> dom (wfLabels (mk (workflowLabels s)))" for s :: "'a st"
    by (simp add: assms labels_of_def)
  have "leaks s (snd (create_workflow E (mk (workflowLabels s)) msg s))" for s :: "'a st"
  proof -
    let ?t = "s\<lparr>trace := trace s @ [EvCreateWorkflow (mk (workflowLabels s))]\<rparr>"
    have "leaks s ?t" using m [of s] unfolding leaks_def by simp
    from leaks_io.R_trans [OF this evolvesD_snd [OF e [of "wf_create E (mk (workflowLabels s))"]]]
    show ?thesis by (simp add: create_workflow_def thenG_run [of "emit x" for x] prim_run)
  qed
  then show ?thesis
    by (simp add: evolves_def submit_with_labels_def bindG_run lock_run leaks_keep)
qed

interpretation leaks_ctl: controller_rel leaks
proof (unfold_locales; (rule leaks_parse leaks_submit; assumption)?)
  fix s :: "'a st" and ns :: string and d :: int and t :: "nat option" and i :: nat
  have "labels_of (snd (rescheduleTimer ns d s)) = labels_of s" for s :: "'a st"
    by (auto simp: labels_of_def rescheduleTimer_run Let_def split: prod.splits option.splits)
  then show "evolves leaks (rescheduleTimer ns d :: ('a st, unit) go)"
    by (simp add: evolves_def leaks_keep)
  have "labels_of (snd (stop_opt t s)) = labels_of s" for s :: "'a st"
    by (auto simp: labels_of_def stop_opt_def go_simps split: option.splits)
  then show "evolves leaks (stop_opt t :: ('a st, unit) go)"
    by (simp add: evolves_def leaks_keep)
  show "leaks s (expire i s)"
    by (simp add: leaks_keep labels_of_def expire_def)
qed (simp add: leaks_keep)

section \<open>A lock that is never released\<close>

definition armed :: "'w st \<Rightarrow> nat list" where
  "armed s = [i. EvArm i d n \<leftarrow> trace s]"

text \<open>
  While the lock is held, it stays held and nothing is submitted; and in a reconciler
  without a map of timers, arming a timer leaves the lock held.
\<close>

definition frozen :: "'w st \<Rightarrow> 'w st \<Rightarrow> bool" where
  "frozen s s' \<longleftrightarrow> (TimerLock s \<longrightarrow> TimerLock s' \<and> submitted s' = submitted s)
     \<and> (RepeatTimersByName s = None \<longrightarrow> RepeatTimersByName s' = None \<and> (armed s' = armed s \<or> TimerLock s'))"

lemma frozen_keep:
  "TimerLock s' = TimerLock s \<Longrightarrow> submitted s' = submitted s \<Longrightarrow> RepeatTimersByName s' = RepeatTimersByName s
    \<Longrightarrow> armed s' = armed s \<Longrightarrow> frozen s s'"
  by (simp add: frozen_def)

lemma go_rel_frozen: "go_rel frozen"
  by unfold_locales (auto simp: frozen_def)

lemma frozen_emit: "io_effect e \<Longrightarrow> frozen s (s\<lparr>trace := trace s @ [e]\<rparr>)"
  by (cases e) (simp_all add: frozen_keep submitted_def armed_def)

interpretation frozen_io: io_rel frozen
proof (intro io_rel.intro ev_rel.intro go_rel_frozen; unfold_locales)
  fix e and s :: "'a st"
  show "io_effect e \<Longrightarrow> frozen s (s\<lparr>trace := trace s @ [e]\<rparr>)" by (rule frozen_emit)
qed (simp_all add: frozen_keep submitted_def armed_def)

lemma armed_create: "armed (snd (create_workflow E w msg s)) = armed s"
  "TimerLock (snd (create_workflow E w msg s)) = TimerLock s"
  "RepeatTimersByName (snd (create_workflow E w msg s)) = RepeatTimersByName s"
  by (auto simp: create_workflow_def go_simps armed_def split: prod.splits sum.splits)

interpretation frozen_ctl: controller_rel frozen
proof (unfold_locales)
  fix s :: "'a st" and ns g msg :: string and d :: int and t :: "nat option" and i :: nat
    and E :: "'a env" and dt mk
  show "evolves frozen (parse_labels E g dt)"
    by (auto simp: evolves_def frozen_def parse_labels_run armed_def Let_def split: option.splits)
  show "evolves frozen (submit_with_labels E mk msg)"
    by (simp add: evolves_def frozen_def submit_with_labels_def bindG_run lock_run armed_create)
  show "evolves frozen (rescheduleTimer ns d :: ('a st, unit) go)"
    by (auto simp: evolves_def frozen_def rescheduleTimer_run Let_def split: prod.splits)
  show "evolves frozen (stop_opt t :: ('a st, unit) go)"
    by (simp add: evolves_def frozen_def submitted_def armed_def stop_opt_def go_simps split: option.splits)
  show "frozen s (expire i s)"
    by (simp add: frozen_keep submitted_def armed_def expire_def)
qed (rule frozen_emit)

end
