(* ===== verification/Robustness.thy ===== *)
theory Robustness imports Guarded Controller_System begin

text \<open>
  Which handlers always return. Three environments, from weak to strong: \<open>run_env\<close> (the
  backoff timer ends, the fuel covers it), \<open>yaml_env\<close> (no document decodes to a nil map)
  and \<open>sound_env\<close> (both, and the HealthChecks the server answers are well formed). Each
  gives an instance of the locale \<open>guard\<close>; the properties at the end state the results
  for the running controller.
\<close>

section \<open>Reconcile, where any HealthCheck may come from the server\<close>

locale server_guard = run_guard +
  assumes J_any: "J h"
    and I_stop: "I s \<Longrightarrow> I (s\<lparr>pending := p\<rparr>)"
begin

lemma gd_update_resource: "guarded I A (update_resource E)"
  unfolding update_resource_def Let_def
  by (rule gd_get gd_then gd_set_hc J_any gd_onErr gd_retry gd_bind gd_callE gd_emit gd_event)+

lemma gd_cancel_timer: "guarded I A (cancel_timer n)"
proof (rule guardedI)
  fix s assume s: "I s"
  note rt = guarded_abn [OF g_read_timer s, of n]
  have z: "I (s\<lparr>hc := zero_health_check, pending := p, trace := tr\<rparr>)" for p tr
    by (rule I_trace [OF I_stop [OF I_hc [OF s J_any]]])
  show "I (snd (cancel_timer n s))"
    using s z by (auto simp: cancel_timer_def go_simps stop_opt_def read_timer_def split: option.splits)
  show "b \<in> A" if "abn_of (fst (cancel_timer n s)) = Some b" for b
    using that rt by (auto simp: cancel_timer_def go_simps stop_opt_def read_timer_def split: option.splits if_splits)
qed

lemma gd_Reconcile: "guarded I A (Reconcile E fuel ns n)"
proof -
  have "guarded I A (processOrRecoverHealthCheck E fuel)"
    unfolding processOrRecoverHealthCheck_def
    by (rule gd_recover [OF gd_weaken, of I A]) (rule gd_try gd_processHealthCheck gd_update_resource gd_if gd_prims(1) subset_insertI)+
  then show ?thesis
    unfolding Reconcile_def by (intro gd_try gd_callE gd_then gd_cancel_timer gd_set_hc J_any gd_prims(1))
qed

lemma step_guarded:
  assumes "sys_step E fuel s s'" and "I s"
  shows "I s'"
  using assms(1)
proof (rule sys_stepE)
  fix ns n assume "s' = snd (Reconcile E fuel ns n s)"
  then show "I s'" using guardedD [OF gd_Reconcile assms(2)] by simp
next
  fix i a assume "s' = snd (createSubmitWorkflowHelper E fuel a (expire i s))"
  moreover have "I (expire i s)"
    using I_stop [OF assms(2), of "(pending s)(i := None)"] by (simp add: expire_def)
  ultimately show "I s'" using guardedD [OF gd_helper [OF J_any]] by simp
next
  fix w assume "s' = s\<lparr>world := w\<rparr>"
  then show "I s'" using I_world [OF assms(2)] by simp
qed

lemma reachable_guarded: "reachable E fuel s0 s \<Longrightarrow> I s0 \<Longrightarrow> I s"
  by (induction rule: reachable.induct) (auto intro: step_guarded)

end

section \<open>Every run ends\<close>

locale run_env = backoff_env +
  fixes fuel :: nat
  assumes fuel: "B + 2 \<le> fuel"

sublocale run_env \<subseteq> ended: server_guard "\<lambda>_. True" "\<lambda>_. True" "{APanic, ABlocked}" E fuel rank B
proof unfold_locales
  show "guarded (\<lambda>_. True) {APanic, ABlocked} (parse_labels E g d)" for g d
    by (auto simp: guarded_def parse_labels_run Let_def split: option.splits)
qed (auto simp: guarded_def go_simps rescheduleTimer_run report_update_error_def stop_opt_def Let_def fuel [simplified] backoff_env_axioms
    split: option.splits prod.splits)

context run_env begin

lemmas ended_watch = ended.gd_watch
  and ended_reconcile = ended.gd_Reconcile
  and ended_helper = ended.gd_helper [OF ended.J_any]

end

section \<open>The lock is always given back\<close>

text \<open>The states between handlers in which nothing is stuck.\<close>

definition unstuck :: "'w st \<Rightarrow> bool" where
  "unstuck s \<longleftrightarrow> RepeatTimersByName s \<noteq> None \<and> \<not> TimerLock s"

locale yaml_env =
  fixes E :: "'w env"
  assumes yaml_map: "yaml_unmarshal E t \<noteq> Inr None"
begin

lemma decoded_labels: "yaml_unmarshal E t = Inr dt \<Longrightarrow> \<exists>m. dt = Some m"
  using yaml_map [of t] by (cases dt) auto

end

sublocale yaml_env \<subseteq> free: server_guard unstuck "\<lambda>_. True" "{APanic, ANoFuel}" E fuel "\<lambda>_ _. 0" 0 for fuel
proof unfold_locales
  fix t :: string and dt :: "gomap option" and g :: string
  assume "yaml_unmarshal E t = Inr dt"
  then obtain m where "dt = Some m" using decoded_labels by blast
  then show "guarded unstuck {APanic, ANoFuel} (parse_labels E g dt)"
    by (auto simp: guarded_def parse_labels_run Let_def unstuck_def)
qed (auto simp: unstuck_def guarded_def go_simps rescheduleTimer_run report_update_error_def stop_opt_def Let_def
    split: option.splits prod.splits)

context yaml_env begin

lemmas free_reachable = free.reachable_guarded

end

section \<open>Every run returns\<close>

text \<open>A HealthCheck the code handles without a panic: named, with a workflow, a limit that is not negative.\<close>

definition hc_sound :: "health_check \<Rightarrow> bool" where
  "hc_sound h \<longleftrightarrow> hcName h \<noteq> [] \<and> Resource (Workflow (hcSpec h)) \<noteq> None \<and> 0 \<le> RemedyRunsLimit (hcSpec h)
     \<and> counts_ok (hcStatus h)"

text \<open>No timer is stored under the empty name, which the error path of the watch looks up.\<close>

definition ready :: "'w st \<Rightarrow> bool" where
  "ready s \<longleftrightarrow> unstuck s \<and> read_timer [] s = None"

locale sound_env = run_env + yaml_env +
  assumes server_sound: "hc_get E ns n w = (Inr h, w') \<Longrightarrow> hc_sound h"

lemma resched_ready:
  assumes "ready s" and "hcName (hc s) \<noteq> []"
  shows "fst (rescheduleTimer ns d s) = Ret () \<and> ready (snd (rescheduleTimer ns d s))"
  using assms by (auto simp: rescheduleTimer_run ready_def unstuck_def read_timer_def Let_def split: prod.splits)

sublocale sound_env \<subseteq> total: run_guard "\<lambda>s. ready s \<and> hc_sound (hc s)" hc_sound "{}" E fuel rank B
proof unfold_locales
  fix t :: string and dt :: "gomap option" and g :: string
  assume "yaml_unmarshal E t = Inr dt"
  then obtain m where "dt = Some m" using decoded_labels by blast
  then show "guarded (\<lambda>s. ready s \<and> hc_sound (hc s)) {} (parse_labels E g dt)"
    by (auto simp: guarded_def parse_labels_run Let_def ready_def unstuck_def read_timer_def)
next
  fix ns :: string and d :: int
  have "ready (snd (rescheduleTimer ns d s)) \<and> fst (rescheduleTimer ns d s) = Ret ()
      \<and> hc (snd (rescheduleTimer ns d s)) = hc s"
    if "ready s" "hc_sound (hc s)" for s :: "'a st"
    using resched_ready [OF that(1), of ns d] that(2) evolvesD_snd [OF resched_hc [of ns d], of s]
    by (simp add: hc_sound_def)
  then show "guarded (\<lambda>s :: 'a st. ready s \<and> hc_sound (hc s)) {} (rescheduleTimer ns d)"
    by (simp add: guarded_def)
next
  show "guarded (\<lambda>s :: 'a st. ready s \<and> hc_sound (hc s)) {} (report_update_error [])"
    by (simp add: guarded_def report_update_error_def go_simps ready_def unstuck_def read_timer_def)
qed (auto simp: guarded_def lock_run ready_def unstuck_def read_timer_def hc_sound_def fuel [simplified] backoff_env_axioms)

interpretation ready_io: io_rel "\<lambda>s s' :: 'w st. ready s \<longrightarrow> ready s'"
  by unfold_locales (simp_all add: ready_def unstuck_def read_timer_def)

lemma helper_returns_unit: "abn_of (fst (createSubmitWorkflowHelper E fuel a s)) = None \<Longrightarrow>
    fst (createSubmitWorkflowHelper E fuel a s) = Ret ()"
  unfolding createSubmitWorkflowHelper_def
  by (auto simp: tryG_run thenG_run bindG_run callE_run prim_run split: prod.splits sum.splits outcome.splits)

context sound_env begin

lemma helper_returns:
  assumes "ready s"
  shows "fst (createSubmitWorkflowHelper E fuel a s) = Ret () \<and> ready (snd (createSubmitWorkflowHelper E fuel a s))"
proof -
  obtain g w where g: "hc_get E (tmNamespace a) (tmName a) (world s) = (g, w)" by fastforce
  show ?thesis
  proof (cases g)
    case (Inl e)
    then show ?thesis
      using assms by (simp add: createSubmitWorkflowHelper_def tryG_run callE_run g ready_def unstuck_def read_timer_def)
  next
    case (Inr h)
    then have h: "hc_sound h" using server_sound g by blast
    let ?t = "s\<lparr>hc := h\<rparr>"
    have eq: "createSubmitWorkflowHelper E fuel a s = createSubmitWorkflowHelper E fuel a ?t"
      by (simp add: createSubmitWorkflowHelper_def tryG_run callE_run g Inr thenG_run prim_run)
    have I: "ready ?t \<and> hc_sound (hc ?t)"
      using assms h by (simp add: ready_def unstuck_def read_timer_def)
    have gh: "guarded (\<lambda>s. ready s \<and> hc_sound (hc s)) {} (createSubmitWorkflowHelper E fuel a)"
      by (rule total.gd_helper) (rule server_sound)
    have "abn_of (fst (createSubmitWorkflowHelper E fuel a s)) = None"
      using guarded_abn [OF gh I] unfolding eq by fastforce
    then show ?thesis
      using helper_returns_unit guardedD [OF gh I] unfolding eq by blast
  qed
qed

lemma processOrRecover_returns:
  assumes "ready s" and "hc_sound (hc s)"
  shows "\<exists>x. fst (processOrRecoverHealthCheck E fuel s) = Ret x \<and> ready (snd (processOrRecoverHealthCheck E fuel s))"
proof -
  obtain r s1 where p: "processHealthCheck E fuel s = (r, s1)" by fastforce
  have r: "abn_of r = None" and s1: "ready s1"
    using guarded_abn [OF total.gd_processHealthCheck] guardedD [OF total.gd_processHealthCheck] assms p by fastforce+
  obtain u s2 where q: "update_resource E s1 = (u, s2)" by fastforce
  have s2: "ready s2" using evolvesD [OF ready_io.ev_update_resource q] s1 by simp
  have "unstuck s1" using s1 by (simp add: ready_def)
  then have "abn_of u = None \<or> abn_of u = Some APanic"
    using guarded_abn [OF free.gd_update_resource, of s1] guarded_abn [OF ended.gd_update_resource, of s1] q
    by (cases "abn_of u") fastforce+
  then show ?thesis
    using r s1 s2 by (cases r; cases u) (simp_all add: processOrRecoverHealthCheck_def recoverG_run tryG_run p q)
qed

lemma Reconcile_returns:
  assumes "ready s"
  shows "\<exists>x. fst (Reconcile E fuel ns n s) = Ret x \<and> ready (snd (Reconcile E fuel ns n s))"
proof -
  obtain g w where g: "hc_get E ns n (world s) = (g, w)" by fastforce
  show ?thesis
  proof (cases g)
    case (Inl e)
    then show ?thesis
      using assms by (cases "read_timer n s")
        (simp_all add: Reconcile_def tryG_run callE_run g cancel_timer_def go_simps stop_opt_def ready_def unstuck_def read_timer_def)
  next
    case (Inr h)
    then have "hc_sound h" using server_sound g by blast
    moreover have "ready (s\<lparr>world := w, hc := h\<rparr>)"
      using assms by (simp add: ready_def unstuck_def read_timer_def)
    ultimately show ?thesis
      using processOrRecover_returns [of "s\<lparr>world := w, hc := h\<rparr>"]
      by (simp add: Reconcile_def tryG_run callE_run g Inr thenG_run prim_run)
  qed
qed

lemma reachable_ready:
  assumes "reachable E fuel s0 s" and "ready s0"
  shows "ready s"
  using assms
proof (induction rule: reachable.induct)
  case (reach_step s s')
  have x: "ready (expire i s)" for i
    using reach_step by (simp add: ready_def unstuck_def read_timer_def expire_def)
  from reach_step(2) show ?case
  proof (rule sys_stepE)
    fix ns n assume "s' = snd (Reconcile E fuel ns n s)"
    then show ?case using Reconcile_returns [of s ns n] reach_step by auto
  next
    fix i a assume "s' = snd (createSubmitWorkflowHelper E fuel a (expire i s))"
    then show ?case using helper_returns [OF x] by simp
  next
    fix w assume "s' = s\<lparr>world := w\<rparr>"
    then show ?case using reach_step by (simp add: ready_def unstuck_def read_timer_def)
  qed
qed

end

end
