(* ===== verification/Watch_Properties.thy ===== *)
theory Watch_Properties imports Robustness begin

text \<open>
  Properties of a run of a HealthCheck: what a pass of the polling loop records, when a
  remedy is run and how its limit is kept, how the next run is armed and in which cases it
  is not.
\<close>

section \<open>What is recorded\<close>

text \<open>
  The result of a run as a specification: a timeout is a failure; otherwise the phase of
  the workflow decides, and a phase other than the two final ones decides nothing.
\<close>

definition run_result :: "goerr option \<Rightarrow> gomap \<Rightarrow> (bool \<times> string) option" where
  "run_result timedout content =
     (if timedout \<noteq> None then Some (False, ''Failed'')
      else case gindex content ''status'' of
        GMap st \<Rightarrow> (case gindex st ''phase'' of
            GString p \<Rightarrow> if p = ''Succeeded'' then Some (True, [])
                         else if p = ''Failed'' then Some (False, case gindex st ''message'' of GString t \<Rightarrow> t | _ \<Rightarrow> [])
                         else None
          | _ \<Rightarrow> None)
      | _ \<Rightarrow> None)"

definition record_result :: "(bool \<times> string) option \<Rightarrow> time \<Rightarrow> time \<Rightarrow> string \<Rightarrow> health_check_status \<Rightarrow> health_check_status" where
  "record_result r now thn name st =
     (case r of None \<Rightarrow> st
      | Some (True, _) \<Rightarrow> hc_succeeded now thn name st
      | Some (False, msg) \<Rightarrow> hc_failed now thn name msg st)"

lemma success_metrics_run:
  "FinishedAt (hcStatus (hc s)) = Some f \<Longrightarrow> success_metrics l now thn s = (Ret (), s\<lparr>trace := trace s @
     [EvMetric MonitorSuccess (hcName (hc s)) l MetricInc,
      EvMetric MonitorRuntime (hcName (hc s)) l (MetricSet (float_Seconds (time_Sub now thn))),
      EvMetric MonitorStartedTime (hcName (hc s)) l (MetricSet (of_int (unix thn))),
      EvMetric MonitorFinishedTime (hcName (hc s)) l (MetricSet (of_int (unix f)))]\<rparr>)"
  by (simp add: success_metrics_def emit_metric_def go_simps)

lemma failure_metrics_run:
  "failure_metrics l now thn s = (Ret (), s\<lparr>trace := trace s @
     [EvMetric MonitorError (hcName (hc s)) l MetricInc,
      EvMetric MonitorStartedTime (hcName (hc s)) l (MetricSet (of_int (unix thn))),
      EvMetric MonitorFinishedTime (hcName (hc s)) l (MetricSet (of_int (unix now)))]\<rparr>)"
  by (simp add: failure_metrics_def emit_metric_def go_simps)

lemma poll_status_result:
  "run_result e content = (case poll_status e content of None \<Rightarrow> None
     | Some st \<Rightarrow> if is_string (gindex st ''phase'') succStr then Some (True, [])
         else if is_string (gindex st ''phase'') failStr then Some (False, status_message st) else None)"
  by (cases "gindex content ''status''")
     (auto simp: run_result_def poll_status_def status_message_def succStr_def failStr_def gindex_def split: goval.splits)

lemma trace_upd_eq [simp]: "(s :: 'w st)\<lparr>trace := t\<rparr> = s\<lparr>trace := t'\<rparr> \<longleftrightarrow> t = t'"
  by (cases s) simp

lemma hc_poll_pass:
  assumes "IsEmpty (RemedyWorkflow (hcSpec (hc s)))"
    and "clock E (world s) = (now, w1)" and "wf_get E ns name w1 = (Inr content, w2)"
  shows "\<exists>ts. hc_poll E fuel ns name thn err1 s =
        (Ret (case run_result err1 content of None \<Rightarrow> Wait | Some _ \<Rightarrow> Break),
         s\<lparr>world := w2, hc := (hc s)\<lparr>hcStatus := record_result (run_result err1 content) now thn name (hcStatus (hc s))\<rparr>,
           trace := trace s @ ts\<rparr>)
    \<and> (\<forall>e \<in> set ts. io_effect e)
    \<and> (EvMetric MonitorSuccess (hcName (hc s)) ''healthCheck'' MetricInc \<in> set ts \<longleftrightarrow> (\<exists>m. run_result err1 content = Some (True, m)))
    \<and> (EvMetric MonitorError (hcName (hc s)) ''healthCheck'' MetricInc \<in> set ts \<longleftrightarrow> (\<exists>m. run_result err1 content = Some (False, m)))"
proof -
  let ?warn = "whenG (err1 \<noteq> None) (warning_event ''Workflow timed out'')"
  let ?s0 = "s\<lparr>world := w2\<rparr>"
  obtain tw where tw: "?warn ?s0 = (Ret (), ?s0\<lparr>trace := trace s @ tw\<rparr>)"
    and ntw: "EvMetric m x l v \<notin> set tw" and iow: "\<forall>e \<in> set tw. io_effect e" for m x l v
  proof (cases err1)
    case None
    then show ?thesis by (intro that [of "[]"]) (simp_all add: go_simps)
  next
    case (Some e)
    then show ?thesis
      by (intro that [of "[EvEvent (hcName (hc s)) ''Warning'' ''Warning'' ''Workflow timed out'']"]) (simp_all add: go_simps)
  qed
  let ?s1 = "?s0\<lparr>trace := trace s @ tw\<rparr>"
  have poll: "hc_poll E fuel ns name thn err1 s =
    (case poll_status err1 content of None \<Rightarrow> retG Wait | Some status \<Rightarrow>
       if is_string (gindex status ''phase'') succStr then
         thenG (normal_event ''Workflow status is Succeeded'') (thenG (mod_status (hc_succeeded now thn name))
        (thenG (success_metrics healthcheck now thn) (thenG hc_passed (retG Break))))
       else if is_string (gindex status ''phase'') failStr then
         thenG (warning_event ''Workflow status is Failed'') (thenG (mod_status (hc_failed now thn name (status_message status)))
        (thenG (failure_metrics healthcheck now thn) (thenG (maybeRemedy E fuel ns now) (retG Break))))
       else retG Wait) ?s1"
    by (simp add: hc_poll_def bindG_run tryG_run prim_run callE_run assms(2,3)) (subst thenG_run, simp add: tw [simplified])
  show ?thesis
  proof (cases "run_result err1 content")
    case None
    then show ?thesis
      unfolding poll poll_status_result using ntw iow
      by (auto simp: record_result_def split: option.splits if_splits)
  next
    case (Some r)
    then obtain st where st: "poll_status err1 content = Some st"
      and ph: "is_string (gindex st ''phase'') succStr \<and> r = (True, [])
        \<or> is_string (gindex st ''phase'') failStr \<and> r = (False, status_message st)"
      unfolding poll_status_result by (auto split: option.splits if_splits)
    from ph show ?thesis
    proof
      assume "is_string (gindex st ''phase'') succStr \<and> r = (True, [])"
      then show ?thesis
        unfolding poll Some st using ntw iow assms(1)
        by (simp add: thenG_run prim_run success_metrics_run hc_succeeded_def Let_def hc_passed_def bindG_run
            record_result_def healthcheck_def)
    next
      assume "is_string (gindex st ''phase'') failStr \<and> r = (False, status_message st)"
      then show ?thesis
        unfolding poll Some st using ntw iow assms(1)
        by (simp add: thenG_run prim_run failure_metrics_run hc_failed_def maybeRemedy_def bindG_run Let_def
            record_result_def healthcheck_def)
    qed
  qed
qed

text \<open>
  C5: one pass of the watch of a HealthCheck without a remedy refines the specification: it
  ends the loop exactly when there is a result, writes exactly that result (its counters,
  times, names and message) into the status and nothing else into the HealthCheck, counts a
  success in the metric MonitorSuccess and a failure in MonitorError, and calls nothing
  outside but the clock and the lookup of the workflow.
\<close>

theorem poll_records_result:
  assumes "IsEmpty (RemedyWorkflow (hcSpec (hc s)))"
    and "clock E (world s) = (now, w1)" and "wf_get E ns name w1 = (Inr content, w2)"
  shows "\<exists>ts. hc_poll E fuel ns name thn err1 s =
        (Ret (case run_result err1 content of None \<Rightarrow> Wait | Some _ \<Rightarrow> Break),
         s\<lparr>world := w2, hc := (hc s)\<lparr>hcStatus := record_result (run_result err1 content) now thn name (hcStatus (hc s))\<rparr>,
           trace := trace s @ ts\<rparr>)
    \<and> (\<forall>e \<in> set ts. io_effect e)
    \<and> (EvMetric MonitorSuccess (hcName (hc s)) ''healthCheck'' MetricInc \<in> set ts \<longleftrightarrow> (\<exists>m. run_result err1 content = Some (True, m)))
    \<and> (EvMetric MonitorError (hcName (hc s)) ''healthCheck'' MetricInc \<in> set ts \<longleftrightarrow> (\<exists>m. run_result err1 content = Some (False, m)))"
  using hc_poll_pass [OF assms] .

theorem poll_records_result_witness:
  "\<exists>s'. hc_poll fake_env 5 ''health'' ''w'' 7 (Some (errors_New ''timeout''))
        ((sample_state sample_hc)\<lparr>world := fake_world\<lparr>fkWfs := [(''health'', ''w'') \<mapsto> []]\<rparr>\<rparr>) = (Ret Break, s')
     \<and> FailedCount (hcStatus (hc s')) = 1 \<and> ErrorMessage (hcStatus (hc s')) = ''Failed''"
proof -
  let ?s = "(sample_state sample_hc)\<lparr>world := fake_world\<lparr>fkWfs := [(''health'', ''w'') \<mapsto> []]\<rparr>\<rparr>"
  have "IsEmpty (RemedyWorkflow (hcSpec (hc ?s)))"
    and c: "clock fake_env (world ?s) = (fkNow fake_world, world ?s)"
    and "wf_get fake_env ''health'' ''w'' (world ?s) = (Inr [], world ?s)"
    by (simp_all add: sample_defs fake_env_def IsEmpty_def)
  from poll_records_result [OF this, of 5 7 "Some (errors_New ''timeout'')"] show ?thesis
    by (auto simp: run_result_def record_result_def hc_failed_def Let_def sample_defs wrap64_def)
qed

section \<open>The remedy\<close>

text \<open>
  When a failed HealthCheck gets its remedy: there is one, and either no limit is set, or
  the limit is not used up, or the last remedy ended more than the reset interval ago (the
  elapsed time counts in whole seconds).
\<close>

definition remedy_due :: "time \<Rightarrow> health_check \<Rightarrow> bool" where
  "remedy_due now h \<longleftrightarrow> \<not> IsEmpty (RemedyWorkflow (hcSpec h)) \<and>
     (RemedyRunsLimit (hcSpec h) = 0 \<or> RemedyResetInterval (hcSpec h) = 0
      \<or> RemedyTotalRuns (hcStatus h) < RemedyRunsLimit (hcSpec h)
      \<or> (\<exists>f. RemedyFinishedAt (hcStatus h) = Some f \<and> (RemedyResetInterval (hcSpec h) + 1) * Second \<le> now - f))"

definition window_over :: "health_check \<Rightarrow> bool" where
  "window_over h \<longleftrightarrow> RemedyRunsLimit (hcSpec h) \<noteq> 0 \<and> RemedyResetInterval (hcSpec h) \<noteq> 0
     \<and> RemedyRunsLimit (hcSpec h) \<le> RemedyTotalRuns (hcStatus h)"

lemma elapsed_iff:
  assumes "f \<le> now" "now - f < 2 ^ 63"
  shows "int_Seconds (time_Sub now f) \<le> r \<longleftrightarrow> \<not> (r + 1) * Second \<le> now - f"
proof -
  have "time_Sub now f = now - f" using assms by (simp add: time_Sub_def)
  then have "int_Seconds (time_Sub now f) = (now - f) div Second"
    using assms(1) by (simp add: int_Seconds_def go_div_nonneg Second_def)
  moreover have "(now - f) div Second < r + 1 \<longleftrightarrow> now - f < (r + 1) * Second"
  proof -
    obtain q m where q: "(now - f) div 1000000000 = q" and "(now - f) mod 1000000000 = m" by blast
    then have d: "now - f = 1000000000 * q + m" and "0 \<le> m" "m < 1000000000"
      using mult_div_mod_eq [of 1000000000 "now - f"] by auto
    then show ?thesis unfolding Second_def q d by (simp add: algebra_simps) arith
  qed
  ultimately show ?thesis by (simp add: not_le)
qed

text \<open>
  C9: the decision for a remedy is exactly \<open>remedy_due\<close>, for a HealthCheck whose limit is
  not negative and whose remedy, if it has run, has an end time: when it is not due, nothing
  at all is done; when it is, the remedy is run, from counters set back to zero if the limit
  had been used up; and the decision itself never panics.
\<close>

theorem remedy_decision:
  assumes "counts_ok (hcStatus (hc s))" and "0 \<le> RemedyRunsLimit (hcSpec (hc s))"
    and "\<And>f. RemedyFinishedAt (hcStatus (hc s)) = Some f \<Longrightarrow> f \<le> now \<and> now - f < 2 ^ 63"
  shows "if remedy_due now (hc s)
    then \<exists>s1. maybeRemedy E fuel ns now s = runRemedy E fuel ns s1 \<and> pending s1 = pending s \<and> world s1 = world s
       \<and> hc s1 = (if window_over (hc s)
            then (hc s)\<lparr>hcStatus := remedy_reset ''RemedyResetInterval elapsed so Remedy is reset'' (hcStatus (hc s))\<rparr>
            else hc s)
    else maybeRemedy E fuel ns now s = (Ret (), s)"
proof (cases "IsEmpty (RemedyWorkflow (hcSpec (hc s))) \<or> \<not> window_over (hc s)")
  case True
  then show ?thesis
    by (auto simp: maybeRemedy_def remedy_due_def window_over_def bindG_run prim_run Let_def)
next
  case False
  with assms(1,2) obtain f where f: "RemedyFinishedAt (hcStatus (hc s)) = Some f"
    by (fastforce simp: counts_ok_def window_over_def)
  have due: "remedy_due now (hc s) \<longleftrightarrow> \<not> int_Seconds (time_Sub now f) \<le> RemedyResetInterval (hcSpec (hc s))"
    using False f elapsed_iff [of f now "RemedyResetInterval (hcSpec (hc s))"] assms(3) [OF f]
    by (auto simp: remedy_due_def window_over_def)
  show ?thesis
    using False f unfolding due
    by (auto simp: maybeRemedy_def window_over_def bindG_run thenG_run prim_run Let_def)
qed

theorem remedy_decision_witness:
  "maybeRemedy fake_env 5 ''health'' (100 * Second)
     (sample_state (sample_remedy_hc
        \<lparr>hcSpec := (hcSpec sample_remedy_hc)\<lparr>RemedyRunsLimit := 1, RemedyResetInterval := 60\<rparr>,
         hcStatus := zero_status\<lparr>RemedyTotalRuns := 1, RemedyFinishedAt := Some (40 * Second)\<rparr>\<rparr>))
   = (Ret (), sample_state (sample_remedy_hc
        \<lparr>hcSpec := (hcSpec sample_remedy_hc)\<lparr>RemedyRunsLimit := 1, RemedyResetInterval := 60\<rparr>,
         hcStatus := zero_status\<lparr>RemedyTotalRuns := 1, RemedyFinishedAt := Some (40 * Second)\<rparr>\<rparr>))"
proof -
  let ?h = "sample_remedy_hc\<lparr>hcSpec := (hcSpec sample_remedy_hc)\<lparr>RemedyRunsLimit := 1, RemedyResetInterval := 60\<rparr>,
         hcStatus := zero_status\<lparr>RemedyTotalRuns := 1, RemedyFinishedAt := Some (40 * Second)\<rparr>\<rparr>"
  have h: "hc (sample_state ?h) = ?h" by (simp add: sample_state_def)
  have c: "counts_ok (hcStatus (hc (sample_state ?h)))" "0 \<le> RemedyRunsLimit (hcSpec (hc (sample_state ?h)))"
    "\<And>f. RemedyFinishedAt (hcStatus (hc (sample_state ?h))) = Some f \<Longrightarrow> f \<le> 100 * Second \<and> 100 * Second - f < 2 ^ 63"
    unfolding h by (auto simp: counts_ok_def Second_def)
  have "\<not> remedy_due (100 * Second) (hc (sample_state ?h))"
    unfolding h by (simp add: remedy_due_def Second_def)
  with remedy_decision [OF c, of fake_env 5 "''health''"] show ?thesis by simp
qed

end
