(* ===== verification/Remedy_Limit.thy ===== *)
theory Remedy_Limit imports Watch_Properties begin

text \<open>
  The limit of remedies over a whole run. Every function that is not a watch leaves the
  status alone (an interpretation of the locale \<open>guard\<close>), the watch of a remedy counts at
  most one run, and the decision lets a remedy run only below the limit.
\<close>

section \<open>The limit of remedies\<close>

text \<open>
  \<open>same_status\<close>: the status, the limits and the name are left alone; \<open>one_remedy\<close>: at most one remedy
  run is counted. The first is an instance of the locale \<open>guard\<close>, so it holds of every
  function that is not a watch.
\<close>

definition limits :: "health_check \<Rightarrow> int \<times> int \<times> string" where
  "limits h = (RemedyRunsLimit (hcSpec h), RemedyResetInterval (hcSpec h), hcName h)"

definition status_view :: "health_check \<Rightarrow> health_check_status \<times> int \<times> int \<times> string" where
  "status_view h = (hcStatus h, limits h)"

lemma limits_status [simp]: "limits (h\<lparr>hcStatus := st\<rparr>) = limits h"
  by (simp add: limits_def)

definition same_status :: "'w st \<Rightarrow> 'w st \<Rightarrow> bool" where
  "same_status s s' \<longleftrightarrow> status_view (hc s') = status_view (hc s)"

lemma view_kept: "evolves (\<lambda>s s'. hc s' = hc s) m \<Longrightarrow>
    guarded (\<lambda>s. status_view (hc s) = v \<and> (Resource (Workflow (hcSpec (hc s))) = None) = b) {APanic, ABlocked, ANoFuel} m"
  unfolding guarded_def evolves_def by (metis abn.exhaust insertCI)

interpretation kept: guard "\<lambda>s. status_view (hc s) = v \<and> (Resource (Workflow (hcSpec (hc s))) = None) = b"
  "\<lambda>h. status_view h = v \<and> (Resource (Workflow (hcSpec h)) = None) = b" "{APanic, ABlocked, ANoFuel}"
  E fuel "\<lambda>_ _. 0" 0 for v b E fuel
proof (unfold_locales; (rule view_kept, rule parse_labels_hc resched_hc rlocked_hc report_hc)?)
qed (auto simp: status_view_def limits_def)

lemma same_statusI:
  assumes "\<And>v b. guarded (\<lambda>s. status_view (hc s) = v \<and> (Resource (Workflow (hcSpec (hc s))) = None) = b) A m"
  shows "evolves same_status m"
  unfolding evolves_def same_status_def using guardedD [OF assms] by blast

definition one_remedy :: "'w st \<Rightarrow> 'w st \<Rightarrow> bool" where
  "one_remedy s s' \<longleftrightarrow> limits (hc s') = limits (hc s) \<and>
     (let st = hcStatus (hc s) in hcStatus (hc s') = st
        \<or> (\<exists>now thn n. hcStatus (hc s') = remedy_succeeded now thn n st)
        \<or> (\<exists>now thn n msg. hcStatus (hc s') = remedy_failed now thn n msg st))"

lemma same_one: "same_status s t \<Longrightarrow> one_remedy t u \<Longrightarrow> one_remedy s u"
  and one_same: "one_remedy s t \<Longrightarrow> same_status t u \<Longrightarrow> one_remedy s u"
  and same_is_one: "same_status s t \<Longrightarrow> one_remedy s t"
  by (auto simp: same_status_def status_view_def one_remedy_def Let_def)

text \<open>Composition of calls that satisfy different relations.\<close>

lemma ev_comp:
  assumes "evolves P m" and "\<And>x. evolves Q (f x)"
    and "\<And>s t u. P s t \<Longrightarrow> Q t u \<Longrightarrow> R s u" and "\<And>s t. P s t \<Longrightarrow> R s t"
  shows "evolves R (bindG m f)"
  unfolding evolves_def
proof
  fix s
  obtain r s' where m: "m s = (r, s')" by fastforce
  have "P s s'" using evolvesD [OF assms(1) m] .
  moreover have "Q s' (snd (f x s'))" for x using assms(2) by (simp add: evolves_def)
  ultimately show "R s (snd (bindG m f s))"
    using assms(3,4) by (cases r) (auto simp: bindG_run m)
qed

lemmas same_then_one = ev_comp [OF _ _ same_one same_is_one]

lemma one_then_same:
  assumes "evolves one_remedy m" and "\<And>x. evolves same_status (f x)"
  shows "evolves one_remedy (bindG m f)"
  by (rule ev_comp [OF assms]) (auto intro: one_same)

lemma go_rel_same: "go_rel same_status"
  by unfold_locales (auto simp: same_status_def)

lemmas same_rules = go_rel.ev_rules [OF go_rel_same]

lemma evolves_imp: "evolves P m \<Longrightarrow> (\<And>s t. P s t \<Longrightarrow> R s t) \<Longrightarrow> evolves R m"
  by (simp add: evolves_def)

lemma onErr_same: "evolves same_status m \<Longrightarrow> (\<And>e. evolves same_status (h e)) \<Longrightarrow> evolves same_status (onErrG m h)"
  by (rule go_rel.ev_onErr [OF go_rel_same])

lemma thenG_failG_snd: "snd (thenG m (failG e) s) = snd (m s)"
  by (auto simp: thenG_run split: prod.splits outcome.splits)

lemma onErr_one:
  assumes "evolves one_remedy m" and "\<And>e. evolves same_status (h e)"
  shows "evolves one_remedy (onErrG m h)"
  unfolding evolves_def
proof
  fix s
  obtain r s' where m: "m s = (r, s')" by fastforce
  have p: "one_remedy s s'" using evolvesD [OF assms(1) m] .
  have "same_status s' (snd (h e s'))" for e
    using assms(2) by (simp add: evolves_def)
  with p show "one_remedy s (snd (onErrG m h s))"
    by (cases r) (auto simp: onErrG_run m thenG_failG_snd intro: one_same [OF p])
qed

text \<open>The watch of a remedy counts at most one run.\<close>

lemma remedy_poll_wait_hc: "fst (remedy_poll E ns n t e s) = Ret Wait \<Longrightarrow> hc (snd (remedy_poll E ns n t e s)) = hc s"
proof -
  assume w: "fst (remedy_poll E ns n t e s) = Ret Wait"
  then have e: "e = None" using remedy_poll_wait by blast
  show ?thesis
    using w by (auto simp: e remedy_poll_def bindG_run tryG_run prim_run callE_run thenG_Ret whenG_run swallow_not_Wait
        thenG_run [of "whenG False m" for m] split: option.splits if_splits prod.splits sum.splits)
qed

lemma poll_loop_one:
  assumes wait: "\<And>e s. fst (body e s) = Ret Wait \<Longrightarrow> hc (snd (body e s)) = hc s"
    and body: "\<And>e s. Q (hc s) (hc (snd (body e s)))" and refl: "\<And>h. Q h h"
  shows "Q (hc s) (hc (snd (poll_loop body E i n e s)))"
proof (induction n arbitrary: e s)
  case 0
  then show ?case by (simp add: refl)
next
  case (Suc n)
  obtain r s1 where b: "body e s = (r, s1)" by fastforce
  have q: "Q (hc s) (hc s1)" using body [of s e] by (simp add: b)
  show ?case
  proof (cases "r = Ret Wait")
    case True
    then have h: "hc s1 = hc s" using wait [of e s] by (simp add: b)
    obtain e' w where nx: "ieb_next E i (world s1) = (e', w)" by fastforce
    show ?thesis
      using Suc.IH [of "s1\<lparr>world := w\<rparr>" e'] by (simp add: bindG_run b True callW_run nx h)
  next
    case False
    show ?thesis
    proof (cases r)
      case (Ret p)
      then show ?thesis using False q by (cases p) (auto simp: bindG_run b)
    qed (use q in \<open>auto simp: bindG_run b\<close>)
  qed
qed

definition one_run :: "health_check \<Rightarrow> health_check \<Rightarrow> bool" where
  "one_run h h' \<longleftrightarrow> limits h' = limits h \<and>
     (hcStatus h' = hcStatus h
      \<or> (\<exists>now thn n. hcStatus h' = remedy_succeeded now thn n (hcStatus h))
      \<or> (\<exists>now thn n msg. hcStatus h' = remedy_failed now thn n msg (hcStatus h)))"

lemma one_remedy_run: "one_remedy s s' = one_run (hc s) (hc s')"
  by (simp add: one_remedy_def one_run_def Let_def)

lemma status_then_metrics:
  assumes "one_run h (h\<lparr>hcStatus := f (hcStatus h)\<rparr>)" and "hc s = h"
    and "evolves same_status k"
  shows "one_run h (hc (snd (thenG (mod_status f) k s)))"
proof -
  have "same_status (s\<lparr>hc := h\<lparr>hcStatus := f (hcStatus h)\<rparr>\<rparr>) (snd (k (s\<lparr>hc := h\<lparr>hcStatus := f (hcStatus h)\<rparr>\<rparr>)))"
    using assms(3) by (simp add: evolves_def)
  then show ?thesis
    using assms(1,2) by (auto simp: thenG_run prim_run one_run_def same_status_def status_view_def)
qed

lemma metrics_same: "evolves same_status (success_metrics l now thn)" "evolves same_status (failure_metrics l now thn)"
  "evolves same_status (event ty re msg)" "evolves same_status get_hc" "evolves same_status (callE f)"
  "evolves same_status (callW g)" "evolves same_status (time_Now E)"
proof -
  show "evolves same_status (success_metrics l now thn)"
    by (auto simp: evolves_def same_status_def success_metrics_def emit_metric_def go_simps split: option.splits)
  show "evolves same_status (failure_metrics l now thn)"
    by (simp add: evolves_def same_status_def failure_metrics_run)
qed (auto simp: evolves_def same_status_def go_simps split: prod.splits sum.splits)

lemma remedy_poll_one:
  fixes E :: "'w env"
  shows "evolves one_remedy (remedy_poll E ns n t e)"
  unfolding remedy_poll_def
proof (rule same_then_one [OF metrics_same(7)])
  fix now
  have sw: "evolves same_status (swallow x :: ('w st, poll) go)" for x
    unfolding swallow_def by (rule same_rules)+
  let ?tail = "\<lambda>content. thenG (whenG (e \<noteq> None) (warning_event ''remedy workflow is timedout''))
    (case poll_status e content of None \<Rightarrow> retG Wait | Some status \<Rightarrow>
         if is_string (gindex status ''phase'') succStr then
           thenG (normal_event ''Remedy workflow status is Succeeded'')
          (thenG (mod_status (remedy_succeeded now t n)) (thenG (success_metrics remedy now t) (retG Break)))
         else if is_string (gindex status ''phase'') failStr then
           thenG (warning_event ''remedy workflow status is failed'')
          (thenG (mod_status (remedy_failed now t n (status_message status))) (thenG (failure_metrics remedy now t) (retG Break)))
         else (retG Wait :: ('w st, poll) go))"
  have tail: "evolves one_remedy (?tail content)" for content
    unfolding thenG_def
  proof (rule same_then_one)
    show "evolves same_status (whenG (e \<noteq> None) (warning_event ''remedy workflow is timedout''))"
      by (rule same_rules metrics_same)+
    have st: "evolves one_remedy (bindG (mod_status f) (\<lambda>_. k))"
      if "\<And>h. one_run h (h\<lparr>hcStatus := f (hcStatus h)\<rparr>)" "evolves same_status k" for f and k :: "('w st, poll) go"
      unfolding evolves_def one_remedy_run using status_then_metrics [where f = f and k = k, OF that(1) refl that(2)] by (simp add: thenG_def)
    have r: "evolves one_remedy (retG Wait :: ('w st, poll) go)" by (simp add: evolves_def one_remedy_def)
    have k: "evolves same_status (bindG (success_metrics remedy now t) (\<lambda>_. retG Break) :: ('w st, poll) go)"
      "evolves same_status (bindG (failure_metrics remedy now t) (\<lambda>_. retG Break) :: ('w st, poll) go)"
      by (rule same_rules metrics_same)+
    have s1: "evolves one_remedy (bindG (mod_status (remedy_succeeded now t n)) (\<lambda>_. bindG (success_metrics remedy now t) (\<lambda>_. retG Break))
        :: ('w st, poll) go)"
      by (rule st [OF _ k(1)]) (simp add: one_run_def, blast)
    have s2: "evolves one_remedy (bindG (mod_status (remedy_failed now t n msg)) (\<lambda>_. bindG (failure_metrics remedy now t) (\<lambda>_. retG Break))
        :: ('w st, poll) go)" for msg
      by (rule st [OF _ k(2)]) (simp add: one_run_def, blast)
    show "evolves one_remedy (case poll_status e content of None \<Rightarrow> retG Wait | Some status \<Rightarrow>
         if is_string (gindex status ''phase'') succStr then
           bindG (normal_event ''Remedy workflow status is Succeeded'')
          (\<lambda>_. bindG (mod_status (remedy_succeeded now t n)) (\<lambda>_. bindG (success_metrics remedy now t) (\<lambda>_. retG Break)))
         else if is_string (gindex status ''phase'') failStr then
           bindG (warning_event ''remedy workflow status is failed'')
          (\<lambda>_. bindG (mod_status (remedy_failed now t n (status_message status)))
             (\<lambda>_. bindG (failure_metrics remedy now t) (\<lambda>_. retG Break)))
         else (retG Wait :: ('w st, poll) go))"
      by (auto split: option.splits intro!: r s1 s2 same_then_one [OF metrics_same(3)])
  qed
  show "evolves one_remedy (tryG (callE (wf_get E ns n)) swallow ?tail)"
    unfolding evolves_def
  proof
    fix s :: "'w st"
    obtain g w where g: "wf_get E ns n (world s) = (g, w)" by fastforce
    have w: "same_status s (s\<lparr>world := w\<rparr>)" by (simp add: same_status_def)
    show "one_remedy s (snd (tryG (callE (wf_get E ns n)) swallow ?tail s))"
      using same_one [OF w evolvesD_snd [OF tail]] same_is_one [OF go_rel.R_trans [OF go_rel_same w evolvesD_snd [OF sw]]]
      by (cases g) (simp_all add: tryG_run callE_run g)
  qed
qed

section \<open>The watches\<close>

lemma watchRemedy_one:
  fixes E :: "'w env"
  shows "evolves one_remedy (watchRemedyWorkflow E fuel [] ns n)"
proof -
  have tail: "evolves same_status (if b then bindG get_hc (\<lambda>h. if Time_IsZero (hcDeletionTimestamp h)
         then onErrG (updateHealthCheckStatus E) (\<lambda>_. report_update_error []) else retG ()) else retG ())" for b
    by (rule same_rules onErr_same metrics_same same_statusI [OF kept.gd_updateStatus] same_statusI [OF kept.g_report])+
  have body: "one_run (hc s) (hc (snd (remedy_poll E ns n thn e s)))" for thn e and s :: "'w st"
    using evolvesD_snd [OF remedy_poll_one, of s E ns n thn e] by (simp only: one_remedy_run)
  have loop: "evolves one_remedy (poll_loop (remedy_poll E ns n thn) E i fuel e)" for thn i e
    unfolding evolves_def one_remedy_run
    by (intro allI poll_loop_one [where Q = one_run] remedy_poll_wait_hc body) (simp_all add: one_run_def)
  show ?thesis
    unfolding watchRemedyWorkflow_def remedyBackoffParams_def Let_def prod.case
    by (rule same_then_one [OF metrics_same(7)] same_then_one [OF metrics_same(4)] same_then_one [OF metrics_same(6)]
        one_then_same [OF loop] tail | simp only: split_def)+
qed

lemma rbac_same: "evolves same_status (createRBACForWorkflow E ty)" "evolves same_status (createSubmitRemedyWorkflow E)"
  "evolves same_status (deleteRBACForWorkflow E)"
  by (rule same_statusI [OF kept.gd_createRBAC] same_statusI [OF kept.gd_createSubmitRemedy] same_statusI [OF kept.gd_deleteRBAC])+

lemma processRemedy_one: "evolves one_remedy (processRemedyWorkflow E fuel ns)"
  unfolding processRemedyWorkflow_def thenG_def
  by (rule same_then_one [OF onErr_same [OF rbac_same(1)]] same_then_one [OF onErr_same [OF rbac_same(2)]]
      one_then_same [OF onErr_one [OF watchRemedy_one]] onErr_same [OF rbac_same(3)] metrics_same(3))+

lemma runRemedy_one: "evolves one_remedy (runRemedy E fuel ns)"
  unfolding runRemedy_def by (intro onErr_one processRemedy_one metrics_same(3))

definition within_limit :: "int \<Rightarrow> health_check \<Rightarrow> bool" where
  "within_limit L h \<longleftrightarrow> RemedyRunsLimit (hcSpec h) = L \<and> RemedyResetInterval (hcSpec h) \<noteq> 0 \<and> (let st = hcStatus h in
     0 \<le> RemedySuccessCount st \<and> 0 \<le> RemedyFailedCount st
     \<and> RemedyTotalRuns st = RemedySuccessCount st + RemedyFailedCount st \<and> RemedyTotalRuns st \<le> L)"

lemma one_run_limit:
  assumes "one_run h h'" and "within_limit L h" and "RemedyTotalRuns (hcStatus h) < L" and "L < 2 ^ 63"
  shows "within_limit L h'"
proof -
  have w: "wrap64 (RemedySuccessCount (hcStatus h) + 1) = RemedySuccessCount (hcStatus h) + 1"
    "wrap64 (RemedyFailedCount (hcStatus h) + 1) = RemedyFailedCount (hcStatus h) + 1"
    "wrap64 (RemedySuccessCount (hcStatus h) + 1 + RemedyFailedCount (hcStatus h)) = RemedySuccessCount (hcStatus h) + 1 + RemedyFailedCount (hcStatus h)"
    "wrap64 (RemedySuccessCount (hcStatus h) + (RemedyFailedCount (hcStatus h) + 1)) = RemedySuccessCount (hcStatus h) + (RemedyFailedCount (hcStatus h) + 1)"
    using assms(2-4) by (auto simp: within_limit_def Let_def int64_ok_def intro!: wrap64_id)
  show ?thesis
    using assms(1-3) unfolding one_run_def limits_def
    by (elim conjE disjE exE) (auto simp: within_limit_def Let_def remedy_succeeded_def remedy_failed_def w)
qed

definition keeps_limit :: "int \<Rightarrow> 'w st \<Rightarrow> 'w st \<Rightarrow> bool" where
  "keeps_limit L s s' \<longleftrightarrow> (within_limit L (hc s) \<longrightarrow> within_limit L (hc s'))"

lemma go_rel_limit: "go_rel (keeps_limit L)"
  by unfold_locales (auto simp: keeps_limit_def)

lemmas limit_rules = go_rel.ev_rules [OF go_rel_limit]

lemma same_keeps: "evolves same_status m \<Longrightarrow> evolves (keeps_limit L) m"
  by (erule evolves_imp) (auto simp: same_status_def status_view_def limits_def keeps_limit_def within_limit_def)

lemma within_status:
  "within_limit L h \<Longrightarrow> RemedySuccessCount st = RemedySuccessCount (hcStatus h) \<Longrightarrow> RemedyFailedCount st = RemedyFailedCount (hcStatus h)
    \<Longrightarrow> RemedyTotalRuns st = RemedyTotalRuns (hcStatus h) \<Longrightarrow> within_limit L (h\<lparr>hcStatus := st\<rparr>)"
  by (simp add: within_limit_def Let_def)

lemma limit_status:
  "evolves (keeps_limit L) (mod_status (hc_succeeded now thn n))" "evolves (keeps_limit L) (mod_status (hc_failed now thn n msg))"
  by (auto simp: evolves_def keeps_limit_def prim_run hc_succeeded_def hc_failed_def Let_def intro!: within_status)

lemma within_reset: "within_limit L h \<Longrightarrow> 0 \<le> L \<Longrightarrow> within_limit L (h\<lparr>hcStatus := remedy_reset msg (hcStatus h)\<rparr>)"
  by (simp add: within_limit_def remedy_reset_def)

lemma passed_limit: "0 < L \<Longrightarrow> evolves (keeps_limit L) hc_passed"
  by (auto simp: evolves_def keeps_limit_def hc_passed_def go_simps within_reset Let_def)

text \<open>The remedy's decision keeps the limit: a run is added below it, or after a reset.\<close>

lemma maybeRemedy_limit:
  fixes E :: "'w env"
  assumes "within_limit L (hc s)" and "0 < L" "L < 2 ^ 63"
  shows "within_limit L (hc (snd (maybeRemedy E fuel ns now s)))"
proof -
  have run: "within_limit L (hc (snd (runRemedy E fuel ns t)))"
    if "within_limit L (hc t)" "RemedyTotalRuns (hcStatus (hc t)) < L" for t :: "'w st"
    using one_run_limit [OF _ that assms(3)] evolvesD_snd [OF runRemedy_one, of t E fuel ns] by (simp add: one_remedy_run)
  have lim: "RemedyRunsLimit (hcSpec (hc s)) = L" "RemedyResetInterval (hcSpec (hc s)) \<noteq> 0" using assms(1) by (simp_all add: within_limit_def)
  have rst: "within_limit L (hc (snd (runRemedy E fuel ns t)))"
    if "hc t = (hc s)\<lparr>hcStatus := remedy_reset ''RemedyResetInterval elapsed so Remedy is reset'' (hcStatus (hc s))\<rparr>" for t :: "'w st"
    using that assms(1,2) by (intro run) (simp add: within_reset, simp add: remedy_reset_def)
  show ?thesis
    using assms(1,2) lim run [OF assms(1)] rst
    by (auto simp: maybeRemedy_def bindG_run thenG_run prim_run Let_def split: option.splits)
qed


lemma limit_prims: "evolves (keeps_limit L) (callE f)" "evolves (keeps_limit L) (callW g)" "evolves (keeps_limit L) (time_Now E)"
  "evolves (keeps_limit L) (event ty re msg)" "evolves (keeps_limit L) get_hc"
  "evolves (keeps_limit L) (success_metrics l now thn)" "evolves (keeps_limit L) (failure_metrics l now thn)"
  by (simp_all add: same_keeps metrics_same)


lemma swallow_limit: "evolves (keeps_limit L) (swallow e)"
  unfolding swallow_def by (rule limit_rules)+

lemma maybe_limit: "0 < L \<Longrightarrow> L < 2 ^ 63 \<Longrightarrow> evolves (keeps_limit L) (maybeRemedy E fuel ns now)"
  by (simp add: evolves_def keeps_limit_def maybeRemedy_limit)

lemma hc_poll_limit: "0 < L \<Longrightarrow> L < 2 ^ 63 \<Longrightarrow> evolves (keeps_limit L) (hc_poll E fuel ns n thn e)"
  unfolding hc_poll_def by (rule limit_rules limit_prims limit_status passed_limit maybe_limit swallow_limit | assumption)+

lemma poll_loop_rel:
  assumes "go_rel R" and "\<And>e. evolves R (body e)" and "\<And>f :: 'w \<Rightarrow> goerr option \<times> 'w. evolves R (callW f)"
  shows "evolves R (poll_loop body E i n e)"
proof (induction n arbitrary: e)
  case 0
  show ?case unfolding poll_loop.simps by (rule go_rel.ev_nofuel [OF assms(1)])
next
  case (Suc n)
  have "evolves R (case p of Wait \<Rightarrow> bindG (callW (ieb_next E i)) (poll_loop body E i n) | Break \<Rightarrow> retG True | Gone \<Rightarrow> retG False)" for p
    by (cases p) (simp_all add: go_rel.ev_ret [OF assms(1)] go_rel.ev_bind [OF assms(1) assms(3) Suc.IH])
  then show ?case by (simp add: go_rel.ev_bind [OF assms(1,2)])
qed

lemma finish_same: "evolves same_status (finish_run E [] ns d)"
  unfolding finish_run_def
  by (rule same_rules onErr_same metrics_same same_statusI [OF kept.gd_updateStatus] same_statusI [OF kept.g_report] same_statusI [OF kept.g_resched])+


text \<open>A failed HealthCheck whose limit of one remedy is used up and whose window is over.\<close>

definition limited_state :: "fake st" where
  "limited_state = (let h = sample_remedy_hc
        \<lparr>hcSpec := (hcSpec sample_remedy_hc)\<lparr>RemedyRunsLimit := 1, RemedyResetInterval := 60\<rparr>,
         hcStatus := zero_status\<lparr>RemedyTotalRuns := 1, RemedyFailedCount := 1, RemedyFinishedAt := Some (40 * Second)\<rparr>\<rparr>;
       s = sample_state h
     in s\<lparr>world := (world s)\<lparr>fkContent := [(''status'', GMap [(''phase'', GString failStr)])],
          fkWfs := [(''health'', ''w'') \<mapsto> [(''status'', GMap [(''phase'', GString failStr)])]]\<rparr>\<rparr>)"


end
