(* ===== verification/System_Properties.thy ===== *)
theory System_Properties imports Robustness begin

text \<open>
  Properties of the running controller: statements about every state that reconciles, timers
  and other actors can lead to, from the constructor of the tests and from the reconciler
  the main program builds.
\<close>

section \<open>Sample runs\<close>

text \<open>A server that answers well-formed HealthChecks only, and a decoder without empty documents.\<close>

definition strict_env :: "fake env" where
  "strict_env = fake_env\<lparr>
     hc_get := (\<lambda>ns n w. case fkHCs w (ns, n) of
        None \<Rightarrow> (Inl not_found, w)
      | Some h \<Rightarrow> if hcName h \<noteq> [] \<and> Resource (Workflow (hcSpec h)) \<noteq> None \<and> 0 \<le> RemedyRunsLimit (hcSpec h)
                    \<and> (1 \<le> RemedyTotalRuns (hcStatus h) \<longrightarrow> RemedyFinishedAt (hcStatus h) \<noteq> None)
                  then (Inr h, w) else (Inl (errors_New ''invalid''), w)),
     yaml_unmarshal := (\<lambda>t. Inr (Some [(''spec'', GMap [])]))\<rparr>"

definition fresh :: "fake st" where
  "fresh = NewHealthCheckReconciler (world (sample_state sample_hc))"

definition first_run :: "fake st" where
  "first_run = snd (Reconcile fake_env 5 ''health'' ''hc'' fresh)"

lemma fake_backoff: "backoff_env E (\<lambda>i w. fkTicks w) 3" if
  "ieb_next E = ieb_next fake_env" "ieb_new E = ieb_new fake_env" "clock E = clock fake_env" "wf_get E = wf_get fake_env"
  for E :: "fake env"
  by unfold_locales (auto simp: that fake_env_def split: nat.splits option.splits)

interpretation fake_run: run_env fake_env "\<lambda>i w. fkTicks w" 3 5
  by (intro run_env.intro fake_backoff run_env_axioms.intro) simp_all

interpretation strict_run: sound_env strict_env "\<lambda>i w. fkTicks w" 3 5
proof (intro sound_env.intro run_env.intro fake_backoff run_env_axioms.intro yaml_env.intro sound_env_axioms.intro)
  show "hc_get strict_env ns n w = (Inr h, w') \<Longrightarrow> hc_sound h" for ns n w h w'
    by (auto simp: strict_env_def hc_sound_def counts_ok_def split: option.splits if_splits)
qed (simp_all add: strict_env_def fake_env_def)

lemma first_run_armed: "map_option tmName (pending first_run 0) = Some ''hc''"
  by code_simp

lemma first_run_reachable: "reachable fake_env 5 fresh first_run"
  unfolding first_run_def by (rule reachable.reach_step [OF reachable.reach_init step_reconcile])

section \<open>Every handler returns\<close>



text \<open>
  C13: polling ends. Whatever the server answers, and from whatever state, a watch, a
  reconcile and a timer's run never exhaust the polling fuel, given a backoff timer whose
  pauses are at most \<open>B\<close> and fuel for two more passes than that.
\<close>

theorem polling_ends:
  assumes "backoff_env E rank B" and "B + 2 \<le> fuel"
  shows "fst (watchWorkflowReschedule E fuel [] ns x s) \<noteq> NoFuel \<and> fst (Reconcile E fuel ns n s) \<noteq> NoFuel
    \<and> fst (createSubmitWorkflowHelper E fuel a s) \<noteq> NoFuel"
proof -
  have "run_env E rank B fuel"
    using assms by (intro run_env.intro run_env_axioms.intro)
  then have *: "guarded (\<lambda>_. True) {APanic, ABlocked} (watchWorkflowReschedule E fuel [] ns x)"
    "guarded (\<lambda>_. True) {APanic, ABlocked} (Reconcile E fuel ns n)"
    "guarded (\<lambda>_. True) {APanic, ABlocked} (createSubmitWorkflowHelper E fuel a)"
    by (auto intro: run_env.ended_watch run_env.ended_reconcile run_env.ended_helper)
  then show ?thesis
    unfolding guarded_def by (metis abn.distinct(3,5) abn_of.simps(5) insertE singletonD)
qed

theorem polling_ends_witness: "fst (Reconcile fake_env 5 ''health'' ''hc'' fresh) \<noteq> NoFuel"
  using polling_ends [OF fake_run.backoff_env_axioms, of 5] by simp

lemma reach_reconcile: "reachable E fuel s (snd (Reconcile E fuel ns n s))"
  by (rule reachable.reach_step [OF reachable.reach_init]) (rule step_reconcile)

section \<open>Panics\<close>

lemma processOrRecover_no_panic: "fst (processOrRecoverHealthCheck E fuel s) \<noteq> Panic p"
  unfolding processOrRecoverHealthCheck_def by (rule recoverG_no_panic)

text \<open>
  C27: a panic while a HealthCheck is processed does not reach the work queue's goroutine:
  Reconcile never panics, whatever the server answers.
\<close>

theorem reconcile_never_panics: "fst (Reconcile E fuel ns n s) \<noteq> Panic p"
proof -
  obtain g w where g: "hc_get E ns n (world s) = (g, w)" by fastforce
  show ?thesis
  proof (cases g)
    case (Inl e)
    then show ?thesis
      by (cases "read_timer n s")
         (simp_all add: Reconcile_def tryG_run callE_run g cancel_timer_def go_simps stop_opt_def read_timer_def)
  next
    case (Inr h)
    then show ?thesis
      by (simp add: Reconcile_def tryG_run callE_run g thenG_run prim_run processOrRecover_no_panic)
  qed
qed

section \<open>The lock\<close>

text \<open>
  C16: the lock is given back. When no document decodes to an empty one, TimerLock is free in
  every state a constructed reconciler can reach, also after panics and errors of the server.
\<close>

theorem lock_always_free:
  assumes "\<forall>t. yaml_unmarshal E t \<noteq> Inr None" and "reachable E fuel (NewHealthCheckReconciler w) s"
  shows "\<not> TimerLock s"
proof -
  have "yaml_env E" using assms(1) by (simp add: yaml_env_def)
  moreover have "unstuck (NewHealthCheckReconciler w)"
    by (simp add: unstuck_def NewHealthCheckReconciler_def)
  ultimately have "unstuck s" using yaml_env.free_reachable [OF _ assms(2)] by blast
  then show ?thesis by (simp add: unstuck_def)
qed

theorem lock_always_free_witness:
  "\<not> TimerLock (snd (Reconcile strict_env 5 ''health'' ''hc'' (NewHealthCheckReconciler (world (sample_state sample_hc)))))"
  by (rule lock_always_free [where E = strict_env, OF _ reach_reconcile])
     (simp add: strict_env_def)

section \<open>One timer for each name\<close>

text \<open>
  C2: in every state a constructed reconciler can reach there is at most one running timer
  for the HealthChecks of a name, and it is the one the map holds under that name, so
  deleting or rescheduling the HealthCheck can stop it.
\<close>

theorem one_timer_per_name:
  assumes "reachable E fuel (NewHealthCheckReconciler w) s"
  shows "{i. \<exists>a. pending s i = Some a \<and> tmName a = n} \<subseteq> set_option (read_timer n s)"
proof -
  have ok: "timers_ok s" and m: "RepeatTimersByName s \<noteq> None"
    using timers_ok_ctl.reachable_rel [OF assms] nil_map_ctl.reachable_rel [OF assms] timers_ok_start(1) [of w]
    by (simp_all add: NewHealthCheckReconciler_def)
  show ?thesis
    using ok m unfolding timers_ok_def read_timer_def by (auto split: option.splits)
qed

theorem one_timer_per_name_witness:
  "{i. \<exists>a. pending first_run i = Some a \<and> tmName a = ''hc''} = {0}"
proof -
  have sub: "{i. \<exists>a. pending first_run i = Some a \<and> tmName a = ''hc''} \<subseteq> set_option (read_timer ''hc'' first_run)"
    by (rule one_timer_per_name [OF first_run_reachable [unfolded fresh_def]])
  have "0 \<in> {i. \<exists>a. pending first_run i = Some a \<and> tmName a = ''hc''}"
    using first_run_armed by auto
  with sub show ?thesis by (cases "read_timer ''hc'' first_run") auto
qed

section \<open>The reconciler of the main program\<close>

text \<open>
  C36: the reconciler that \<open>run\<close> of main.go builds stops working with its first completed
  run: as soon as a timer has been armed, TimerLock is held for ever, and no workflow is
  submitted in any later state.
\<close>

theorem main_reconciler_freezes:
  assumes "reachable E fuel (run_reconciler w) s" and "armed s \<noteq> []" and "reachable E' fuel' s s'"
  shows "TimerLock s \<and> TimerLock s' \<and> submitted s' = submitted s"
proof -
  have "armed (run_reconciler w) = []" "RepeatTimersByName (run_reconciler w) = None"
    by (simp_all add: armed_def run_reconciler_def)
  then have "TimerLock s" using frozen_ctl.reachable_rel [OF assms(1)] assms(2) by (simp add: frozen_def)
  then show ?thesis using frozen_ctl.reachable_rel [OF assms(3)] by (simp add: frozen_def)
qed

definition main_run :: "fake st" where
  "main_run = snd (Reconcile fake_env 5 ''health'' ''hc'' (run_reconciler (world (sample_state sample_hc))))"

theorem main_reconciler_freezes_witness:
  "TimerLock main_run \<and> submitted (snd (Reconcile fake_env 5 ''health'' ''hc'' main_run)) = submitted main_run"
proof -
  have r: "reachable fake_env 5 (run_reconciler (world (sample_state sample_hc))) main_run"
    unfolding main_run_def by (rule reach_reconcile)
  have "armed main_run \<noteq> []" by code_simp
  from main_reconciler_freezes [OF r this reach_reconcile]
  show ?thesis by blast
qed

section \<open>Labels\<close>


definition labelled_start :: "fake st" where
  "labelled_start = (NewHealthCheckReconciler (world (sample_state torn_hc)))\<lparr>workflowLabels := Some [''team'' \<mapsto> ''red'']\<rparr>"


end
