(* ===== verification/Reconcile_Properties.thy ===== *)
theory Reconcile_Properties imports System_Properties begin

text \<open>
  Properties of one reconcile: a HealthCheck that is gone, one that is stopped, one that
  already has its next run, one with a cron schedule, and the update of the resource at the
  end.
\<close>

section \<open>Deleted HealthChecks\<close>



section \<open>What a status update leaves alone\<close>

definition quiet :: "'w st \<Rightarrow> 'w st \<Rightarrow> bool" where
  "quiet s s' \<longleftrightarrow> submitted s' = submitted s \<and> pending s' = pending s \<and> next_timer s' = next_timer s
     \<and> RepeatTimersByName s' = RepeatTimersByName s \<and> TimerLock s' = TimerLock s
     \<and> workflowLabels s' = workflowLabels s \<and> hc s' = hc s
     \<and> (\<exists>ts. trace s' = trace s @ ts \<and> (\<forall>v k ns n. EvRBAC v k ns n \<notin> set ts))"

lemma go_rel_quiet: "go_rel quiet"
proof
  fix s t u :: "'a st"
  show "quiet s s" by (simp add: quiet_def)
  assume "quiet s t" "quiet t u"
  then obtain xs ys where "trace t = trace s @ xs" "trace u = trace t @ ys"
    "\<forall>v k ns n. EvRBAC v k ns n \<notin> set xs" "\<forall>v k ns n. EvRBAC v k ns n \<notin> set ys" by (auto simp: quiet_def)
  then show "quiet s u" using \<open>quiet s t\<close> \<open>quiet t u\<close>
    unfolding quiet_def by (intro conjI exI [of _ "xs @ ys"]) auto
qed

lemmas quiet_rules = go_rel.ev_rules [OF go_rel_quiet]

lemma quiet_prims:
  "evolves quiet (callE f)" "evolves quiet (callW g)" "evolves quiet (emit (EvUpdateStatus u))"
  "evolves quiet (event ty re msg)" "evolves quiet get_hc" "evolves quiet (time_Now E)"
  by (auto simp: evolves_def quiet_def go_simps submitted_def split: prod.splits sum.splits)

lemma quiet_Retry: "evolves quiet m \<Longrightarrow> evolves quiet (RetryOnConflict n m)"
  by (induction n) (auto intro!: quiet_rules)

lemma quiet_updateStatus: "evolves quiet (updateHealthCheckStatus E)"
  unfolding updateHealthCheckStatus_def by (rule quiet_rules quiet_prims quiet_Retry)+

section \<open>Stopped, scheduled and cron HealthChecks\<close>

lemma snd_then_ret: "snd (thenG m (retG x) s) = snd (m s)"
  by (auto simp: thenG_run split: prod.splits outcome.splits)

text \<open>
  C25: a HealthCheck with neither an interval nor a schedule is marked Stopped, with a
  message that shows its interval and the time it was seen; no workflow is submitted and no
  RBAC object is touched. The timer of an earlier run is not stopped: it keeps running.
\<close>

theorem stopped_runs_nothing:
  assumes "Resource (Workflow (hcSpec (hc s))) \<noteq> None" and "RepeatAfterSec (hcSpec (hc s)) \<le> 0"
    and "Cron (Schedule (hcSpec (hc s))) = []" and "clock E (world s) = (now, w)"
  shows "\<exists>s' ts. snd (processHealthCheck E fuel s) = s' \<and> submitted s' = submitted s \<and> pending s' = pending s
    \<and> RepeatTimersByName s' = RepeatTimersByName s
    \<and> trace s' = trace s @ ts \<and> (\<forall>v k ns n. EvRBAC v k ns n \<notin> set ts)
    \<and> hc s' = (hc s)\<lparr>hcStatus := (hcStatus (hc s))\<lparr>Status := ''Stopped'',
        ErrorMessage := ''workflow execution is stopped; either spec.RepeatAfterSec or spec.Schedule must be provided. spec.RepeatAfterSec set to ''
          @ strconv_Itoa (RepeatAfterSec (hcSpec (hc s))) @ ''. spec.Schedule set to {Cron:}'',
        FinishedAt := Some now\<rparr>\<rparr>"
proof -
  let ?st = "stopped_status (RepeatAfterSec (hcSpec (hc s))) [] now"
  let ?ev = "EvEvent (hcName (hc s)) ''Warning'' ''Warning''
     ''Workflow execution is stopped; either spec.RepeatAfterSec or spec.Schedule must be provided''"
  let ?t = "s\<lparr>world := w, hc := (hc s)\<lparr>hcStatus := ?st (hcStatus (hc s))\<rparr>, trace := trace s @ [?ev]\<rparr>"
  let ?m = "onErrG (updateHealthCheckStatus E) (\<lambda>_. warning_event ''Error updating healthcheck resource'')"
  have "processHealthCheck E fuel s = thenG (stop_run E now) (retG no_result) (s\<lparr>world := w\<rparr>)"
    using assms by (auto simp: processHealthCheck_def bindG_run prim_run Let_def)
  moreover have "stop_run E now (s\<lparr>world := w\<rparr>) = ?m ?t"
    using assms(3) by (simp add: stop_run_def bindG_run thenG_run prim_run)
  ultimately have "snd (processHealthCheck E fuel s) = snd (?m ?t)"
    by (simp add: snd_then_ret)
  moreover have "quiet ?t (snd (?m ?t))"
    by (rule evolvesD_snd) (rule quiet_rules quiet_updateStatus quiet_prims)+
  ultimately show ?thesis
    by (auto simp: quiet_def stopped_status_def submitted_def)
qed

definition paused_hc :: health_check where
  "paused_hc = sample_hc\<lparr>hcSpec := (hcSpec sample_hc)\<lparr>RepeatAfterSec := 0\<rparr>\<rparr>"

theorem stopped_runs_nothing_witness:
  "Status (hcStatus (hc (snd (processHealthCheck fake_env 5 (sample_state paused_hc))))) = ''Stopped''"
proof -
  let ?s = "sample_state paused_hc"
  have "Resource (Workflow (hcSpec (hc ?s))) \<noteq> None" "RepeatAfterSec (hcSpec (hc ?s)) \<le> 0"
    "Cron (Schedule (hcSpec (hc ?s))) = []" "clock fake_env (world ?s) = (fkNow (world ?s), world ?s)"
    by (simp_all add: sample_defs paused_hc_def fake_env_def)
  from stopped_runs_nothing [OF this, of 5] show ?thesis by auto
qed

text \<open>
  A HealthCheck whose last run ended less than its interval ago, and which has a timer,
  is left alone: processing it changes nothing but the clock.
\<close>

theorem scheduled_not_run_again:
  assumes "Resource (Workflow (hcSpec (hc s))) \<noteq> None" and "0 < RepeatAfterSec (hcSpec (hc s))"
    and "FinishedAt (hcStatus (hc s)) = Some f" and "read_timer (hcName (hc s)) s \<noteq> None" and "\<not> TimerLock s"
    and "clock E (world s) = (t1, w1)" and "clock E w1 = (t2, w2)"
    and "0 \<le> unix t2 - unix f" and "unix t2 - unix f < RepeatAfterSec (hcSpec (hc s))" and "RepeatAfterSec (hcSpec (hc s)) < 2 ^ 63"
  shows "processHealthCheck E fuel s = (Ret \<lparr>RequeueAfter = 0\<rparr>, s\<lparr>world := w2\<rparr>)"
proof -
  obtain res where res: "Resource (Workflow (hcSpec (hc s))) = Some res" using assms(1) by auto
  have "wrap64 (unix t2 - unix f) = unix t2 - unix f"
    using assms(8-10) by (intro wrap64_id) (simp add: int64_ok_def)
  moreover have "read_timer n (s\<lparr>world := w\<rparr>) = read_timer n s" for n w by (simp add: read_timer_def)
  ultimately show ?thesis
    using assms by (auto simp: processHealthCheck_def bindG_run prim_run Let_def res already_scheduled_def
        finished_seconds_def go_simps no_result_def)
qed

theorem scheduled_not_run_again_witness:
  "processHealthCheck fake_env 5 ((sample_state (sample_hc\<lparr>hcStatus := zero_status\<lparr>FinishedAt := Some (990 * Second)\<rparr>\<rparr>))
      \<lparr>RepeatTimersByName := Some [''hc'' \<mapsto> 0]\<rparr>)
   = (Ret \<lparr>RequeueAfter = 0\<rparr>, (sample_state (sample_hc\<lparr>hcStatus := zero_status\<lparr>FinishedAt := Some (990 * Second)\<rparr>\<rparr>))
      \<lparr>RepeatTimersByName := Some [''hc'' \<mapsto> 0]\<rparr>)"
proof -
  let ?s = "(sample_state (sample_hc\<lparr>hcStatus := zero_status\<lparr>FinishedAt := Some (990 * Second)\<rparr>\<rparr>))
      \<lparr>RepeatTimersByName := Some [''hc'' \<mapsto> 0]\<rparr>"
  have "processHealthCheck fake_env 5 ?s = (Ret \<lparr>RequeueAfter = 0\<rparr>, ?s\<lparr>world := world ?s\<rparr>)"
    by (rule scheduled_not_run_again [where f = "990 * Second" and ?t1.0 = "1000 * Second" and ?w1.0 = "world ?s"
          and ?t2.0 = "1000 * Second"])
       (simp_all add: sample_defs fake_env_def read_timer_def unix_def Second_def)
  then show ?thesis by simp
qed




section \<open>The resource after a run\<close>

text \<open>
  The update at the end of a reconcile sends the server's own copy of the resource with
  the status replaced and nothing else: what the handlers changed in memory (the delay of a
  cron schedule, the default timeout, the service account of a remedy) is never written, and
  the event about a failed update is about that copy.
\<close>

theorem resource_update_keeps_spec:
  "\<exists>ts. trace (snd (update_resource E s)) = trace s @ ts
     \<and> (\<forall>u. EvUpdate u \<in> set ts \<longrightarrow> (\<exists>w h. fst (hc_get E (hcNamespace (hc s)) (hcName (hc s)) w) = Inr h
          \<and> u = h\<lparr>hcStatus := hcStatus (hc s)\<rparr>))
     \<and> (\<forall>w. EvCreateWorkflow w \<notin> set ts) \<and> (\<forall>i d n. EvArm i d n \<notin> set ts)"
proof -
  define Q where "Q e = ((\<forall>u. e = EvUpdate u \<longrightarrow> (\<exists>w h. fst (hc_get E (hcNamespace (hc s)) (hcName (hc s)) w) = Inr h
      \<and> u = h\<lparr>hcStatus := hcStatus (hc s)\<rparr>)) \<and> (\<forall>w. e \<noteq> EvCreateWorkflow w) \<and> (\<forall>i d n. e \<noteq> EvArm i d n))" for e
  let ?attempt = "bindG (callE (hc_get E (hcNamespace (hc s)) (hcName (hc s)))) (\<lambda>hcNew.
     let upd = hcNew\<lparr>hcStatus := hcStatus (hc s)\<rparr> in
     thenG (set_hc upd) (thenG (emit (EvUpdate upd)) (callE (env.hc_update E upd))))"
  have "evolves (traces Q) ?attempt"
    by (auto simp: evolves_def traces_def go_simps Q_def Let_def split: prod.splits sum.splits) (metis fst_conv)+
  then have "evolves (traces Q) (thenG (set_hc zero_health_check) (onErrG (RetryOnConflict (conflict_retries E) ?attempt)
     (\<lambda>_. warning_event ''Error updating healthcheck resource'')))"
    by (intro go_rel.ev_then [OF go_rel_traces] go_rel.ev_onErr [OF go_rel_traces] traces_Retry traces_prims) (simp_all add: Q_def)
  then have "traces Q s (snd (update_resource E s))"
    by (simp add: update_resource_def bindG_run prim_run evolves_def)
  then obtain ts where "trace (snd (update_resource E s)) = trace s @ ts" and q: "\<forall>e \<in> set ts. Q e"
    by (auto simp: traces_def)
  then show ?thesis
    by (intro exI [of _ ts] conjI) (auto simp: Q_def dest!: bspec [OF q])
qed

theorem resource_update_keeps_spec_witness:
  "\<exists>u. EvUpdate u \<in> set (trace (snd (update_resource fake_env counted)))
     \<and> hcStatus u = zero_status\<lparr>SuccessCount := 1\<rparr>"
proof -
  let ?s = counted
  obtain ts where t: "trace (snd (update_resource fake_env ?s)) = trace ?s @ ts"
    and q: "\<And>u. EvUpdate u \<in> set ts \<Longrightarrow> hcStatus u = hcStatus (hc ?s)"
    using resource_update_keeps_spec [of fake_env ?s] by fastforce
  have "\<exists>u. EvUpdate u \<in> set (trace (snd (update_resource fake_env ?s)))"
  proof -
    have "map (\<lambda>e. case e of EvUpdate u \<Rightarrow> SuccessCount (hcStatus u) | _ \<Rightarrow> 0)
        (trace (snd (update_resource fake_env ?s))) = [1]"
      by code_simp
    then obtain e where "trace (snd (update_resource fake_env ?s)) = [e]"
      "(case e of EvUpdate u \<Rightarrow> SuccessCount (hcStatus u) | _ \<Rightarrow> 0) = 1"
      by (cases "trace (snd (update_resource fake_env ?s))") auto
    then show ?thesis by (cases e) auto
  qed
  moreover have "trace ?s = []" "hcStatus (hc ?s) = zero_status\<lparr>SuccessCount := 1\<rparr>" by (simp_all add: sample_defs counted_def)
  ultimately show ?thesis using t q by auto
qed

end
