(* ===== verification/Submit_Properties.thy ===== *)
theory Submit_Properties imports Controller_System "HOL-Library.Multiset" begin

text \<open>
  Properties of the parsers and of the submission: what the created object is, what the
  controller adds to the user's spec, how labels are merged, and what happens to texts
  that do not parse.
\<close>

section \<open>The parser changes the timeout only\<close>

definition with_timeout :: "int \<Rightarrow> health_check \<Rightarrow> health_check" where
  "with_timeout t h = h\<lparr>hcSpec := set_wf_timeout t (hcSpec h)\<rparr>"

lemma with_timeout_simps [simp]:
  "hcName (with_timeout t h) = hcName h" "hcUID (with_timeout t h) = hcUID h"
  "hcNamespace (with_timeout t h) = hcNamespace h" "hcStatus (with_timeout t h) = hcStatus h"
  "Resource (Workflow (hcSpec (with_timeout t h))) = Resource (Workflow (hcSpec h))"
  "GenerateName (Workflow (hcSpec (with_timeout t h))) = GenerateName (Workflow (hcSpec h))"
  by (simp_all add: with_timeout_def set_wf_timeout_def)

lemma with_timeout_refl: "\<exists>t. h = with_timeout t h"
  by (rule exI [of _ "Timeout (Workflow (hcSpec h))"]) (simp add: with_timeout_def set_wf_timeout_def)

lemma with_timeout_twice [simp]: "with_timeout t (with_timeout u h) = with_timeout t h"
  by (simp add: with_timeout_def set_wf_timeout_def)

definition timeout_only :: "'w st \<Rightarrow> 'w st \<Rightarrow> bool" where
  "timeout_only s s' \<longleftrightarrow> (\<exists>t. hc s' = with_timeout t (hc s)) \<and> submitted s' = submitted s"

lemma go_rel_timeout_only: "go_rel timeout_only"
proof
  fix s t u :: "'a st"
  show "timeout_only s s" using with_timeout_refl by (simp add: timeout_only_def)
  show "timeout_only s t \<Longrightarrow> timeout_only t u \<Longrightarrow> timeout_only s u"
    by (auto simp: timeout_only_def)
qed

lemmas to_rules = go_rel.ev_rules [OF go_rel_timeout_only]

lemma timeout_only_keep: "hc s' = hc s \<Longrightarrow> submitted s' = submitted s \<Longrightarrow> timeout_only s s'"
  using with_timeout_refl by (simp add: timeout_only_def)

lemma to_prims:
  "evolves timeout_only get_hc" "evolves timeout_only (event ty re msg)" "evolves timeout_only (Read E r)"
  "evolves timeout_only (parse_labels E g d)" "evolves timeout_only (mod_spec (set_wf_timeout n))"
proof -
  show "evolves timeout_only (Read E r)"
    by (rule any_reader.rd_evolves) (simp add: timeout_only_keep)
  show "evolves timeout_only (mod_spec (set_wf_timeout n))"
    by (auto simp: evolves_def prim_run timeout_only_def with_timeout_def)
  show "evolves timeout_only (event ty re msg)" "evolves timeout_only get_hc"
    by (simp_all add: evolves_def prim_run timeout_only_keep)
  have "submitted (snd (parse_labels E g d s)) = submitted s \<and> hc (snd (parse_labels E g d s)) = hc s" for s
    by (simp add: parse_labels_run Let_def split: option.splits)
  then show "evolves timeout_only (parse_labels E g d)"
    by (simp add: evolves_def timeout_only_keep)
qed

lemma parse_timeout_only: "evolves timeout_only (parseWorkflowFromHealthcheck E)"
  unfolding parseWorkflowFromHealthcheck_def load_source_def unmarshal_def spec_of_def default_timeout_def
  by (rule to_rules to_prims)+

section \<open>Properties\<close>

definition default_for :: "health_check \<Rightarrow> int" where
  "default_for h = (if Timeout (Workflow (hcSpec h)) = 0 then RepeatAfterSec (hcSpec h) else Timeout (Workflow (hcSpec h)))"

lemma default_timeout_run:
  "default_timeout s = (Ret (default_for (hc s)), s\<lparr>hc := with_timeout (default_for (hc s)) (hc s)\<rparr>)"
  by (simp add: default_timeout_def go_simps default_for_def with_timeout_def set_wf_timeout_def)

lemma create_workflow_run:
  "create_workflow E w msg s = (r, s') \<Longrightarrow>
     submitted s' = submitted s @ [w] \<and> workflowLabels s' = workflowLabels s \<and> hc s' = hc s
   \<and> (\<forall>n. r = Ret n \<longrightarrow> fst (wf_create E w (world s)) = Inr n)"
  by (auto simp: create_workflow_def go_simps submitted_def split: prod.splits sum.splits)

text \<open>
  C22: whatever the workflow text is, one call of createSubmitWorkflow creates at most one
  workflow; it carries the namespace and the name prefix of the resource, the shared labels
  of that moment, and the HealthCheck as its only owner, so that it is collected with it;
  and the name the call answers is the one the server generated.
\<close>

theorem submitted_workflow_owned:
  assumes "createSubmitWorkflow E s = (r, s')" and "Resource (Workflow (hcSpec (hc s))) = Some res"
  shows "(submitted s' = submitted s \<and> (\<forall>n. r \<noteq> Ret n)) \<or>
    (\<exists>w. submitted s' = submitted s @ [w] \<and> wfNamespaceOf w = ResNamespace res
       \<and> wfGenerateName w = GenerateName (Workflow (hcSpec (hc s))) \<and> wfLabels w = labels_of s'
       \<and> wfOwners w = [\<lparr>orKind = ''HealthCheck'', orAPIVersion = ''activemonitor.keikoproj.io/v1alpha1'',
            orName = hcName (hc s), orUID = hcUID (hc s), orController = True\<rparr>]
       \<and> (\<forall>n. r = Ret n \<longrightarrow> (\<exists>wd. fst (wf_create E w wd) = Inr n)))"
proof -
  obtain p s1 where p: "parseWorkflowFromHealthcheck E s = (p, s1)" by fastforce
  obtain t where h: "hc s1 = with_timeout t (hc s)" and sub: "submitted s1 = submitted s"
    using evolvesD [OF parse_timeout_only p] by (auto simp: timeout_only_def)
  have run: ?thesis if "createSubmitWorkflow E s = submit_with_labels E
      (\<lambda>l. build_workflow (hc s1) res (GenerateName (Workflow (hcSpec (hc s1)))) l spec) msg s1" for spec msg
  proof (cases "TimerLock s1")
    case True
    then show ?thesis using that assms(1) sub by (simp add: submit_with_labels_def bindG_run lock_run)
  next
    case False
    let ?w = "build_workflow (hc s1) res (GenerateName (Workflow (hcSpec (hc s1)))) (workflowLabels s1) spec"
    have "create_workflow E ?w msg s1 = (r, s')"
      using that assms(1) False by (simp add: submit_with_labels_def bindG_run lock_run)
    from create_workflow_run [OF this] show ?thesis
      unfolding sub
      by (intro disjI2 exI [of _ ?w]) (auto simp: build_workflow_def owner_ref_def h labels_of_def hcKind_def GroupVersion_def)
  qed
  show ?thesis
  proof (cases p)
    case (Ret x)
    show ?thesis
      by (rule run) (simp add: createSubmitWorkflow_def ignore_error_def go_simps p Ret h assms(2))
  next
    case (Fail x)
    show ?thesis
      by (rule run) (simp add: createSubmitWorkflow_def ignore_error_def go_simps p Fail h assms(2))
  qed (use assms(1) sub in \<open>auto simp: createSubmitWorkflow_def ignore_error_def go_simps p\<close>)
qed

theorem submitted_workflow_owned_witness:
  "\<exists>w. submitted (snd (createSubmitWorkflow fake_env (sample_state sample_hc))) = [w]
     \<and> wfNamespaceOf w = ''health'' \<and> map orUID (wfOwners w) = [''u1'']"
proof -
  obtain r s' where run: "createSubmitWorkflow fake_env (sample_state sample_hc) = (r, s')" by fastforce
  have r: "length (submitted (snd (createSubmitWorkflow fake_env (sample_state sample_hc)))) = 1" by code_simp
  have res: "Resource (Workflow (hcSpec (hc (sample_state sample_hc)))) = Some (the (Resource (sample_workflow ''wf-'' ''wf'')))"
    and u: "hcUID (hc (sample_state sample_hc)) = ''u1''" and n: "submitted (sample_state sample_hc) = []"
    and ns: "ResNamespace (the (Resource (sample_workflow ''wf-'' ''wf''))) = ''health''"
    by (simp_all add: sample_defs submitted_def)
  have ne: "submitted s' \<noteq> []" using r by (auto simp: run)
  from submitted_workflow_owned [OF run res, unfolded u n ns] ne obtain w where
    "submitted s' = [w]" "wfNamespaceOf w = ''health''" "map orUID (wfOwners w) = [''u1'']"
    by auto
  then show ?thesis unfolding run by auto
qed

text \<open>
  C23: the controller keeps what the user wrote: for a decoded document whose spec is a
  map, parsing succeeds, every entry of the spec other than the three the controller cares
  for is unchanged, a podGC strategy and a deadline the user gave stay as they are, missing
  ones are set to OnPodCompletion and to the timeout of the workflow, and the service
  account of the resource, when given, replaces the one of the document.
\<close>

theorem parse_keeps_user_spec:
  assumes "Resource (Workflow (hcSpec (hc s))) = Some res" and "Inline (Source res) = Some t" "t \<noteq> []"
    and "yaml_unmarshal E t = Inr (Some m)" and "gindex m ''spec'' = GMap sp" and "\<not> TimerLock s"
  shows "\<exists>spec s'. parseWorkflowFromHealthcheck E s = (Ret spec, s')
    \<and> (\<forall>k. k \<noteq> ''podGC'' \<and> k \<noteq> ''serviceAccountName'' \<and> k \<noteq> ''activeDeadlineSeconds'' \<longrightarrow> gindex spec k = gindex sp k)
    \<and> gindex spec ''podGC'' = (if gindex sp ''podGC'' = GNil then GPodGC ''OnPodCompletion'' else gindex sp ''podGC'')
    \<and> gindex spec ''serviceAccountName'' =
        (if ServiceAccount res = [] then gindex sp ''serviceAccountName'' else GString (ServiceAccount res))
    \<and> gindex spec ''activeDeadlineSeconds'' =
        (if gindex sp ''activeDeadlineSeconds'' = GNil then GInt64Ptr (Timeout (Workflow (hcSpec (hc s'))))
         else gindex sp ''activeDeadlineSeconds'')
    \<and> Timeout (Workflow (hcSpec (hc s'))) =
        (if Timeout (Workflow (hcSpec (hc s))) = 0 then RepeatAfterSec (hcSpec (hc s)) else Timeout (Workflow (hcSpec (hc s))))
    \<and> labels_of s' = merged E (Some m) (labels_of s)"
proof -
  have rd: "load_source E (Source res) warning_event s1 = (Ret t, s1)" for s1
    using assms(2,3) by (simp add: load_source_def GetArtifactReader_def NewInlineReader_def Read_def InlineReader_Read_def go_simps)
  have meta: "gindex (with_metadata g l m) ''spec'' = GMap sp" for g l
    using assms(5) by (simp add: with_metadata_def)
  let ?T = "default_for (hc s)" and ?l = "merged E (Some m) (labels_of s)"
  let ?s1 = "s\<lparr>workflowLabels := Some ?l, TimerLock := False\<rparr>"
  let ?s2 = "?s1\<lparr>hc := with_timeout ?T (hc s)\<rparr>"
  let ?s3 = "?s2\<lparr>trace := trace s @ [EvEvent (hcName (hc s)) ''Normal'' ''Normal'' ''workflow is parsed from healthcheck'']\<rparr>"
  have labels: "parse_labels E g (Some m) s = (Ret (Some (with_metadata g ?l m)), ?s1)" for g
    using assms(6) by (simp add: parse_labels_run Let_def)
  have "parseWorkflowFromHealthcheck E s =
      (Ret (default_deadline ?T (set_account (ServiceAccount res) (default_podGC sp))), ?s3)"
    by (simp add: parseWorkflowFromHealthcheck_def Let_def bindG_run prim_run assms(1) rd unmarshal_def assms(4) onErrG_run
        labels spec_of_def map_of_nilable_def meta default_timeout_run thenG_run)
  then show ?thesis
    by (intro exI [of _ "default_deadline ?T (set_account (ServiceAccount res) (default_podGC sp))"] exI [of _ ?s3])
       (simp add: default_podGC_def set_account_def default_deadline_def PodGCOnPodCompletion_def labels_of_def
          default_for_def with_timeout_def set_wf_timeout_def)
qed

theorem parse_keeps_user_spec_witness:
  "\<exists>spec s'. parseWorkflowFromHealthcheck fake_env (sample_state sample_hc) = (Ret spec, s')
     \<and> gindex spec ''entrypoint'' = GString ''start'' \<and> gindex spec ''serviceAccountName'' = GString ''sa''"
proof -
  let ?s = "sample_state sample_hc"
  have "Resource (Workflow (hcSpec (hc ?s))) = Some (the (Resource (sample_workflow ''wf-'' ''wf'')))"
    "Inline (Source (the (Resource (sample_workflow ''wf-'' ''wf'')))) = Some ''wf''" "''wf'' \<noteq> ([] :: string)"
    "yaml_unmarshal fake_env ''wf'' = Inr (Some [(''spec'', GMap [(''entrypoint'', GString ''start'')])])"
    "gindex [(''spec'', GMap [(''entrypoint'', GString ''start'')])] ''spec'' = GMap [(''entrypoint'', GString ''start'')]"
    "\<not> TimerLock ?s"
    by (simp_all add: sample_defs fake_env_def gindex_def)
  from parse_keeps_user_spec [OF this] show ?thesis
  proof (elim exE conjE)
    fix spec s'
    let ?sp = "[(''entrypoint'', GString ''start'')]"
    assume p: "parseWorkflowFromHealthcheck fake_env ?s = (Ret spec, s')"
      and k: "\<forall>k. k \<noteq> ''podGC'' \<and> k \<noteq> ''serviceAccountName'' \<and> k \<noteq> ''activeDeadlineSeconds'' \<longrightarrow> gindex spec k = gindex ?sp k"
      and sa: "gindex spec ''serviceAccountName'' = (if ServiceAccount (the (Resource (sample_workflow ''wf-'' ''wf''))) = []
        then gindex ?sp ''serviceAccountName'' else GString (ServiceAccount (the (Resource (sample_workflow ''wf-'' ''wf'')))))"
    have "gindex spec ''entrypoint'' = GString ''start''" using k by (simp add: gindex_def)
    moreover have "gindex spec ''serviceAccountName'' = GString ''sa''" using sa by (simp add: sample_workflow_def)
    ultimately show ?thesis using p by blast
  qed
qed

section \<open>Texts that do not parse\<close>



text \<open>
  C31: a text that decodes to an empty document (nothing, a comment, null) makes the parser
  panic between taking and giving back TimerLock: the call panics, nothing is submitted,
  and nothing is submitted ever after, whatever happens.
\<close>

theorem nil_document_wedges:
  assumes "Resource (Workflow (hcSpec (hc s))) = Some res" and "Inline (Source res) = Some t" "t \<noteq> []"
    and "yaml_unmarshal E t = Inr None" and "\<not> TimerLock s"
  shows "\<exists>p s'. createSubmitWorkflow E s = (Panic p, s') \<and> submitted s' = submitted s
    \<and> (\<forall>E' fuel s''. reachable E' fuel s' s'' \<longrightarrow> TimerLock s'' \<and> submitted s'' = submitted s)"
proof -
  let ?s' = "s\<lparr>workflowLabels := Some (merged E None (labels_of s)), TimerLock := True\<rparr>"
  have rd: "load_source E (Source res) warning_event s1 = (Ret t, s1)" for s1
    using assms(2,3) by (simp add: load_source_def GetArtifactReader_def NewInlineReader_def Read_def InlineReader_Read_def go_simps)
  have run: "createSubmitWorkflow E s = (Panic ''assignment to entry in nil map'', ?s')"
    by (simp add: createSubmitWorkflow_def ignore_error_def parseWorkflowFromHealthcheck_def Let_def bindG_run tryG_run
        prim_run assms(1) rd unmarshal_def assms(4) onErrG_run parse_labels_run assms(5))
  have "TimerLock s'' \<and> submitted s'' = submitted s" if "reachable E' fuel ?s' s''" for E' fuel s''
    using frozen_ctl.reachable_rel [OF that] by (simp add: frozen_def)
  with run show ?thesis by (intro exI [of _ "''assignment to entry in nil map''"] exI [of _ ?s']) simp
qed

theorem nil_document_wedges_witness:
  "\<exists>p s'. createSubmitWorkflow fake_env
      (sample_state (sample_hc\<lparr>hcSpec := (hcSpec sample_hc)\<lparr>Workflow := sample_workflow ''wf-'' '' ''\<rparr>\<rparr>)) = (Panic p, s')
     \<and> TimerLock s'"
proof -
  let ?s = "sample_state (sample_hc\<lparr>hcSpec := (hcSpec sample_hc)\<lparr>Workflow := sample_workflow ''wf-'' '' ''\<rparr>\<rparr>)"
  have "Resource (Workflow (hcSpec (hc ?s))) = Some (the (Resource (sample_workflow ''wf-'' '' '')))"
    "Inline (Source (the (Resource (sample_workflow ''wf-'' '' '')))) = Some '' ''" "'' '' \<noteq> ([] :: string)"
    "yaml_unmarshal fake_env '' '' = Inr None" "\<not> TimerLock ?s"
    by (simp_all add: sample_defs fake_env_def)
  from nil_document_wedges [OF this] obtain p s' where "createSubmitWorkflow fake_env ?s = (Panic p, s')"
    and "\<forall>E' fuel s''. reachable E' fuel s' s'' \<longrightarrow> TimerLock s''" by blast
  then show ?thesis using reachable.reach_init by blast
qed

section \<open>The order in which labels are merged\<close>

lemma put_all_lookup:
  "put_all E kvs m k = (case map_of (rev kvs) k of Some v \<Rightarrow> Some (sprint_v E v) | None \<Rightarrow> m k)"
proof (induction kvs arbitrary: m)
  case (Cons kv kvs)
  obtain a v where kv: "kv = (a, v)" by fastforce
  have "put_all E (kv # kvs) m = put_all E kvs (m(a \<mapsto> sprint_v E v))" by (simp add: put_all_def kv)
  then show ?case by (simp add: Cons.IH kv map_add_def split: option.splits)
qed (simp add: put_all_def)

text \<open>
  Go walks over the map of labels in a random order; the shared labels after the merge
  do not depend on it: two orders of the same entries give the same labels.
\<close>

theorem label_order_irrelevant:
  assumes "mset kvs = mset kvs'" and "distinct (map fst kvs)" and "workflowLabels s = Some m"
  shows "assign_labels E (GMap kvs) s = assign_labels E (GMap kvs') s"
proof -
  have "distinct (map fst kvs')"
    using assms(2) mset_eq_imp_distinct_iff [of "map fst kvs'" "map fst kvs"] assms(1) by simp
  then have "distinct (map fst (rev kvs))" "distinct (map fst (rev kvs'))"
    using assms(2) by (metis distinct_rev rev_map)+
  moreover have "set (rev kvs) = set (rev kvs')"
    using mset_eq_setD [OF assms(1)] by simp
  ultimately have "map_of (rev kvs) = map_of (rev kvs')"
    by (simp only: map_of_inject_set)
  then have "put_all E kvs = put_all E kvs'"
    by (simp add: fun_eq_iff put_all_lookup)
  then show ?thesis
    using assms(3) by (simp add: assign_labels_def forG_put)
qed

theorem label_order_irrelevant_witness:
  "assign_labels fake_env (GMap [(''a'', GNil), (''b'', GBool True)]) (fake_state\<lparr>workflowLabels := Some Map.empty\<rparr>)
   = assign_labels fake_env (GMap [(''b'', GBool True), (''a'', GNil)]) (fake_state\<lparr>workflowLabels := Some Map.empty\<rparr>)"
  by (rule label_order_irrelevant) simp_all

end
