(* ===== verification/Run_Properties.thy ===== *)
theory Run_Properties imports Remedy_Limit Reconcile_Properties Submit_Properties begin

text \<open>
  How a run ends: with the next run armed, with nothing found, or with an error. The
  properties follow a run over watchWorkflowReschedule, its tail and the function of a timer.
  The witnesses at the end use a server that stops answering for workflows and one that
  cannot see a namespace.
\<close>

section \<open>Runs that find nothing\<close>

lemma poll_loop_gone:
  assumes "body e s = (Ret Gone, t)"
  shows "poll_loop body E i (Suc n) e s = (Ret False, t)"
  by (simp add: bindG_run assms)

lemma remedy_poll_lost:
  assumes "\<And>w. \<exists>t w'. wf_get E ns n w = (Inl (GoErr NotFound t), w')"
  shows "\<exists>w. remedy_poll E ns n thn e s = (Ret Gone, s\<lparr>world := w\<rparr>)"
proof -
  obtain t w1 where c: "clock E (world s) = (t, w1)" by fastforce
  obtain x w2 where g: "wf_get E ns n w1 = (Inl (GoErr NotFound x), w2)" using assms by blast
  show ?thesis
    by (rule exI [of _ w2]) (simp add: remedy_poll_def bindG_run prim_run c tryG_run callE_run g swallow_def ignoreNotFound_def IsNotFound_def)
qed

lemma hc_poll_lost:
  assumes "\<And>w. \<exists>t w'. wf_get E ns n w = (Inl (GoErr NotFound t), w')"
  shows "\<exists>w msg. hc_poll E fuel ns n thn e s
    = (Ret Gone, s\<lparr>world := w, trace := trace s @ [EvEvent (hcName (hc s)) ''Warning'' ''Warning'' msg]\<rparr>)"
proof -
  obtain t w1 where c: "clock E (world s) = (t, w1)" by fastforce
  obtain x w2 where g: "wf_get E ns n w1 = (Inl (GoErr NotFound x), w2)" using assms by blast
  show ?thesis
    by (simp add: hc_poll_def bindG_run thenG_run prim_run c tryG_run callE_run g swallow_def ignoreNotFound_def IsNotFound_def)
       blast
qed


text \<open>
  C35: a workflow that is gone at the first look ends the watch without an error: no status
  is written, nothing is recorded, and no further run is armed, so the HealthCheck rests
  until the next reconcile.
\<close>

theorem lost_workflow_rests:
  assumes "\<And>w. \<exists>t w'. wf_get E ns n w = (Inl (GoErr NotFound t), w')" and "0 < fuel"
  shows "\<exists>w msg. watchWorkflowReschedule E fuel r ns n s
    = (Ret (), s\<lparr>world := w, trace := trace s @ [EvEvent (hcName (hc s)) ''Warning'' ''Warning'' msg]\<rparr>)"
proof -
  obtain k where k: "fuel = Suc k" using assms(2) gr0_implies_Suc by blast
  obtain thn w0 where c0: "clock E (world s) = (thn, w0)" by fastforce
  obtain mx mn f to where b: "computeBackoffParams E (hc s) = (mx, mn, f, to)" by (cases "computeBackoffParams E (hc s)") auto
  obtain t0 w1 where c1: "clock E w0 = (t0, w1)" by fastforce
  obtain i e w2 where nw: "ieb_new E mx mn to f t0 w1 = ((i, e), w2)" by (metis prod.collapse)
  obtain w msg where p: "hc_poll E fuel ns n thn e (s\<lparr>world := w2\<rparr>)
      = (Ret Gone, s\<lparr>world := w, trace := trace s @ [EvEvent (hcName (hc s)) ''Warning'' ''Warning'' msg]\<rparr>)"
    using hc_poll_lost [where s = "s\<lparr>world := w2\<rparr>" and fuel = fuel and thn = thn and e = e, OF assms(1)] by auto
  show ?thesis
    unfolding watchWorkflowReschedule_def
    by (intro exI [of _ w] exI [of _ msg])
       (simp add: bindG_run prim_run callW_run c0 b c1 nw k
          poll_loop_gone [where body = "hc_poll E (Suc k) ns n thn", OF p [unfolded k]] del: poll_loop.simps)
qed

section \<open>The next run\<close>

text \<open>The next run of the HealthCheck \<open>n\<close> of namespace \<open>hns\<close> is armed, \<open>d\<close> seconds ahead.\<close>

definition next_armed :: "string \<Rightarrow> string \<Rightarrow> string \<Rightarrow> int \<Rightarrow> 'w st \<Rightarrow> bool" where
  "next_armed n hns ns d s \<longleftrightarrow> (\<exists>i. read_timer n s = Some i \<and> pending s i =
     Some \<lparr>tmDelay = wrap64 (wrap64 d * Second), tmWfNamespace = ns, tmName = n, tmNamespace = hns\<rparr>)"

lemma finish_run_arms:
  assumes "table_ready s" and "Time_IsZero (hcDeletionTimestamp (hc s))" and "updateHealthCheckStatus E s = (Ret (), s1)"
  shows "\<exists>s'. finish_run E r ns d s = (Ret (), s') \<and> table_ready s' \<and> hc s' = hc s \<and> submitted s' = submitted s
    \<and> next_armed (hcName (hc s)) (hcNamespace (hc s)) ns d s'
    \<and> (\<forall>j. read_timer (hcName (hc s)) s = Some j \<longrightarrow> pending s' j = None)
    \<and> (\<forall>m. m \<noteq> hcName (hc s) \<longrightarrow> read_timer m s' = read_timer m s)"
proof -
  have q: "quiet s s1" using evolvesD [OF quiet_updateStatus assms(3)] .
  then have eq: "hc s1 = hc s" "read_timer m s1 = read_timer m s" for m by (simp_all add: quiet_def read_timer_def)
  have t1: "table_ready s1" using assms(1) q by (simp add: table_ready_def quiet_def read_timer_def)
  obtain s2 where r: "rescheduleTimer ns d s1 = (Ret (), s2)" and t2: "table_ready s2"
    using repeat_timers.sched_ret [OF t1, of ns d] by (metis prod.collapse)
  note self = repeat_timers.sched_self [OF t1, of ns d, unfolded r snd_conv new_timer_def eq]
  note stops = repeat_timers.sched_stops [OF t1, of _ ns d, unfolded r snd_conv eq]
  note other = repeat_timers.sched_other [OF t1, of _ ns d, unfolded r snd_conv eq]
  have h: "hc s2 = hc s" using evolvesD [OF resched_hc r] eq(1) by simp
  have sub: "submitted s2 = submitted s"
    using submitted_timers(1) [of ns d s1] q by (simp add: r quiet_def)
  let ?s' = "s2\<lparr>trace := trace s2 @ [EvEvent (hcName (hc s2)) ''Normal'' ''Normal'' ''Rescheduled workflow for next run'']\<rparr>"
  have "finish_run E r ns d s = (Ret (), ?s')" for r
    by (simp add: finish_run_def bindG_run thenG_run onErrG_run prim_run assms(2,3) r)
  moreover have "table_ready ?s'" "submitted ?s' = submitted s" "hc ?s' = hc s"
    using t2 sub h by (simp_all add: table_ready_def read_timer_def)
  moreover have "read_timer m ?s' = read_timer m s2" for m by (simp add: read_timer_def)
  moreover have "next_armed (hcName (hc s)) (hcNamespace (hc s)) ns d ?s'"
    using self by (auto simp: next_armed_def read_timer_def)
  ultimately show ?thesis using stops other by fastforce
qed


section \<open>Errors on the path of a timer\<close>

text \<open>No timer is made: the map and the counter stay, and only running timers may stop.\<close>

definition fewer_timers :: "'w st \<Rightarrow> 'w st \<Rightarrow> bool" where
  "fewer_timers s s' \<longleftrightarrow> RepeatTimersByName s' = RepeatTimersByName s \<and> next_timer s' = next_timer s
     \<and> pending s' \<subseteq>\<^sub>m pending s"

interpretation fewer_labels: label_rel "fewer_timers :: 'w st \<Rightarrow> 'w st \<Rightarrow> bool"
  by unfold_locales (auto simp: fewer_timers_def intro: map_le_trans)

interpretation fewer: watch_rel "fewer_timers :: 'w st \<Rightarrow> 'w st \<Rightarrow> bool"
proof
  fix t :: "nat option"
  show "evolves (fewer_timers :: 'w st \<Rightarrow> 'w st \<Rightarrow> bool) (stop_opt t)"
    by (auto simp: evolves_def fewer_timers_def stop_opt_def go_simps map_le_def split: option.splits)
qed (simp add: fewer_timers_def)

lemma map_leD: "m \<subseteq>\<^sub>m m' \<Longrightarrow> m k = Some v \<Longrightarrow> m' k = Some v"
  by (metis domI map_le_def)

lemma resched_no_error: "rescheduleTimer ns d s \<noteq> (Fail e, s')"
  by (auto simp: rescheduleTimer_run Let_def split: prod.splits option.splits)

lemma finish_error_fewer:
  assumes "finish_run E r ns d s = (Fail e, s')"
  shows "fewer_timers s s'"
proof -
  have ev: "evolves fewer_timers (onErrG (updateHealthCheckStatus E) (\<lambda>_. report_update_error r))"
    by (intro fewer_labels.ev_rules fewer_labels.ev_updateStatus fewer.ev_report)
  have "onErrG (updateHealthCheckStatus E) (\<lambda>_. report_update_error r) s = (Fail e, s')"
    using assms resched_no_error [of ns d]
    by (auto simp: finish_run_def bindG_run [of get_hc] prim_run thenG_run split: if_splits prod.splits outcome.splits)
  then show ?thesis using evolvesD [OF ev] by blast
qed

lemma watch_error_fewer:
  assumes "watchWorkflowReschedule E fuel r ns n s = (Fail e, s')"
  shows "fewer_timers s s'"
proof -
  have loop: "evolves fewer_timers (poll_loop (hc_poll E fuel ns n thn) E i fuel e')" for thn i e'
    by (rule fewer_labels.ev_poll_loop) (rule fewer.ev_hc_poll)
  obtain thn w0 where c0: "clock E (world s) = (thn, w0)" by fastforce
  obtain mx mn f to where b: "computeBackoffParams E (hc s) = (mx, mn, f, to)" by (cases "computeBackoffParams E (hc s)") auto
  obtain t0 w1 where c1: "clock E w0 = (t0, w1)" by fastforce
  obtain i e' w2 where nw: "ieb_new E mx mn to f t0 w1 = ((i, e'), w2)" by (metis prod.collapse)
  obtain q s1 where p: "poll_loop (hc_poll E fuel ns n thn) E i fuel e' (s\<lparr>world := w2\<rparr>) = (q, s1)" by fastforce
  have "fewer_timers s (s\<lparr>world := w2\<rparr>)" by (simp add: fewer_timers_def)
  then have f1: "fewer_timers s s1" using fewer_labels.R_trans [OF _ evolvesD [OF loop p]] by blast
  from assms have "q = Fail e \<and> s' = s1 \<or> finish_run E r ns (RepeatAfterSec (hcSpec (hc s))) s1 = (Fail e, s')"
    unfolding watchWorkflowReschedule_def
    by (simp add: bindG_run [of "time_Now E"] bindG_run [of get_hc] bindG_run [of "callW f" for f] prim_run callW_run c0 b c1 nw
        bindG_run [of "poll_loop b E i n e" for b E i n e] p split: outcome.splits if_splits)
  then show ?thesis
    using f1 finish_error_fewer fewer_labels.R_trans [OF f1] by blast
qed

text \<open>
  C33: on the path of a timer an error ends the HealthCheck's runs: when the watch of a run
  that a timer started returns an error (the status could not be written, a remedy failed to
  be set up), the timer's function reports it and returns, and no timer of that name is left
  running; the work queue, which would try again, is not told.
\<close>

theorem failed_run_not_repeated:
  assumes "reachable E fuel (NewHealthCheckReconciler w) s" and "pending s i = Some a"
    and "hc_get E (tmNamespace a) (tmName a) (world s) = (Inr h, w1)"
    and "createSubmitWorkflow E ((expire i s)\<lparr>world := w1, hc := h\<rparr>) = (Ret n, s1)"
    and "watchWorkflowReschedule E fuel [] (tmWfNamespace a) n s1 = (Fail e, s2)"
  shows "\<exists>s'. createSubmitWorkflowHelper E fuel a (expire i s) = (Ret (), s')
    \<and> (\<forall>j b. pending s' j = Some b \<longrightarrow> tmName b \<noteq> tmName a)"
proof -
  let ?s' = "s2\<lparr>trace := trace s2 @ [EvEvent (hcName (hc s2)) ''Warning'' ''Warning'' ''Error watching or rescheduling workflow'']\<rparr>"
  have ok: "timers_ok s" and m: "RepeatTimersByName s \<noteq> None"
    using timers_ok_ctl.reachable_rel [OF assms(1)] nil_map_ctl.reachable_rel [OF assms(1)] timers_ok_start(1) [of w]
    by (simp_all add: NewHealthCheckReconciler_def)
  have "fewer_timers ((expire i s)\<lparr>world := w1, hc := h\<rparr>) s2"
    using fewer_labels.R_trans [OF evolvesD [OF fewer_labels.ev_createSubmit assms(4)] watch_error_fewer [OF assms(5)]] .
  then have sub: "pending s2 \<subseteq>\<^sub>m (pending s)(i := None)" by (simp add: fewer_timers_def expire_def)
  have "tmName b \<noteq> tmName a" if "pending s2 j = Some b" for j b
  proof
    assume "tmName b = tmName a"
    moreover have "pending s j = Some b" "j \<noteq> i" using map_leD [OF sub that] by (simp_all split: if_splits)
    ultimately show False using timers_ok_unique [OF ok m assms(2), of j b] by simp
  qed
  moreover have "createSubmitWorkflowHelper E fuel a (expire i s) = (Ret (), ?s')"
    using assms(3-5) by (simp add: createSubmitWorkflowHelper_def tryG_run callE_run thenG_run bindG_run prim_run expire_def)
  ultimately show ?thesis by auto
qed

section \<open>The properties on sample runs\<close>

text \<open>A server that, in a world marked by the number 99, no longer answers for workflows.\<close>

definition flaky_env :: "fake env" where
  "flaky_env = fake_env\<lparr>wf_get := (\<lambda>ns n w. if fkNext w = 99 then (Inl (errors_New ''down''), w) else wf_get fake_env ns n w)\<rparr>"

definition flaky_run :: "fake st" where
  "flaky_run = (snd (Reconcile flaky_env 5 ''health'' ''hc'' (NewHealthCheckReconciler (world (sample_state torn_hc)))))\<lparr>world := fake_world\<lparr>fkNext := 98,
      fkHCs := [(''health'', ''hc'') \<mapsto> torn_hc]\<rparr>\<rparr>"

definition probe :: "'w st \<Rightarrow> (string \<times> string) option \<times> bool" where
  "probe s = (map_option (\<lambda>a. (tmName a, tmNamespace a)) (pending s 0), TimerLock s)"

lemma flaky_run_armed: "probe flaky_run = (Some (''hc'', ''health''), False)"
  by code_simp

lemma flaky_run_reachable: "reachable flaky_env 5 (NewHealthCheckReconciler (world (sample_state torn_hc))) flaky_run"
  unfolding flaky_run_def
  by (rule reachable.reach_step [OF reachable.reach_step [OF reachable.reach_init step_reconcile] step_world])

lemma torn_submit:
  assumes "\<not> TimerLock s" "hc s = torn_hc" "fkNext (world s) = 98"
  shows "\<exists>n s1. createSubmitWorkflow flaky_env s = (Ret n, s1) \<and> fkNext (world s1) = 99 \<and> hc s1 = torn_hc"
proof -
  have "yaml_unmarshal flaky_env ''torn'' = Inl (errors_New ''bad yaml'')" by (simp add: flaky_env_def fake_env_def)
  moreover have "wf_create flaky_env = wf_create fake_env" by (simp add: flaky_env_def)
  ultimately show ?thesis
  using assms
  by (simp add: createSubmitWorkflow_def parseWorkflowFromHealthcheck_def ignore_error_def load_source_def unmarshal_def
      submit_with_labels_def create_workflow_def go_simps torn_hc_def sample_hc_def sample_workflow_def GetArtifactReader_def
      NewInlineReader_def Read_def InlineReader_Read_def Let_def fake_env_def)
qed

lemma torn_watch:
  assumes "fkNext (world s) = 99"
  shows "\<exists>e s'. watchWorkflowReschedule flaky_env (Suc k) r ns n s = (Fail e, s')"
proof -
  obtain mx mn f to where b: "computeBackoffParams flaky_env (hc s) = (mx, mn, f, to)" by (cases "computeBackoffParams flaky_env (hc s)") auto
  have env: "clock flaky_env w = (fkNow w, w)" "ieb_new flaky_env x1 x2 x3 x4 x5 w = ((0, None), w\<lparr>fkTicks := 3\<rparr>)"
    "fkNext w = 99 \<Longrightarrow> wf_get flaky_env ns n w = (Inl (errors_New ''down''), w)" for w x1 x2 x3 x4 x5
    by (simp_all add: flaky_env_def fake_env_def)
  show ?thesis
    by (simp add: watchWorkflowReschedule_def hc_poll_def bindG_run thenG_run tryG_run prim_run callW_run callE_run b env assms
        swallow_def ignoreNotFound_def IsNotFound_def errors_New_def)
qed

theorem failed_run_not_repeated_witness:
  "\<exists>s'. createSubmitWorkflowHelper flaky_env 5 (the (pending flaky_run 0)) (expire 0 flaky_run) = (Ret (), s')
     \<and> ''hc'' \<notin> tmName ` ran (pending s')"
proof -
  obtain a where a: "pending flaky_run 0 = Some a" and n: "tmName a = ''hc''" "tmNamespace a = ''health''"
    and lk: "\<not> TimerLock flaky_run"
    using flaky_run_armed by (auto simp: probe_def)
  let ?s = "(expire 0 flaky_run)\<lparr>world := world flaky_run, hc := torn_hc\<rparr>"
  have g: "hc_get flaky_env (tmNamespace a) (tmName a) (world flaky_run) = (Inr torn_hc, world flaky_run)"
    by (simp add: n flaky_env_def fake_env_def flaky_run_def)
  have "fkNext (world ?s) = 98" by (simp add: flaky_run_def)
  then obtain wn s1 where c: "createSubmitWorkflow flaky_env ?s = (Ret wn, s1)" and w: "fkNext (world s1) = 99"
    using torn_submit [of ?s] lk by (auto simp: expire_def)
  obtain e s2 where "watchWorkflowReschedule flaky_env 5 [] (tmWfNamespace a) wn s1 = (Fail e, s2)"
    using torn_watch [OF w, where k = 4 and r = "[]" and ns = "tmWfNamespace a" and n = wn] by (auto simp: eval_nat_numeral)
  from failed_run_not_repeated [OF flaky_run_reachable a g c this, unfolded n(1)] obtain s'
    where "createSubmitWorkflowHelper flaky_env 5 a (expire 0 flaky_run) = (Ret (), s')"
      and nt: "\<And>j b. pending s' j = Some b \<Longrightarrow> tmName b \<noteq> ''hc''" by blast
  moreover have "''hc'' \<notin> tmName ` ran (pending s')"
  proof
    assume "''hc'' \<in> tmName ` ran (pending s')"
    then obtain b where b: "b \<in> ran (pending s')" "tmName b = ''hc''" by (metis imageE)
    then obtain j where "pending s' j = Some b" by (auto simp: ran_def)
    from nt [OF this] b(2) show False by simp
  qed
  ultimately show ?thesis by (auto simp: a)
qed

definition blind_env :: "fake env" where
  "blind_env = fake_env\<lparr>wf_get := (\<lambda>ns n w. if ns = ''health'' then (Inl not_found, w) else wf_get fake_env ns n w)\<rparr>"

definition elsewhere_hc :: health_check where
  "elsewhere_hc = sample_hc\<lparr>hcSpec := (hcSpec sample_hc)\<lparr>RemedyWorkflow := (sample_workflow ''fix-'' ''wf'')
     \<lparr>Resource := Some \<lparr>ResNamespace = ''repair'', ServiceAccount = ''fixer'',
        Source = \<lparr>Inline = Some ''torn'', File = None, URL = None\<rparr>\<rparr>\<rparr>\<rparr>\<rparr>"


theorem lost_workflow_rests_witness:
  "fst (watchWorkflowReschedule blind_env 5 [] ''health'' ''gone'' (sample_state sample_hc)) = Ret ()"
proof -
  have "\<exists>t w'. wf_get blind_env ''health'' ''gone'' w = (Inl (GoErr NotFound t), w')" for w
    by (simp add: blind_env_def not_found_def)
  from lost_workflow_rests [OF this, of 5 "[]" "sample_state sample_hc"] show ?thesis by auto
qed


end
