(* ===== verification/Healthy_Runs.thy ===== *)
theory Healthy_Runs
  imports Run_Properties
begin

text \<open>
  Liveness. The locale healthy_env says that every call to the cluster is answered and that the
  HealthCheck is to run; under it a run goes through to the end: the RBAC objects are there,
  the workflow is submitted, its polling ends, the next timer is armed. runs_go_on follows by
  induction over the runs. calm_env is an environment of that kind.
\<close>

section \<open>A healthy cluster\<close>

text \<open>A HealthCheck that is to run: an interval, a known level, a workflow, no remedy, not being deleted.\<close>

definition to_run :: "string \<Rightarrow> string \<Rightarrow> int \<Rightarrow> health_check \<Rightarrow> bool" where
  "to_run ns n d h \<longleftrightarrow> hcNamespace h = ns \<and> hcName h = n \<and> n \<noteq> [] \<and> RepeatAfterSec (hcSpec h) = d \<and> 0 < d
     \<and> Time_IsZero (hcDeletionTimestamp h) \<and> IsEmpty (RemedyWorkflow (hcSpec h))
     \<and> Resource (Workflow (hcSpec h)) \<noteq> None
     \<and> (Level (hcSpec h) = healthCheckClusterLevel \<or> Level (hcSpec h) = healthCheckNamespaceLevel)"

text \<open>An object of the kind is there, or it can be created.\<close>

definition providable :: "('w, 'o object_meta_scheme) kind_client \<Rightarrow> bool" where
  "providable K \<longleftrightarrow> (\<forall>ns x w. (\<exists>y w'. c_get K ns (Name x) w = (Inr y, w'))
     \<or> (\<exists>e w1 y w'. c_get K ns (Name x) w = (Inl e, w1) \<and> c_create K ns x w1 = (Inr y, w')))"

text \<open>
  Every call is answered: the HealthCheck is found and is to run, its status can be written,
  RBAC objects can be provided, workflows are created and found.
\<close>

locale healthy_env = sound_env +
  fixes hns :: string and n :: string and d :: int
  assumes found: "\<exists>h w'. hc_get E hns n w = (Inr h, w') \<and> to_run hns n d h"
    and status_written: "\<exists>w'. hc_status_update E u w = (Inr (), w')"
    and resource_written: "\<exists>w'. env.hc_update E u w = (Inr (), w')"
    and wf_created: "\<exists>nm w'. wf_create E x w = (Inr nm, w')"
    and wf_found: "\<exists>c w'. wf_get E wns nm w = (Inr c, w')"
    and kinds: "providable (serviceAccounts E)" "providable (clusterRoles E)" "providable (clusterRoleBindings E)"
      "providable (nsRoles E)" "providable (nsRoleBindings E)"

text \<open>What a run changes before its timer is armed: the world, the HealthCheck's status, the trace by calls that submit and arm nothing.\<close>

definition run_frame :: "'w st \<Rightarrow> 'w st \<Rightarrow> bool" where
  "run_frame s s' \<longleftrightarrow> (\<exists>w st ts. s' = s\<lparr>world := w, hc := (hc s)\<lparr>hcStatus := st\<rparr>, trace := trace s @ ts\<rparr> \<and> (\<forall>e \<in> set ts. io_effect e))"

lemma run_frameI:
  "(\<forall>e \<in> set ts. io_effect e) \<Longrightarrow> run_frame s (s\<lparr>world := w, hc := (hc s)\<lparr>hcStatus := st\<rparr>, trace := trace s @ ts\<rparr>)"
  unfolding run_frame_def by blast

lemma run_frame_refl: "run_frame s s"
  using run_frameI [of "[]" s "hcStatus (hc s)" "world s"] by simp

lemma run_frame_trans: "run_frame s t \<Longrightarrow> run_frame t u \<Longrightarrow> run_frame s u"
proof -
  assume "run_frame s t" "run_frame t u"
  then obtain w st ts w' st' ts' where t: "t = s\<lparr>world := w, hc := (hc s)\<lparr>hcStatus := st\<rparr>, trace := trace s @ ts\<rparr>"
    and u: "u = t\<lparr>world := w', hc := (hc t)\<lparr>hcStatus := st'\<rparr>, trace := trace t @ ts'\<rparr>"
    and i: "\<forall>e \<in> set ts. io_effect e" "\<forall>e \<in> set ts'. io_effect e" unfolding run_frame_def by blast
  have "u = s\<lparr>world := w', hc := (hc s)\<lparr>hcStatus := st'\<rparr>, trace := trace s @ (ts @ ts')\<rparr>" unfolding u t by simp
  then show ?thesis unfolding run_frame_def using i by (metis UnE set_append)
qed

lemma io_submitted: "\<forall>e \<in> set ts. io_effect e \<Longrightarrow> [w. EvCreateWorkflow w \<leftarrow> ts] = []"
  by (induction ts) (auto split: effect.splits)

lemma run_frame_keeps:
  assumes "run_frame s s'"
  shows "submitted s' = submitted s" "pending s' = pending s" "RepeatTimersByName s' = RepeatTimersByName s"
    "TimerLock s' = TimerLock s" "next_timer s' = next_timer s" "workflowLabels s' = workflowLabels s"
    "hcName (hc s') = hcName (hc s)" "hcNamespace (hc s') = hcNamespace (hc s)" "hcSpec (hc s') = hcSpec (hc s)"
    "hcDeletionTimestamp (hc s') = hcDeletionTimestamp (hc s)" "ready s' = ready s" "table_ready s' = table_ready s"
  using assms io_submitted unfolding run_frame_def
  by (auto simp: submitted_def ready_def unstuck_def read_timer_def table_ready_def)

lemma go_rel_run_frame: "go_rel run_frame"
  using run_frame_refl run_frame_trans by unfold_locales

text \<open>\<open>does m s\<close>: the call returns a value and stays inside the frame.\<close>

definition does :: "('w st, 'a) go \<Rightarrow> 'w st \<Rightarrow> bool" where
  "does m s \<longleftrightarrow> (\<exists>x s'. m s = (Ret x, s') \<and> run_frame s s' \<and> hc s' = hc s)"

lemma does_bind: "does m s \<Longrightarrow> (\<And>x s'. hc s' = hc s \<Longrightarrow> run_frame s s' \<Longrightarrow> does (f x) s') \<Longrightarrow> does (bindG m f) s"
  unfolding does_def by (elim exE conjE) (simp add: bindG_run, metis run_frame_trans)

lemma does_get: "does (f (hc s)) s \<Longrightarrow> does (bindG get_hc f) s"
  by (simp add: does_def bindG_run prim_run)

lemma does_then: "does m s \<Longrightarrow> (\<And>s'. hc s' = hc s \<Longrightarrow> run_frame s s' \<Longrightarrow> does k s') \<Longrightarrow> does (thenG m k) s"
  unfolding thenG_def by (rule does_bind)

lemma does_onErr: "does m s \<Longrightarrow> does (onErrG m h) s"
  unfolding does_def by (auto simp: onErrG_run)

lemma does_prims: "does (retG x) s" "does get_hc s" "does (event ty re msg) s"
proof -
  show "does (event ty re msg) s"
    using run_frameI [of "[EvEvent (hcName (hc s)) ty re msg]" s "hcStatus (hc s)" "world s"]
    by (simp add: does_def prim_run)
qed (simp_all add: does_def prim_run run_frame_refl)

lemma does_callE: "(\<And>w. \<exists>x w'. f w = (Inr x, w')) \<Longrightarrow> does (callE f) s"
proof -
  assume "\<And>w. \<exists>x w'. f w = (Inr x, w')"
  then obtain x w' where "f (world s) = (Inr x, w')" by blast
  then show ?thesis
    using run_frameI [of "[]" s "hcStatus (hc s)" w'] by (simp add: does_def callE_run)
qed

lemma does_emit: "io_effect e \<Longrightarrow> does (emit e) s"
  using run_frameI [of "[e]" s "hcStatus (hc s)" "world s"] by (simp add: does_def prim_run)

lemma does_Retry: "does m s \<Longrightarrow> does (RetryOnConflict k m) s"
  by (cases k) (auto simp: does_def tryG_run)

lemma does_ensure:
  assumes "providable K" and "Name x = n"
  shows "does (ensure_object K k ns n x a b) s"
proof -
  have fr: "io_effect e1 \<Longrightarrow> io_effect e2 \<Longrightarrow> run_frame s (s\<lparr>world := w, trace := trace s @ [e1, e2]\<rparr>)"
    "io_effect e2 \<Longrightarrow> run_frame s (s\<lparr>world := w, trace := trace s @ [e2]\<rparr>)" for w e1 e2
    using run_frameI [of "[e1, e2]" s "hcStatus (hc s)" w] run_frameI [of "[e2]" s "hcStatus (hc s)" w] by simp_all
  consider y w' where "c_get K ns n (world s) = (Inr y, w')"
    | e w1 y w' where "c_get K ns n (world s) = (Inl e, w1)" "c_create K ns x w1 = (Inr y, w')"
    using assms(1) unfolding providable_def assms(2) [symmetric] by metis
  then show ?thesis
    by cases (simp_all add: does_def ensure_object_def tryG_run callE_run thenG_run bindG_run prim_run fr)
qed


section \<open>The steps of a run\<close>

lemma does_rbac:
  assumes "providable (serviceAccounts E)" "providable (clusterRoles E)" "providable (clusterRoleBindings E)"
      "providable (nsRoles E)" "providable (nsRoleBindings E)" and "to_run ns n d (hc s)"
  shows "does (createRBACForWorkflow E hcKind) s"
proof -
  obtain res where res: "Resource (Workflow (hcSpec (hc s))) = Some res" using assms(6) by (auto simp: to_run_def)
  have lv: "Level (hcSpec (hc s)) = healthCheckClusterLevel \<or> Level (hcSpec (hc s)) = healthCheckNamespaceLevel"
    using assms(6) by (auto simp: to_run_def)
  have eq: "createRBACForWorkflow E hcKind s = createObjects E hcKind (hc s) res no_names s"
    using assms(6) by (simp add: createRBACForWorkflow_def bindG_run prim_run res prepareRemedy_def to_run_def)
  have "does (createObjects E hcKind (hc s) res no_names) s"
    using lv by (auto simp: createObjects_def createClusterLevel_def createNamespaceLevel_def Let_def rbac_object_defs
        mk_role_def mk_service_account_def
        mk_ns_binding_def mk_cluster_binding_def intro!: does_then does_onErr does_ensure does_prims assms(1-5))
  then show ?thesis by (simp add: does_def eq)
qed

context healthy_env begin

lemma status_ok: "hcNamespace (hc s) = hns \<Longrightarrow> hcName (hc s) = n \<Longrightarrow> does (updateHealthCheckStatus E) s"
proof -
  assume nm: "hcNamespace (hc s) = hns" "hcName (hc s) = n"
  have "\<exists>h w'. hc_get E (hcNamespace (hc s)) (hcName (hc s)) w = (Inr h, w')" for w unfolding nm using found by blast
  moreover have "\<exists>x w'. hc_status_update E u w = (Inr x, w')" for u w using status_written by blast
  ultimately show ?thesis
    unfolding updateHealthCheckStatus_def Let_def
    by (intro does_get does_onErr does_Retry does_bind does_then does_emit does_callE) simp_all
qed

lemma poll_ends:
  assumes "IsEmpty (RemedyWorkflow (hcSpec (hc s)))"
  shows "\<exists>r s'. poll_loop (hc_poll E f wns nm thn) E i k e s = (r, s') \<and> (r = Ret True \<or> r = NoFuel) \<and> run_frame s s'"
  using assms
proof (induction k arbitrary: e s)
  case 0
  then show ?case by (simp add: run_frame_refl)
next
  case (Suc k)
  obtain now w1 where c: "clock E (world s) = (now, w1)" by fastforce
  obtain content w2 where g: "wf_get E wns nm w1 = (Inr content, w2)" using wf_found by blast
  from hc_poll_pass [OF Suc.prems c g, of f thn e] obtain ts where
    p0: "hc_poll E f wns nm thn e s = (Ret (case run_result e content of None \<Rightarrow> Wait | Some _ \<Rightarrow> Break),
      s\<lparr>world := w2, hc := (hc s)\<lparr>hcStatus := record_result (run_result e content) now thn nm (hcStatus (hc s))\<rparr>, trace := trace s @ ts\<rparr>)"
    and ts: "\<forall>e \<in> set ts. io_effect e" by blast
  obtain s1 where p: "hc_poll E f wns nm thn e s = (Ret (case run_result e content of None \<Rightarrow> Wait | Some _ \<Rightarrow> Break), s1)"
    and f1: "run_frame s s1" using p0 run_frameI [OF ts] by metis
  show ?case
  proof (cases "run_result e content")
    case None
    obtain e' w where nx: "ieb_next E i (world s1) = (e', w)" by fastforce
    have f2: "run_frame s (s1\<lparr>world := w\<rparr>)"
      using run_frame_trans [OF f1] run_frameI [of "[]" s1 "hcStatus (hc s1)" w] by simp
    have "IsEmpty (RemedyWorkflow (hcSpec (hc (s1\<lparr>world := w\<rparr>))))"
      using Suc.prems run_frame_keeps(9) [OF f1] by simp
    from Suc.IH [OF this, of e'] f2 show ?thesis
      using run_frame_trans by (auto simp: bindG_run p None callW_run nx)
  next
    case (Some r)
    then show ?thesis using f1 by (simp add: bindG_run p)
  qed
qed

end

lemma watch_unfold:
  "\<exists>thn i e w. watchWorkflowReschedule E fuel r ns n s =
     bindG (poll_loop (hc_poll E fuel ns n thn) E i fuel e)
       (\<lambda>broke. if broke then finish_run E r ns (RepeatAfterSec (hcSpec (hc s))) else retG ()) (s\<lparr>world := w\<rparr>)"
proof -
  obtain thn w0 where c0: "clock E (world s) = (thn, w0)" by fastforce
  obtain mx mn f to where b: "computeBackoffParams E (hc s) = (mx, mn, f, to)" by (cases "computeBackoffParams E (hc s)") auto
  obtain t0 w1 where c1: "clock E w0 = (t0, w1)" by fastforce
  obtain i e w2 where nw: "ieb_new E mx mn to f t0 w1 = ((i, e), w2)" by (metis prod.collapse)
  show ?thesis
    unfolding watchWorkflowReschedule_def
    by (intro exI [of _ thn] exI [of _ i] exI [of _ e] exI [of _ w2])
       (simp add: bindG_run [of "time_Now E"] bindG_run [of get_hc] bindG_run [of "callW f" for f] prim_run callW_run c0 b c1 nw cong: if_cong)
qed

text \<open>The invariant between handlers.\<close>

definition settled :: "'w st \<Rightarrow> bool" where
  "settled s \<longleftrightarrow> ready s \<and> timers_ok s"

lemma settled_table: "settled s \<Longrightarrow> table_ready s"
  by (auto simp: settled_def table_ready_def ready_def unstuck_def timers_ok_def read_timer_def)

lemma settled_frame: "run_frame s s' \<Longrightarrow> settled s' = settled s"
  by (simp add: settled_def timers_ok_def run_frame_keeps)

lemma to_run_timeout: "to_run ns n d (with_timeout t h) = to_run ns n d h"
  by (simp add: to_run_def with_timeout_def set_wf_timeout_def)

lemma to_run_frame: "run_frame s s' \<Longrightarrow> to_run ns n d (hc s') = to_run ns n d (hc s)"
  by (simp add: to_run_def run_frame_keeps)

context healthy_env begin

lemma watch_ok:
  assumes "settled s" and "to_run hns n d (hc s)"
  shows "\<exists>s'. watchWorkflowReschedule E fuel [] wns nm s = (Ret (), s') \<and> submitted s' = submitted s
    \<and> next_armed n hns wns d s' \<and> settled s' \<and> hcNamespace (hc s') = hns \<and> hcName (hc s') = n"
proof -
  obtain thn i e w where run: "watchWorkflowReschedule E fuel [] wns nm s =
     bindG (poll_loop (hc_poll E fuel wns nm thn) E i fuel e)
       (\<lambda>broke. if broke then finish_run E [] wns (RepeatAfterSec (hcSpec (hc s))) else retG ()) (s\<lparr>world := w\<rparr>)"
    using watch_unfold [where E = E and fuel = fuel and r = "[]" and ns = wns and n = nm and s = s] by (elim exE)
  have "IsEmpty (RemedyWorkflow (hcSpec (hc (s\<lparr>world := w\<rparr>))))" using assms(2) by (simp add: to_run_def)
  from poll_ends [OF this] obtain r s1 where p: "poll_loop (hc_poll E fuel wns nm thn) E i fuel e (s\<lparr>world := w\<rparr>) = (r, s1)"
    and r: "r = Ret True \<or> r = NoFuel" and f: "run_frame (s\<lparr>world := w\<rparr>) s1" by blast
  have "fst (watchWorkflowReschedule E fuel [] wns nm s) \<noteq> NoFuel"
  proof
    assume "fst (watchWorkflowReschedule E fuel [] wns nm s) = NoFuel"
    then have "abn_of (fst (watchWorkflowReschedule E fuel [] wns nm s)) = Some ANoFuel" by simp
    from guarded_abn [OF ended_watch _ this] show False by simp
  qed
  then have rt: "r = Ret True" using r by (auto simp: run bindG_run p)
  have "run_frame s (s\<lparr>world := w\<rparr>)" using run_frameI [of "[]" s "hcStatus (hc s)" w] by simp
  then have fr: "run_frame s s1" using f by (rule run_frame_trans)
  note keep = run_frame_keeps [OF fr]
  have s1: "settled s1" and t1: "to_run hns n d (hc s1)" using assms fr by (simp_all add: settled_frame to_run_frame)
  then have nm: "hcNamespace (hc s1) = hns" "hcName (hc s1) = n" "Time_IsZero (hcDeletionTimestamp (hc s1))"
    "RepeatAfterSec (hcSpec (hc s)) = d"
    using assms(2) by (simp_all add: to_run_def)
  obtain s2 where u: "updateHealthCheckStatus E s1 = (Ret (), s2)"
    using status_ok [OF nm(1,2)] by (auto simp: does_def)
  from finish_run_arms [OF settled_table [OF s1] nm(3) u, of "[]" wns d] obtain s' where
    fin: "finish_run E [] wns d s1 = (Ret (), s')" and sub: "submitted s' = submitted s1" and h: "hc s' = hc s1"
    and arm: "next_armed n hns wns d s'" and rdy: "table_ready s'" and oth: "\<forall>m. m \<noteq> n \<longrightarrow> read_timer m s' = read_timer m s1"
    unfolding nm by blast
  have w: "watchWorkflowReschedule E fuel [] wns nm s = (Ret (), s')"
    by (simp add: run bindG_run p rt nm(4) fin)
  have "ready s'"
    using rdy oth s1 assms(2) by (auto simp: settled_def ready_def unstuck_def table_ready_def to_run_def)
  moreover have "timers_ok s'"
    using evolvesD [OF timers_ok_kept.ev_watch w] assms(1) by (simp add: settled_def)
  ultimately show ?thesis using w sub keep(1) arm h nm by (auto simp: settled_def)
qed

lemma submit_ok:
  assumes "settled s" and "to_run hns n d (hc s)" and "hc_sound (hc s)"
  shows "\<exists>nm s' t. createSubmitWorkflow E s = (Ret nm, s') \<and> hc s' = with_timeout t (hc s)
    \<and> length (submitted s') = Suc (length (submitted s)) \<and> settled s'"
proof -
  obtain p s1 where p: "parseWorkflowFromHealthcheck E s = (p, s1)" by fastforce
  obtain t where h: "hc s1 = with_timeout t (hc s)" and sub: "submitted s1 = submitted s"
    using evolvesD [OF parse_timeout_only p] by (auto simp: timeout_only_def)
  have I: "ready s \<and> hc_sound (hc s)" using assms by (simp add: settled_def)
  have pr: "abn_of p = None" and s1: "ready s1"
    using guarded_abn [OF total.gd_parse I] guardedD [OF total.gd_parse I] p by fastforce+
  obtain res where res: "Resource (Workflow (hcSpec (hc s))) = Some res" using assms(2) by (auto simp: to_run_def)
  obtain spec where run: "createSubmitWorkflow E s = submit_with_labels E
      (\<lambda>l. build_workflow (hc s1) res (GenerateName (Workflow (hcSpec (hc s1)))) l spec) ''Successfully created workflow'' s1"
    using pr by (cases p) (auto simp: createSubmitWorkflow_def ignore_error_def go_simps p h res)
  let ?w = "build_workflow (hc s1) res (GenerateName (Workflow (hcSpec (hc s1)))) (workflowLabels s1) spec"
  have lk: "\<not> TimerLock s1" using s1 by (simp add: ready_def unstuck_def)
  obtain nm w' where "wf_create E ?w (world s1) = (Inr nm, w')" using wf_created by blast
  then obtain s' where c: "create_workflow E ?w ''Successfully created workflow'' s1 = (Ret nm, s')"
    by (simp add: create_workflow_def thenG_run bindG_run prim_run callE_run)
  then have cs: "createSubmitWorkflow E s = (Ret nm, s')"
    by (simp add: run submit_with_labels_def bindG_run lock_run lk)
  note cr = create_workflow_run [OF c]
  have "ready s'" using guardedD [OF total.gd_createSubmit I] cs by simp
  moreover have "timers_ok s'"
    using evolvesD [OF timers_ok_labels.ev_createSubmit cs] assms(1) by (simp add: settled_def)
  ultimately show ?thesis using cs cr h sub by (auto simp: settled_def)
qed

lemma helper_ok:
  assumes "settled s" and "tmNamespace a = hns" "tmName a = n"
  shows "\<exists>s'. createSubmitWorkflowHelper E fuel a s = (Ret (), s') \<and> settled s'
    \<and> length (submitted s') = Suc (length (submitted s)) \<and> next_armed n hns (tmWfNamespace a) d s'"
proof -
  obtain h w where g: "hc_get E hns n (world s) = (Inr h, w)" and h: "to_run hns n d h" using found by blast
  let ?s = "s\<lparr>world := w, hc := h\<rparr>"
  have s: "settled ?s" using assms(1) by (simp add: settled_def ready_def unstuck_def read_timer_def)
  have t: "to_run hns n d (hc ?s)" "hc_sound (hc ?s)" using h server_sound [OF g] by simp_all
  from submit_ok [OF s t] obtain nm s1 t where c: "createSubmitWorkflow E ?s = (Ret nm, s1)" and h1: "hc s1 = with_timeout t h"
    and sub: "length (submitted s1) = Suc (length (submitted s))" and s1: "settled s1" by auto
  have "to_run hns n d (hc s1)" using h by (simp add: h1 to_run_timeout)
  from watch_ok [OF s1 this, of "tmWfNamespace a" nm] obtain s' where
    "watchWorkflowReschedule E fuel [] (tmWfNamespace a) nm s1 = (Ret (), s')" "submitted s' = submitted s1"
    "next_armed n hns (tmWfNamespace a) d s'" "settled s'" by blast
  then show ?thesis
    using sub by (simp add: createSubmitWorkflowHelper_def assms(2,3) tryG_run callE_run g thenG_run bindG_run prim_run c)
qed

end

definition table_view :: "'w st \<Rightarrow> (string \<rightharpoonup> nat) option \<times> (nat \<rightharpoonup> armed_timer) \<times> nat \<times> bool \<times> wf_object list" where
  "table_view s = (RepeatTimersByName s, pending s, next_timer s, TimerLock s, submitted s)"

interpretation table_io: io_rel "\<lambda>s s'. table_view s' = table_view s"
  by unfold_locales (simp_all add: table_view_def)

lemma table_view_keeps:
  "table_view s' = table_view s \<Longrightarrow> settled s' = settled s \<and> submitted s' = submitted s \<and> next_armed n hns ns d s' = next_armed n hns ns d s"
  by (simp add: table_view_def settled_def ready_def unstuck_def timers_ok_def read_timer_def next_armed_def)

context healthy_env begin

lemma resource_ok:
  assumes "hcNamespace (hc s) = hns" "hcName (hc s) = n"
  shows "fst (update_resource E s) = Ret ()"
proof -
  obtain h w where g: "hc_get E hns n (world s) = (Inr h, w)" using found by blast
  let ?u = "h\<lparr>hcStatus := hcStatus (hc s)\<rparr>"
  obtain w' where u: "env.hc_update E ?u w = (Inr (), w')" using resource_written by blast
  show ?thesis
    by (cases "conflict_retries E")
       (simp_all add: update_resource_def bindG_run thenG_run onErrG_run tryG_run prim_run callE_run assms g u Let_def)
qed

lemma reconcile_ok:
  assumes "settled s" and "read_timer n s = None"
  shows "\<exists>s' wns. Reconcile E fuel hns n s = (Ret (no_result, None), s') \<and> settled s'
    \<and> length (submitted s') = Suc (length (submitted s)) \<and> next_armed n hns wns d s'"
proof -
  obtain h w where g: "hc_get E hns n (world s) = (Inr h, w)" and h: "to_run hns n d h" using found by blast
  obtain res where res: "Resource (Workflow (hcSpec h)) = Some res" using h by (auto simp: to_run_def)
  let ?start = "s\<lparr>world := w, hc := h\<rparr>"
  obtain now w1 where c1: "clock E w = (now, w1)" by fastforce
  obtain now2 w2 where c2: "clock E w1 = (now2, w2)" by fastforce
  let ?s = "s\<lparr>hc := h, world := w2\<rparr>"
  have s: "settled ?s" using assms(1) by (simp add: settled_def ready_def unstuck_def read_timer_def)
  have lk: "\<not> TimerLock s" using assms(1) by (simp add: settled_def ready_def unstuck_def)
  have t: "to_run hns n d (hc ?s)" using h by simp
  obtain x s1 where r: "createRBACForWorkflow E hcKind ?s = (x, s1)" and x: "x = Ret ()" and f: "run_frame ?s s1" and h1: "hc s1 = h"
    using does_rbac [OF kinds t] by (auto simp: does_def)
  have s1: "settled s1" "to_run hns n d (hc s1)" "hc_sound (hc s1)" "submitted s1 = submitted s"
    using s h server_sound [OF g] settled_frame [OF f] run_frame_keeps(1) [OF f] by (simp_all add: h1)
  from submit_ok [OF s1(1-3)] obtain nm s2 t where c: "createSubmitWorkflow E s1 = (Ret nm, s2)" and h2: "hc s2 = with_timeout t h"
    and sub: "length (submitted s2) = Suc (length (submitted s))" and s2: "settled s2" by (auto simp: h1 s1(4))
  have "to_run hns n d (hc s2)" using h by (simp add: h2 to_run_timeout)
  from watch_ok [OF s2 this, of "ResNamespace res" nm] obtain s3 where
    wt: "watchWorkflowReschedule E fuel [] (ResNamespace res) nm s2 = (Ret (), s3)" and sub3: "submitted s3 = submitted s2"
    and arm: "next_armed n hns (ResNamespace res) d s3" and s3: "settled s3" and nm3: "hcNamespace (hc s3) = hns" "hcName (hc s3) = n" by blast
  have "run_workflow E fuel (ResNamespace res) ?s = (Ret (), s3)"
    by (simp add: run_workflow_def thenG_run bindG_run onErrG_run r x c wt)
  moreover have "already_scheduled E (finished_seconds h) (s\<lparr>hc := h, world := w1\<rparr>) = (Ret False, ?s)"
    using assms(2) h by (simp add: already_scheduled_def bindG_run prim_run c2 lock_run lk read_timer_def to_run_def)
  ultimately have proc: "processHealthCheck E fuel ?start = (Ret no_result, s3)"
    using h by (simp add: processHealthCheck_def bindG_run thenG_run prim_run Let_def res c1 to_run_def)
  obtain u s4 where up: "update_resource E s3 = (u, s4)" by fastforce
  have u: "u = Ret ()" using resource_ok [OF nm3] by (simp add: up)
  have tv: "table_view s4 = table_view s3" using evolvesD [OF table_io.ev_update_resource up] .
  have "Reconcile E fuel hns n s = (Ret (no_result, None), s4)"
    by (simp add: Reconcile_def tryG_run callE_run g thenG_run prim_run processOrRecoverHealthCheck_def recoverG_run proc up u)
  then show ?thesis using table_view_keeps [OF tv] s3 sub sub3 arm by auto
qed

end

lemma settled_start: "settled (NewHealthCheckReconciler w)"
  using timers_ok_start(1) [of w] by (simp add: settled_def ready_def unstuck_def read_timer_def NewHealthCheckReconciler_def)

lemma settled_expire: "settled s \<Longrightarrow> settled (expire i s)"
  by (auto simp: settled_def ready_def unstuck_def read_timer_def expire_def timers_ok_def)

context healthy_env begin

lemma settled_reachable: "reachable E fuel (NewHealthCheckReconciler w) s \<Longrightarrow> settled s"
  using reachable_ready [of _ s] timers_ok_ctl.reachable_rel settled_start [of w] unfolding settled_def by blast

lemma fire_ok:
  assumes "reachable E fuel (NewHealthCheckReconciler w) s" and "pending s i = Some a" "tmNamespace a = hns" "tmName a = n"
  shows "\<exists>s'. createSubmitWorkflowHelper E fuel a (expire i s) = (Ret (), s')
    \<and> length (submitted s') = Suc (length (submitted s)) \<and> next_armed n hns (tmWfNamespace a) d s'"
  using helper_ok [OF settled_expire [OF settled_reachable [OF assms(1)]] assms(3,4), of i] by auto

lemma start_ok: "\<exists>s' wns. Reconcile E fuel hns n (NewHealthCheckReconciler w) = (Ret (no_result, None), s')
    \<and> length (submitted s') = 1 \<and> next_armed n hns wns d s'"
proof -
  have "read_timer n (NewHealthCheckReconciler w) = None" "submitted (NewHealthCheckReconciler w) = []"
    by (simp_all add: read_timer_def NewHealthCheckReconciler_def submitted_def)
  with reconcile_ok [OF settled_start this(1)] show ?thesis by fastforce
qed

lemma runs: "\<exists>s wns. reachable E fuel (NewHealthCheckReconciler w) s \<and> length (submitted s) = Suc k \<and> next_armed n hns wns d s"
proof (induction k)
  case 0
  obtain s' wns where "Reconcile E fuel hns n (NewHealthCheckReconciler w) = (Ret (no_result, None), s')"
    "length (submitted s') = 1" "next_armed n hns wns d s'" using start_ok by blast
  then show ?case using reach_reconcile [of E fuel "NewHealthCheckReconciler w" hns n] by auto
next
  case (Suc k)
  then obtain s wns where r: "reachable E fuel (NewHealthCheckReconciler w) s" and l: "length (submitted s) = Suc k"
    and arm: "next_armed n hns wns d s" by blast
  obtain i a where p: "pending s i = Some a" "tmNamespace a = hns" "tmName a = n" "tmWfNamespace a = wns"
    using arm by (auto simp: next_armed_def)
  from fire_ok [OF r p(1-3)] obtain s' where f: "createSubmitWorkflowHelper E fuel a (expire i s) = (Ret (), s')"
    "length (submitted s') = Suc (length (submitted s))" "next_armed n hns wns d s'" unfolding p(4) by blast
  have "reachable E fuel (NewHealthCheckReconciler w) s'"
    using reachable.reach_step [OF r step_fire [where fuel = fuel and E = E, OF p(1)]] f(1) by simp
  then show ?case using f l by auto
qed

end


definition calm_env :: "fake env" where
  "calm_env = fake_env\<lparr>hc_get := (\<lambda>ns n w. (Inr sample_hc, w)), hc_update := (\<lambda>u w. (Inr (), w)),
     hc_status_update := (\<lambda>u w. (Inr (), w)), wf_get := (\<lambda>ns n w. (Inr (fkContent w), w)),
     yaml_unmarshal := (\<lambda>t. Inr (Some [(''spec'', GMap [])]))\<rparr>"

lemma providable_fake: "(\<And>m w. g (u m w) = m) \<Longrightarrow> providable (fake_kind g u)"
  by (auto simp: providable_def fake_kind_def split: option.splits)

interpretation calm: healthy_env calm_env "\<lambda>i w. fkTicks w" 3 5 "''health''" "''hc''" 60
proof unfold_locales
  show "\<exists>h w'. hc_get calm_env ''health'' ''hc'' w = (Inr h, w') \<and> to_run ''health'' ''hc'' 60 h" for w
    by (simp add: calm_env_def to_run_def sample_defs IsEmpty_def Time_IsZero_def const_defs)
  show "hc_get calm_env ns n w = (Inr h, w') \<Longrightarrow> hc_sound h" for ns n w h w'
    by (auto simp: calm_env_def hc_sound_def counts_ok_def sample_defs)
qed (auto simp: calm_env_def fake_env_def providable_fake Let_def split: nat.splits)


end
