(* ===== verification/Monitor_Metrics.thy ===== *)
theory Monitor_Metrics
  imports Remedy_Limit
begin

text \<open>
  The five built-in metrics of src/internal/metrics/collector.go: their vectors, their
  registration in init, and what a scrape shows after the updates in the trace. The section on
  agreement compares the metrics of a HealthCheck's own workflow with its status over a whole
  run; the relations \<open>steady\<close> and \<open>once\<close> carry the comparison through the watch.
\<close>

section \<open>The vectors and their registration\<close>

datatype vec_kind = CounterVec | GaugeVec

record metric_vec =
  mvKind :: vec_kind
  mvName :: string
  mvHelp :: string
  mvLabels :: "string list"

text \<open>The package variables \<open>hcName\<close> and \<open>wf\<close>.\<close>

definition hcNameLabel :: string where "hcNameLabel = ''healthcheck_name''"
definition wfLabel :: string where "wfLabel = ''workflow''"

definition new_vec :: "vec_kind \<Rightarrow> string \<Rightarrow> string \<Rightarrow> metric_vec" where
  "new_vec k n h = \<lparr>mvKind = k, mvName = n, mvHelp = h, mvLabels = [hcNameLabel, wfLabel]\<rparr>"

fun vec_of :: "metric \<Rightarrow> metric_vec" where
  "vec_of MonitorSuccess = new_vec CounterVec ''healthcheck_success_count'' ''The total number of successful healthcheck resources''"
| "vec_of MonitorError = new_vec CounterVec ''healthcheck_error_count'' ''The total number of errored healthcheck resources''"
| "vec_of MonitorRuntime = new_vec GaugeVec ''healthcheck_runtime_seconds'' ''Time taken for the workflow to complete.''"
| "vec_of MonitorStartedTime = new_vec GaugeVec ''healthcheck_starttime'' ''Time taken for the workflow to complete.''"
| "vec_of MonitorFinishedTime = new_vec GaugeVec ''healthcheck_finishedtime'' ''Time taken for the workflow to complete.''"

text \<open>
  \<open>metrics.Registry.MustRegister\<close>: registers one after the other and panics on the first
  error, as documented; \<open>Register\<close> itself is a parameter over the registry's state.
\<close>

definition MustRegister :: "(metric_vec \<Rightarrow> ('r, unit) go) \<Rightarrow> metric_vec list \<Rightarrow> ('r, unit) go" where
  "MustRegister register = forG (\<lambda>v. tryG (register v) (\<lambda>e. panicG (err_text e)) retG)"

definition metrics_init :: "(metric_vec \<Rightarrow> ('r, unit) go) \<Rightarrow> ('r, unit) go" where
  "metrics_init register = MustRegister register
     (map vec_of [MonitorSuccess, MonitorError, MonitorRuntime, MonitorStartedTime, MonitorFinishedTime])"

text \<open>The label values \<open>With\<close> gets at every update; the label names have to be those of the vector.\<close>

definition metric_labels :: "string \<Rightarrow> string \<Rightarrow> (string \<times> string) list" where
  "metric_labels name lbl = [(''healthcheck_name'', name), (''workflow'', lbl)]"

text \<open>What the vector of an update allows: increments on counters, settings on gauges, the right labels.\<close>

fun update_fits :: "effect \<Rightarrow> bool" where
  "update_fits (EvMetric m x l v) \<longleftrightarrow>
     ((v = MetricInc) = (mvKind (vec_of m) = CounterVec)) \<and> map fst (metric_labels x l) = mvLabels (vec_of m)
     \<and> l \<in> {''healthCheck'', ''remedy''}"
| "update_fits _ = True"

lemma io_update_fits: "io_effect e \<Longrightarrow> update_fits e"
proof (cases e)
  case (EvMetric m x l v)
  then show "io_effect e \<Longrightarrow> ?thesis"
    by (cases m; cases v) (auto simp: new_vec_def metric_labels_def hcNameLabel_def wfLabel_def healthcheck_def remedy_def)
qed simp_all

lemma label_rel_fits: "label_rel (traces update_fits)"
  by (rule label_rel_traces) (auto intro: io_update_fits)

interpretation fits_labels: label_rel "traces update_fits :: 'w st \<Rightarrow> 'w st \<Rightarrow> bool"
  by (rule label_rel_fits)

lemma traces_last: "Q e \<Longrightarrow> traces Q s (s\<lparr>trace := trace s @ [e]\<rparr>)"
  by (simp add: traces_def)

interpretation fits: controller_rel "traces update_fits :: 'w st \<Rightarrow> 'w st \<Rightarrow> bool"
proof unfold_locales
  fix ns :: string and d :: int and t :: "nat option" and i and s :: "'w st"
  show "evolves (traces update_fits) (rescheduleTimer ns d :: ('w st, unit) go)"
    by (auto simp: evolves_def rescheduleTimer_run traces_def stop_old_def Let_def split: option.splits prod.splits)
  show "evolves (traces update_fits) (stop_opt t :: ('w st, unit) go)"
    by (auto simp: evolves_def traces_def stop_opt_def go_simps split: option.splits)
  show "traces update_fits s (expire i s)" by (simp add: expire_def traces_def)
qed (simp add: traces_last io_update_fits)

section \<open>What a scrape shows\<close>

type_synonym series = "metric \<times> string \<times> string"

fun apply_metric :: "effect \<Rightarrow> (series \<Rightarrow> rat) \<Rightarrow> series \<Rightarrow> rat" where
  "apply_metric (EvMetric m x l MetricInc) f = f((m, x, l) := f (m, x, l) + 1)"
| "apply_metric (EvMetric m x l (MetricSet q)) f = f((m, x, l) := q)"
| "apply_metric _ f = f"

definition scrape :: "effect list \<Rightarrow> series \<Rightarrow> rat" where
  "scrape tr = fold apply_metric tr (\<lambda>_. 0)"

lemma apply_steady: "\<not> run_effect e \<Longrightarrow> apply_metric e f (m, x, healthcheck) = f (m, x, healthcheck)"
  by (cases "(e, f)" rule: apply_metric.cases) auto

lemma apply_run: "run_effect e \<Longrightarrow> (\<And>m x. f (m, x, healthcheck) = g (m, x, healthcheck))
    \<Longrightarrow> apply_metric e f (m, x, healthcheck) = apply_metric e g (m, x, healthcheck)"
  by (cases "(e, f)" rule: apply_metric.cases) auto

text \<open>For the series of the HealthCheck's own workflow only its own updates count.\<close>

lemma scrape_run:
  "scrape (tr @ ts) (m, x, healthcheck) = fold apply_metric (filter run_effect ts) (scrape tr) (m, x, healthcheck)"
proof -
  have "fold apply_metric ts f (m, x, healthcheck) = fold apply_metric (filter run_effect ts) g (m, x, healthcheck)"
    if "\<And>m x. f (m, x, healthcheck) = g (m, x, healthcheck)" for f g m x
    using that
  proof (induction ts arbitrary: f g)
    case (Cons e ts)
    show ?case
    proof (cases "run_effect e")
      case True
      then show ?thesis using Cons.IH [of "apply_metric e f" "apply_metric e g"] apply_run [OF True, of f g] Cons.prems by simp
    next
      case False
      then show ?thesis using Cons.IH [of "apply_metric e f" g] Cons.prems by (simp add: apply_steady)
    qed
  qed simp
  then show ?thesis by (simp add: scrape_def)
qed
section \<open>Agreement with the status over a run\<close>

definition run_view :: "health_check \<Rightarrow> string \<times> int \<times> int \<times> time option \<times> time option" where
  "run_view h = (hcName h, SuccessCount (hcStatus h), FailedCount (hcStatus h), StartedAt (hcStatus h), FinishedAt (hcStatus h))"

text \<open>\<open>steady\<close>: no result is recorded and none is counted. \<open>once\<close>: at most one, the same in both places.\<close>

definition steady :: "'w st \<Rightarrow> 'w st \<Rightarrow> bool" where
  "steady s s' \<longleftrightarrow> run_view (hc s') = run_view (hc s) \<and> traces (\<lambda>e. \<not> run_effect e) s s'"

definition result_events :: "string \<Rightarrow> bool \<Rightarrow> time \<Rightarrow> time \<Rightarrow> effect list" where
  "result_events x ok now thn =
     (if ok then [EvMetric MonitorSuccess x healthcheck MetricInc,
        EvMetric MonitorRuntime x healthcheck (MetricSet (float_Seconds (time_Sub now thn))),
        EvMetric MonitorStartedTime x healthcheck (MetricSet (of_int (unix thn))),
        EvMetric MonitorFinishedTime x healthcheck (MetricSet (of_int (unix now)))]
      else [EvMetric MonitorError x healthcheck MetricInc,
        EvMetric MonitorStartedTime x healthcheck (MetricSet (of_int (unix thn))),
        EvMetric MonitorFinishedTime x healthcheck (MetricSet (of_int (unix now)))])"

definition counted :: "'w st \<Rightarrow> 'w st \<Rightarrow> bool \<Rightarrow> time \<Rightarrow> time \<Rightarrow> bool" where
  "counted s s' ok now thn \<longleftrightarrow> (\<exists>ts. trace s' = trace s @ ts
     \<and> filter run_effect ts = result_events (hcName (hc s)) ok now thn
     \<and> run_view (hc s') = (let st = hcStatus (hc s) in (hcName (hc s),
         if ok then wrap64 (SuccessCount st + 1) else SuccessCount st,
         if ok then FailedCount st else wrap64 (FailedCount st + 1), Some thn, Some now)))"

definition once :: "'w st \<Rightarrow> 'w st \<Rightarrow> bool" where
  "once s s' \<longleftrightarrow> steady s s' \<or> (\<exists>ok now thn. counted s s' ok now thn)"

lemma go_rel_steady: "go_rel steady"
proof
  fix s t u :: "'a st"
  show "steady s s" using go_rel.R_refl [OF go_rel_traces] by (simp add: steady_def)
  show "steady s t \<Longrightarrow> steady t u \<Longrightarrow> steady s u"
    unfolding steady_def using go_rel.R_trans [OF go_rel_traces] by metis
qed

lemmas steady_rules = go_rel.ev_rules [OF go_rel_steady]

lemma filter_steady: "\<forall>e \<in> set ts. \<not> run_effect e \<Longrightarrow> filter run_effect ts = []"
  by simp

lemma steady_once: "steady s t \<Longrightarrow> once t u \<Longrightarrow> once s u"
proof -
  assume q: "steady s t" and o: "once t u"
  from q obtain ts where ts: "trace t = trace s @ ts" "\<forall>e \<in> set ts. \<not> run_effect e" and v: "run_view (hc t) = run_view (hc s)"
    by (auto simp: steady_def traces_def)
  have "counted s u ok now thn" if "counted t u ok now thn" for ok now thn
    using that ts v filter_steady [OF ts(2)] by (auto simp: counted_def run_view_def Let_def)
  moreover have "steady t u \<Longrightarrow> steady s u" using go_rel.R_trans [OF go_rel_steady q] .
  ultimately show ?thesis using o unfolding once_def by blast
qed

lemma once_steady: "once s t \<Longrightarrow> steady t u \<Longrightarrow> once s u"
proof -
  assume o: "once s t" and q: "steady t u"
  from q obtain ts where ts: "trace u = trace t @ ts" "\<forall>e \<in> set ts. \<not> run_effect e" and v: "run_view (hc u) = run_view (hc t)"
    by (auto simp: steady_def traces_def)
  have "counted s u ok now thn" if "counted s t ok now thn" for ok now thn
    using that ts v filter_steady [OF ts(2)] by (auto simp: counted_def)
  moreover have "steady s t \<Longrightarrow> steady s u" using go_rel.R_trans [OF go_rel_steady _ q] .
  ultimately show ?thesis using o unfolding once_def by blast
qed

lemma steady_is_once: "steady s t \<Longrightarrow> once s t"
  by (simp add: once_def)

lemma steady_then_once: "evolves steady m \<Longrightarrow> (\<And>x. evolves once (f x)) \<Longrightarrow> evolves once (bindG m f)"
  by (rule ev_comp [where P = steady and Q = once]) (auto intro: steady_once steady_is_once)

lemma once_then_steady: "evolves once m \<Longrightarrow> (\<And>x. evolves steady (f x)) \<Longrightarrow> evolves once (bindG m f)"
  by (rule ev_comp [where P = once and Q = steady]) (auto intro: once_steady)

lemma steady_try_once:
  assumes "evolves steady m" "\<And>e. evolves once (h e)" "\<And>x. evolves once (k x)"
  shows "evolves once (tryG m h k)"
  unfolding evolves_def
proof
  fix s
  obtain r t where m: "m s = (r, t)" by fastforce
  then have q: "steady s t" using evolvesD [OF assms(1)] by simp
  show "once s (snd (tryG m h k s))"
    using steady_once [OF q evolvesD_snd [OF assms(2)]] steady_once [OF q evolvesD_snd [OF assms(3)]] steady_is_once [OF q]
    by (cases r) (simp_all add: tryG_run m)
qed

section \<open>The watch is steady but for its result\<close>

interpretation steady_labels: label_rel "traces (\<lambda>e. \<not> run_effect e) :: 'w st \<Rightarrow> 'w st \<Rightarrow> bool"
  by (rule label_rel_traces) simp_all

interpretation steady_tr: stop_rel "traces (\<lambda>e. \<not> run_effect e) :: 'w st \<Rightarrow> 'w st \<Rightarrow> bool"
proof
  fix t :: "nat option"
  show "evolves (traces (\<lambda>e. \<not> run_effect e)) (stop_opt t :: ('w st, unit) go)"
    by (auto simp: evolves_def traces_def stop_opt_def go_simps split: option.splits)
qed

lemma steadyI: "evolves R m \<Longrightarrow> (\<And>s s'. R s s' \<Longrightarrow> run_view (hc s') = run_view (hc s))
    \<Longrightarrow> evolves (traces (\<lambda>e. \<not> run_effect e)) m \<Longrightarrow> evolves steady m"
  by (simp add: evolves_def steady_def)

lemma same_steady: "evolves same_status m \<Longrightarrow> evolves (traces (\<lambda>e. \<not> run_effect e)) m \<Longrightarrow> evolves steady m"
  by (erule steadyI) (auto simp: same_status_def status_view_def limits_def run_view_def)

lemma one_steady: "evolves one_remedy m \<Longrightarrow> evolves (traces (\<lambda>e. \<not> run_effect e)) m \<Longrightarrow> evolves steady m"
  by (erule steadyI) (auto simp: one_remedy_def limits_def run_view_def Let_def remedy_succeeded_def remedy_failed_def)

lemma steady_prims: "evolves steady (callE f)" "evolves steady (callW g)" "evolves steady (time_Now E)"
  "evolves steady (event ty re msg)" "evolves steady get_hc" "evolves steady (mod_status (remedy_reset msg))"
  "evolves steady (runRemedy E fuel ns)"
proof -
  show "evolves steady (mod_status (remedy_reset msg))"
    by (simp add: evolves_def steady_def prim_run run_view_def remedy_reset_def traces_def)
  show "evolves steady (runRemedy E fuel ns)"
    by (rule one_steady [OF runRemedy_one steady_tr.ev_runRemedy])
qed (rule same_steady metrics_same traces_prims | simp)+

lemma steady_maybeRemedy: "evolves steady (maybeRemedy E fuel ns now)"
  unfolding maybeRemedy_def by (intro steady_rules steady_prims)

lemma steady_passed: "evolves steady hc_passed"
  unfolding hc_passed_def by (intro steady_rules steady_prims)

lemma steady_swallow: "evolves steady (swallow e)"
  unfolding swallow_def by (intro steady_rules)

lemma steady_finish: "evolves steady (finish_run E [] ns d)"
proof (rule same_steady [OF finish_same])
  have "evolves (traces (\<lambda>e. \<not> run_effect e)) (rescheduleTimer ns d :: ('w st, unit) go)"
    by (auto simp: evolves_def rescheduleTimer_run traces_def stop_old_def Let_def split: option.splits prod.splits)
  then show "evolves (traces (\<lambda>e. \<not> run_effect e)) (finish_run E [] ns d)"
    unfolding finish_run_def
    by (intro steady_labels.ev_rules steady_labels.io_rules steady_labels.ev_updateStatus steady_tr.ev_report)
qed

text \<open>The assignments and the metrics of a result belong together.\<close>

lemma success_once:
  assumes "evolves steady k"
  shows "evolves once (thenG (mod_status (hc_succeeded now thn n)) (thenG (success_metrics healthcheck now thn) k))"
  unfolding evolves_def
proof
  fix s :: "'a st"
  let ?st = "hc_succeeded now thn n (hcStatus (hc s))"
  let ?s = "s\<lparr>hc := (hc s)\<lparr>hcStatus := ?st\<rparr>, trace := trace s @ result_events (hcName (hc s)) True now thn\<rparr>"
  have "thenG (mod_status (hc_succeeded now thn n)) (thenG (success_metrics healthcheck now thn) k) s = k ?s"
    by (simp add: thenG_run prim_run success_metrics_run hc_succeeded_def Let_def result_events_def)
  moreover have "counted s ?s True now thn"
    by (simp add: counted_def run_view_def hc_succeeded_def Let_def result_events_def)
  ultimately show "once s (snd (thenG (mod_status (hc_succeeded now thn n)) (thenG (success_metrics healthcheck now thn) k) s))"
    using once_steady [OF _ evolvesD_snd [OF assms, of ?s], of s] by (metis once_def)
qed

lemma failure_once:
  assumes "evolves steady k"
  shows "evolves once (thenG (mod_status (hc_failed now thn n msg)) (thenG (failure_metrics healthcheck now thn) k))"
  unfolding evolves_def
proof
  fix s :: "'a st"
  let ?st = "hc_failed now thn n msg (hcStatus (hc s))"
  let ?s = "s\<lparr>hc := (hc s)\<lparr>hcStatus := ?st\<rparr>, trace := trace s @ result_events (hcName (hc s)) False now thn\<rparr>"
  have "thenG (mod_status (hc_failed now thn n msg)) (thenG (failure_metrics healthcheck now thn) k) s = k ?s"
    by (simp add: thenG_run prim_run failure_metrics_run hc_failed_def Let_def result_events_def)
  moreover have "counted s ?s False now thn"
    by (simp add: counted_def run_view_def hc_failed_def Let_def result_events_def)
  ultimately show "once s (snd (thenG (mod_status (hc_failed now thn n msg)) (thenG (failure_metrics healthcheck now thn) k) s))"
    using once_steady [OF _ evolvesD_snd [OF assms, of ?s], of s] by (metis once_def)
qed

lemma once_ret: "evolves once (retG x)"
  by (simp add: evolves_def steady_is_once go_rel.R_refl [OF go_rel_steady])

lemma steady_thenG_once: "evolves steady m \<Longrightarrow> evolves once k \<Longrightarrow> evolves once (thenG m k)"
  unfolding thenG_def by (rule steady_then_once)

lemma hc_poll_once:
  fixes E :: "'w env"
  shows "evolves once (hc_poll E fuel ns n thn e)"
  unfolding hc_poll_def
proof (intro steady_then_once steady_try_once steady_thenG_once)
  fix now content
  show "evolves steady (whenG (e \<noteq> None) (warning_event ''Workflow timed out'') :: ('w st, unit) go)"
    by (intro steady_rules steady_prims)
  show "evolves once (case poll_status e content of None \<Rightarrow> retG Wait | Some status \<Rightarrow>
       if is_string (gindex status ''phase'') succStr then
         thenG (normal_event ''Workflow status is Succeeded'') (thenG (mod_status (hc_succeeded now thn n))
        (thenG (success_metrics healthcheck now thn) (thenG hc_passed (retG Break))))
       else if is_string (gindex status ''phase'') failStr then
         thenG (warning_event ''Workflow status is Failed'') (thenG (mod_status (hc_failed now thn n (status_message status)))
        (thenG (failure_metrics healthcheck now thn) (thenG (maybeRemedy E fuel ns now) (retG Break))))
       else (retG Wait :: ('w st, poll) go))"
    by (auto split: option.splits
        intro!: once_ret steady_thenG_once success_once failure_once steady_rules steady_prims steady_passed steady_maybeRemedy)
qed (rule steady_prims evolves_imp [OF steady_swallow steady_is_once])+

lemma hc_poll_wait_steady:
  assumes "fst (hc_poll E fuel ns n t e s) = Ret Wait"
  shows "steady s (snd (hc_poll E fuel ns n t e s))"
proof -
  have e: "e = None" using hc_poll_wait [OF assms] by blast
  have "steady s (s\<lparr>world := w\<rparr>)" for w by (simp add: steady_def traces_def)
  then show ?thesis
    using assms by (auto simp: e hc_poll_def bindG_run tryG_run prim_run callE_run thenG_Ret whenG_run swallow_not_Wait
        thenG_run [of "whenG False m" for m] split: option.splits if_splits prod.splits sum.splits)
qed

lemma poll_loop_once:
  assumes wait: "\<And>e s. fst (body e s) = Ret Wait \<Longrightarrow> steady s (snd (body e s))" and body: "\<And>e. evolves once (body e)"
  shows "evolves once (poll_loop body E i k e)"
proof (induction k arbitrary: e)
  case 0
  show ?case by (simp add: evolves_def steady_is_once go_rel.R_refl [OF go_rel_steady])
next
  case (Suc k)
  show ?case
    unfolding evolves_def
  proof
    fix s
    obtain r t where b: "body e s = (r, t)" by fastforce
    have o: "once s t" using evolvesD [OF body b] .
    obtain e' w where nx: "ieb_next E i (world t) = (e', w)" by fastforce
    have "once s (snd (poll_loop body E i k e' (t\<lparr>world := w\<rparr>)))" if "r = Ret Wait"
    proof -
      have "steady s t" using wait [of e s] b that by simp
      moreover have "steady t (t\<lparr>world := w\<rparr>)" by (simp add: steady_def traces_def)
      ultimately show ?thesis using steady_once evolvesD_snd [OF Suc.IH] go_rel.R_trans [OF go_rel_steady] by metis
    qed
    then show "once s (snd (poll_loop body E i (Suc k) e s))"
      using o by (cases r) (auto simp: bindG_run b callW_run nx split: poll.splits)
  qed
qed

lemma watch_once: "evolves once (watchWorkflowReschedule E fuel [] ns n)"
proof -
  have loop: "evolves once (poll_loop (hc_poll E fuel ns n thn) E i fuel e)" for thn i e
    by (rule poll_loop_once [OF hc_poll_wait_steady hc_poll_once])
  have tail: "evolves steady (if b then finish_run E [] ns d else retG ())" for b d
    by (intro steady_rules steady_finish)
  show ?thesis
    unfolding watchWorkflowReschedule_def
    by (rule steady_then_once [OF steady_prims(3)] steady_then_once [OF steady_prims(5)] steady_then_once [OF steady_prims(2)]
        once_then_steady [OF loop] tail | simp only: split_def)+
qed

lemma steady_values: "steady s s' \<Longrightarrow> scrape (trace s') (m, x, healthcheck) = scrape (trace s) (m, x, healthcheck)"
  using filter_steady scrape_run by (fastforce simp: steady_def traces_def)

lemma counted_values:
  assumes "counted s s' ok now thn"
  shows "scrape (trace s') (m, hcName (hc s), healthcheck) =
    (case m of MonitorSuccess \<Rightarrow> scrape (trace s) (m, hcName (hc s), healthcheck) + (if ok then 1 else 0)
     | MonitorError \<Rightarrow> scrape (trace s) (m, hcName (hc s), healthcheck) + (if ok then 0 else 1)
     | MonitorRuntime \<Rightarrow> if ok then float_Seconds (time_Sub now thn) else scrape (trace s) (m, hcName (hc s), healthcheck)
     | MonitorStartedTime \<Rightarrow> of_int (unix thn) | MonitorFinishedTime \<Rightarrow> of_int (unix now))"
proof -
  obtain ts where t: "trace s' = trace s @ ts" "filter run_effect ts = result_events (hcName (hc s)) ok now thn"
    using assms by (auto simp: counted_def)
  show ?thesis unfolding t(1) scrape_run t(2) by (cases m; cases ok) (simp_all add: result_events_def)
qed

section \<open>Properties\<close>



text \<open>
  C6: the metrics agree with the status over a run. Whatever the cluster and the remedy do, a
  run records at most one result. With a result the counter of successes or of errors goes up
  by one exactly when the count in the status does, and the two time gauges show the start
  and the end that the status shows; without one, metrics and counts stay as they were.
\<close>

theorem run_metrics_agree:
  assumes "watchWorkflowReschedule E fuel [] ns n s = (r, s')"
  defines "v \<equiv> \<lambda>s m. scrape (trace s) (m, hcName (hc s), ''healthCheck'')" and "st \<equiv> hcStatus (hc s)" and "st' \<equiv> hcStatus (hc s')"
  shows "hcName (hc s') = hcName (hc s) \<and>
    ((\<forall>m. v s' m = v s m) \<and> SuccessCount st' = SuccessCount st \<and> FailedCount st' = FailedCount st
     \<or> (\<exists>a b. StartedAt st' = Some a \<and> FinishedAt st' = Some b
        \<and> v s' MonitorStartedTime = of_int (unix a) \<and> v s' MonitorFinishedTime = of_int (unix b)
        \<and> (v s' MonitorSuccess = v s MonitorSuccess + 1 \<and> v s' MonitorError = v s MonitorError
             \<and> SuccessCount st' = wrap64 (SuccessCount st + 1) \<and> FailedCount st' = FailedCount st
           \<or> v s' MonitorSuccess = v s MonitorSuccess \<and> v s' MonitorError = v s MonitorError + 1
             \<and> SuccessCount st' = SuccessCount st \<and> FailedCount st' = wrap64 (FailedCount st + 1))))"
proof -
  have "once s s'" using evolvesD [OF watch_once assms(1)] .
  then consider "steady s s'" | ok now thn where "counted s s' ok now thn" by (auto simp: once_def)
  then show ?thesis
  proof cases
    case 1
    then show ?thesis using steady_values [OF 1] by (simp add: v_def st_def st'_def steady_def run_view_def healthcheck_def)
  next
    case 2
    have "run_view (hc s') = (hcName (hc s), if ok then wrap64 (SuccessCount st + 1) else SuccessCount st,
         if ok then FailedCount st else wrap64 (FailedCount st + 1), Some thn, Some now)"
      using 2 by (auto simp: counted_def st_def Let_def)
    then show ?thesis
      using counted_values [OF 2] by (cases ok) (simp_all add: v_def st_def st'_def run_view_def healthcheck_def)
  qed
qed

theorem run_metrics_agree_witness:
  "let s' = snd (watchWorkflowReschedule fake_env 5 [] ''health'' ''w'' limited_state) in
     scrape (trace s') (MonitorError, ''hc'', ''healthCheck'') \<in> {0, 1}
     \<and> scrape (trace s') (MonitorError, ''hc'', ''healthCheck'') = of_int (FailedCount (hcStatus (hc s')))"
proof -
  obtain r s' where run: "watchWorkflowReschedule fake_env 5 [] ''health'' ''w'' limited_state = (r, s')" by fastforce
  have st: "trace limited_state = []" "hcName (hc limited_state) = ''hc''" "FailedCount (hcStatus (hc limited_state)) = 0"
    by (simp_all add: limited_state_def sample_state_def sample_defs Let_def)
  show ?thesis
    using run_metrics_agree [OF run] by (auto simp: st run scrape_def wrap64_def Let_def)
qed

text \<open>
  Registering the built-in metrics at start-up succeeds with any registry that takes a
  vector whose name it does not hold yet: the five names are different, so init does not
  panic, and afterwards the registry holds exactly these five more.
\<close>

theorem metrics_init_registers:
  assumes "\<And>v r. mvName v \<notin> names r \<Longrightarrow> \<exists>r'. register v r = (Ret (), r') \<and> names r' = insert (mvName v) (names r)"
    and "names r \<inter> (mvName \<circ> vec_of) ` UNIV = {}"
  shows "\<exists>r'. metrics_init register r = (Ret (), r') \<and> names r' = names r \<union> (mvName \<circ> vec_of) ` UNIV"
proof -
  have step: "\<exists>r'. MustRegister register vs r = (Ret (), r') \<and> names r' = names r \<union> mvName ` set vs"
    if "distinct (map mvName vs)" "names r \<inter> mvName ` set vs = {}" for vs r
    using that
  proof (induction vs arbitrary: r)
    case (Cons v vs)
    obtain r1 where r1: "register v r = (Ret (), r1)" "names r1 = insert (mvName v) (names r)"
      using assms(1) [of v r] Cons.prems(2) by (metis disjoint_iff image_insert insertI1 list.simps(15))
    then show ?case using Cons.IH [of r1] Cons.prems by (auto simp: MustRegister_def thenG_run tryG_run)
  qed (simp add: MustRegister_def)
  have all: "(UNIV :: metric set) = {MonitorSuccess, MonitorError, MonitorRuntime, MonitorStartedTime, MonitorFinishedTime}"
    using metric.exhaust by auto
  show ?thesis
    using step [of "map vec_of [MonitorSuccess, MonitorError, MonitorRuntime, MonitorStartedTime, MonitorFinishedTime]" r] assms(2)
    by (simp add: metrics_init_def all new_vec_def)
qed

theorem metrics_init_registers_witness:
  "\<exists>r'. metrics_init (\<lambda>v r. if mvName v \<in> set r then (Fail (errors_New ''duplicate''), r) else (Ret (), r @ [mvName v])) [] = (Ret (), r')
     \<and> ''healthcheck_starttime'' \<in> set r'"
proof -
  let ?reg = "\<lambda>v r. if mvName v \<in> set r then (Fail (errors_New ''duplicate''), r) else (Ret (), r @ [mvName v])"
  have "\<exists>r'. metrics_init ?reg [] = (Ret (), r') \<and> set r' = set [] \<union> (mvName \<circ> vec_of) ` UNIV"
    by (rule metrics_init_registers) auto
  moreover have "''healthcheck_starttime'' = (mvName \<circ> vec_of) MonitorStartedTime" by (simp add: new_vec_def)
  ultimately show ?thesis by (metis UnI2 rangeI)
qed

end
