(* ===== verification/Critical_Sections.thy ===== *)
theory Critical_Sections
  imports Controller_System
begin

text \<open>
  The goroutines of one process (up to MaxParallel reconciles and the functions of fired
  timers) share the timers, the labels and TimerLock. Here they are run interleaved, one
  access to a shared variable at a time. The theory shows that what TimerLock guards behaves as
  if every critical section were one step, which is how the handlers are modelled elsewhere.
\<close>

section \<open>Shared memory and the accesses to it\<close>

record shared =
  shTimers :: "(string \<rightharpoonup> nat) option"
  shLabels :: "(string \<rightharpoonup> string) option"
  shLock :: bool
  shPending :: "nat \<rightharpoonup> armed_timer"
  shNext :: nat

definition shared_of :: "'w st \<Rightarrow> shared" where
  "shared_of s = \<lparr>shTimers = RepeatTimersByName s, shLabels = workflowLabels s, shLock = TimerLock s,
     shPending = pending s, shNext = next_timer s\<rparr>"

text \<open>The statements of the critical sections; a goroutine keeps the timer it has just made.\<close>

datatype access =
    StopOld string           (* if t, ok := r.RepeatTimersByName[n]; ok { t.Stop() } *)
  | AfterFunc armed_timer    (* time.AfterFunc(delay, helper) *)
  | PutTimer string          (* r.RepeatTimersByName[n] = <the timer just made> *)
  | MakeLabels               (* if r.workflowLabels == nil { r.workflowLabels = make(...) } *)
  | PutLabel string string   (* r.workflowLabels[k] = v *)
  | PutNilMap                (* data["metadata"] = m1 for a nil map: panics *)

definition clear :: "nat \<Rightarrow> shared \<Rightarrow> shared" where
  "clear i m = m\<lparr>shPending := (shPending m)(i := None)\<rparr>"

text \<open>One access: the memory and the timer made so far afterwards, or None for a panic.\<close>

fun run_access :: "access \<Rightarrow> shared \<times> nat option \<Rightarrow> (shared \<times> nat option) option" where
  "run_access (StopOld n) (m, t) =
     Some (case shTimers m of None \<Rightarrow> m | Some f \<Rightarrow> (case f n of None \<Rightarrow> m | Some i \<Rightarrow> clear i m), t)"
| "run_access (AfterFunc a) (m, t) =
     Some (m\<lparr>shPending := (shPending m)(shNext m \<mapsto> a), shNext := Suc (shNext m)\<rparr>, Some (shNext m))"
| "run_access (PutTimer n) (m, t) =
     (case shTimers m of None \<Rightarrow> None | Some f \<Rightarrow> Some (m\<lparr>shTimers := Some (f(n := t))\<rparr>, t))"
| "run_access MakeLabels (m, t) =
     Some (m\<lparr>shLabels := (case shLabels m of None \<Rightarrow> Some Map.empty | l \<Rightarrow> l)\<rparr>, t)"
| "run_access (PutLabel k v) (m, t) =
     (case shLabels m of None \<Rightarrow> None | Some f \<Rightarrow> Some (m\<lparr>shLabels := Some (f(k \<mapsto> v))\<rparr>, t))"
| "run_access PutNilMap (m, t) = None"

primrec run_accesses :: "access list \<Rightarrow> shared \<times> nat option \<Rightarrow> (shared \<times> nat option) option" where
  "run_accesses [] p = Some p"
| "run_accesses (x # xs) p = Option.bind (run_access x p) (run_accesses xs)"

text \<open>The two kinds of section: arming the next run, and the labels part of the parsers.\<close>

definition timer_section :: "armed_timer \<Rightarrow> access list" where
  "timer_section a = [StopOld (tmName a), AfterFunc a, PutTimer (tmName a)]"

definition label_section :: "'w env \<Rightarrow> gomap option \<Rightarrow> access list" where
  "label_section E d = MakeLabels #
     (case doc_labels d of None \<Rightarrow> [PutLabel WfInstanceIdLabelKey WfInstanceId]
      | Some lm \<Rightarrow> map (\<lambda>(k, v). PutLabel k (sprint_v E v)) lm)
     @ (if d = None then [PutNilMap] else [])"

text \<open>A section under the lock: from a memory whose lock is free, None when it panics.\<close>

definition run_section :: "access list \<Rightarrow> shared \<Rightarrow> shared option" where
  "run_section xs m = map_option (\<lambda>(m', t). m'\<lparr>shLock := False\<rparr>) (run_accesses xs (m\<lparr>shLock := True\<rparr>, None))"

section \<open>Goroutines\<close>

text \<open>
  A goroutine outside the guarded code is \<open>Idle\<close>; it may wait for the lock, be inside with
  accesses left, wait for or hold the lock for reading, or have died of a panic inside.
\<close>

datatype goroutine =
    Idle
  | WantLock "access list"
  | Inside "access list" "nat option"
  | WantRead
  | Reading
  | Dead

record config =
  mem :: shared
  gos :: "nat \<Rightarrow> goroutine"
  readers :: "nat set"

text \<open>
  \<open>P\<close>: the sections of the program. \<open>go_clear\<close> is a timer that fires and so no longer runs, or
  the \<open>Stop\<close> of a timer that was looked up earlier (Reconcile, report_update_error), which
  happens without the lock.
\<close>

inductive go_step :: "access list set \<Rightarrow> config \<Rightarrow> config \<Rightarrow> bool" for P where
  go_want: "gos c j = Idle \<Longrightarrow> xs \<in> P \<Longrightarrow> go_step P c (c\<lparr>gos := (gos c)(j := WantLock xs)\<rparr>)"
| go_lock: "gos c j = WantLock xs \<Longrightarrow> \<not> shLock (mem c) \<Longrightarrow> readers c = {}
    \<Longrightarrow> go_step P c (c\<lparr>mem := (mem c)\<lparr>shLock := True\<rparr>, gos := (gos c)(j := Inside xs None)\<rparr>)"
| go_access: "gos c j = Inside (x # xs) t \<Longrightarrow> run_access x (mem c, t) = Some (m', t')
    \<Longrightarrow> go_step P c (c\<lparr>mem := m', gos := (gos c)(j := Inside xs t')\<rparr>)"
| go_panic: "gos c j = Inside (x # xs) t \<Longrightarrow> run_access x (mem c, t) = None
    \<Longrightarrow> go_step P c (c\<lparr>gos := (gos c)(j := Dead)\<rparr>)"
| go_unlock: "gos c j = Inside [] t
    \<Longrightarrow> go_step P c (c\<lparr>mem := (mem c)\<lparr>shLock := False\<rparr>, gos := (gos c)(j := Idle)\<rparr>)"
| go_want_read: "gos c j = Idle \<Longrightarrow> go_step P c (c\<lparr>gos := (gos c)(j := WantRead)\<rparr>)"
| go_rlock: "gos c j = WantRead \<Longrightarrow> \<not> shLock (mem c)
    \<Longrightarrow> go_step P c (c\<lparr>gos := (gos c)(j := Reading), readers := insert j (readers c)\<rparr>)"
| go_runlock: "gos c j = Reading
    \<Longrightarrow> go_step P c (c\<lparr>gos := (gos c)(j := Idle), readers := readers c - {j}\<rparr>)"
| go_clear: "i < shNext (mem c) \<Longrightarrow> go_step P c (c\<lparr>mem := clear i (mem c)\<rparr>)"

text \<open>The sequential reading: a whole section is one step.\<close>

inductive section_step :: "access list set \<Rightarrow> shared \<Rightarrow> shared \<Rightarrow> bool" for P where
  section_run: "xs \<in> P \<Longrightarrow> run_section xs m = Some m' \<Longrightarrow> section_step P m m'"
| section_clear: "i < shNext m \<Longrightarrow> section_step P m (clear i m)"

section \<open>The handlers' steps are these sections\<close>

lemma timer_section_run:
  assumes "\<not> TimerLock s"
  shows "run_section (timer_section (new_timer s ns d)) (shared_of s)
    = (if RepeatTimersByName s = None then None else Some (shared_of (snd (rescheduleTimer ns d s))))"
  using assms
  by (auto simp: run_section_def timer_section_def shared_of_def rescheduleTimer_run stop_old_def read_timer_def
      new_timer_def clear_def Let_def split: option.splits)

lemma put_labels_run:
  "shLabels m = Some f \<Longrightarrow> run_accesses (map (\<lambda>(k, v). PutLabel k (sprint_v E v)) lm @ ys) (m, t)
     = run_accesses ys (m\<lparr>shLabels := Some (put_all E lm f)\<rparr>, t)"
proof (induction lm arbitrary: m f)
  case Nil
  then have "m\<lparr>shLabels := Some f\<rparr> = m" by (cases m) simp
  then show ?case by (simp add: put_all_def)
qed (auto simp: put_all_def)

lemma label_section_run:
  assumes "\<not> TimerLock s"
  shows "run_section (label_section E d) (shared_of s)
    = (if d = None then None else Some (shared_of (snd (parse_labels E g d s))))"
proof -
  let ?m = "shared_of s\<lparr>shLock := True, shLabels := Some (labels_of s)\<rparr>"
  have "run_accesses (label_section E d) (shared_of s\<lparr>shLock := True\<rparr>, None)
      = run_accesses (if d = None then [PutNilMap] else []) (?m\<lparr>shLabels := Some (merged E d (labels_of s))\<rparr>, None)"
    by (cases "doc_labels d"; cases "workflowLabels s")
       (simp_all add: label_section_def shared_of_def labels_of_def merged_def put_labels_run)
  then show ?thesis
    using assms by (auto simp: run_section_def parse_labels_run shared_of_def Let_def)
qed
section \<open>Accesses and timers that stop\<close>

lemma clear_simps [simp]:
  "shNext (clear i m) = shNext m" "shLock (clear i m) = shLock m" "shTimers (clear i m) = shTimers m"
  "shLabels (clear i m) = shLabels m" "clear i (m\<lparr>shLock := b\<rparr>) = (clear i m)\<lparr>shLock := b\<rparr>"
  by (simp_all add: clear_def)

lemma clear_commute: "clear i (clear j m) = clear j (clear i m)"
  by (simp add: clear_def fun_upd_twist fun_eq_iff)

lemma clears_simps [simp]:
  "shNext (fold clear D m) = shNext m" "shLock (fold clear D m) = shLock m"
  "fold clear D (m\<lparr>shLock := b\<rparr>) = (fold clear D m)\<lparr>shLock := b\<rparr>"
  by (induction D arbitrary: m) simp_all

lemma clear_clears: "clear i (fold clear D m) = fold clear D (clear i m)"
  by (induction D arbitrary: m) (simp_all add: clear_commute)

text \<open>An access keeps the lock and makes timers only; stopping an older timer can be done before or after it.\<close>

lemma run_access_keeps: "run_access x (m, t) = Some (m', t') \<Longrightarrow> shLock m' = shLock m \<and> shNext m \<le> shNext m'"
  by (cases x) (auto split: option.splits)

lemma run_access_clear:
  "i < shNext m \<Longrightarrow> run_access x (clear i m, t) = map_option (\<lambda>(m', t'). (clear i m', t')) (run_access x (m, t))"
proof (cases x)
  case (StopOld n)
  then show ?thesis by (auto simp: clear_commute split: option.splits)
qed (auto simp: clear_def fun_upd_twist split: option.splits)

lemma run_accesses_keeps: "run_accesses xs (m, t) = Some (m', t') \<Longrightarrow> shLock m' = shLock m \<and> shNext m \<le> shNext m'"
  by (induction xs arbitrary: m t) (fastforce simp: bind_eq_Some_conv dest: run_access_keeps)+

lemma run_accesses_clear:
  "i < shNext m \<Longrightarrow> run_accesses xs (m, t) = Some (m', t') \<Longrightarrow> run_accesses xs (clear i m, t) = Some (clear i m', t')"
proof (induction xs arbitrary: m t)
  case (Cons x xs)
  then obtain m1 t1 where x: "run_access x (m, t) = Some (m1, t1)" "run_accesses xs (m1, t1) = Some (m', t')"
    by (auto simp: bind_eq_Some_conv)
  have "i < shNext m1" using run_access_keeps [OF x(1)] Cons.prems(1) by simp
  then show ?case using Cons.IH [OF _ x(2)] run_access_clear [OF Cons.prems(1), of x t] x(1) by simp
qed simp

lemma run_access_clears:
  "set D \<subseteq> {..<shNext m} \<Longrightarrow> run_access x (fold clear D m, t) = map_option (\<lambda>(m', t'). (fold clear D m', t')) (run_access x (m, t))"
proof (induction D arbitrary: m)
  case (Cons i D)
  then show ?case
    using run_access_clear [of i m x t] by (cases "run_access x (m, t)") auto
next
  case Nil
  show ?case by (cases "run_access x (m, t)") auto
qed

lemma run_accesses_append: "run_accesses (xs @ ys) p = Option.bind (run_accesses xs p) (run_accesses ys)"
proof (induction xs arbitrary: p)
  case (Cons x xs)
  then show ?case by (cases "run_access x p") simp_all
qed simp

section \<open>Interleaved runs are sequential runs\<close>

locale simulation =
  fixes astep :: "'a \<Rightarrow> 'a \<Rightarrow> bool" and cstep :: "'c \<Rightarrow> 'c \<Rightarrow> bool" and match :: "'a \<Rightarrow> 'c \<Rightarrow> bool"
  assumes sim_step: "match a c \<Longrightarrow> cstep c c' \<Longrightarrow> \<exists>a'. astep\<^sup>*\<^sup>* a a' \<and> match a' c'"
begin

lemma run: "cstep\<^sup>*\<^sup>* c0 c \<Longrightarrow> match a0 c0 \<Longrightarrow> \<exists>a. astep\<^sup>*\<^sup>* a0 a \<and> match a c"
proof (induction rule: rtranclp_induct)
  case (step c c')
  then obtain a where "astep\<^sup>*\<^sup>* a0 a" "match a c" by blast
  then show ?case using sim_step [OF _ step.hyps(2), of a] by (meson rtranclp_trans)
qed blast

end

definition busy :: "goroutine \<Rightarrow> bool" where
  "busy g \<longleftrightarrow> g = Dead \<or> (\<exists>xs t. g = Inside xs t)"

text \<open>
  A goroutine inside a section has done the accesses \<open>ys\<close> from the memory \<open>a\<close> of the last
  unlock, and the timers \<open>D\<close> made by it have stopped since.
\<close>

definition inside :: "access list set \<Rightarrow> shared \<Rightarrow> shared \<Rightarrow> access list \<Rightarrow> nat option \<Rightarrow> bool" where
  "inside P a m xs t \<longleftrightarrow> (\<exists>ys D m0. ys @ xs \<in> P \<and> run_accesses ys (a\<lparr>shLock := True\<rparr>, None) = Some (m0, t)
     \<and> m = fold clear D m0 \<and> set D \<subseteq> {shNext a..<shNext m0})"

definition matches :: "access list set \<Rightarrow> shared \<Rightarrow> config \<Rightarrow> bool" where
  "matches P a c \<longleftrightarrow> \<not> shLock a
     \<and> (\<forall>j. gos c j = Reading \<longleftrightarrow> j \<in> readers c)
     \<and> (shLock (mem c) \<longleftrightarrow> (\<exists>j. busy (gos c j))) \<and> (\<forall>j k. busy (gos c j) \<and> busy (gos c k) \<longrightarrow> j = k)
     \<and> (readers c \<noteq> {} \<longrightarrow> \<not> shLock (mem c)) \<and> (\<not> shLock (mem c) \<longrightarrow> mem c = a)
     \<and> (\<forall>j xs. gos c j = WantLock xs \<longrightarrow> xs \<in> P)
     \<and> (\<forall>j xs t. gos c j = Inside xs t \<longrightarrow> inside P a (mem c) xs t)
     \<and> (\<forall>j. gos c j = Dead \<longrightarrow> (\<exists>xs t. inside P a (mem c) xs t))"

lemma busy_simps [simp]: "busy Dead" "busy (Inside xs t)" "\<not> busy Idle" "\<not> busy (WantLock xs)" "\<not> busy WantRead" "\<not> busy Reading"
  by (simp_all add: busy_def)

lemma inside_access:
  assumes "inside P a m (x # xs) t" and "run_access x (m, t) = Some (m', t')"
  shows "inside P a m' xs t'"
proof -
  from assms(1) obtain ys D m0 where ys: "ys @ x # xs \<in> P" "run_accesses ys (a\<lparr>shLock := True\<rparr>, None) = Some (m0, t)"
    and m: "m = fold clear D m0" and D: "set D \<subseteq> {shNext a..<shNext m0}" unfolding inside_def by blast
  have "set D \<subseteq> {..<shNext m0}" using D by auto
  from run_access_clears [OF this, of x t] assms(2) obtain m1 where m1: "run_access x (m0, t) = Some (m1, t')" "m' = fold clear D m1"
    by (auto simp: m)
  have "set D \<subseteq> {shNext a..<shNext m1}" using D run_access_keeps [OF m1(1)] by fastforce
  then show ?thesis
    unfolding inside_def using ys m1 by (intro exI [of _ "ys @ [x]"] exI [of _ D] exI [of _ m1]) (simp add: run_accesses_append)
qed

lemma inside_clear:
  assumes "inside P a m xs t" and "i < shNext m"
  shows "inside P (if i < shNext a then clear i a else a) (clear i m) xs t"
proof -
  from assms(1) obtain ys D m0 where ys: "ys @ xs \<in> P" and r: "run_accesses ys (a\<lparr>shLock := True\<rparr>, None) = Some (m0, t)"
    and m: "m = fold clear D m0" and D: "set D \<subseteq> {shNext a..<shNext m0}" unfolding inside_def by blast
  show ?thesis
  proof (cases "i < shNext a")
    case True
    have "run_accesses ys ((clear i a)\<lparr>shLock := True\<rparr>, None) = Some (clear i m0, t)"
      using run_accesses_clear [OF _ r, of i] True by simp
    then show ?thesis
      using True D ys unfolding inside_def
      by (intro exI [of _ ys] exI [of _ D] exI [of _ "clear i m0"]) (simp add: m clear_clears)
  next
    case False
    then show ?thesis
      using ys r D assms(2) unfolding inside_def
      by (intro exI [of _ ys] exI [of _ "i # D"] exI [of _ m0]) (simp add: m clear_clears)
  qed
qed

lemma clears_steps: "set D \<subseteq> {..<shNext m} \<Longrightarrow> (section_step P)\<^sup>*\<^sup>* m (fold clear D m)"
proof (induction D arbitrary: m)
  case (Cons i D)
  have "section_step P m (clear i m)" using Cons.prems by (intro section_clear) simp
  then show ?case using Cons.IH [of "clear i m"] Cons.prems by (auto intro: converse_rtranclp_into_rtranclp)
qed simp

lemma inside_done:
  assumes "inside P a m [] t"
  shows "(section_step P)\<^sup>*\<^sup>* a (m\<lparr>shLock := False\<rparr>)"
proof -
  from assms obtain ys D m0 where ys: "ys \<in> P" "run_accesses ys (a\<lparr>shLock := True\<rparr>, None) = Some (m0, t)"
    and m: "m = fold clear D m0" and D: "set D \<subseteq> {shNext a..<shNext m0}" unfolding inside_def by auto
  have "section_step P a (m0\<lparr>shLock := False\<rparr>)" using ys by (intro section_run) (auto simp: run_section_def)
  moreover have "(section_step P)\<^sup>*\<^sup>* (m0\<lparr>shLock := False\<rparr>) (fold clear D (m0\<lparr>shLock := False\<rparr>))"
    using D by (intro clears_steps) auto
  ultimately show ?thesis by (simp add: m)
qed

lemma inside_start: "xs \<in> P \<Longrightarrow> inside P a (a\<lparr>shLock := True\<rparr>) xs None"
  unfolding inside_def by (intro exI [of _ "[]"] exI [of _ "[]"] exI [of _ "a\<lparr>shLock := True\<rparr>"]) simp

text \<open>A step of a goroutine that does not enter, leave or die in a section, and leaves the memory alone.\<close>

lemma matches_move:
  assumes "matches P a c" and "\<not> busy g" and "\<not> busy (gos c j)"
    and "\<forall>xs. g = WantLock xs \<longrightarrow> xs \<in> P" and "R = (if g = Reading then insert j (readers c) else readers c - {j})"
    and "g = Reading \<Longrightarrow> \<not> shLock (mem c)"
  shows "matches P a (c\<lparr>gos := (gos c)(j := g), readers := R\<rparr>)"
proof -
  have "busy (((gos c)(j := g)) k) = busy (gos c k)" for k using assms(2,3) by auto
  then show ?thesis using assms unfolding matches_def by (auto split: if_splits)
qed

lemma matches_readers: "matches P a c \<Longrightarrow> gos c j = Reading \<longleftrightarrow> j \<in> readers c"
  unfolding matches_def by blast

lemma matches_inside:
  assumes "matches P a c" and "gos c j = Inside xs t"
  shows "inside P a (mem c) xs t" "shLock (mem c)" "readers c = {}" "\<And>k. busy (gos c k) \<Longrightarrow> k = j"
proof -
  have "busy (gos c j)" using assms(2) by simp
  then show "shLock (mem c)" "\<And>k. busy (gos c k) \<Longrightarrow> k = j" using assms(1) unfolding matches_def by blast+
  then show "readers c = {}" "inside P a (mem c) xs t" using assms unfolding matches_def by blast+
qed

lemma matches_lock:
  assumes m: "matches P a c" and j: "gos c j = WantLock xs" "\<not> shLock (mem c)" "readers c = {}"
  shows "matches P a (c\<lparr>mem := (mem c)\<lparr>shLock := True\<rparr>, gos := (gos c)(j := Inside xs None)\<rparr>)"
proof -
  have a: "mem c = a" "xs \<in> P" "\<not> shLock a" and nb: "\<And>k. \<not> busy (gos c k)" and nr: "\<And>k. gos c k \<noteq> Reading"
    using m j unfolding matches_def by auto
  have "gos c k \<noteq> Inside ys t \<and> gos c k \<noteq> Dead" for k ys t using nb [of k] by auto
  then show ?thesis
    using m j a nb nr inside_start [OF a(2), of a] unfolding matches_def by auto
qed

lemma matches_access:
  assumes m: "matches P a c" and j: "gos c j = Inside (x # xs) t" and r: "run_access x (mem c, t) = Some (m', t')"
  shows "matches P a (c\<lparr>mem := m', gos := (gos c)(j := Inside xs t')\<rparr>)"
proof -
  note f = matches_inside [OF m j]
  have l: "shLock m'" using run_access_keeps [OF r] f(2) by simp
  have "inside P a m' xs t'" by (rule inside_access [OF f(1) r])
  moreover have nb: "\<not> busy (gos c k)" if "k \<noteq> j" for k using f(4) [of k] that by auto
  then have "gos c k \<noteq> Inside ys u \<and> gos c k \<noteq> Dead" if "k \<noteq> j" for k ys u using that by fastforce
  ultimately show ?thesis
    using m j l f(3,4) unfolding matches_def by auto
qed

lemma matches_panic:
  assumes m: "matches P a c" and j: "gos c j = Inside (x # xs) t"
  shows "matches P a (c\<lparr>gos := (gos c)(j := Dead)\<rparr>)"
proof -
  note f = matches_inside [OF m j]
  have "gos c k \<noteq> Inside ys u" if "k \<noteq> j" for k ys u using f(4) [of k] that by auto
  moreover have "\<exists>xs t. inside P a (mem c) xs t" using f(1) by blast
  ultimately show ?thesis using m j f(2-4) unfolding matches_def by auto
qed

lemma matches_unlock:
  assumes m: "matches P a c" and j: "gos c j = Inside [] t"
  shows "matches P ((mem c)\<lparr>shLock := False\<rparr>) (c\<lparr>mem := (mem c)\<lparr>shLock := False\<rparr>, gos := (gos c)(j := Idle)\<rparr>)"
proof -
  note f = matches_inside [OF m j]
  have nb: "\<not> busy (gos c k)" if "k \<noteq> j" for k using f(4) [of k] that by auto
  then have "gos c k \<noteq> Inside ys u \<and> gos c k \<noteq> Dead" if "k \<noteq> j" for k ys u using that by fastforce
  then show ?thesis using m j nb f(3) unfolding matches_def by auto
qed

lemma matches_clear:
  assumes m: "matches P a c" and i: "i < shNext (mem c)"
  shows "\<exists>a'. (section_step P)\<^sup>*\<^sup>* a a' \<and> matches P a' (c\<lparr>mem := clear i (mem c)\<rparr>)"
proof -
  let ?a = "if i < shNext a then clear i a else a"
  have "section_step P a (clear i a)" if "i < shNext a" using that by (rule section_clear)
  then have "(section_step P)\<^sup>*\<^sup>* a ?a" by auto
  moreover have "inside P ?a (clear i (mem c)) xs t" if "gos c j = Inside xs t" for j xs t
    using inside_clear [OF matches_inside(1) [OF m that] i] .
  moreover have "\<exists>xs t. inside P ?a (clear i (mem c)) xs t" if "gos c j = Dead" for j
    using m that inside_clear [OF _ i] unfolding matches_def by blast
  moreover have "\<not> shLock (mem c) \<longrightarrow> mem c = a" using m unfolding matches_def by blast
  ultimately show ?thesis using m i unfolding matches_def by (intro exI [of _ ?a]) auto
qed

interpretation interleaving: simulation "section_step P" "go_step P" "matches P" for P
proof
  fix a c c' assume m: "matches P a c" and "go_step P c c'"
  from this(2) show "\<exists>a'. (section_step P)\<^sup>*\<^sup>* a a' \<and> matches P a' c'"
  proof cases
    case (go_want j xs)
    then have "matches P a (c\<lparr>gos := (gos c)(j := WantLock xs), readers := readers c - {j}\<rparr>)"
      using m by (intro matches_move) auto
    moreover have "j \<notin> readers c" using matches_readers [OF m, of j] go_want by simp
    ultimately show ?thesis using go_want by auto
  next
    case (go_lock j xs)
    then show ?thesis using matches_lock [OF m] by blast
  next
    case (go_access j x xs t m' t')
    then show ?thesis using matches_access [OF m] by blast
  next
    case (go_panic j x xs t)
    then show ?thesis using matches_panic [OF m] by blast
  next
    case (go_unlock j t)
    then show ?thesis using matches_unlock [OF m] inside_done [OF matches_inside(1) [OF m]] by blast
  next
    case (go_want_read j)
    then have "matches P a (c\<lparr>gos := (gos c)(j := WantRead), readers := readers c - {j}\<rparr>)"
      using m by (intro matches_move) auto
    moreover have "j \<notin> readers c" using matches_readers [OF m, of j] go_want_read by simp
    ultimately show ?thesis using go_want_read by auto
  next
    case (go_rlock j)
    then have "matches P a (c\<lparr>gos := (gos c)(j := Reading), readers := insert j (readers c)\<rparr>)"
      using m by (intro matches_move) auto
    then show ?thesis using go_rlock by auto
  next
    case (go_runlock j)
    then have "matches P a (c\<lparr>gos := (gos c)(j := Idle), readers := readers c - {j}\<rparr>)"
      using m by (intro matches_move) auto
    then show ?thesis using go_runlock by auto
  next
    case (go_clear i)
    then show ?thesis using matches_clear [OF m] by blast
  qed
qed
definition all_idle :: "shared \<Rightarrow> config" where
  "all_idle m = \<lparr>mem = m, gos = (\<lambda>_. Idle), readers = {}\<rparr>"

lemma matches_start: "\<not> shLock m \<Longrightarrow> matches P m (all_idle m)"
  by (simp add: matches_def all_idle_def)

lemmas interleaved = interleaving.run [OF _ matches_start]

section \<open>At most one timer of a name runs\<close>

definition code_sections :: "'w env \<Rightarrow> access list set" where
  "code_sections E = range timer_section \<union> range (label_section E)"

definition sh_timers_ok :: "shared \<Rightarrow> bool" where
  "sh_timers_ok m \<longleftrightarrow> (\<exists>f. shTimers m = Some f
     \<and> (\<forall>i a. shPending m i = Some a \<longrightarrow> i < shNext m \<and> f (tmName a) = Some i)
     \<and> (\<forall>n i. f n = Some i \<longrightarrow> i < shNext m))"

definition one_per_name :: "shared \<Rightarrow> bool" where
  "one_per_name m \<longleftrightarrow> (\<forall>i j a b. shPending m i = Some a \<and> shPending m j = Some b \<and> tmName a = tmName b \<longrightarrow> i = j)"

lemma one_per_name_clears: "one_per_name m \<Longrightarrow> one_per_name (fold clear D m)"
proof (induction D arbitrary: m)
  case (Cons i D)
  have "one_per_name (clear i m)" using Cons.prems by (auto simp: one_per_name_def clear_def)
  then show ?case using Cons.IH by simp
qed simp

lemma sh_timers_one: "sh_timers_ok m \<Longrightarrow> one_per_name m"
  unfolding sh_timers_ok_def one_per_name_def by (metis option.inject)

fun label_access :: "access \<Rightarrow> bool" where
  "label_access MakeLabels = True"
| "label_access (PutLabel k v) = True"
| "label_access PutNilMap = True"
| "label_access _ = False"

lemma label_section_accesses: "x \<in> set (label_section E d) \<Longrightarrow> label_access x"
  by (auto simp: label_section_def split: option.splits if_splits)

lemma label_access_frame:
  "label_access x \<Longrightarrow> run_access x (m, t) = Some (m', t')
    \<Longrightarrow> shTimers m' = shTimers m \<and> shPending m' = shPending m \<and> shNext m' = shNext m"
  by (cases x) (auto split: option.splits)

lemma label_accesses_frame:
  "\<forall>x \<in> set xs. label_access x \<Longrightarrow> run_accesses xs (m, t) = Some (m', t')
    \<Longrightarrow> shTimers m' = shTimers m \<and> shPending m' = shPending m \<and> shNext m' = shNext m"
proof (induction xs arbitrary: m t)
  case (Cons x xs)
  then obtain m1 t1 where x: "run_access x (m, t) = Some (m1, t1)" "run_accesses xs (m1, t1) = Some (m', t')"
    by (auto simp: bind_eq_Some_conv)
  then show ?case using Cons.IH [OF _ x(2)] Cons.prems(1) label_access_frame [OF _ x(1)] by simp
qed simp

text \<open>The accesses of a timer section one by one: the old timer is stopped before the new one is made.\<close>

lemma timer_prefix:
  assumes "ys @ xs = timer_section a"
  shows "ys = [] \<or> ys = [StopOld (tmName a)] \<or> ys = [StopOld (tmName a), AfterFunc a] \<or> ys = timer_section a"
  using assms by (auto simp: timer_section_def append_eq_Cons_conv)

lemma stop_old_run:
  assumes "sh_timers_ok m"
  obtains m1 where "run_access (StopOld n) (m, t) = Some (m1, t)" "sh_timers_ok m1" "shNext m1 = shNext m" "shTimers m1 = shTimers m"
    "\<And>i a. shPending m1 i = Some a \<Longrightarrow> tmName a \<noteq> n"
proof -
  obtain f where f: "shTimers m = Some f" and ok: "\<And>i a. shPending m i = Some a \<Longrightarrow> i < shNext m \<and> f (tmName a) = Some i"
    "\<And>n i. f n = Some i \<Longrightarrow> i < shNext m" using assms by (auto simp: sh_timers_ok_def)
  let ?m1 = "case f n of None \<Rightarrow> m | Some i \<Rightarrow> clear i m"
  have "sh_timers_ok ?m1" using f ok by (cases "f n") (auto simp: sh_timers_ok_def clear_def)
  moreover have "tmName a \<noteq> n" if "shPending ?m1 i = Some a" for i a
    using that ok(1) [of i a] by (cases "f n") (auto simp: clear_def split: if_splits)
  ultimately show ?thesis using that [of ?m1] f by (cases "f n") simp_all
qed

lemma timer_section_prefix:
  assumes ok: "sh_timers_ok m" and ys: "ys @ xs = timer_section a" and r: "run_accesses ys (m, None) = Some (m', t)"
  shows "one_per_name m'" and "xs = [] \<Longrightarrow> sh_timers_ok m'"
proof -
  obtain m1 where s: "run_access (StopOld (tmName a)) (m, None) = Some (m1, None)" and ok1: "sh_timers_ok m1"
    "shNext m1 = shNext m" "shTimers m1 = shTimers m" and no: "\<And>i b. shPending m1 i = Some b \<Longrightarrow> tmName b \<noteq> tmName a"
    using stop_old_run [OF ok] by metis
  obtain f where f: "shTimers m1 = Some f" and p: "\<And>i b. shPending m1 i = Some b \<Longrightarrow> i < shNext m1 \<and> f (tmName b) = Some i"
    "\<And>n i. f n = Some i \<Longrightarrow> i < shNext m1" using ok1(1) by (auto simp: sh_timers_ok_def)
  let ?m2 = "m1\<lparr>shPending := (shPending m1)(shNext m1 \<mapsto> a), shNext := Suc (shNext m1)\<rparr>"
  have o2: "one_per_name ?m2"
    using sh_timers_one [OF ok1(1)] no by (simp add: one_per_name_def) metis
  let ?m3 = "?m2\<lparr>shTimers := Some (f(tmName a := Some (shNext m1)))\<rparr>"
  have ok3: "sh_timers_ok ?m3" using p no f by (fastforce simp: sh_timers_ok_def less_SucI)
  show "one_per_name m'"
    using timer_prefix [OF ys] r s sh_timers_one [OF ok] sh_timers_one [OF ok1(1)] o2 sh_timers_one [OF ok3] f
    by (auto simp: timer_section_def simp del: run_access.simps(1))
  show "sh_timers_ok m'" if "xs = []"
    using that ys r s ok3 f by (auto simp: timer_section_def simp del: run_access.simps(1))
qed

lemma sh_timers_lock [simp]: "sh_timers_ok (m\<lparr>shLock := b\<rparr>) = sh_timers_ok m" "one_per_name (m\<lparr>shLock := b\<rparr>) = one_per_name m"
  by (simp_all add: sh_timers_ok_def one_per_name_def)

lemma section_timers:
  "(section_step (code_sections E))\<^sup>*\<^sup>* m m' \<Longrightarrow> sh_timers_ok m \<Longrightarrow> sh_timers_ok m'"
proof (induction rule: rtranclp_induct)
  case (step m m')
  then have ok: "sh_timers_ok m" by simp
  from step.hyps(2) show ?case
  proof cases
    case (section_run xs)
    then obtain m1 t where r: "run_accesses xs (m\<lparr>shLock := True\<rparr>, None) = Some (m1, t)" "m' = m1\<lparr>shLock := False\<rparr>"
      by (auto simp: run_section_def)
    from section_run(1) consider a where "xs = timer_section a" | d where "xs = label_section E d" by (auto simp: code_sections_def)
    then show ?thesis
    proof cases
      case 1
      then show ?thesis using timer_section_prefix(2) [of "m\<lparr>shLock := True\<rparr>" xs "[]"] ok r by simp
    next
      case 2
      then have "\<forall>x \<in> set xs. label_access x" using label_section_accesses by blast
      from label_accesses_frame [OF this r(1)] show ?thesis using ok r(2) by (simp add: sh_timers_ok_def)
    qed
  next
    case (section_clear i)
    then show ?thesis using ok by (auto simp: sh_timers_ok_def clear_def)
  qed
qed simp

lemma inside_one:
  assumes "inside (code_sections E) a m xs t" and "sh_timers_ok a"
  shows "one_per_name m"
proof -
  from assms(1) obtain ys D m0 where ys: "ys @ xs \<in> code_sections E" "run_accesses ys (a\<lparr>shLock := True\<rparr>, None) = Some (m0, t)"
    and m: "m = fold clear D m0" unfolding inside_def by blast
  from ys(1) consider b where "ys @ xs = timer_section b" | d where "ys @ xs = label_section E d" by (auto simp: code_sections_def)
  then have "one_per_name m0"
  proof cases
    case 1
    then show ?thesis using timer_section_prefix(1) [OF _ _ ys(2)] assms(2) by simp
  next
    case 2
    then have "\<forall>x \<in> set ys. label_access x" using label_section_accesses [of _ E d] by (metis UnI1 set_append)
    then show ?thesis using label_accesses_frame [OF _ ys(2)] sh_timers_one [OF assms(2)] by (simp add: one_per_name_def)
  qed
  then show ?thesis by (simp add: m one_per_name_clears)
qed
section \<open>A goroutine on its own\<close>

definition alone :: "shared \<Rightarrow> goroutine \<Rightarrow> config" where
  "alone m g = \<lparr>mem = m, gos = (\<lambda>_. Idle)(0 := g), readers = {}\<rparr>"

lemma alone_steps:
  "\<not> shLock m \<Longrightarrow> xs \<in> P \<Longrightarrow> (go_step P)\<^sup>*\<^sup>* (all_idle m) (alone (m\<lparr>shLock := True\<rparr>) (Inside xs None))"
  "run_accesses ys (m, t) = Some (m', t') \<Longrightarrow> (go_step P)\<^sup>*\<^sup>* (alone m (Inside (ys @ zs) t)) (alone m' (Inside zs t'))"
  "(go_step P)\<^sup>*\<^sup>* (alone m (Inside [] t)) (all_idle (m\<lparr>shLock := False\<rparr>))"
proof -
  assume "\<not> shLock m" "xs \<in> P"
  then have "go_step P (all_idle m) (alone m (WantLock xs))" "go_step P (alone m (WantLock xs)) (alone (m\<lparr>shLock := True\<rparr>) (Inside xs None))"
    using go_want [of "all_idle m" 0 xs P] go_lock [of "alone m (WantLock xs)" 0 xs P] by (simp_all add: all_idle_def alone_def)
  then show "(go_step P)\<^sup>*\<^sup>* (all_idle m) (alone (m\<lparr>shLock := True\<rparr>) (Inside xs None))" by (meson r_into_rtranclp rtranclp_trans)
next
  show "run_accesses ys (m, t) = Some (m', t') \<Longrightarrow> (go_step P)\<^sup>*\<^sup>* (alone m (Inside (ys @ zs) t)) (alone m' (Inside zs t'))"
  proof (induction ys arbitrary: m t)
    case (Cons y ys)
    then obtain m1 t1 where y: "run_access y (m, t) = Some (m1, t1)" "run_accesses ys (m1, t1) = Some (m', t')"
      by (auto simp: bind_eq_Some_conv)
    have "go_step P (alone m (Inside (y # ys @ zs) t)) (alone m1 (Inside (ys @ zs) t1))"
      using go_access [of "alone m (Inside (y # ys @ zs) t)" 0 y "ys @ zs" t m1 t1 P] y(1) by (simp add: alone_def)
    then show ?case using Cons.IH [OF y(2)] by (auto intro: converse_rtranclp_into_rtranclp)
  qed simp
next
  have "go_step P (alone m (Inside [] t)) (all_idle (m\<lparr>shLock := False\<rparr>))"
    using go_unlock [of "alone m (Inside [] t)" 0 t P] by (simp add: alone_def all_idle_def fun_upd_idem)
  then show "(go_step P)\<^sup>*\<^sup>* (alone m (Inside [] t)) (all_idle (m\<lparr>shLock := False\<rparr>))" by simp
qed

text \<open>Nothing is lost: every sequential section is also an interleaved run.\<close>

lemma section_alone:
  assumes "xs \<in> P" "run_section xs m = Some m'" "\<not> shLock m"
  shows "(go_step P)\<^sup>*\<^sup>* (all_idle m) (all_idle m')"
proof -
  from assms(2) obtain m1 t where r: "run_accesses (xs) (m\<lparr>shLock := True\<rparr>, None) = Some (m1, t)" "m' = m1\<lparr>shLock := False\<rparr>"
    by (auto simp: run_section_def)
  show ?thesis
    using alone_steps(1) [OF assms(3,1)] alone_steps(2) [OF r(1), of P "[]"] alone_steps(3) [of P m1 t] r(2) by (auto intro: rtranclp_trans)
qed

section \<open>Properties\<close>




definition sample_timer :: armed_timer where
  "sample_timer = \<lparr>tmDelay = 60 * Second, tmWfNamespace = ''health'', tmName = ''hc'', tmNamespace = ''health''\<rparr>"

definition start_mem :: shared where
  "start_mem = \<lparr>shTimers = Some Map.empty, shLabels = None, shLock = False, shPending = Map.empty, shNext = 0\<rparr>"


text \<open>
  C3: at most one timer of a HealthCheck's name runs, at every moment of every interleaving,
  in the middle of a critical section as well: the old timer is stopped before the next one
  is made, and nothing another goroutine or a firing timer does in between can break it.
\<close>

theorem one_timer_interleaved:
  assumes "(go_step (code_sections E))\<^sup>*\<^sup>* (all_idle (shared_of (NewHealthCheckReconciler w))) c"
  shows "one_per_name (mem c)"
proof -
  let ?m = "shared_of (NewHealthCheckReconciler w)"
  have ok: "sh_timers_ok ?m" "\<not> shLock ?m" by (auto simp: sh_timers_ok_def shared_of_def NewHealthCheckReconciler_def)
  obtain a where a: "(section_step (code_sections E))\<^sup>*\<^sup>* ?m a" "matches (code_sections E) a c"
    using interleaved [OF assms ok(2)] by blast
  have oka: "sh_timers_ok a" by (rule section_timers [OF a(1) ok(1)])
  show ?thesis
  proof (cases "shLock (mem c)")
    case True
    then obtain xs t where "inside (code_sections E) a (mem c) xs t" using a(2) unfolding matches_def busy_def by blast
    then show ?thesis by (rule inside_one [OF _ oka])
  next
    case False
    then show ?thesis using a(2) sh_timers_one [OF oka] unfolding matches_def by auto
  qed
qed

theorem one_timer_interleaved_witness:
  "one_per_name ((shared_of (NewHealthCheckReconciler fake_world))\<lparr>shLock := True,
     shPending := [0 \<mapsto> sample_timer], shNext := 1\<rparr>)"
proof -
  let ?m = "shared_of (NewHealthCheckReconciler fake_world)"
  let ?m1 = "?m\<lparr>shLock := True, shPending := [0 \<mapsto> sample_timer], shNext := 1\<rparr>"
  let ?P = "code_sections fake_env"
  have l: "\<not> shLock ?m" and p: "timer_section sample_timer \<in> ?P" by (simp_all add: shared_of_def NewHealthCheckReconciler_def code_sections_def)
  have "run_accesses [StopOld ''hc'', AfterFunc sample_timer] (?m\<lparr>shLock := True\<rparr>, None) = Some (?m1, Some 0)"
    by (simp add: shared_of_def NewHealthCheckReconciler_def)
  from alone_steps(2) [OF this, of ?P "[PutTimer ''hc'']"] alone_steps(1) [OF l p]
  have "(go_step ?P)\<^sup>*\<^sup>* (all_idle ?m) (alone ?m1 (Inside [PutTimer ''hc''] (Some 0)))"
    by (simp add: timer_section_def sample_timer_def)
  from one_timer_interleaved [OF this] show ?thesis
    by (simp add: alone_def)
qed

end
