(* ===== verification/Go_Heap.thy ===== *)
theory Go_Heap
  imports Go_Prelude
begin

text \<open>
  Memory, for the functions that copy objects behind pointers. A heap maps the addresses below
  the next free one to cells. A Go type whose values live in cells of their own is a
  \<open>cell_type\<close>: how a value becomes a cell, how it is read back, and its zero value. The locale
  copier is the contract of a deep copy: the copy reads like the original and lives in cells
  that were free before. Its closure lemmas lift the contract through pointers and slices.
\<close>

section \<open>Heaps\<close>

record 'c heap =
  store :: "nat \<Rightarrow> 'c option"
  next_addr :: nat

record ('c, 'a) cell_type =
  wrap :: "'a \<Rightarrow> 'c"
  unwrap :: "'c \<Rightarrow> 'a option"
  zero_value :: 'a

definition lawful :: "('c, 'a) cell_type \<Rightarrow> bool" where
  "lawful T \<longleftrightarrow> (\<forall>v. unwrap T (wrap T v) = Some v)"

definition peek :: "('c, 'a) cell_type \<Rightarrow> nat \<Rightarrow> 'c heap \<Rightarrow> 'a option" where
  "peek T a h = Option.bind (store h a) (unwrap T)"

text \<open>\<open>*p\<close>, \<open>new(T)\<close> and \<open>*p = v\<close>. An address that holds no value of the type is an invalid pointer.\<close>

definition invalid_pointer :: string where
  "invalid_pointer = ''invalid memory address or nil pointer dereference''"

definition deref :: "('c, 'a) cell_type \<Rightarrow> nat \<Rightarrow> ('c heap, 'a) go" where
  "deref T a = (\<lambda>h. case peek T a h of None \<Rightarrow> (Panic invalid_pointer, h) | Some v \<Rightarrow> (Ret v, h))"

definition alloc :: "'c \<Rightarrow> ('c heap, nat) go" where
  "alloc c = (\<lambda>h. (Ret (next_addr h), h\<lparr>store := (store h)(next_addr h \<mapsto> c), next_addr := Suc (next_addr h)\<rparr>))"

definition new :: "('c, 'a) cell_type \<Rightarrow> ('c heap, nat) go" where
  "new T = alloc (wrap T (zero_value T))"

definition assign :: "('c, 'a) cell_type \<Rightarrow> nat \<Rightarrow> 'a \<Rightarrow> ('c heap, unit) go" where
  "assign T a v = modG (\<lambda>h. h\<lparr>store := (store h)(a \<mapsto> wrap T v)\<rparr>)"

text \<open>A slice that is not nil: an array cell, the first element and the length.\<close>

record slice =
  sArray :: nat
  sOff :: nat
  sLen :: nat

text \<open>\<open>make([]T, n)\<close>, \<open>s[i]\<close> and \<open>s[i] = v\<close>; \<open>T\<close> is the type of the arrays, \<open>z\<close> the zero value of an element.\<close>

definition make_slice :: "('c, 'a list) cell_type \<Rightarrow> 'a \<Rightarrow> nat \<Rightarrow> ('c heap, slice) go" where
  "make_slice T z n = bindG (alloc (wrap T (replicate n z))) (\<lambda>a. retG \<lparr>sArray = a, sOff = 0, sLen = n\<rparr>)"

definition index_out_of_range :: string where
  "index_out_of_range = ''index out of range''"

definition elem :: "('c, 'a list) cell_type \<Rightarrow> slice \<Rightarrow> nat \<Rightarrow> ('c heap, 'a) go" where
  "elem T s i = bindG (deref T (sArray s))
     (\<lambda>xs. if i < sLen s \<and> sOff s + i < length xs then retG (xs ! (sOff s + i)) else panicG index_out_of_range)"

definition set_elem :: "('c, 'a list) cell_type \<Rightarrow> slice \<Rightarrow> nat \<Rightarrow> 'a \<Rightarrow> ('c heap, unit) go" where
  "set_elem T s i v = bindG (deref T (sArray s))
     (\<lambda>xs. if i < sLen s \<and> sOff s + i < length xs then assign T (sArray s) (xs[sOff s + i := v]) else panicG index_out_of_range)"

section \<open>The shapes of the generated code\<close>

text \<open>\<open>if p != nil { ... }\<close> for a pointer or a slice that is copied as nil otherwise.\<close>

definition unless_nil :: "('a \<Rightarrow> ('c heap, 'b) go) \<Rightarrow> 'a option \<Rightarrow> ('c heap, 'b option) go" where
  "unless_nil f p = (case p of None \<Rightarrow> retG None | Some a \<Rightarrow> bindG (f a) (\<lambda>q. retG (Some q)))"

text \<open>\<open>q := new(T); (*p).DeepCopyInto(q)\<close>, and \<open>q := new(T); *q = *p\<close> when \<open>into\<close> is \<open>retG\<close>.\<close>

definition copy_new :: "('c, 'a) cell_type \<Rightarrow> ('a \<Rightarrow> ('c heap, 'a) go) \<Rightarrow> nat \<Rightarrow> ('c heap, nat) go" where
  "copy_new T into a = bindG (new T) (\<lambda>q. bindG (deref T a) (\<lambda>v. bindG (into v) (\<lambda>w.
     thenG (assign T q w) (retG q))))"

text \<open>\<open>q := make([]T, len(s)); for i := range s { s[i].DeepCopyInto(&q[i]) }\<close>.\<close>

definition copy_elem :: "('c, 'a list) cell_type \<Rightarrow> ('a \<Rightarrow> ('c heap, 'a) go) \<Rightarrow> slice \<Rightarrow> slice \<Rightarrow> nat \<Rightarrow> ('c heap, unit) go" where
  "copy_elem T into s q i = bindG (elem T s i) (\<lambda>x. bindG (into x) (set_elem T q i))"

definition copy_slice :: "('c, 'a list) cell_type \<Rightarrow> 'a \<Rightarrow> ('a \<Rightarrow> ('c heap, 'a) go) \<Rightarrow> slice \<Rightarrow> ('c heap, slice) go" where
  "copy_slice T z into s = bindG (make_slice T z (sLen s)) (\<lambda>q.
     thenG (forG (copy_elem T into s q) [0..<sLen s]) (retG q))"

section \<open>What a value behind pointers denotes, and where it lives\<close>

text \<open>For each: the value without pointers (None when a pointer is invalid) and the cells it is spread over.\<close>

definition read_ptr :: "('c, 'a) cell_type \<Rightarrow> ('a \<Rightarrow> 'c heap \<Rightarrow> 'v option) \<Rightarrow> nat \<Rightarrow> 'c heap \<Rightarrow> 'v option" where
  "read_ptr T R a h = Option.bind (peek T a h) (\<lambda>x. R x h)"

definition cells_ptr :: "('c, 'a) cell_type \<Rightarrow> ('a \<Rightarrow> 'c heap \<Rightarrow> nat set) \<Rightarrow> nat \<Rightarrow> 'c heap \<Rightarrow> nat set" where
  "cells_ptr T F a h = insert a (case peek T a h of None \<Rightarrow> {} | Some x \<Rightarrow> F x h)"

definition read_opt :: "('a \<Rightarrow> 'c heap \<Rightarrow> 'v option) \<Rightarrow> 'a option \<Rightarrow> 'c heap \<Rightarrow> 'v option option" where
  "read_opt R p h = (case p of None \<Rightarrow> Some None | Some a \<Rightarrow> map_option Some (R a h))"

definition cells_opt :: "('a \<Rightarrow> 'c heap \<Rightarrow> nat set) \<Rightarrow> 'a option \<Rightarrow> 'c heap \<Rightarrow> nat set" where
  "cells_opt F p h = (case p of None \<Rightarrow> {} | Some a \<Rightarrow> F a h)"

definition window :: "slice \<Rightarrow> 'a list \<Rightarrow> 'a list option" where
  "window s xs = (if sOff s + sLen s \<le> length xs then Some (map (\<lambda>i. xs ! (sOff s + i)) [0..<sLen s]) else None)"

definition read_slice :: "('c, 'a list) cell_type \<Rightarrow> ('a \<Rightarrow> 'c heap \<Rightarrow> 'v option) \<Rightarrow> slice \<Rightarrow> 'c heap \<Rightarrow> 'v list option" where
  "read_slice T R s h = Option.bind (peek T (sArray s) h)
     (\<lambda>xs. Option.bind (window s xs) (\<lambda>ys. those (map (\<lambda>y. R y h) ys)))"

definition cells_slice :: "('c, 'a list) cell_type \<Rightarrow> ('a \<Rightarrow> 'c heap \<Rightarrow> nat set) \<Rightarrow> slice \<Rightarrow> 'c heap \<Rightarrow> nat set" where
  "cells_slice T F s h = insert (sArray s)
     (case peek T (sArray s) h of None \<Rightarrow> {} | Some xs \<Rightarrow>
       (case window s xs of None \<Rightarrow> {} | Some ys \<Rightarrow> (\<Union>y \<in> set ys. F y h)))"

section \<open>The contract of a deep copy\<close>

definition heap_ok :: "'c heap \<Rightarrow> bool" where
  "heap_ok h \<longleftrightarrow> (\<forall>a. store h a \<noteq> None \<longrightarrow> a < next_addr h)"

text \<open>The heap got larger, and what was there is as it was.\<close>

definition grows :: "'c heap \<Rightarrow> 'c heap \<Rightarrow> bool" where
  "grows h h' \<longleftrightarrow> next_addr h \<le> next_addr h' \<and> (\<forall>a < next_addr h. store h' a = store h a) \<and> (heap_ok h \<longrightarrow> heap_ok h')"

text \<open>\<open>owned b\<close>: the value reads as \<open>v\<close> and lives in cells from \<open>b\<close> on.\<close>

definition owned :: "('x \<Rightarrow> 'c heap \<Rightarrow> 'v option) \<Rightarrow> ('x \<Rightarrow> 'c heap \<Rightarrow> nat set) \<Rightarrow> nat \<Rightarrow> 'v \<Rightarrow> 'x \<Rightarrow> 'c heap \<Rightarrow> bool" where
  "owned R F b v y h \<longleftrightarrow> R y h = Some v \<and> F y h \<subseteq> {b..<next_addr h}"

definition fresh_copy :: "('x \<Rightarrow> 'c heap \<Rightarrow> 'v option) \<Rightarrow> ('x \<Rightarrow> 'c heap \<Rightarrow> nat set) \<Rightarrow> ('c heap, 'x) go \<Rightarrow> 'v \<Rightarrow> 'c heap \<Rightarrow> bool" where
  "fresh_copy R F m v h \<longleftrightarrow> (\<exists>y h'. m h = (Ret y, h') \<and> grows h h' \<and> owned R F (next_addr h) v y h')"

locale copier =
  fixes read :: "'x \<Rightarrow> 'c heap \<Rightarrow> 'v option"
    and cells :: "'x \<Rightarrow> 'c heap \<Rightarrow> nat set"
    and copy :: "'x \<Rightarrow> ('c heap, 'x) go"
  assumes cells_old: "heap_ok h \<Longrightarrow> read x h = Some v \<Longrightarrow> cells x h \<subseteq> {..<next_addr h}"
    and frame: "read x h = Some v \<Longrightarrow> (\<forall>a \<in> cells x h. store h' a = store h a)
      \<Longrightarrow> read x h' = Some v \<and> cells x h' = cells x h"
    and copies: "heap_ok h \<Longrightarrow> read x h = Some v \<Longrightarrow> fresh_copy read cells (copy x) v h"

lemma grows_refl: "grows h h"
  by (simp add: grows_def)

lemma grows_trans: "grows h g \<Longrightarrow> grows g k \<Longrightarrow> grows h k"
  by (auto simp: grows_def)

lemma grows_ok: "grows h h' \<Longrightarrow> heap_ok h \<Longrightarrow> heap_ok h'"
  by (simp add: grows_def)

lemma grows_next: "grows h h' \<Longrightarrow> next_addr h \<le> next_addr h'"
  by (simp add: grows_def)

context copier begin

lemma cell_old: "heap_ok h \<Longrightarrow> read x h = Some v \<Longrightarrow> a \<in> cells x h \<Longrightarrow> a < next_addr h"
  using cells_old by blast

text \<open>A change of cells elsewhere is not seen.\<close>

lemma read_elsewhere:
  assumes "read x h = Some v" "a \<notin> cells x h" shows "read x (h\<lparr>store := (store h)(a := c)\<rparr>) = Some v"
  using frame [OF assms(1), of "h\<lparr>store := (store h)(a := c)\<rparr>"] assms(2) by auto

lemma read_grows:
  assumes "heap_ok h" "read x h = Some v" "grows h h'"
  shows "read x h' = Some v \<and> cells x h' = cells x h"
  using frame [OF assms(2), of h'] cells_old [OF assms(1,2)] assms(3) by (auto simp: grows_def)

lemma owned_frame:
  assumes "owned read cells b v y h" "\<forall>a. b \<le> a \<and> a < next_addr h \<longrightarrow> store h' a = store h a" "next_addr h \<le> next_addr h'"
  shows "owned read cells b v y h'"
proof -
  have r: "read y h = Some v" and sub: "cells y h \<subseteq> {b..<next_addr h}" using assms(1) by (simp_all add: owned_def)
  then have "\<forall>a \<in> cells y h. store h' a = store h a" using assms(2) by auto
  from frame [OF r this] sub assms(3) show ?thesis by (auto simp: owned_def)
qed

lemma owned_grows: "owned read cells b v y h \<Longrightarrow> grows h h' \<Longrightarrow> owned read cells b v y h'"
  by (rule owned_frame) (auto simp: grows_def)

text \<open>The contract in the middle of a larger copy: what is to be copied was there from the beginning.\<close>

lemma copies_later:
  assumes "heap_ok h0" "read x h0 = Some v" "grows h0 h"
  obtains y h' where "copy x h = (Ret y, h')" "grows h h'" "owned read cells (next_addr h) v y h'"
proof -
  have "heap_ok h" "read x h = Some v" using grows_ok [OF assms(3,1)] read_grows [OF assms] by simp_all
  from copies [OF this] obtain y h' where "copy x h = (Ret y, h')" "grows h h'" "owned read cells (next_addr h) v y h'"
    unfolding fresh_copy_def by blast
  then show ?thesis by (rule that)
qed

text \<open>The contract from the caller's side: an equal copy with cells of its own, and nothing that was there has changed.\<close>

lemma deep_copy:
  assumes "heap_ok h" "read x h = Some v"
  obtains y h' where "copy x h = (Ret y, h')" "grows h h'" "read y h' = Some v" "read x h' = Some v"
    "cells x h' \<inter> cells y h' = {}" "cells x h' = cells x h"
proof -
  from copies [OF assms] obtain y h' where c: "copy x h = (Ret y, h')" "grows h h'" "owned read cells (next_addr h) v y h'"
    unfolding fresh_copy_def by blast
  moreover note r = read_grows [OF assms c(2)]
  moreover have "cells x h' \<inter> cells y h' = {}" using cells_old [OF assms] c(3) r by (fastforce simp: owned_def)
  ultimately show ?thesis using that [of y h'] by (simp add: owned_def)
qed

end

text \<open>\<open>g\<close> is \<open>h\<close> with other values in some of the cells \<open>A\<close>.\<close>

definition changed_in :: "nat set \<Rightarrow> 'c heap \<Rightarrow> 'c heap \<Rightarrow> bool" where
  "changed_in A h g \<longleftrightarrow> (\<forall>a. a \<notin> A \<longrightarrow> store g a = store h a)"

context copier begin

lemma not_seen: "read x h = Some v \<Longrightarrow> changed_in A h g \<Longrightarrow> cells x h \<inter> A = {} \<Longrightarrow> read x g = Some v"
  using frame [of x h v g] by (auto simp: changed_in_def)

end

lemma owned_mono: "owned R F b v y h \<Longrightarrow> b' \<le> b \<Longrightarrow> owned R F b' v y h"
  by (auto simp: owned_def)

section \<open>Closure of the contract\<close>

text \<open>Values without pointers: the copy is the value.\<close>

lemma copier_value: "copier (\<lambda>x h. Some x) (\<lambda>x h. {}) retG"
  by unfold_locales (auto simp: fresh_copy_def owned_def grows_refl)

lemma peek_frame: "store h' a = store h a \<Longrightarrow> peek T a h' = peek T a h"
  by (simp add: peek_def)

lemma peek_old: "heap_ok h \<Longrightarrow> peek T a h = Some v \<Longrightarrow> a < next_addr h"
  by (cases "store h a") (auto simp: heap_ok_def peek_def)

text \<open>Allocation, and assignment to a cell that was not there at the beginning.\<close>

lemma alloc_run: "alloc c h = (Ret (next_addr h), h\<lparr>store := (store h)(next_addr h \<mapsto> c), next_addr := Suc (next_addr h)\<rparr>)"
  by (simp add: alloc_def)

lemma alloc_grows: "alloc c h = (Ret q, h') \<Longrightarrow> grows h h' \<and> q = next_addr h \<and> next_addr h' = Suc q \<and> store h' q = Some c"
  by (auto simp: alloc_def grows_def heap_ok_def less_Suc_eq)

lemma assign_grows: "grows h h' \<Longrightarrow> next_addr h \<le> q \<Longrightarrow> q < next_addr h' \<Longrightarrow> grows h (snd (assign T q v h'))"
  by (auto simp: grows_def assign_def heap_ok_def)

lemma deref_run: "peek T a h = Some v \<Longrightarrow> deref T a h = (Ret v, h)"
  by (simp add: deref_def)

lemma copier_opt:
  assumes "copier R F c" shows "copier (read_opt R) (cells_opt F) (unless_nil c)"
proof
  show "heap_ok h \<Longrightarrow> read_opt R p h = Some v \<Longrightarrow> cells_opt F p h \<subseteq> {..<next_addr h}" for p h v
    using copier.cells_old [OF assms] by (auto simp: read_opt_def cells_opt_def split: option.splits)
  show "read_opt R p h = Some v \<Longrightarrow> \<forall>a\<in>cells_opt F p h. store h' a = store h a
      \<Longrightarrow> read_opt R p h' = Some v \<and> cells_opt F p h' = cells_opt F p h" for p h h' v
    using copier.frame [OF assms, of _ h _ h'] by (cases p) (auto simp: read_opt_def cells_opt_def)
next
  fix p h v assume h: "heap_ok h" and r: "read_opt R p h = Some v"
  show "fresh_copy (read_opt R) (cells_opt F) (unless_nil c p) v h"
  proof (cases p)
    case None
    then show ?thesis
      using r by (simp add: fresh_copy_def owned_def read_opt_def cells_opt_def unless_nil_def grows_refl)
  next
    case (Some x)
    with r obtain u where u: "R x h = Some u" "v = Some u" by (auto simp: read_opt_def)
    obtain y h' where y: "c x h = (Ret y, h')" "grows h h'" "owned R F (next_addr h) u y h'"
      using copier.copies_later [OF assms h u(1) grows_refl] .
    then have "owned (read_opt R) (cells_opt F) (next_addr h) v (Some y) h'"
      by (simp add: owned_def read_opt_def cells_opt_def u)
    then show ?thesis using y Some by (auto simp: fresh_copy_def unless_nil_def bindG_run)
  qed
qed

lemma copier_ptr:
  assumes c: "copier R F c" and T: "lawful T"
  shows "copier (read_ptr T R) (cells_ptr T F) (copy_new T c)"
proof
  show "heap_ok h \<Longrightarrow> read_ptr T R a h = Some v \<Longrightarrow> cells_ptr T F a h \<subseteq> {..<next_addr h}" for a h v
    using copier.cell_old [OF c, of h] peek_old [of h T a]
    by (auto simp: read_ptr_def cells_ptr_def bind_eq_Some_conv split: option.splits)
  show "read_ptr T R a h = Some v \<Longrightarrow> \<forall>b\<in>cells_ptr T F a h. store h' b = store h b
      \<Longrightarrow> read_ptr T R a h' = Some v \<and> cells_ptr T F a h' = cells_ptr T F a h" for a h h' v
    using copier.frame [OF c, of _ h _ h'] peek_frame [of h' a h T]
    by (auto simp: read_ptr_def cells_ptr_def bind_eq_Some_conv)
next
  fix a h v assume h: "heap_ok h" and r: "read_ptr T R a h = Some v"
  then obtain x where x: "peek T a h = Some x" "R x h = Some v" by (auto simp: read_ptr_def bind_eq_Some_conv)
  obtain q h1 where q: "new T h = (Ret q, h1)" unfolding new_def alloc_run by blast
  have g1: "grows h h1" "q = next_addr h" "next_addr h1 = Suc q"
    using alloc_grows [OF q [unfolded new_def]] by simp_all
  have x1: "peek T a h1 = Some x"
    using g1(1) x(1) peek_old [OF h x(1)] peek_frame [of h1 a h T] by (simp add: grows_def)
  obtain y h2 where y: "c x h1 = (Ret y, h2)" "grows h1 h2" and o: "owned R F (next_addr h1) v y h2"
    using copier.copies_later [OF c h x(2) g1(1)] .
  let ?h = "snd (assign T q y h2)"
  have g: "grows h ?h" using assign_grows [OF grows_trans [OF g1(1) y(2)], of q] g1 grows_next [OF y(2)] by simp
  have p: "peek T q ?h = Some y" using T by (simp add: peek_def assign_def lawful_def)
  have "owned R F (Suc q) v y ?h"
    by (rule copier.owned_frame [OF c o [unfolded g1(3)]]) (auto simp: assign_def)
  moreover have "q < next_addr ?h" using g1(3) grows_next [OF y(2)] by (simp add: assign_def)
  ultimately have "owned (read_ptr T R) (cells_ptr T F) q v q ?h"
    using p by (fastforce simp: owned_def read_ptr_def cells_ptr_def)
  moreover have "copy_new T c a h = (Ret q, ?h)"
    by (simp add: copy_new_def bindG_run thenG_run q deref_run [OF x1] y(1) assign_def)
  ultimately show "fresh_copy (read_ptr T R) (cells_ptr T F) (copy_new T c a) v h"
    using g g1(2) by (auto simp: fresh_copy_def)
qed

text \<open>Two fields, and a struct some of whose fields are copied and then set in the copy of the rest.\<close>

definition read_pair :: "('x \<Rightarrow> 'c heap \<Rightarrow> 'v option) \<Rightarrow> ('y \<Rightarrow> 'c heap \<Rightarrow> 'w option) \<Rightarrow> 'x \<times> 'y \<Rightarrow> 'c heap \<Rightarrow> ('v \<times> 'w) option" where
  "read_pair R S p h = Option.bind (R (fst p) h) (\<lambda>v. map_option (Pair v) (S (snd p) h))"

definition cells_pair :: "('x \<Rightarrow> 'c heap \<Rightarrow> nat set) \<Rightarrow> ('y \<Rightarrow> 'c heap \<Rightarrow> nat set) \<Rightarrow> 'x \<times> 'y \<Rightarrow> 'c heap \<Rightarrow> nat set" where
  "cells_pair F G p h = F (fst p) h \<union> G (snd p) h"

definition copy_pair :: "('x \<Rightarrow> ('c heap, 'x) go) \<Rightarrow> ('y \<Rightarrow> ('c heap, 'y) go) \<Rightarrow> 'x \<times> 'y \<Rightarrow> ('c heap, 'x \<times> 'y) go" where
  "copy_pair c d p = bindG (c (fst p)) (\<lambda>x. bindG (d (snd p)) (\<lambda>y. retG (x, y)))"

lemma copier_pair:
  assumes c: "copier R F c" and d: "copier S G d"
  shows "copier (read_pair R S) (cells_pair F G) (copy_pair c d)"
proof
  show "heap_ok h \<Longrightarrow> read_pair R S p h = Some v \<Longrightarrow> cells_pair F G p h \<subseteq> {..<next_addr h}" for p h v
    using copier.cell_old [OF c, of h] copier.cell_old [OF d, of h]
    by (auto simp: read_pair_def cells_pair_def bind_eq_Some_conv)
  show "read_pair R S p h = Some v \<Longrightarrow> \<forall>a\<in>cells_pair F G p h. store h' a = store h a
      \<Longrightarrow> read_pair R S p h' = Some v \<and> cells_pair F G p h' = cells_pair F G p h" for p h h' v
    using copier.frame [OF c, of "fst p" h _ h'] copier.frame [OF d, of "snd p" h _ h']
    by (auto simp: read_pair_def cells_pair_def bind_eq_Some_conv)
next
  fix p h v assume h: "heap_ok h" and r: "read_pair R S p h = Some v"
  then obtain u w where v: "v = (u, w)" "R (fst p) h = Some u" "S (snd p) h = Some w"
    by (auto simp: read_pair_def bind_eq_Some_conv)
  obtain x h1 where x: "c (fst p) h = (Ret x, h1)" "grows h h1" and ox: "owned R F (next_addr h) u x h1"
    using copier.copies_later [OF c h v(2) grows_refl] .
  obtain y h2 where y: "d (snd p) h1 = (Ret y, h2)" "grows h1 h2" and oy: "owned S G (next_addr h1) w y h2"
    using copier.copies_later [OF d h v(3) x(2)] .
  have "owned R F (next_addr h) u x h2" by (rule copier.owned_grows [OF c ox y(2)])
  moreover have "owned S G (next_addr h) w y h2" by (rule owned_mono [OF oy grows_next [OF x(2)]])
  ultimately have "owned (read_pair R S) (cells_pair F G) (next_addr h) v (x, y) h2"
    by (auto simp: owned_def read_pair_def cells_pair_def v(1))
  then show "fresh_copy (read_pair R S) (cells_pair F G) (copy_pair c d p) v h"
    using grows_trans [OF x(2) y(2)] by (auto simp: fresh_copy_def copy_pair_def bindG_run x y)
qed

definition read_struct :: "('s \<Rightarrow> 'x) \<Rightarrow> ('s \<Rightarrow> 'v \<Rightarrow> 'w) \<Rightarrow> ('x \<Rightarrow> 'c heap \<Rightarrow> 'v option) \<Rightarrow> 's \<Rightarrow> 'c heap \<Rightarrow> 'w option" where
  "read_struct parts val R s h = map_option (val s) (R (parts s) h)"

definition copy_struct :: "('s \<Rightarrow> 'x) \<Rightarrow> ('s \<Rightarrow> 'x \<Rightarrow> 's) \<Rightarrow> ('x \<Rightarrow> ('c heap, 'x) go) \<Rightarrow> 's \<Rightarrow> ('c heap, 's) go" where
  "copy_struct parts put c s = bindG (c (parts s)) (\<lambda>x. retG (put s x))"

lemma copier_struct:
  assumes c: "copier R F c" and put: "\<And>s x. parts (put s x) = x" and val: "\<And>s x. val (put s x) = val s"
  shows "copier (read_struct parts val R) (\<lambda>s. F (parts s)) (copy_struct parts put c)"
proof
  show "heap_ok h \<Longrightarrow> read_struct parts val R s h = Some v \<Longrightarrow> F (parts s) h \<subseteq> {..<next_addr h}" for s h v
    using copier.cells_old [OF c, of h] by (auto simp: read_struct_def)
  show "read_struct parts val R s h = Some v \<Longrightarrow> \<forall>a\<in>F (parts s) h. store h' a = store h a
      \<Longrightarrow> read_struct parts val R s h' = Some v \<and> F (parts s) h' = F (parts s) h" for s h h' v
    using copier.frame [OF c, of "parts s" h _ h'] by (auto simp: read_struct_def)
  show "heap_ok h \<Longrightarrow> read_struct parts val R s h = Some v
      \<Longrightarrow> fresh_copy (read_struct parts val R) (\<lambda>s. F (parts s)) (copy_struct parts put c s) v h" for s h v
    using copier.copies [OF c, of h "parts s"]
    by (fastforce simp: read_struct_def fresh_copy_def owned_def copy_struct_def bindG_run put val)
qed

text \<open>Slices: element by element into a new array.\<close>

lemma those_Some: "those xs = Some ys \<longleftrightarrow> xs = map Some ys"
  by (induction xs arbitrary: ys) (auto split: option.splits)

lemma read_slice_Some:
  "read_slice T R s h = Some vs \<longleftrightarrow> (\<exists>xs. peek T (sArray s) h = Some xs \<and> sOff s + sLen s \<le> length xs
     \<and> length vs = sLen s \<and> (\<forall>i < sLen s. R (xs ! (sOff s + i)) h = Some (vs ! i)))"
proof -
  have "those (map ((\<lambda>y. R y h) \<circ> (\<lambda>i. xs ! (sOff s + i))) [0..<sLen s]) = Some vs
      \<longleftrightarrow> length vs = sLen s \<and> (\<forall>i < sLen s. R (xs ! (sOff s + i)) h = Some (vs ! i))" for xs
    by (auto simp: those_Some list_eq_iff_nth_eq)
  then show ?thesis by (auto simp: read_slice_def bind_eq_Some_conv window_def)
qed

lemma cells_slice_window:
  assumes "peek T (sArray s) h = Some xs" "sOff s + sLen s \<le> length xs"
  shows "cells_slice T F s h = insert (sArray s) (\<Union>i \<in> {..<sLen s}. F (xs ! (sOff s + i)) h)"
  using assms by (auto simp: cells_slice_def window_def)

definition slice_inv :: "('c, 'a list) cell_type \<Rightarrow> ('a \<Rightarrow> 'c heap \<Rightarrow> 'v option) \<Rightarrow> ('a \<Rightarrow> 'c heap \<Rightarrow> nat set)
    \<Rightarrow> 'c heap \<Rightarrow> 'v list \<Rightarrow> nat \<Rightarrow> 'c heap \<Rightarrow> bool" where
  "slice_inv T R F h0 vs i h \<longleftrightarrow> grows h0 h \<and> next_addr h0 < next_addr h
     \<and> (\<exists>ys. peek T (next_addr h0) h = Some ys \<and> length ys = length vs
          \<and> (\<forall>j < i. owned R F (Suc (next_addr h0)) (vs ! j) (ys ! j) h))"

lemma slice_step:
  assumes c: "copier R F c" and T: "lawful T" and h: "heap_ok h0" and r: "read_slice T R s h0 = Some vs"
    and inv: "slice_inv T R F h0 vs i h" and i: "i < length vs"
  shows "\<exists>h'. copy_elem T c s \<lparr>sArray = next_addr h0, sOff = 0, sLen = length vs\<rparr> i h = (Ret (), h') \<and> slice_inv T R F h0 vs (Suc i) h'"
proof -
  let ?q = "next_addr h0"
  from r obtain xs where xs: "peek T (sArray s) h0 = Some xs" "sOff s + sLen s \<le> length xs"
    "length vs = sLen s" "\<forall>i < sLen s. R (xs ! (sOff s + i)) h0 = Some (vs ! i)" by (auto simp: read_slice_Some)
  from inv obtain ys where g: "grows h0 h" "?q < next_addr h" and ys: "peek T ?q h = Some ys" "length ys = length vs"
    and o: "\<forall>j < i. owned R F (Suc ?q) (vs ! j) (ys ! j) h" by (auto simp: slice_inv_def)
  have xs': "peek T (sArray s) h = Some xs"
    using g(1) xs(1) peek_old [OF h xs(1)] peek_frame [of h "sArray s" h0 T] by (simp add: grows_def)
  obtain y h1 where y: "c (xs ! (sOff s + i)) h = (Ret y, h1)" "grows h h1" and oy: "owned R F (next_addr h) (vs ! i) y h1"
    using copier.copies_later [OF c h _ g(1)] xs(3,4) i by metis
  have ys1: "peek T ?q h1 = Some ys" using ys(1) y(2) g(2) peek_frame [of h1 ?q h T] by (simp add: grows_def)
  let ?h = "snd (assign T ?q (ys[i := y]) h1)"
  have run: "copy_elem T c s \<lparr>sArray = ?q, sOff = 0, sLen = length vs\<rparr> i h = (Ret (), ?h)"
    using i xs(2,3) ys(2) by (simp add: copy_elem_def elem_def set_elem_def bindG_run deref_run [OF xs'] y(1) deref_run [OF ys1] assign_def)
  have keep: "owned R F (Suc ?q) v z ?h" if "owned R F (Suc ?q) v z h1" for v z
    by (rule copier.owned_frame [OF c that]) (auto simp: assign_def)
  have "owned R F (Suc ?q) (vs ! j) (ys[i := y] ! j) ?h" if "j < Suc i" for j
  proof (cases "j = i")
    case True
    then show ?thesis using keep owned_mono [OF oy] g(2) i ys(2) by simp
  next
    case False
    then show ?thesis using keep copier.owned_grows [OF c _ y(2)] o that by simp
  qed
  moreover have "peek T ?q ?h = Some (ys[i := y])" using T by (simp add: peek_def assign_def lawful_def)
  moreover have "grows h0 ?h" "?q < next_addr ?h"
    using assign_grows [OF grows_trans [OF g(1) y(2)], of ?q] g(2) grows_next [OF y(2)] by (simp_all add: assign_def)
  ultimately have "slice_inv T R F h0 vs (Suc i) ?h" using ys(2) by (auto simp: slice_inv_def)
  then show ?thesis using run by blast
qed

lemma slice_loop:
  assumes "copier R F c" "lawful T" "heap_ok h0" "read_slice T R s h0 = Some vs"
    and "slice_inv T R F h0 vs i h" "i \<le> length vs"
  shows "\<exists>h'. forG (copy_elem T c s \<lparr>sArray = next_addr h0, sOff = 0, sLen = length vs\<rparr>) [i..<length vs] h = (Ret (), h')
    \<and> slice_inv T R F h0 vs (length vs) h'"
  using assms(5,6)
proof (induction "length vs - i" arbitrary: i h)
  case 0
  then show ?case by simp
next
  case (Suc k)
  then have i: "i < length vs" by simp
  from slice_step [OF assms(1-4) Suc.prems(1) i] obtain h' where
    "copy_elem T c s \<lparr>sArray = next_addr h0, sOff = 0, sLen = length vs\<rparr> i h = (Ret (), h')" "slice_inv T R F h0 vs (Suc i) h'" by blast
  then show ?case using Suc.hyps(1) [of "Suc i" h'] Suc.hyps(2) i by (simp add: upt_conv_Cons thenG_run)
qed

lemma copier_slice:
  fixes T :: "('a, 'b list) cell_type"
  assumes c: "copier R F c" and T: "lawful T"
  shows "copier (read_slice T R) (cells_slice T F) (copy_slice T z c)"
proof
  fix s h v assume h: "heap_ok h" and r: "read_slice T R s h = Some v"
  then show "cells_slice T F s h \<subseteq> {..<next_addr h}"
    using copier.cell_old [OF c h] peek_old [OF h, of T "sArray s"]
    by (fastforce simp: read_slice_Some cells_slice_window)
next
  fix s h v and h' :: "'a heap" assume r: "read_slice T R s h = Some v" and a: "\<forall>a\<in>cells_slice T F s h. store h' a = store h a"
  from r obtain xs where xs: "peek T (sArray s) h = Some xs" "sOff s + sLen s \<le> length xs"
    "length v = sLen s" "\<forall>i < sLen s. R (xs ! (sOff s + i)) h = Some (v ! i)" by (auto simp: read_slice_Some)
  note a = a [unfolded cells_slice_window [OF xs(1,2)]]
  have p: "peek T (sArray s) h' = Some xs" using a xs(1) peek_frame [of h' "sArray s" h T] by simp
  have "R (xs ! (sOff s + i)) h' = Some (v ! i) \<and> F (xs ! (sOff s + i)) h' = F (xs ! (sOff s + i)) h" if "i < sLen s" for i
    using copier.frame [OF c, of "xs ! (sOff s + i)" h "v ! i" h'] xs(4) a that by auto
  then show "read_slice T R s h' = Some v \<and> cells_slice T F s h' = cells_slice T F s h"
    using xs p by (simp add: read_slice_Some cells_slice_window)
next
  fix s h vs assume h: "heap_ok h" and r: "read_slice T R s h = Some vs"
  have n: "sLen s = length vs" using r by (auto simp: read_slice_Some)
  obtain h1 where a: "alloc (wrap T (replicate (length vs) z)) h = (Ret (next_addr h), h1)"
    and g1: "grows h h1" "next_addr h1 = Suc (next_addr h)" "store h1 (next_addr h) = Some (wrap T (replicate (length vs) z))"
    using alloc_run alloc_grows by metis
  have "slice_inv T R F h vs 0 h1"
    using g1 T by (simp add: slice_inv_def peek_def lawful_def)
  from slice_loop [OF c T h r this] obtain h' where
    l: "forG (copy_elem T c s \<lparr>sArray = next_addr h, sOff = 0, sLen = length vs\<rparr>) [0..<length vs] h1 = (Ret (), h')"
    and inv: "slice_inv T R F h vs (length vs) h'" by auto
  let ?s = "\<lparr>sArray = next_addr h, sOff = 0, sLen = length vs\<rparr>"
  from inv obtain ys where g: "grows h h'" "next_addr h < next_addr h'" and ys: "peek T (next_addr h) h' = Some ys" "length ys = length vs"
    and o: "\<forall>j < length vs. owned R F (Suc (next_addr h)) (vs ! j) (ys ! j) h'" by (auto simp: slice_inv_def)
  have "owned (read_slice T R) (cells_slice T F) (next_addr h) vs ?s h'"
    using g ys o by (fastforce simp: owned_def read_slice_Some cells_slice_window)
  moreover have "copy_slice T z c s h = (Ret ?s, h')"
    by (simp add: copy_slice_def make_slice_def bindG_run thenG_run n a l)
  ultimately show "fresh_copy (read_slice T R) (cells_slice T F) (copy_slice T z c s) vs h"
    using g by (auto simp: fresh_copy_def)
qed


end
