(* ===== verification/Deep_Copy.thy ===== *)
theory Deep_Copy
  imports Go_Heap Api_Types
begin

text \<open>
  src/api/v1alpha1/zz_generated.deepcopy.go: DeepCopyInto and DeepCopy of the resource's types,
  on structs as they lie in memory. A record \<open>..._mem\<close> has the fields of the Go struct, with an
  address for a pointer and a slice header for a slice; the records of Api_Types are what such
  a struct denotes.

  DeepCopyInto gets the struct behind its receiver and results in the struct behind \<open>out\<close>:
  every one starts with \<open>*out = *in\<close>, so what was there before does not matter. DeepCopy gets a
  pointer. A pointer into a larger object (\<open>(&hc.Spec).DeepCopy()\<close>) is modelled as a pointer to
  a cell of its own. ObjectMeta, ListMeta, PolicyRule and Time are types of the Kubernetes
  libraries: their structs are type parameters and their copy functions the record \<open>copy_lib\<close>.
\<close>

section \<open>Structs in memory\<close>

record url_artifact_mem =
  uPath :: string
  uVerifyCert :: "nat option"

record artifact_location_mem =
  aInline :: "nat option"
  aFile :: "nat option"
  aURL :: "nat option"

record resource_object_mem =
  oNamespace :: string
  oServiceAccount :: string
  oSource :: artifact_location_mem

record workflow_mem =
  wGenerateName :: string
  wResource :: "nat option"
  wTimeout :: int
  wRBACRules :: "slice option"

type_synonym remedy_workflow_mem = workflow_mem

record health_check_spec_mem =
  pRepeatAfterSec :: int
  pDescription :: string
  pWorkflow :: workflow_mem
  pLevel :: string
  pSchedule :: schedule_spec
  pRemedyWorkflow :: remedy_workflow_mem
  pBackoffFactor :: string
  pBackoffMax :: int
  pBackoffMin :: int
  pRemedyRunsLimit :: int
  pRemedyResetInterval :: int

record health_check_status_mem =
  tErrorMessage :: string
  tRemedyErrorMessage :: string
  tStartedAt :: "nat option"
  tFinishedAt :: "nat option"
  tLastFailedAt :: "nat option"
  tRemedyStartedAt :: "nat option"
  tRemedyFinishedAt :: "nat option"
  tRemedyLastFailedAt :: "nat option"
  tLastFailedWorkflow :: string
  tLastSuccessfulWorkflow :: string
  tSuccessCount :: int
  tFailedCount :: int
  tRemedySuccessCount :: int
  tRemedyFailedCount :: int
  tRemedyTotalRuns :: int
  tTotalHealthCheckRuns :: int
  tStatus :: string
  tRemedyStatus :: string

record type_meta =
  tyKind :: string
  tyAPIVersion :: string

record 'm health_check_mem =
  cTypeMeta :: type_meta
  cObjectMeta :: 'm
  cSpec :: health_check_spec_mem
  cStatus :: health_check_status_mem

record 'l health_check_list_mem =
  lTypeMeta :: type_meta
  lListMeta :: 'l
  lItems :: "slice option"

text \<open>
  The cells: one constructor per type that has cells of its own. \<open>'m\<close>, \<open>'l\<close>, \<open>'r\<close> are the
  library's structs ObjectMeta, ListMeta and PolicyRule, \<open>'k\<close> the cells their pointers lead to.
\<close>

datatype ('m, 'l, 'r, 'k) cell =
    CString string
  | CBool bool
  | CTime time
  | CFile file_artifact
  | CURL url_artifact_mem
  | CLocation artifact_location_mem
  | CResource resource_object_mem
  | CRules "'r list"
  | CSchedule schedule_spec
  | CWorkflow workflow_mem
  | CRemedy remedy_workflow_mem
  | CSpec health_check_spec_mem
  | CStatus health_check_status_mem
  | CHealthCheck "'m health_check_mem"
  | CItems "'m health_check_mem list"
  | CList "'l health_check_list_mem"
  | CLibrary 'k

type_synonym ('m, 'l, 'r, 'k) mem = "('m, 'l, 'r, 'k) cell heap"

record ('m, 'l, 'r, 'k) copy_lib =
  ObjectMeta_DeepCopy :: "'m \<Rightarrow> (('m, 'l, 'r, 'k) mem, 'm) go"
  ListMeta_DeepCopy :: "'l \<Rightarrow> (('m, 'l, 'r, 'k) mem, 'l) go"
  PolicyRule_DeepCopy :: "'r \<Rightarrow> (('m, 'l, 'r, 'k) mem, 'r) go"
  Time_DeepCopy :: "nat \<Rightarrow> (('m, 'l, 'r, 'k) mem, nat) go"
  zero_ObjectMeta :: 'm
  zero_ListMeta :: 'l
  zero_PolicyRule :: 'r

section \<open>Zero values and cell types\<close>

definition zero_url :: url_artifact_mem where
  "zero_url = \<lparr>uPath = [], uVerifyCert = None\<rparr>"

definition zero_location :: artifact_location_mem where
  "zero_location = \<lparr>aInline = None, aFile = None, aURL = None\<rparr>"

definition zero_resource :: resource_object_mem where
  "zero_resource = \<lparr>oNamespace = [], oServiceAccount = [], oSource = zero_location\<rparr>"

definition zero_workflow_mem :: workflow_mem where
  "zero_workflow_mem = \<lparr>wGenerateName = [], wResource = None, wTimeout = 0, wRBACRules = None\<rparr>"

definition zero_spec_mem :: health_check_spec_mem where
  "zero_spec_mem = \<lparr>pRepeatAfterSec = 0, pDescription = [], pWorkflow = zero_workflow_mem, pLevel = [],
     pSchedule = \<lparr>Cron = []\<rparr>, pRemedyWorkflow = zero_workflow_mem, pBackoffFactor = [], pBackoffMax = 0,
     pBackoffMin = 0, pRemedyRunsLimit = 0, pRemedyResetInterval = 0\<rparr>"

definition zero_status_mem :: health_check_status_mem where
  "zero_status_mem = \<lparr>tErrorMessage = [], tRemedyErrorMessage = [], tStartedAt = None, tFinishedAt = None,
     tLastFailedAt = None, tRemedyStartedAt = None, tRemedyFinishedAt = None, tRemedyLastFailedAt = None,
     tLastFailedWorkflow = [], tLastSuccessfulWorkflow = [], tSuccessCount = 0, tFailedCount = 0,
     tRemedySuccessCount = 0, tRemedyFailedCount = 0, tRemedyTotalRuns = 0, tTotalHealthCheckRuns = 0,
     tStatus = [], tRemedyStatus = []\<rparr>"

definition zero_type_meta :: type_meta where
  "zero_type_meta = \<lparr>tyKind = [], tyAPIVersion = []\<rparr>"

definition zero_health_check_mem :: "('m, 'l, 'r, 'k) copy_lib \<Rightarrow> 'm health_check_mem" where
  "zero_health_check_mem L = \<lparr>cTypeMeta = zero_type_meta, cObjectMeta = zero_ObjectMeta L,
     cSpec = zero_spec_mem, cStatus = zero_status_mem\<rparr>"

definition zero_list_mem :: "('m, 'l, 'r, 'k) copy_lib \<Rightarrow> 'l health_check_list_mem" where
  "zero_list_mem L = \<lparr>lTypeMeta = zero_type_meta, lListMeta = zero_ListMeta L, lItems = None\<rparr>"

text \<open>For each type with cells of its own: its cells, and what \<open>new\<close> puts there.\<close>

definition StringT :: "(('m, 'l, 'r, 'k) cell, string) cell_type" where
  "StringT = \<lparr>wrap = CString, unwrap = (\<lambda>c. case c of CString x \<Rightarrow> Some x | _ \<Rightarrow> None), zero_value = []\<rparr>"

definition BoolT :: "(('m, 'l, 'r, 'k) cell, bool) cell_type" where
  "BoolT = \<lparr>wrap = CBool, unwrap = (\<lambda>c. case c of CBool x \<Rightarrow> Some x | _ \<Rightarrow> None), zero_value = False\<rparr>"

definition TimeT :: "(('m, 'l, 'r, 'k) cell, time) cell_type" where
  "TimeT = \<lparr>wrap = CTime, unwrap = (\<lambda>c. case c of CTime x \<Rightarrow> Some x | _ \<Rightarrow> None), zero_value = zeroTime\<rparr>"

definition FileT :: "(('m, 'l, 'r, 'k) cell, file_artifact) cell_type" where
  "FileT = \<lparr>wrap = CFile, unwrap = (\<lambda>c. case c of CFile x \<Rightarrow> Some x | _ \<Rightarrow> None), zero_value = \<lparr>FilePath = []\<rparr>\<rparr>"

definition URLT :: "(('m, 'l, 'r, 'k) cell, url_artifact_mem) cell_type" where
  "URLT = \<lparr>wrap = CURL, unwrap = (\<lambda>c. case c of CURL x \<Rightarrow> Some x | _ \<Rightarrow> None), zero_value = zero_url\<rparr>"

definition LocationT :: "(('m, 'l, 'r, 'k) cell, artifact_location_mem) cell_type" where
  "LocationT = \<lparr>wrap = CLocation, unwrap = (\<lambda>c. case c of CLocation x \<Rightarrow> Some x | _ \<Rightarrow> None), zero_value = zero_location\<rparr>"

definition ResourceT :: "(('m, 'l, 'r, 'k) cell, resource_object_mem) cell_type" where
  "ResourceT = \<lparr>wrap = CResource, unwrap = (\<lambda>c. case c of CResource x \<Rightarrow> Some x | _ \<Rightarrow> None), zero_value = zero_resource\<rparr>"

definition RulesT :: "(('m, 'l, 'r, 'k) cell, 'r list) cell_type" where
  "RulesT = \<lparr>wrap = CRules, unwrap = (\<lambda>c. case c of CRules x \<Rightarrow> Some x | _ \<Rightarrow> None), zero_value = []\<rparr>"

definition ScheduleT :: "(('m, 'l, 'r, 'k) cell, schedule_spec) cell_type" where
  "ScheduleT = \<lparr>wrap = CSchedule, unwrap = (\<lambda>c. case c of CSchedule x \<Rightarrow> Some x | _ \<Rightarrow> None), zero_value = \<lparr>Cron = []\<rparr>\<rparr>"

definition WorkflowT :: "(('m, 'l, 'r, 'k) cell, workflow_mem) cell_type" where
  "WorkflowT = \<lparr>wrap = CWorkflow, unwrap = (\<lambda>c. case c of CWorkflow x \<Rightarrow> Some x | _ \<Rightarrow> None), zero_value = zero_workflow_mem\<rparr>"

definition RemedyT :: "(('m, 'l, 'r, 'k) cell, remedy_workflow_mem) cell_type" where
  "RemedyT = \<lparr>wrap = CRemedy, unwrap = (\<lambda>c. case c of CRemedy x \<Rightarrow> Some x | _ \<Rightarrow> None), zero_value = zero_workflow_mem\<rparr>"

definition SpecT :: "(('m, 'l, 'r, 'k) cell, health_check_spec_mem) cell_type" where
  "SpecT = \<lparr>wrap = CSpec, unwrap = (\<lambda>c. case c of CSpec x \<Rightarrow> Some x | _ \<Rightarrow> None), zero_value = zero_spec_mem\<rparr>"

definition StatusT :: "(('m, 'l, 'r, 'k) cell, health_check_status_mem) cell_type" where
  "StatusT = \<lparr>wrap = CStatus, unwrap = (\<lambda>c. case c of CStatus x \<Rightarrow> Some x | _ \<Rightarrow> None), zero_value = zero_status_mem\<rparr>"

definition HealthCheckT :: "('m, 'l, 'r, 'k) copy_lib \<Rightarrow> (('m, 'l, 'r, 'k) cell, 'm health_check_mem) cell_type" where
  "HealthCheckT L = \<lparr>wrap = CHealthCheck, unwrap = (\<lambda>c. case c of CHealthCheck x \<Rightarrow> Some x | _ \<Rightarrow> None), zero_value = zero_health_check_mem L\<rparr>"

definition ItemsT :: "(('m, 'l, 'r, 'k) cell, 'm health_check_mem list) cell_type" where
  "ItemsT = \<lparr>wrap = CItems, unwrap = (\<lambda>c. case c of CItems x \<Rightarrow> Some x | _ \<Rightarrow> None), zero_value = []\<rparr>"

definition ListT :: "('m, 'l, 'r, 'k) copy_lib \<Rightarrow> (('m, 'l, 'r, 'k) cell, 'l health_check_list_mem) cell_type" where
  "ListT L = \<lparr>wrap = CList, unwrap = (\<lambda>c. case c of CList x \<Rightarrow> Some x | _ \<Rightarrow> None), zero_value = zero_list_mem L\<rparr>"

lemmas cell_type_defs =
  StringT_def BoolT_def TimeT_def FileT_def URLT_def LocationT_def ResourceT_def RulesT_def ScheduleT_def WorkflowT_def RemedyT_def SpecT_def StatusT_def HealthCheckT_def ItemsT_def ListT_def

lemma lawful_cell_types [simp]:
  "lawful StringT" "lawful BoolT" "lawful TimeT" "lawful FileT" "lawful URLT" "lawful LocationT" "lawful ResourceT" "lawful RulesT" "lawful ScheduleT" "lawful WorkflowT" "lawful RemedyT" "lawful SpecT" "lawful StatusT" "lawful (HealthCheckT L)" "lawful ItemsT" "lawful (ListT L)"
  by (simp_all add: lawful_def cell_type_defs)

section \<open>DeepCopyInto and DeepCopy\<close>

definition FileArtifact_DeepCopyInto :: "file_artifact \<Rightarrow> (('m, 'l, 'r, 'k) mem, file_artifact) go" where
  "FileArtifact_DeepCopyInto i = retG i"

definition ScheduleSpec_DeepCopyInto :: "schedule_spec \<Rightarrow> (('m, 'l, 'r, 'k) mem, schedule_spec) go" where
  "ScheduleSpec_DeepCopyInto i = retG i"

definition URLArtifact_DeepCopyInto :: "url_artifact_mem \<Rightarrow> (('m, 'l, 'r, 'k) mem, url_artifact_mem) go" where
  "URLArtifact_DeepCopyInto i = bindG (unless_nil (copy_new BoolT retG) (uVerifyCert i)) (\<lambda>v.
     retG (i\<lparr>uVerifyCert := v\<rparr>))"

definition ArtifactLocation_DeepCopyInto :: "artifact_location_mem \<Rightarrow> (('m, 'l, 'r, 'k) mem, artifact_location_mem) go" where
  "ArtifactLocation_DeepCopyInto i =
     bindG (unless_nil (copy_new StringT retG) (aInline i)) (\<lambda>inl.
     bindG (unless_nil (copy_new FileT retG) (aFile i)) (\<lambda>f.
     bindG (unless_nil (copy_new URLT URLArtifact_DeepCopyInto) (aURL i)) (\<lambda>u.
     retG (i\<lparr>aInline := inl, aFile := f, aURL := u\<rparr>))))"

definition ResourceObject_DeepCopyInto :: "resource_object_mem \<Rightarrow> (('m, 'l, 'r, 'k) mem, resource_object_mem) go" where
  "ResourceObject_DeepCopyInto i = bindG (ArtifactLocation_DeepCopyInto (oSource i)) (\<lambda>s. retG (i\<lparr>oSource := s\<rparr>))"

definition Workflow_DeepCopyInto :: "('m, 'l, 'r, 'k) copy_lib \<Rightarrow> workflow_mem \<Rightarrow> (('m, 'l, 'r, 'k) mem, workflow_mem) go" where
  "Workflow_DeepCopyInto L i =
     bindG (unless_nil (copy_new ResourceT ResourceObject_DeepCopyInto) (wResource i)) (\<lambda>r.
     bindG (unless_nil (copy_slice RulesT (zero_PolicyRule L) (PolicyRule_DeepCopy L)) (wRBACRules i)) (\<lambda>rs.
     retG (i\<lparr>wResource := r, wRBACRules := rs\<rparr>)))"

definition RemedyWorkflow_DeepCopyInto :: "('m, 'l, 'r, 'k) copy_lib \<Rightarrow> remedy_workflow_mem \<Rightarrow> (('m, 'l, 'r, 'k) mem, remedy_workflow_mem) go" where
  "RemedyWorkflow_DeepCopyInto L i =
     bindG (unless_nil (copy_new ResourceT ResourceObject_DeepCopyInto) (wResource i)) (\<lambda>r.
     bindG (unless_nil (copy_slice RulesT (zero_PolicyRule L) (PolicyRule_DeepCopy L)) (wRBACRules i)) (\<lambda>rs.
     retG (i\<lparr>wResource := r, wRBACRules := rs\<rparr>)))"

definition HealthCheckSpec_DeepCopyInto :: "('m, 'l, 'r, 'k) copy_lib \<Rightarrow> health_check_spec_mem \<Rightarrow> (('m, 'l, 'r, 'k) mem, health_check_spec_mem) go" where
  "HealthCheckSpec_DeepCopyInto L i =
     bindG (Workflow_DeepCopyInto L (pWorkflow i)) (\<lambda>w.
     bindG (RemedyWorkflow_DeepCopyInto L (pRemedyWorkflow i)) (\<lambda>rw.
     retG (i\<lparr>pWorkflow := w, pSchedule := pSchedule i, pRemedyWorkflow := rw\<rparr>)))"

definition HealthCheckStatus_DeepCopyInto :: "('m, 'l, 'r, 'k) copy_lib \<Rightarrow> health_check_status_mem \<Rightarrow> (('m, 'l, 'r, 'k) mem, health_check_status_mem) go" where
  "HealthCheckStatus_DeepCopyInto L i =
     bindG (unless_nil (Time_DeepCopy L) (tStartedAt i)) (\<lambda>a.
     bindG (unless_nil (Time_DeepCopy L) (tFinishedAt i)) (\<lambda>b.
     bindG (unless_nil (Time_DeepCopy L) (tLastFailedAt i)) (\<lambda>c.
     bindG (unless_nil (Time_DeepCopy L) (tRemedyStartedAt i)) (\<lambda>d.
     bindG (unless_nil (Time_DeepCopy L) (tRemedyFinishedAt i)) (\<lambda>e.
     bindG (unless_nil (Time_DeepCopy L) (tRemedyLastFailedAt i)) (\<lambda>f.
     retG (i\<lparr>tStartedAt := a, tFinishedAt := b, tLastFailedAt := c,
       tRemedyStartedAt := d, tRemedyFinishedAt := e, tRemedyLastFailedAt := f\<rparr>)))))))"

definition HealthCheck_DeepCopyInto :: "('m, 'l, 'r, 'k) copy_lib \<Rightarrow> 'm health_check_mem \<Rightarrow> (('m, 'l, 'r, 'k) mem, 'm health_check_mem) go" where
  "HealthCheck_DeepCopyInto L i =
     bindG (ObjectMeta_DeepCopy L (cObjectMeta i)) (\<lambda>m.
     bindG (HealthCheckSpec_DeepCopyInto L (cSpec i)) (\<lambda>p.
     bindG (HealthCheckStatus_DeepCopyInto L (cStatus i)) (\<lambda>t.
     retG (i\<lparr>cTypeMeta := cTypeMeta i, cObjectMeta := m, cSpec := p, cStatus := t\<rparr>))))"

definition HealthCheckList_DeepCopyInto :: "('m, 'l, 'r, 'k) copy_lib \<Rightarrow> 'l health_check_list_mem \<Rightarrow> (('m, 'l, 'r, 'k) mem, 'l health_check_list_mem) go" where
  "HealthCheckList_DeepCopyInto L i =
     bindG (ListMeta_DeepCopy L (lListMeta i)) (\<lambda>m.
     bindG (unless_nil (copy_slice ItemsT (zero_health_check_mem L) (HealthCheck_DeepCopyInto L)) (lItems i)) (\<lambda>xs.
     retG (i\<lparr>lTypeMeta := lTypeMeta i, lListMeta := m, lItems := xs\<rparr>)))"

text \<open>\<open>func (in *T) DeepCopy() *T\<close>: nil for nil, otherwise \<open>out := new(T); in.DeepCopyInto(out)\<close>.\<close>

definition ArtifactLocation_DeepCopy :: "nat option \<Rightarrow> (('m, 'l, 'r, 'k) mem, nat option) go" where
  "ArtifactLocation_DeepCopy = unless_nil (copy_new LocationT ArtifactLocation_DeepCopyInto)"

definition FileArtifact_DeepCopy :: "nat option \<Rightarrow> (('m, 'l, 'r, 'k) mem, nat option) go" where
  "FileArtifact_DeepCopy = unless_nil (copy_new FileT FileArtifact_DeepCopyInto)"

definition HealthCheck_DeepCopy :: "('m, 'l, 'r, 'k) copy_lib \<Rightarrow> nat option \<Rightarrow> (('m, 'l, 'r, 'k) mem, nat option) go" where
  "HealthCheck_DeepCopy L = unless_nil (copy_new (HealthCheckT L) (HealthCheck_DeepCopyInto L))"

definition HealthCheckList_DeepCopy :: "('m, 'l, 'r, 'k) copy_lib \<Rightarrow> nat option \<Rightarrow> (('m, 'l, 'r, 'k) mem, nat option) go" where
  "HealthCheckList_DeepCopy L = unless_nil (copy_new (ListT L) (HealthCheckList_DeepCopyInto L))"

definition HealthCheckSpec_DeepCopy :: "('m, 'l, 'r, 'k) copy_lib \<Rightarrow> nat option \<Rightarrow> (('m, 'l, 'r, 'k) mem, nat option) go" where
  "HealthCheckSpec_DeepCopy L = unless_nil (copy_new SpecT (HealthCheckSpec_DeepCopyInto L))"

definition HealthCheckStatus_DeepCopy :: "('m, 'l, 'r, 'k) copy_lib \<Rightarrow> nat option \<Rightarrow> (('m, 'l, 'r, 'k) mem, nat option) go" where
  "HealthCheckStatus_DeepCopy L = unless_nil (copy_new StatusT (HealthCheckStatus_DeepCopyInto L))"

definition RemedyWorkflow_DeepCopy :: "('m, 'l, 'r, 'k) copy_lib \<Rightarrow> nat option \<Rightarrow> (('m, 'l, 'r, 'k) mem, nat option) go" where
  "RemedyWorkflow_DeepCopy L = unless_nil (copy_new RemedyT (RemedyWorkflow_DeepCopyInto L))"

definition ResourceObject_DeepCopy :: "nat option \<Rightarrow> (('m, 'l, 'r, 'k) mem, nat option) go" where
  "ResourceObject_DeepCopy = unless_nil (copy_new ResourceT ResourceObject_DeepCopyInto)"

definition ScheduleSpec_DeepCopy :: "nat option \<Rightarrow> (('m, 'l, 'r, 'k) mem, nat option) go" where
  "ScheduleSpec_DeepCopy = unless_nil (copy_new ScheduleT ScheduleSpec_DeepCopyInto)"

definition URLArtifact_DeepCopy :: "nat option \<Rightarrow> (('m, 'l, 'r, 'k) mem, nat option) go" where
  "URLArtifact_DeepCopy = unless_nil (copy_new URLT URLArtifact_DeepCopyInto)"

definition Workflow_DeepCopy :: "('m, 'l, 'r, 'k) copy_lib \<Rightarrow> nat option \<Rightarrow> (('m, 'l, 'r, 'k) mem, nat option) go" where
  "Workflow_DeepCopy L = unless_nil (copy_new WorkflowT (Workflow_DeepCopyInto L))"

text \<open>\<open>DeepCopyObject() runtime.Object\<close>: the interface value is nil when the copy is, not a nil pointer with a type.\<close>

datatype runtime_object = HealthCheckObject nat | HealthCheckListObject nat

definition HealthCheck_DeepCopyObject :: "('m, 'l, 'r, 'k) copy_lib \<Rightarrow> nat option \<Rightarrow> (('m, 'l, 'r, 'k) mem, runtime_object option) go" where
  "HealthCheck_DeepCopyObject L p = bindG (HealthCheck_DeepCopy L p)
     (\<lambda>c. case c of Some q \<Rightarrow> retG (Some (HealthCheckObject q)) | None \<Rightarrow> retG None)"

definition HealthCheckList_DeepCopyObject :: "('m, 'l, 'r, 'k) copy_lib \<Rightarrow> nat option \<Rightarrow> (('m, 'l, 'r, 'k) mem, runtime_object option) go" where
  "HealthCheckList_DeepCopyObject L p = bindG (HealthCheckList_DeepCopy L p)
     (\<lambda>c. case c of Some q \<Rightarrow> retG (Some (HealthCheckListObject q)) | None \<Rightarrow> retG None)"

end
