(* ===== verification/Copy_Contracts.thy ===== *)
theory Copy_Contracts
  imports Deep_Copy
begin

text \<open>
  What the structs of Deep_Copy denote, and the contract copier for every DeepCopyInto. The
  types without library parts are interpreted at once; the locale k8s_copiers states the
  contracts of the library's own copy functions, from which those of the other types follow.
\<close>

lemma bindG_assoc: "bindG (bindG m f) g = bindG m (\<lambda>x. bindG (f x) g)"
  by (rule ext) (simp add: bindG_run split: prod.splits outcome.splits)

lemma bindG_ret: "bindG (retG x) f = f x"
  by (rule ext) (simp add: bindG_run)

text \<open>Unfolds a copy written with pairs to the order of calls of the code.\<close>

lemmas struct_simps = copy_struct_def copy_pair_def bindG_assoc bindG_ret

abbreviation read_value :: "'x \<Rightarrow> 'c heap \<Rightarrow> 'x option" where
  "read_value x h \<equiv> Some x"

abbreviation cells_value :: "'x \<Rightarrow> 'c heap \<Rightarrow> nat set" where
  "cells_value x h \<equiv> {}"

lemmas copier_intros = copier_opt copier_ptr copier_slice copier_pair copier_value lawful_cell_types

section \<open>Types without library parts\<close>

definition read_url :: "url_artifact_mem \<Rightarrow> ('m, 'l, 'r, 'k) mem \<Rightarrow> url_artifact option" where
  "read_url = read_struct uVerifyCert (\<lambda>u v. \<lparr>Path = uPath u, VerifyCert = v\<rparr>) (read_opt (read_ptr BoolT read_value))"

definition cells_url :: "url_artifact_mem \<Rightarrow> ('m, 'l, 'r, 'k) mem \<Rightarrow> nat set" where
  "cells_url u = cells_opt (cells_ptr BoolT cells_value) (uVerifyCert u)"

interpretation url: copier read_url cells_url URLArtifact_DeepCopyInto
proof -
  have eq: "URLArtifact_DeepCopyInto = copy_struct uVerifyCert (\<lambda>u v. u\<lparr>uVerifyCert := v\<rparr>) (unless_nil (copy_new BoolT retG))"
    by (rule ext) (simp del: retG_run add: URLArtifact_DeepCopyInto_def struct_simps)
  show "copier read_url cells_url URLArtifact_DeepCopyInto"
    unfolding eq read_url_def cells_url_def by (rule copier_struct) (auto simp del: retG_run intro!: copier_intros)
qed

definition location_parts :: "artifact_location_mem \<Rightarrow> nat option \<times> nat option \<times> nat option" where
  "location_parts i = (aInline i, aFile i, aURL i)"

definition read_location :: "artifact_location_mem \<Rightarrow> ('m, 'l, 'r, 'k) mem \<Rightarrow> artifact_location option" where
  "read_location = read_struct location_parts (\<lambda>i (inl, f, u). \<lparr>Inline = inl, File = f, URL = u\<rparr>)
     (read_pair (read_opt (read_ptr StringT read_value))
       (read_pair (read_opt (read_ptr FileT read_value)) (read_opt (read_ptr URLT read_url))))"

definition cells_location :: "artifact_location_mem \<Rightarrow> ('m, 'l, 'r, 'k) mem \<Rightarrow> nat set" where
  "cells_location i = cells_pair (cells_opt (cells_ptr StringT cells_value))
     (cells_pair (cells_opt (cells_ptr FileT cells_value)) (cells_opt (cells_ptr URLT cells_url))) (location_parts i)"

interpretation location: copier read_location cells_location ArtifactLocation_DeepCopyInto
proof -
  have eq: "ArtifactLocation_DeepCopyInto = copy_struct location_parts
      (\<lambda>i (inl, f, u). i\<lparr>aInline := inl, aFile := f, aURL := u\<rparr>)
      (copy_pair (unless_nil (copy_new StringT retG))
        (copy_pair (unless_nil (copy_new FileT retG)) (unless_nil (copy_new URLT URLArtifact_DeepCopyInto))))"
    by (rule ext) (simp del: retG_run add: ArtifactLocation_DeepCopyInto_def struct_simps location_parts_def)
  show "copier read_location cells_location ArtifactLocation_DeepCopyInto"
    unfolding eq read_location_def cells_location_def
    by (rule copier_struct) (auto simp: location_parts_def simp del: retG_run intro!: copier_intros url.copier_axioms)
qed

definition read_resource :: "resource_object_mem \<Rightarrow> ('m, 'l, 'r, 'k) mem \<Rightarrow> resource_object option" where
  "read_resource = read_struct oSource
     (\<lambda>i s. \<lparr>ResNamespace = oNamespace i, ServiceAccount = oServiceAccount i, Source = s\<rparr>) read_location"

definition cells_resource :: "resource_object_mem \<Rightarrow> ('m, 'l, 'r, 'k) mem \<Rightarrow> nat set" where
  "cells_resource i = cells_location (oSource i)"

interpretation resource: copier read_resource cells_resource ResourceObject_DeepCopyInto
proof -
  have eq: "ResourceObject_DeepCopyInto = copy_struct oSource (\<lambda>i s. i\<lparr>oSource := s\<rparr>) ArtifactLocation_DeepCopyInto"
    by (rule ext) (simp del: retG_run add: ResourceObject_DeepCopyInto_def struct_simps)
  show "copier read_resource cells_resource ResourceObject_DeepCopyInto"
    unfolding eq read_resource_def cells_resource_def by (rule copier_struct) (simp_all add: location.copier_axioms)
qed

section \<open>Types with library parts\<close>

text \<open>What the library's structs denote and where they live.\<close>

record ('m, 'l, 'r, 'k, 'mv, 'lv) lib_view =
  read_ObjectMeta :: "'m \<Rightarrow> ('m, 'l, 'r, 'k) mem \<Rightarrow> 'mv option"
  cells_ObjectMeta :: "'m \<Rightarrow> ('m, 'l, 'r, 'k) mem \<Rightarrow> nat set"
  read_ListMeta :: "'l \<Rightarrow> ('m, 'l, 'r, 'k) mem \<Rightarrow> 'lv option"
  cells_ListMeta :: "'l \<Rightarrow> ('m, 'l, 'r, 'k) mem \<Rightarrow> nat set"
  read_PolicyRule :: "'r \<Rightarrow> ('m, 'l, 'r, 'k) mem \<Rightarrow> policy_rule option"
  cells_PolicyRule :: "'r \<Rightarrow> ('m, 'l, 'r, 'k) mem \<Rightarrow> nat set"

text \<open>The four copy functions of the library are deep copies.\<close>

locale k8s_copiers =
  fixes L :: "('m, 'l, 'r, 'k) copy_lib" and V :: "('m, 'l, 'r, 'k, 'mv, 'lv) lib_view"
  assumes meta_copier: "copier (read_ObjectMeta V) (cells_ObjectMeta V) (ObjectMeta_DeepCopy L)"
    and list_meta_copier: "copier (read_ListMeta V) (cells_ListMeta V) (ListMeta_DeepCopy L)"
    and rule_copier: "copier (read_PolicyRule V) (cells_PolicyRule V) (PolicyRule_DeepCopy L)"
    and time_copier: "copier (read_ptr TimeT read_value) (cells_ptr TimeT cells_value) (Time_DeepCopy L)"

definition workflow_parts :: "workflow_mem \<Rightarrow> nat option \<times> slice option" where
  "workflow_parts i = (wResource i, wRBACRules i)"

definition read_workflow :: "('m, 'l, 'r, 'k, 'mv, 'lv) lib_view \<Rightarrow> workflow_mem \<Rightarrow> ('m, 'l, 'r, 'k) mem \<Rightarrow> workflow option" where
  "read_workflow V = read_struct workflow_parts
     (\<lambda>i (r, rs). \<lparr>GenerateName = wGenerateName i, Resource = r, Timeout = wTimeout i, RBACRules = rs\<rparr>)
     (read_pair (read_opt (read_ptr ResourceT read_resource)) (read_opt (read_slice RulesT (read_PolicyRule V))))"

definition cells_workflow :: "('m, 'l, 'r, 'k, 'mv, 'lv) lib_view \<Rightarrow> workflow_mem \<Rightarrow> ('m, 'l, 'r, 'k) mem \<Rightarrow> nat set" where
  "cells_workflow V i = cells_pair (cells_opt (cells_ptr ResourceT cells_resource))
     (cells_opt (cells_slice RulesT (cells_PolicyRule V))) (workflow_parts i)"

sublocale k8s_copiers \<subseteq> workflow: copier "read_workflow V" "cells_workflow V" "Workflow_DeepCopyInto L"
proof -
  have eq: "Workflow_DeepCopyInto L = copy_struct workflow_parts (\<lambda>i (r, rs). i\<lparr>wResource := r, wRBACRules := rs\<rparr>)
      (copy_pair (unless_nil (copy_new ResourceT ResourceObject_DeepCopyInto))
        (unless_nil (copy_slice RulesT (zero_PolicyRule L) (PolicyRule_DeepCopy L))))"
    by (rule ext) (simp del: retG_run add: Workflow_DeepCopyInto_def struct_simps workflow_parts_def)
  show "copier (read_workflow V) (cells_workflow V) (Workflow_DeepCopyInto L)"
    unfolding eq read_workflow_def cells_workflow_def
    by (rule copier_struct) (auto simp: workflow_parts_def intro!: copier_intros resource.copier_axioms rule_copier)
qed

text \<open>\<open>RemedyWorkflow\<close> and \<open>Workflow\<close> have the same fields, and the generated functions do the same.\<close>

lemma remedy_copy: "RemedyWorkflow_DeepCopyInto L = Workflow_DeepCopyInto L"
  by (rule ext) (simp add: RemedyWorkflow_DeepCopyInto_def Workflow_DeepCopyInto_def)

definition spec_parts :: "health_check_spec_mem \<Rightarrow> workflow_mem \<times> remedy_workflow_mem" where
  "spec_parts i = (pWorkflow i, pRemedyWorkflow i)"

definition read_spec :: "('m, 'l, 'r, 'k, 'mv, 'lv) lib_view \<Rightarrow> health_check_spec_mem \<Rightarrow> ('m, 'l, 'r, 'k) mem \<Rightarrow> health_check_spec option" where
  "read_spec V = read_struct spec_parts
     (\<lambda>i (w, rw). \<lparr>RepeatAfterSec = pRepeatAfterSec i, Description = pDescription i, Workflow = w, Level = pLevel i,
        Schedule = pSchedule i, RemedyWorkflow = rw, BackoffFactor = pBackoffFactor i, BackoffMax = pBackoffMax i,
        BackoffMin = pBackoffMin i, RemedyRunsLimit = pRemedyRunsLimit i, RemedyResetInterval = pRemedyResetInterval i\<rparr>)
     (read_pair (read_workflow V) (read_workflow V))"

definition cells_spec :: "('m, 'l, 'r, 'k, 'mv, 'lv) lib_view \<Rightarrow> health_check_spec_mem \<Rightarrow> ('m, 'l, 'r, 'k) mem \<Rightarrow> nat set" where
  "cells_spec V i = cells_pair (cells_workflow V) (cells_workflow V) (spec_parts i)"

sublocale k8s_copiers \<subseteq> spec: copier "read_spec V" "cells_spec V" "HealthCheckSpec_DeepCopyInto L"
proof -
  have eq: "HealthCheckSpec_DeepCopyInto L = copy_struct spec_parts
      (\<lambda>i (w, rw). i\<lparr>pWorkflow := w, pSchedule := pSchedule i, pRemedyWorkflow := rw\<rparr>)
      (copy_pair (Workflow_DeepCopyInto L) (Workflow_DeepCopyInto L))"
    by (rule ext) (simp del: retG_run add: HealthCheckSpec_DeepCopyInto_def struct_simps spec_parts_def remedy_copy)
  show "copier (read_spec V) (cells_spec V) (HealthCheckSpec_DeepCopyInto L)"
    unfolding eq read_spec_def cells_spec_def
    by (rule copier_struct) (auto simp: spec_parts_def intro!: copier_pair workflow.copier_axioms)
qed

type_synonym time_parts = "nat option \<times> nat option \<times> nat option \<times> nat option \<times> nat option \<times> nat option"

definition status_parts :: "health_check_status_mem \<Rightarrow> time_parts" where
  "status_parts i = (tStartedAt i, tFinishedAt i, tLastFailedAt i, tRemedyStartedAt i, tRemedyFinishedAt i, tRemedyLastFailedAt i)"

definition read_time :: "nat option \<Rightarrow> ('m, 'l, 'r, 'k) mem \<Rightarrow> time option option" where
  "read_time = read_opt (read_ptr TimeT read_value)"

definition cells_time :: "nat option \<Rightarrow> ('m, 'l, 'r, 'k) mem \<Rightarrow> nat set" where
  "cells_time = cells_opt (cells_ptr TimeT cells_value)"

definition read_status :: "health_check_status_mem \<Rightarrow> ('m, 'l, 'r, 'k) mem \<Rightarrow> health_check_status option" where
  "read_status = read_struct status_parts
     (\<lambda>i (a, b, c, d, e, f). \<lparr>ErrorMessage = tErrorMessage i, RemedyErrorMessage = tRemedyErrorMessage i,
        StartedAt = a, FinishedAt = b, LastFailedAt = c, RemedyStartedAt = d, RemedyFinishedAt = e, RemedyLastFailedAt = f,
        LastFailedWorkflow = tLastFailedWorkflow i, LastSuccessfulWorkflow = tLastSuccessfulWorkflow i,
        SuccessCount = tSuccessCount i, FailedCount = tFailedCount i, RemedySuccessCount = tRemedySuccessCount i,
        RemedyFailedCount = tRemedyFailedCount i, RemedyTotalRuns = tRemedyTotalRuns i,
        TotalHealthCheckRuns = tTotalHealthCheckRuns i, Status = tStatus i, RemedyStatus = tRemedyStatus i\<rparr>)
     (read_pair read_time (read_pair read_time (read_pair read_time
       (read_pair read_time (read_pair read_time read_time)))))"

definition cells_status :: "health_check_status_mem \<Rightarrow> ('m, 'l, 'r, 'k) mem \<Rightarrow> nat set" where
  "cells_status i = cells_pair cells_time (cells_pair cells_time (cells_pair cells_time
     (cells_pair cells_time (cells_pair cells_time cells_time)))) (status_parts i)"

sublocale k8s_copiers \<subseteq> status: copier read_status cells_status "HealthCheckStatus_DeepCopyInto L"
proof -
  let ?t = "unless_nil (Time_DeepCopy L)"
  have eq: "HealthCheckStatus_DeepCopyInto L = copy_struct status_parts
      (\<lambda>i (a, b, c, d, e, f). i\<lparr>tStartedAt := a, tFinishedAt := b, tLastFailedAt := c,
       tRemedyStartedAt := d, tRemedyFinishedAt := e, tRemedyLastFailedAt := f\<rparr>)
      (copy_pair ?t (copy_pair ?t (copy_pair ?t (copy_pair ?t (copy_pair ?t ?t)))))"
    by (rule ext) (simp del: retG_run add: HealthCheckStatus_DeepCopyInto_def struct_simps status_parts_def)
  have t: "copier read_time cells_time ?t" unfolding read_time_def cells_time_def by (rule copier_opt [OF time_copier])
  show "copier read_status cells_status (HealthCheckStatus_DeepCopyInto L)"
    unfolding eq read_status_def cells_status_def
    by (rule copier_struct) (auto simp: status_parts_def intro!: copier_pair t)
qed

text \<open>A HealthCheck as a value.\<close>

record 'mv health_check_value =
  vTypeMeta :: type_meta
  vObjectMeta :: 'mv
  vSpec :: health_check_spec
  vStatus :: health_check_status

definition health_check_parts :: "'m health_check_mem \<Rightarrow> 'm \<times> health_check_spec_mem \<times> health_check_status_mem" where
  "health_check_parts i = (cObjectMeta i, cSpec i, cStatus i)"

definition read_health_check :: "('m, 'l, 'r, 'k, 'mv, 'lv) lib_view \<Rightarrow> 'm health_check_mem \<Rightarrow> ('m, 'l, 'r, 'k) mem \<Rightarrow> 'mv health_check_value option" where
  "read_health_check V = read_struct health_check_parts
     (\<lambda>i (m, p, t). \<lparr>vTypeMeta = cTypeMeta i, vObjectMeta = m, vSpec = p, vStatus = t\<rparr>)
     (read_pair (read_ObjectMeta V) (read_pair (read_spec V) read_status))"

definition cells_health_check :: "('m, 'l, 'r, 'k, 'mv, 'lv) lib_view \<Rightarrow> 'm health_check_mem \<Rightarrow> ('m, 'l, 'r, 'k) mem \<Rightarrow> nat set" where
  "cells_health_check V i = cells_pair (cells_ObjectMeta V) (cells_pair (cells_spec V) cells_status) (health_check_parts i)"

sublocale k8s_copiers \<subseteq> health_check: copier "read_health_check V" "cells_health_check V" "HealthCheck_DeepCopyInto L"
proof -
  have eq: "HealthCheck_DeepCopyInto L = copy_struct health_check_parts
      (\<lambda>i (m, p, t). i\<lparr>cTypeMeta := cTypeMeta i, cObjectMeta := m, cSpec := p, cStatus := t\<rparr>)
      (copy_pair (ObjectMeta_DeepCopy L) (copy_pair (HealthCheckSpec_DeepCopyInto L) (HealthCheckStatus_DeepCopyInto L)))"
    by (rule ext) (simp del: retG_run add: HealthCheck_DeepCopyInto_def struct_simps health_check_parts_def)
  show "copier (read_health_check V) (cells_health_check V) (HealthCheck_DeepCopyInto L)"
    unfolding eq read_health_check_def cells_health_check_def
    by (rule copier_struct)
       (auto simp: health_check_parts_def intro!: copier_pair meta_copier spec.copier_axioms status.copier_axioms)
qed

record ('mv, 'lv) health_check_list_value =
  vlTypeMeta :: type_meta
  vlListMeta :: 'lv
  vlItems :: "'mv health_check_value list option"

definition list_parts :: "'l health_check_list_mem \<Rightarrow> 'l \<times> slice option" where
  "list_parts i = (lListMeta i, lItems i)"

definition read_list :: "('m, 'l, 'r, 'k, 'mv, 'lv) lib_view \<Rightarrow> 'l health_check_list_mem \<Rightarrow> ('m, 'l, 'r, 'k) mem \<Rightarrow> ('mv, 'lv) health_check_list_value option" where
  "read_list V = read_struct list_parts (\<lambda>i (m, xs). \<lparr>vlTypeMeta = lTypeMeta i, vlListMeta = m, vlItems = xs\<rparr>)
     (read_pair (read_ListMeta V) (read_opt (read_slice ItemsT (read_health_check V))))"

definition cells_list :: "('m, 'l, 'r, 'k, 'mv, 'lv) lib_view \<Rightarrow> 'l health_check_list_mem \<Rightarrow> ('m, 'l, 'r, 'k) mem \<Rightarrow> nat set" where
  "cells_list V i = cells_pair (cells_ListMeta V) (cells_opt (cells_slice ItemsT (cells_health_check V))) (list_parts i)"

sublocale k8s_copiers \<subseteq> list: copier "read_list V" "cells_list V" "HealthCheckList_DeepCopyInto L"
proof -
  have eq: "HealthCheckList_DeepCopyInto L = copy_struct list_parts
      (\<lambda>i (m, xs). i\<lparr>lTypeMeta := lTypeMeta i, lListMeta := m, lItems := xs\<rparr>)
      (copy_pair (ListMeta_DeepCopy L) (unless_nil (copy_slice ItemsT (zero_health_check_mem L) (HealthCheck_DeepCopyInto L))))"
    by (rule ext) (simp del: retG_run add: HealthCheckList_DeepCopyInto_def struct_simps list_parts_def)
  show "copier (read_list V) (cells_list V) (HealthCheckList_DeepCopyInto L)"
    unfolding eq read_list_def cells_list_def
    by (rule copier_struct) (auto simp: list_parts_def intro!: copier_intros list_meta_copier health_check.copier_axioms)
qed

end
