(* ===== verification/Copy_Properties.thy ===== *)
theory Copy_Properties
  imports Copy_Contracts
begin

text \<open>
  The properties of the generated deep copies, for the two resource types that go through
  runtime.Object, and an instance of the library parameters on which they are applied.
\<close>

section \<open>Objects behind pointers\<close>

definition HealthCheck_at :: "('m, 'l, 'r, 'k) copy_lib \<Rightarrow> ('m, 'l, 'r, 'k, 'mv, 'lv) lib_view \<Rightarrow> nat \<Rightarrow> ('m, 'l, 'r, 'k) mem \<Rightarrow> 'mv health_check_value option" where
  "HealthCheck_at L V = read_ptr (HealthCheckT L) (read_health_check V)"

definition HealthCheck_cells :: "('m, 'l, 'r, 'k) copy_lib \<Rightarrow> ('m, 'l, 'r, 'k, 'mv, 'lv) lib_view \<Rightarrow> nat \<Rightarrow> ('m, 'l, 'r, 'k) mem \<Rightarrow> nat set" where
  "HealthCheck_cells L V = cells_ptr (HealthCheckT L) (cells_health_check V)"

definition HealthCheckList_at :: "('m, 'l, 'r, 'k) copy_lib \<Rightarrow> ('m, 'l, 'r, 'k, 'mv, 'lv) lib_view \<Rightarrow> nat \<Rightarrow> ('m, 'l, 'r, 'k) mem \<Rightarrow> ('mv, 'lv) health_check_list_value option" where
  "HealthCheckList_at L V = read_ptr (ListT L) (read_list V)"

definition HealthCheckList_cells :: "('m, 'l, 'r, 'k) copy_lib \<Rightarrow> ('m, 'l, 'r, 'k, 'mv, 'lv) lib_view \<Rightarrow> nat \<Rightarrow> ('m, 'l, 'r, 'k) mem \<Rightarrow> nat set" where
  "HealthCheckList_cells L V = cells_ptr (ListT L) (cells_list V)"

sublocale k8s_copiers \<subseteq> hc_object: copier "HealthCheck_at L V" "HealthCheck_cells L V" "copy_new (HealthCheckT L) (HealthCheck_DeepCopyInto L)"
  unfolding HealthCheck_at_def HealthCheck_cells_def by (rule copier_ptr [OF health_check.copier_axioms lawful_cell_types(14)])

sublocale k8s_copiers \<subseteq> list_object: copier "HealthCheckList_at L V" "HealthCheckList_cells L V" "copy_new (ListT L) (HealthCheckList_DeepCopyInto L)"
  unfolding HealthCheckList_at_def HealthCheckList_cells_def by (rule copier_ptr [OF list.copier_axioms lawful_cell_types(16)])

context k8s_copiers begin

lemma hc_copy:
  assumes "heap_ok h" "HealthCheck_at L V p h = Some v"
  obtains q h' where "HealthCheck_DeepCopyObject L (Some p) h = (Ret (Some (HealthCheckObject q)), h')" "grows h h'"
    "HealthCheck_at L V q h' = Some v" "HealthCheck_at L V p h' = Some v"
    "HealthCheck_cells L V p h' \<inter> HealthCheck_cells L V q h' = {}" "HealthCheck_cells L V p h' = HealthCheck_cells L V p h"
  by (rule hc_object.deep_copy [OF assms])
     (simp add: HealthCheck_DeepCopyObject_def HealthCheck_DeepCopy_def unless_nil_def bindG_run)

lemma list_copy:
  assumes "heap_ok h" "HealthCheckList_at L V p h = Some v"
  obtains q h' where "HealthCheckList_DeepCopyObject L (Some p) h = (Ret (Some (HealthCheckListObject q)), h')" "grows h h'"
    "HealthCheckList_at L V q h' = Some v" "HealthCheckList_at L V p h' = Some v"
    "HealthCheckList_cells L V p h' \<inter> HealthCheckList_cells L V q h' = {}" "HealthCheckList_cells L V p h' = HealthCheckList_cells L V p h"
  by (rule list_object.deep_copy [OF assms])
     (simp add: HealthCheckList_DeepCopyObject_def HealthCheckList_DeepCopy_def unless_nil_def bindG_run)

lemmas list_unseen = list_object.not_seen

end

section \<open>An instance of the library\<close>

text \<open>Metadata with a name and a map of labels behind a pointer; rules, list metadata and times as plain values.\<close>

type_synonym labels = "(string \<times> string) list"
type_synonym sample_meta = "string \<times> nat option"

definition LabelsT :: "(('m, 'l, 'r, labels) cell, labels) cell_type" where
  "LabelsT = \<lparr>wrap = CLibrary, unwrap = (\<lambda>c. case c of CLibrary x \<Rightarrow> Some x | _ \<Rightarrow> None), zero_value = []\<rparr>"

definition no_rule :: policy_rule where
  "no_rule = mk_rule [] [] []"

definition sample_lib :: "(sample_meta, string, policy_rule, labels) copy_lib" where
  "sample_lib = \<lparr>ObjectMeta_DeepCopy = copy_pair retG (unless_nil (copy_new LabelsT retG)), ListMeta_DeepCopy = retG,
     PolicyRule_DeepCopy = retG, Time_DeepCopy = copy_new TimeT retG,
     zero_ObjectMeta = ([], None), zero_ListMeta = [], zero_PolicyRule = no_rule\<rparr>"

definition sample_view :: "(sample_meta, string, policy_rule, labels, string \<times> labels option, string) lib_view" where
  "sample_view = \<lparr>read_ObjectMeta = read_pair read_value (read_opt (read_ptr LabelsT read_value)),
     cells_ObjectMeta = cells_pair cells_value (cells_opt (cells_ptr LabelsT cells_value)),
     read_ListMeta = read_value, cells_ListMeta = cells_value, read_PolicyRule = read_value, cells_PolicyRule = cells_value\<rparr>"

lemma lawful_labels: "lawful LabelsT"
  by (simp add: lawful_def LabelsT_def)

interpretation sample: k8s_copiers sample_lib sample_view
  by (rule k8s_copiers.intro)
     (auto simp: sample_lib_def sample_view_def simp del: retG_run intro!: copier_intros lawful_labels)

definition sample_workflow_mem :: workflow_mem where
  "sample_workflow_mem = \<lparr>wGenerateName = ''dns-'', wResource = Some 2, wTimeout = 30, wRBACRules = Some \<lparr>sArray = 3, sOff = 1, sLen = 1\<rparr>\<rparr>"

definition sample_hc_mem :: "sample_meta health_check_mem" where
  "sample_hc_mem = \<lparr>cTypeMeta = zero_type_meta, cObjectMeta = (''hc'', Some 0),
     cSpec = zero_spec_mem\<lparr>pRepeatAfterSec := 60, pWorkflow := sample_workflow_mem\<rparr>,
     cStatus = zero_status_mem\<lparr>tStartedAt := Some 4, tFinishedAt := Some 4\<rparr>\<rparr>"

text \<open>One HealthCheck, alone behind the pointer 5 and as the only item of the list behind the pointer 7; the two times share a cell.\<close>

definition sample_heap :: "(sample_meta, string, policy_rule, labels) mem" where
  "sample_heap = \<lparr>store = map_of [(0, CLibrary [(''a'', ''b'')]), (1, CString ''spec: {}''),
     (2, CResource \<lparr>oNamespace = ''health'', oServiceAccount = ''sa'', oSource = \<lparr>aInline = Some 1, aFile = None, aURL = None\<rparr>\<rparr>),
     (3, CRules [no_rule, mk_rule [] [''pods''] [''get'']]), (4, CTime 5), (5, CHealthCheck sample_hc_mem),
     (6, CItems [sample_hc_mem]), (7, CList \<lparr>lTypeMeta = zero_type_meta, lListMeta = ''17'', lItems = Some \<lparr>sArray = 6, sOff = 0, sLen = 1\<rparr>\<rparr>)],
     next_addr = 8\<rparr>"

definition sample_hc_value :: "(string \<times> labels option) health_check_value" where
  "sample_hc_value = \<lparr>vTypeMeta = zero_type_meta, vObjectMeta = (''hc'', Some [(''a'', ''b'')]),
     vSpec = zero_spec\<lparr>RepeatAfterSec := 60, Workflow := \<lparr>GenerateName = ''dns-'',
       Resource = Some \<lparr>ResNamespace = ''health'', ServiceAccount = ''sa'',
         Source = \<lparr>Inline = Some ''spec: {}'', File = None, URL = None\<rparr>\<rparr>,
       Timeout = 30, RBACRules = Some [mk_rule [] [''pods''] [''get'']]\<rparr>\<rparr>,
     vStatus = zero_status\<lparr>StartedAt := Some 5, FinishedAt := Some 5\<rparr>\<rparr>"

lemma sample_ok: "heap_ok sample_heap"
  by (simp add: heap_ok_def sample_heap_def)

lemma sample_hc: "HealthCheck_at sample_lib sample_view 5 sample_heap = Some sample_hc_value"
  by code_simp

lemma sample_list: "HealthCheckList_at sample_lib sample_view 7 sample_heap
    = Some \<lparr>vlTypeMeta = zero_type_meta, vlListMeta = ''17'', vlItems = Some [sample_hc_value]\<rparr>"
  by code_simp

section \<open>Properties\<close>

text \<open>
  C7: DeepCopyObject of a HealthCheck returns a new object that denotes the same HealthCheck
  and shares no memory with the original. Whatever the library types are, as long as their own
  copy functions are deep copies: the call does not fail, every cell that was there before is as
  it was, the copy and the original denote the same metadata, spec and status, and no cell
  belongs to both.
\<close>

theorem health_check_deep_copy:
  assumes "k8s_copiers L V" and "heap_ok h" and "HealthCheck_at L V p h = Some v"
  shows "\<exists>q h'. HealthCheck_DeepCopyObject L (Some p) h = (Ret (Some (HealthCheckObject q)), h')
    \<and> (\<forall>a < next_addr h. store h' a = store h a)
    \<and> HealthCheck_at L V q h' = Some v \<and> HealthCheck_at L V p h' = Some v
    \<and> HealthCheck_cells L V p h' \<inter> HealthCheck_cells L V q h' = {}"
  by (rule k8s_copiers.hc_copy [OF assms]) (auto simp: grows_def)

theorem health_check_deep_copy_witness:
  "\<exists>q h'. HealthCheck_DeepCopyObject sample_lib (Some 5) sample_heap = (Ret (Some (HealthCheckObject q)), h')
    \<and> HealthCheck_at sample_lib sample_view q h' = Some sample_hc_value"
  using health_check_deep_copy [OF sample.k8s_copiers_axioms sample_ok sample_hc] by blast

text \<open>
  C8: after a DeepCopyObject of a HealthCheckList, writes through one of the two lists are not
  seen through the other, whatever is written to whichever of its cells: the labels, a rule, an
  item of the array, a time of an item's status. The list and its copy denote the same items
  in the same order at first.
\<close>

theorem list_deep_copy_independent:
  assumes "k8s_copiers L V" and "heap_ok h" and "HealthCheckList_at L V p h = Some v"
  shows "\<exists>q h'. HealthCheckList_DeepCopyObject L (Some p) h = (Ret (Some (HealthCheckListObject q)), h')
    \<and> HealthCheckList_at L V q h' = Some v
    \<and> (\<forall>g. changed_in (HealthCheckList_cells L V p h) h' g \<longrightarrow> HealthCheckList_at L V q g = Some v)
    \<and> (\<forall>g. changed_in (HealthCheckList_cells L V q h') h' g \<longrightarrow> HealthCheckList_at L V p g = Some v)"
proof (rule k8s_copiers.list_copy [OF assms])
  fix q h' assume c: "HealthCheckList_DeepCopyObject L (Some p) h = (Ret (Some (HealthCheckListObject q)), h')"
    and v: "HealthCheckList_at L V q h' = Some v" "HealthCheckList_at L V p h' = Some v"
    and d: "HealthCheckList_cells L V p h' \<inter> HealthCheckList_cells L V q h' = {}" "HealthCheckList_cells L V p h' = HealthCheckList_cells L V p h"
  have "HealthCheckList_at L V q g = Some v" if "changed_in (HealthCheckList_cells L V p h) h' g" for g
    using k8s_copiers.list_unseen [OF assms(1) v(1) that] d by auto
  moreover have "HealthCheckList_at L V p g = Some v" if "changed_in (HealthCheckList_cells L V q h') h' g" for g
    using k8s_copiers.list_unseen [OF assms(1) v(2) that] d by auto
  ultimately show ?thesis using c v(1) by blast
qed

theorem list_deep_copy_independent_witness:
  "\<exists>q h'. HealthCheckList_DeepCopyObject sample_lib (Some 7) sample_heap = (Ret (Some (HealthCheckListObject q)), h')
    \<and> HealthCheckList_at sample_lib sample_view q (h'\<lparr>store := (store h')(3 \<mapsto> CRules [])\<rparr>)
      = Some \<lparr>vlTypeMeta = zero_type_meta, vlListMeta = ''17'', vlItems = Some [sample_hc_value]\<rparr>"
proof -
  have c: "3 \<in> HealthCheckList_cells sample_lib sample_view 7 sample_heap"
    by code_simp
  then have "changed_in (HealthCheckList_cells sample_lib sample_view 7 sample_heap) h' (h'\<lparr>store := (store h')(3 \<mapsto> CRules [])\<rparr>)" for h'
    by (auto simp: changed_in_def)
  then show ?thesis
    using list_deep_copy_independent [OF sample.k8s_copiers_axioms sample_ok sample_list] by blast
qed

end
