(* ===== verification/Scheme_Init.thy ===== *)
theory Scheme_Init
  imports Workflow_Submit Go_Heap
begin

text \<open>
  The init functions that make the types of the API group known: the package variables of
  src/api/v1alpha1/groupversion_info.go, init of src/api/v1alpha1/healthcheck_types.go and
  init of src/cmd/main.go, in the order the Go runtime runs them. The builder and the scheme
  are library objects behind pointers; their operations are parameters.
\<close>

section \<open>Group versions and Go types\<close>

record group_version =
  gvGroup :: string
  gvVersion :: string

text \<open>\<open>schema.GroupVersion.String\<close>: the value of \<open>hcVersion\<close> in the controller.\<close>

definition gv_String :: "group_version \<Rightarrow> string" where
  "gv_String g = (if gvGroup g \<noteq> [] then gvGroup g @ ''/'' @ gvVersion g else gvVersion g)"

definition apiGroupVersion :: group_version where
  "apiGroupVersion = \<lparr>gvGroup = ''activemonitor.keikoproj.io'', gvVersion = ''v1alpha1''\<rparr>"

text \<open>The Go type of a registered object; its kind is the name of the type.\<close>

datatype go_type = GoType (gt_package: string) (gt_name: string)

definition api_type :: "string \<Rightarrow> go_type" where
  "api_type n = GoType ''github.com/keikoproj/active-monitor/api/v1alpha1'' n"

section \<open>The init functions\<close>

text \<open>
  The library: \<open>'b\<close> is the struct \<open>scheme.Builder\<close>, \<open>'s\<close> a \<open>runtime.Scheme\<close>. \<open>Register\<close>
  changes the builder its receiver points to, the two \<open>AddToScheme\<close> change the scheme.
\<close>

record ('b, 's) scheme_api =
  new_Builder :: "group_version \<Rightarrow> 'b"
  Builder_Register :: "'b \<Rightarrow> go_type list \<Rightarrow> 'b"
  Builder_AddToScheme :: "'b \<Rightarrow> ('s, unit) go"
  NewScheme :: 's
  clientgo_AddToScheme :: "('s, unit) go"

datatype ('b, 's) init_cell = BuilderCell 'b | SchemeCell 's

fun builder_in :: "('b, 's) init_cell \<Rightarrow> 'b option" where
  "builder_in (BuilderCell b) = Some b"
| "builder_in (SchemeCell x) = None"

fun scheme_in :: "('b, 's) init_cell \<Rightarrow> 's option" where
  "scheme_in (BuilderCell b) = None"
| "scheme_in (SchemeCell x) = Some x"

definition builder_cell :: "('b, 's) scheme_api \<Rightarrow> (('b, 's) init_cell, 'b) cell_type" where
  "builder_cell A = \<lparr>wrap = BuilderCell, unwrap = builder_in, zero_value = new_Builder A \<lparr>gvGroup = [], gvVersion = []\<rparr>\<rparr>"

definition scheme_cell :: "('b, 's) scheme_api \<Rightarrow> (('b, 's) init_cell, 's) cell_type" where
  "scheme_cell A = \<lparr>wrap = SchemeCell, unwrap = scheme_in, zero_value = NewScheme A\<rparr>"

text \<open>
  The package variables. \<open>AddToScheme\<close> is a method value: evaluating \<open>SchemeBuilder.AddToScheme\<close>
  binds the receiver, which is the pointer, before anything has been registered.
\<close>

record api_package =
  SchemeBuilder :: nat
  AddToScheme_receiver :: nat

definition api_package_vars :: "('b, 's) scheme_api \<Rightarrow> (('b, 's) init_cell heap, api_package) go" where
  "api_package_vars A = bindG (alloc (BuilderCell (new_Builder A apiGroupVersion)))
     (\<lambda>p. retG \<lparr>SchemeBuilder = p, AddToScheme_receiver = p\<rparr>)"

definition api_init :: "('b, 's) scheme_api \<Rightarrow> api_package \<Rightarrow> (('b, 's) init_cell heap, unit) go" where
  "api_init A v = bindG (deref (builder_cell A) (SchemeBuilder v)) (\<lambda>b.
     assign (builder_cell A) (SchemeBuilder v)
       (Builder_Register A b [api_type ''HealthCheck'', api_type ''HealthCheckList'']))"

text \<open>A library function on the scheme behind a pointer.\<close>

definition on_scheme :: "('b, 's) scheme_api \<Rightarrow> nat \<Rightarrow> ('s, unit) go \<Rightarrow> (('b, 's) init_cell heap, unit) go" where
  "on_scheme A p m = bindG (deref (scheme_cell A) p) (\<lambda>x. case m x of (r, x') \<Rightarrow>
     thenG (assign (scheme_cell A) p x') (\<lambda>h. (r, h)))"

definition AddToScheme :: "('b, 's) scheme_api \<Rightarrow> api_package \<Rightarrow> nat \<Rightarrow> (('b, 's) init_cell heap, unit) go" where
  "AddToScheme A v p = bindG (deref (builder_cell A) (AddToScheme_receiver v))
     (\<lambda>b. on_scheme A p (Builder_AddToScheme A b))"

text \<open>\<open>utilruntime.Must\<close> panics with the error.\<close>

definition Must :: "('h, unit) go \<Rightarrow> ('h, unit) go" where
  "Must m = tryG m (\<lambda>e. panicG (err_text e)) retG"

definition main_init :: "('b, 's) scheme_api \<Rightarrow> api_package \<Rightarrow> nat \<Rightarrow> (('b, 's) init_cell heap, unit) go" where
  "main_init A v scheme = thenG (Must (on_scheme A scheme (clientgo_AddToScheme A))) (Must (AddToScheme A v scheme))"

text \<open>Package v1alpha1 is initialised first, since main imports it; the result is the variable \<open>scheme\<close>.\<close>

definition program_init :: "('b, 's) scheme_api \<Rightarrow> (('b, 's) init_cell heap, nat) go" where
  "program_init A = bindG (api_package_vars A) (\<lambda>v. thenG (api_init A v)
     (bindG (alloc (SchemeCell (NewScheme A))) (\<lambda>scheme. thenG (main_init A v scheme) (retG scheme))))"

section \<open>What the scheme knows afterwards\<close>

text \<open>The API version the controller writes into owner references is the group version of the builder.\<close>

definition hcVersion :: string where
  "hcVersion = gv_String apiGroupVersion"

lemma hcVersion_GroupVersion: "hcVersion = GroupVersion"
  by (simp add: hcVersion_def gv_String_def apiGroupVersion_def GroupVersion_def)

lemma cell_simps [simp]:
  "wrap (builder_cell A) = BuilderCell" "unwrap (builder_cell A) = builder_in"
  "wrap (scheme_cell A) = SchemeCell" "unwrap (scheme_cell A) = scheme_in"
  by (simp_all add: builder_cell_def scheme_cell_def)

lemmas init_defs = program_init_def api_package_vars_def api_init_def main_init_def AddToScheme_def
  on_scheme_def Must_def alloc_def deref_def assign_def peek_def

text \<open>
  What the code relies on. \<open>gv\<close> and \<open>types\<close> are the group version and the registered
  types of a builder, \<open>knows\<close> is the table of a scheme, and \<open>meta_kinds\<close> are the kinds that every
  group version gets besides its own. A builder adds its types without an error when their
  kinds are free; the client-go scheme knows nothing of this program's group version.
\<close>

record ('b, 's) scheme_view =
  gv :: "'b \<Rightarrow> group_version"
  types :: "'b \<Rightarrow> go_type list"
  knows :: "'s \<Rightarrow> group_version \<times> string \<Rightarrow> go_type option"
  meta_kinds :: "string list"

definition builder_laws :: "('b, 's) scheme_api \<Rightarrow> ('b, 's) scheme_view \<Rightarrow> bool" where
  "builder_laws A V \<longleftrightarrow>
     (\<forall>g. gv V (new_Builder A g) = g \<and> types V (new_Builder A g) = [])
   \<and> (\<forall>b ts. gv V (Builder_Register A b ts) = gv V b \<and> types V (Builder_Register A b ts) = types V b @ ts)"

definition free_for :: "('b, 's) scheme_view \<Rightarrow> 'b \<Rightarrow> 's \<Rightarrow> bool" where
  "free_for V b x \<longleftrightarrow> gvVersion (gv V b) \<noteq> [] \<and> distinct (meta_kinds V @ map gt_name (types V b))
     \<and> (\<forall>k. knows V x (gv V b, k) = None)"

definition add_laws :: "('b, 's) scheme_api \<Rightarrow> ('b, 's) scheme_view \<Rightarrow> bool" where
  "add_laws A V \<longleftrightarrow> (\<forall>b x. free_for V b x \<longrightarrow> (\<exists>x'. Builder_AddToScheme A b x = (Ret (), x')
     \<and> (\<forall>t \<in> set (types V b). knows V x' (gv V b, gt_name t) = Some t) \<and> knows V x \<subseteq>\<^sub>m knows V x'))"

text \<open>
  After the init functions the scheme of the manager knows HealthCheck and HealthCheckList under
  the group version the controller writes into the owner reference of every workflow, and all
  it knew from client-go. No init function panics. The types are registered after
  \<open>AddToScheme\<close> was bound, so this rests on its receiver being a pointer.
\<close>

theorem scheme_knows_health_check:
  assumes "builder_laws A V" and "add_laws A V"
    and clientgo: "clientgo_AddToScheme A (NewScheme A) = (Ret (), x0)" "\<And>k. knows V x0 (apiGroupVersion, k) = None"
    and meta: "distinct (meta_kinds V @ [''HealthCheck'', ''HealthCheckList''])"
  shows "\<exists>p h x. program_init A \<lparr>store = Map.empty, next_addr = 0\<rparr> = (Ret p, h)
    \<and> peek (scheme_cell A) p h = Some x
    \<and> knows V x (apiGroupVersion, orKind (owner_ref c)) = Some (api_type ''HealthCheck'')
    \<and> orAPIVersion (owner_ref c) = hcVersion
    \<and> knows V x (apiGroupVersion, ''HealthCheckList'') = Some (api_type ''HealthCheckList'')
    \<and> knows V x0 \<subseteq>\<^sub>m knows V x"
proof -
  let ?b = "Builder_Register A (new_Builder A apiGroupVersion) [api_type ''HealthCheck'', api_type ''HealthCheckList'']"
  have b: "gv V ?b = apiGroupVersion" "types V ?b = [api_type ''HealthCheck'', api_type ''HealthCheckList'']"
    using assms(1) by (simp_all add: builder_laws_def)
  have "gvVersion apiGroupVersion \<noteq> []" by (simp add: apiGroupVersion_def)
  then have "free_for V ?b x0"
    using clientgo(2) meta unfolding free_for_def b by (simp add: api_type_def)
  then obtain x where x: "Builder_AddToScheme A ?b x0 = (Ret (), x)" "knows V x0 \<subseteq>\<^sub>m knows V x"
      "\<forall>t \<in> set (types V ?b). knows V x (gv V ?b, gt_name t) = Some t"
    using assms(2) unfolding add_laws_def by blast
  have k: "knows V x (apiGroupVersion, ''HealthCheck'') = Some (api_type ''HealthCheck'')"
    "knows V x (apiGroupVersion, ''HealthCheckList'') = Some (api_type ''HealthCheckList'')"
    using x(3) by (simp_all add: b) (simp_all add: api_type_def)
  show ?thesis
    using k x(1,2) clientgo(1)
    by (simp add: init_defs go_simps owner_ref_def hcKind_def hcVersion_GroupVersion)
qed

text \<open>A library that keeps its tables as lists.\<close>

definition list_lib :: "(group_version \<times> go_type list, ((group_version \<times> string) \<times> go_type) list) scheme_api" where
  "list_lib = \<lparr>new_Builder = (\<lambda>g. (g, [])), Builder_Register = (\<lambda>b ts. (fst b, snd b @ ts)),
     Builder_AddToScheme = (\<lambda>b x. (Ret (), x @ map (\<lambda>t. ((fst b, gt_name t), t)) (snd b))),
     NewScheme = [],
     clientgo_AddToScheme = (\<lambda>x. (Ret (), x @ [((\<lparr>gvGroup = [], gvVersion = ''v1''\<rparr>, ''Pod''), GoType ''k8s.io/api/core/v1'' ''Pod'')]))\<rparr>"

definition list_view :: "(group_version \<times> go_type list, ((group_version \<times> string) \<times> go_type) list) scheme_view" where
  "list_view = \<lparr>gv = fst, types = snd, knows = map_of, meta_kinds = [''WatchEvent'', ''ListOptions'']\<rparr>"

lemma list_lib_laws: "builder_laws list_lib list_view" "add_laws list_lib list_view"
proof -
  have one: "map_of (x @ map (\<lambda>t. ((g, gt_name t), t)) ts) (g, gt_name t) = Some t"
    if "\<forall>k. map_of x (g, k) = None" "distinct (map gt_name ts)" "t \<in> set ts" for x g ts t
  proof -
    have "map_of (map (\<lambda>t. ((g, gt_name t), t)) ts) (g, gt_name t) = Some t"
      using that by (intro map_of_is_SomeI) (auto simp: distinct_map inj_on_def)
    then show ?thesis using that(1) by (simp add: map_add_def)
  qed
  have keep: "map_of x \<subseteq>\<^sub>m map_of (x @ map (\<lambda>t. ((g, gt_name t), t)) ts)" for x g ts
    by (simp add: map_le_map_add)
  show "builder_laws list_lib list_view" by (simp add: builder_laws_def list_lib_def list_view_def)
  show "add_laws list_lib list_view"
    by (simp add: add_laws_def free_for_def list_lib_def list_view_def one keep del: map_of_append)
qed

theorem scheme_knows_health_check_witness:
  "\<exists>p h x. program_init list_lib \<lparr>store = Map.empty, next_addr = 0\<rparr> = (Ret p, h)
    \<and> peek (scheme_cell list_lib) p h = Some x
    \<and> map_of x (apiGroupVersion, ''HealthCheck'') = Some (api_type ''HealthCheck'')"
proof -
  let ?x0 = "[((\<lparr>gvGroup = [], gvVersion = ''v1''\<rparr>, ''Pod''), GoType ''k8s.io/api/core/v1'' ''Pod'')]"
  have "clientgo_AddToScheme list_lib (NewScheme list_lib) = (Ret (), ?x0)" by (simp add: list_lib_def)
  moreover have "knows list_view ?x0 (apiGroupVersion, k) = None" for k
    by (simp add: list_view_def apiGroupVersion_def)
  moreover have "distinct (meta_kinds list_view @ [''HealthCheck'', ''HealthCheckList''])" by (simp add: list_view_def)
  ultimately have "\<exists>p h x. program_init list_lib \<lparr>store = Map.empty, next_addr = 0\<rparr> = (Ret p, h)
    \<and> peek (scheme_cell list_lib) p h = Some x
    \<and> knows list_view x (apiGroupVersion, orKind (owner_ref zero_health_check)) = Some (api_type ''HealthCheck'')"
    using scheme_knows_health_check [OF list_lib_laws, of ?x0 zero_health_check] by blast
  then show ?thesis by (simp add: list_view_def owner_ref_def hcKind_def)
qed

end
