(* ===== verification/Spec2Isabelle.thy ===== *)
theory Spec2Isabelle
  imports Custom_Metrics Rbac_Properties Healthy_Runs Monitor_Metrics Critical_Sections Copy_Properties Scheme_Init
begin

text \<open>
  Active-Monitor: a Kubernetes controller that runs Argo workflows as health checks.

  The program. A HealthCheck resource (api/v1alpha1/healthcheck_types.go) names a workflow, an
  interval or a cron schedule, and optionally a remedy workflow. For every change of a
  HealthCheck the work queue calls Reconcile (internal/controllers/healthcheck_controller.go):
  it sets up a service account and roles, submits the workflow, polls it until it has
  succeeded, failed or timed out, writes the result to the status of the HealthCheck, runs the
  remedy after a failure, and arms a timer whose function does the same again. The text of a
  workflow is inline or behind a URL (internal/store). cmd/main.go starts the manager.
  internal/metrics holds the prometheus metrics.

  The theories, in the order of their imports.

  Go_Prelude: outcomes (a value, an error, a panic, a goroutine that blocks for ever, fuel used
  up), the combinators the handlers are written with, 64-bit integers and durations with the
  wrap-around written out, the string functions. The locale go_rel carries a relation between
  the states before and after a call through a handler.

  Api_Types: the structs of the resource as records, the constants, RBAC objects.

  Kube_Env: the parameter env, one field for each call that leaves the repository (API server,
  clock, cron, yaml, http, backoff timer), over an opaque world; the state st of a reconciler;
  the primitive steps; TimerLock; the trace of outgoing calls.

  Artifact_Store: internal/store. The Go interface ArtifactReader is a locale, interpreted on
  both readers and on their dispatch.

  Custom_Metrics: the custom metrics of internal/metrics/collector.go.

  Rbac_Objects, Rbac_Workflow: createServiceAccount to DeleteClusterRoleBinding;
  resolveRBACRules, createRBACForWorkflow, deleteRBACForWorkflow. The locales kind_api and
  reliable_kind_api state what the API server does for one kind of object, over a view of the
  cluster; rbac_kind is the contract of a create and a delete function, interpreted on all
  seven pairs.

  Fake_Cluster: one concrete env (objects in maps, a clock, a timer that gives up), on which
  the hypotheses of the properties are shown to hold.

  Workflow_Parse, Workflow_Submit: the two parsers and the two submit functions.

  Backoff, Health_Status: computeBackoffParams; the status transitions, IsStorageError,
  updateHealthCheckStatus. The locale run_counters is the contract of a pair of counters with
  their total, interpreted on those of the HealthCheck and on those of the remedy.

  Timer_Table: RepeatTimersByName. The locale timer_table is the contract of a reschedule,
  interpreted on the code's map; timer_rel collects what the handlers with timers keep.

  Remedy_Watch, Workflow_Watch: the polling loops, the remedy, watchWorkflowReschedule and
  createSubmitWorkflowHelper.

  Reconciler: NewHealthCheckReconciler, Reconcile, processOrRecoverHealthCheck,
  processHealthCheck.

  Manager_Main: run and main of cmd/main.go, SetupWithManager.

  Controller_System: the running controller as a step relation. A step is a reconcile, the
  firing of a running timer, or a change of the world by somebody else. The locale
  controller_rel carries a relation to every reachable state; its interpretations give the
  invariants (timers, labels, the lock).

  Guarded, Robustness: a calculus of triples for "keeps an invariant and ends in none of the
  listed abnormal ways", and its instances: the polling ends, the lock is given back, the
  handlers return. The locale backoff_env states what the code relies on of the backoff timer:
  a rank that every pause decreases until the timer answers an error.

  Rbac_Properties, Submit_Properties, Watch_Properties, Remedy_Limit, System_Properties,
  Reconcile_Properties, Run_Properties: the properties that span several functions.

  Healthy_Runs: the locale healthy_env, under which every call is answered, and the liveness
  property: the runs of a HealthCheck go on.

  Monitor_Metrics: the five built-in metrics of collector.go. Every update in a trace fits the
  vector it goes to; over a run the counters and gauges of a HealthCheck move with its status.
  The relations steady and once split the watch into its one result and the rest.

  Critical_Sections: TimerLock with goroutines that interleave. A configuration has the shared
  fields, the goroutines and the readers; a step is one access to a shared variable. The locale
  simulation carries a match between sequential and interleaved states to whole runs, and is
  interpreted on the two step relations: interleaved sections are sections run one after the
  other. The sections themselves are shown to be what rescheduleTimer and parse_labels do.

  Go_Heap, Deep_Copy, Copy_Contracts, Copy_Properties: zz_generated.deepcopy.go. Go_Heap has
  cells behind addresses, slices, the shapes of the generated code, and the locale copier, the
  contract of a deep copy, with its closure under pointers, slices and structs. Deep_Copy has
  the structs as they lie in memory and every generated function. Copy_Contracts interprets
  copier on each of them; the locale k8s_copiers states the contract of the library's own copy
  functions (ObjectMeta, ListMeta, PolicyRule, Time). A struct in memory denotes a record of
  Api_Types, so the copies are compared with the values the controller's model works on.

  Scheme_Init: the init functions of api/v1alpha1 and cmd with the package variables they work
  on, as cells of a Go_Heap. The scheme of the manager knows the kind and the API version that
  the controller writes into owner references. The builder and the scheme are parameters.

  Correspondence. A handler is a function from a state to an outcome and a state. The fields
  RepeatTimersByName, workflowLabels and TimerLock of st are those of HealthCheckReconciler;
  pending and next_timer are the timers of the Go runtime; hc is the HealthCheck object the
  handler works on, which the Go code passes as a pointer and changes in place. An error result
  is Fail, a panic is Panic, and recover is recoverG. Definitions keep the Go names.

  Fuel. Only the two polling loops can run long. Their model takes a number of passes, and
  NoFuel marks the end of it. With a backoff timer that pauses at most B times, B + 2 passes
  are enough for every handler (polling_ends), so NoFuel is not an outcome then.

  Not modelled, and why.
  Interleaving inside a handler: a handler is one step, other goroutines run between two
  handlers; other actors may change the world at any call. Critical_Sections lifts this for the
  shared fields: what TimerLock guards may be taken in whole sections. Calls of two handlers to
  the server are not interleaved. The properties about the lock speak of the lock a panicked
  goroutine has left behind; that a waiting writer keeps new readers out is left aside.
  Log calls: the code does not depend on them.
  Aliasing inside the handlers: they work on the object the client has filled in for them, as a
  value. A DeepCopy of a pointer into a larger object is modelled on a cell of its own.
  Floating point: float64 values are rationals; strconv.ParseFloat and the printing of floats
  that are not small integers are parameters.
  strings.ToLower is modelled on ASCII letters.
  The text of the error of an unknown artifact location ends in a printed address that the
  model leaves out.
\<close>

end
